(* ===== verification/Prelude.thy ===== *)
theory Prelude
  imports Main "HOL-Library.Word" "HOL-Library.AList"
begin

section \<open>Shared vocabulary of the development\<close>

text \<open>
  Machine integers, the result type of fallible Rust code, and the hash maps the catalog code
  keeps its indexes in, with the rewrite rules the component theories rely on.

  \<^item> \<open>u8\<close>, \<open>u32\<close>, \<open>u64\<close>, \<open>i8\<close>, \<open>i32\<close>, \<open>i64\<close> are words of that width; addition wraps as
    it does in the release profile of the workspace, and as \<open>overflowing_add\<close> does.
  \<^item> A Rust \<open>Result\<close> whose evaluation may also panic (\<open>unwrap\<close>, \<open>expect\<close>, \<open>assert!\<close>,
    \<open>unreachable!\<close>) is an \<open>outcome\<close>: a value, an error or a panic with its message.
    \<open>obind\<close> is the \<open>?\<close> operator and \<open>traverse\<close> is
    \<open>into_iter().map(f).collect::<Result<_, _>>()\<close>; \<open>ofold\<close> is a \<open>for\<close> loop whose body
    may leave the function with \<open>?\<close>.
  \<^item> A \<open>HashMap\<close> is an association list. The order of the list stands for the iteration order
    of the hash map, which Rust leaves unspecified: a statement about an arbitrary map is a
    statement about every iteration order.
  \<^item> Rust strings are UTF-8 byte sequences and \<open>str::len\<close> counts bytes, so they are lists of
    8-bit characters.
\<close>

subsection \<open>Machine integers\<close>

type_synonym u8 = "8 word"
type_synonym u32 = "32 word"
type_synonym u64 = "64 word"
type_synonym i8 = "8 word"
type_synonym i32 = "32 word"
type_synonym i64 = "64 word"

type_synonym oid = u32
type_synonym uuid = "u8 list"
type_synonym bytes = "u8 list"

subsection \<open>Results that may also panic\<close>

datatype ('e, 'a) outcome =
    Ok 'a
  | Err 'e
  | Panic string

primrec obind :: "('e, 'a) outcome \<Rightarrow> ('a \<Rightarrow> ('e, 'b) outcome) \<Rightarrow> ('e, 'b) outcome" where
  "obind (Ok x) f = f x"
| "obind (Err e) f = Err e"
| "obind (Panic msg) f = Panic msg"

primrec omap_err :: "('e \<Rightarrow> 'f) \<Rightarrow> ('e, 'a) outcome \<Rightarrow> ('f, 'a) outcome" where
  "omap_err g (Ok x) = Ok x"
| "omap_err g (Err e) = Err (g e)"
| "omap_err g (Panic msg) = Panic msg"

primrec ounwrap :: "('e, 'a) outcome \<Rightarrow> ('f, 'a) outcome" where
  "ounwrap (Ok x) = Ok x"
| "ounwrap (Err e) = Panic ''called unwrap on an Err value''"
| "ounwrap (Panic msg) = Panic msg"

primrec traverse :: "('a \<Rightarrow> ('e, 'b) outcome) \<Rightarrow> 'a list \<Rightarrow> ('e, 'b list) outcome" where
  "traverse f [] = Ok []"
| "traverse f (x # xs) = obind (f x) (\<lambda>y. obind (traverse f xs) (\<lambda>ys. Ok (y # ys)))"

primrec ofold :: "('x \<Rightarrow> 's \<Rightarrow> ('e, 's) outcome) \<Rightarrow> 'x list \<Rightarrow> 's \<Rightarrow> ('e, 's) outcome" where
  "ofold f [] s = Ok s"
| "ofold f (x # xs) s = obind (f x s) (ofold f xs)"

primrec is_panic :: "('e, 'a) outcome \<Rightarrow> bool" where
  "is_panic (Ok x) = False"
| "is_panic (Err e) = False"
| "is_panic (Panic msg) = True"

primrec is_ok :: "('e, 'a) outcome \<Rightarrow> bool" where
  "is_ok (Ok x) = True"
| "is_ok (Err e) = False"
| "is_ok (Panic msg) = False"

text \<open>The \<open>?\<close> operator on a call that may also change a state.\<close>

definition sbind ::
  "'s \<times> ('e, 'a) outcome \<Rightarrow> ('a \<Rightarrow> 's \<Rightarrow> 's \<times> ('e, 'b) outcome) \<Rightarrow> 's \<times> ('e, 'b) outcome" where
  "sbind r f =
     (case r of
        (s, Ok x) \<Rightarrow> f x s
      | (s, Err e) \<Rightarrow> (s, Err e)
      | (s, Panic msg) \<Rightarrow> (s, Panic msg))"

subsection \<open>Hash maps\<close>

type_synonym ('k, 'v) hashmap = "('k \<times> 'v) list"

definition hm_get :: "('k, 'v) hashmap \<Rightarrow> 'k \<Rightarrow> 'v option" where
  "hm_get m k = map_of m k"

definition hm_insert :: "'k \<Rightarrow> 'v \<Rightarrow> ('k, 'v) hashmap \<Rightarrow> ('k, 'v) hashmap" where
  "hm_insert k v m = AList.update k v m"

definition hm_remove :: "'k \<Rightarrow> ('k, 'v) hashmap \<Rightarrow> ('k, 'v) hashmap" where
  "hm_remove k m = AList.delete k m"

definition hm_contains_key :: "('k, 'v) hashmap \<Rightarrow> 'k \<Rightarrow> bool" where
  "hm_contains_key m k = (hm_get m k \<noteq> None)"

definition hm_len :: "('k, 'v) hashmap \<Rightarrow> nat" where
  "hm_len m = length m"

definition hm_values :: "('k, 'v) hashmap \<Rightarrow> 'v list" where
  "hm_values m = map snd m"

definition hm_extend :: "('k, 'v) hashmap \<Rightarrow> ('k, 'v) hashmap \<Rightarrow> ('k, 'v) hashmap" where
  "hm_extend m xs = foldl (\<lambda>acc (k, v). hm_insert k v acc) m xs"

text \<open>The representation invariant: a hash map holds each key once.\<close>

definition hm_ok :: "('k, 'v) hashmap \<Rightarrow> bool" where
  "hm_ok m = distinct (map fst m)"

subsection \<open>Decimal numbers\<close>

text \<open>The text that \<open>format!("{}", n)\<close> gives for an unsigned and for a signed integer.\<close>

definition digit :: "nat \<Rightarrow> char" where
  "digit d = char_of (48 + d)"

fun dec_of_nat :: "nat \<Rightarrow> string" where
  "dec_of_nat n = (if n < 10 then [digit n] else dec_of_nat (n div 10) @ [digit (n mod 10)])"

definition dec_of_int :: "int \<Rightarrow> string" where
  "dec_of_int i = (if i < 0 then CHR ''-'' # dec_of_nat (nat (- i)) else dec_of_nat (nat i))"

definition nat_of_dec :: "string \<Rightarrow> nat" where
  "nat_of_dec s = foldl (\<lambda>n c. n * 10 + (of_char c - 48)) 0 s"

declare dec_of_nat.simps [simp del]

lemma nat_of_dec_of_nat [simp]: "nat_of_dec (dec_of_nat n) = n"
proof (induction n rule: dec_of_nat.induct)
  case (1 n)
  show ?case
  proof (cases "n < 10")
    case True
    then show ?thesis
      by (simp add: dec_of_nat.simps [of n] nat_of_dec_def digit_def of_char_of)
  next
    case False
    then have "nat_of_dec (dec_of_nat n) = nat_of_dec (dec_of_nat (n div 10)) * 10 + n mod 10"
      by (simp add: dec_of_nat.simps [of n] nat_of_dec_def digit_def of_char_of)
    with 1 False show ?thesis by simp
  qed
qed

lemma dec_of_nat_inj [simp]: "dec_of_nat m = dec_of_nat n \<longleftrightarrow> m = n"
  by (metis nat_of_dec_of_nat)

subsection \<open>Rewrite rules\<close>

named_theorems hm_eval \<open>unfolds the hash map operations, for evaluation on concrete maps\<close>

lemmas hm_unfold [hm_eval] =
  hm_get_def hm_insert_def hm_remove_def hm_contains_key_def hm_len_def hm_values_def hm_extend_def

lemma hm_get_Nil [simp]: "hm_get [] = Map.empty"
  by (simp add: hm_get_def fun_eq_iff)

lemma hm_get_insert [simp]: "hm_get (hm_insert k v m) = (hm_get m)(k \<mapsto> v)"
  by (simp add: hm_get_def hm_insert_def fun_eq_iff update_conv')

lemma hm_get_remove [simp]: "hm_get (hm_remove k m) = (hm_get m)(k := None)"
  by (simp add: hm_get_def hm_remove_def fun_eq_iff delete_conv')

lemma hm_contains_key_iff [simp]: "hm_contains_key m k \<longleftrightarrow> hm_get m k \<noteq> None"
  by (simp add: hm_contains_key_def)

lemma hm_ok_Nil [simp]: "hm_ok []"
  by (simp add: hm_ok_def)

lemma hm_ok_insert [simp]: "hm_ok m \<Longrightarrow> hm_ok (hm_insert k v m)"
  by (simp add: hm_ok_def hm_insert_def distinct_update)

lemma hm_ok_remove [simp]: "hm_ok m \<Longrightarrow> hm_ok (hm_remove k m)"
  by (simp add: hm_ok_def hm_remove_def distinct_delete)

lemma hm_get_SomeD: "hm_get m k = Some v \<Longrightarrow> (k, v) \<in> set m"
  by (simp add: hm_get_def map_of_SomeD)

lemma hm_get_eq_Some_iff: "hm_ok m \<Longrightarrow> hm_get m k = Some v \<longleftrightarrow> (k, v) \<in> set m"
  by (simp add: hm_ok_def hm_get_def)

lemma hm_get_eq_None_iff: "hm_get m k = None \<longleftrightarrow> k \<notin> fst ` set m"
  by (simp add: hm_get_def map_of_eq_None_iff)

lemma hm_get_Some_in_values: "hm_get m k = Some v \<Longrightarrow> v \<in> set (hm_values m)"
  by (force simp: hm_values_def dest: hm_get_SomeD)

lemma hm_extend_Nil [simp]: "hm_extend m [] = m"
  by (simp add: hm_extend_def)

lemma hm_extend_Cons [simp]: "hm_extend m ((k, v) # xs) = hm_extend (hm_insert k v m) xs"
  by (simp add: hm_extend_def)

lemma hm_get_extend:
  "hm_ok xs \<Longrightarrow> hm_get (hm_extend m xs) = hm_get m ++ hm_get xs"
proof (induction xs arbitrary: m)
  case Nil
  then show ?case by simp
next
  case (Cons p xs)
  obtain k v where p: "p = (k, v)" by (cases p)
  from Cons.prems p have ok: "hm_ok xs" and fresh: "hm_get xs k = None"
    by (auto simp: hm_ok_def hm_get_def map_of_eq_None_iff)
  have "hm_get (hm_extend m (p # xs)) = (hm_get m)(k \<mapsto> v) ++ hm_get xs"
    by (simp only: p hm_extend_Cons Cons.IH [OF ok] hm_get_insert)
  also have "\<dots> = hm_get m ++ hm_get (p # xs)"
    using p fresh by (auto simp: fun_eq_iff map_add_def hm_get_def split: option.split)
  finally show ?case .
qed

lemma hm_ok_extend: "hm_ok m \<Longrightarrow> hm_ok (hm_extend m xs)"
  by (induction xs arbitrary: m) auto

subsection \<open>Outcomes\<close>

lemma sbind_simps [simp]:
  "sbind (s, Ok x) f = f x s"
  "sbind (s, Err e) f = (s, Err e)"
  "sbind (s, Panic msg) f = (s, Panic msg)"
  by (simp_all add: sbind_def)

lemma sbind_Ok:
  "sbind r f = (s', Ok y) \<longleftrightarrow> (\<exists>s x. r = (s, Ok x) \<and> f x s = (s', Ok y))"
  by (cases r; cases "snd r") auto

lemma obind_eq_Ok [simp]: "obind r f = Ok y \<longleftrightarrow> (\<exists>x. r = Ok x \<and> f x = Ok y)"
  by (cases r) auto

lemma obind_Ok_right [simp]: "obind r Ok = r"
  by (cases r) auto

lemma obind_assoc: "obind (obind r f) g = obind r (\<lambda>x. obind (f x) g)"
  by (cases r) auto

lemma is_panic_obind: "is_panic (obind r f) \<longleftrightarrow> is_panic r \<or> (\<exists>x. r = Ok x \<and> is_panic (f x))"
  by (cases r) auto

lemma is_ok_iff: "is_ok r \<longleftrightarrow> (\<exists>x. r = Ok x)"
  by (cases r) auto

lemma omap_err_eq_Ok [simp]: "omap_err g r = Ok x \<longleftrightarrow> r = Ok x"
  by (cases r) auto

lemma ounwrap_eq_Ok [simp]: "ounwrap r = Ok x \<longleftrightarrow> r = Ok x"
  by (cases r) auto

lemma traverse_eq_Ok:
  "traverse f xs = Ok ys \<longleftrightarrow> list_all2 (\<lambda>x y. f x = Ok y) xs ys"
  by (induction xs arbitrary: ys) (auto simp: list_all2_Cons1)

lemma traverse_map: "traverse f (map g xs) = traverse (f \<circ> g) xs"
  by (induction xs) auto

lemma ofold_append: "ofold f (xs @ ys) s = obind (ofold f xs s) (ofold f ys)"
proof (induction xs arbitrary: s)
  case (Cons x xs)
  then show ?case by (cases "f x s") auto
qed simp

lemma ofold_invariant:
  assumes "ofold f xs s = Ok s'" and "P s"
    and "\<And>x s s'. x \<in> set xs \<Longrightarrow> P s \<Longrightarrow> f x s = Ok s' \<Longrightarrow> P s'"
  shows "P s'"
  using assms by (induction xs arbitrary: s) auto

lemma traverse_roundtrip:
  assumes "\<And>x. x \<in> set xs \<Longrightarrow> obind (f x) g = Ok x"
  shows "obind (traverse f xs) (traverse g) = Ok xs"
  using assms
proof (induction xs)
  case Nil
  then show ?case by simp
next
  case (Cons x xs)
  from Cons.prems obtain y where y: "f x = Ok y" "g y = Ok x"
    by force
  from Cons.IH Cons.prems obtain ys where "traverse f xs = Ok ys" "traverse g ys = Ok xs"
    by force
  with y show ?case by simp
qed

end
