(* ===== verification/Arrow_Types.thy ===== *)
theory Arrow_Types
  imports Prelude
begin

section \<open>Arrow data types and function signatures\<close>

text \<open>
  The Arrow and DataFusion types that the catalog stores: \<open>DataType\<close>, \<open>Field\<close> and the
  \<open>Signature\<close> of a function. They are declared outside the repository; the constructors here
  are the ones the exhaustive matches of \<open>crates/protogen/src/common/arrow.rs\<close> and
  \<open>crates/protogen/src/metastore/types/catalog.rs\<close> name. Of an Arrow \<open>Field\<close> the
  repository reads the name, the data type and the nullability, and it builds fields with
  \<open>Field::new\<close> from these three. \<open>TS_Other\<close> stands for the type signatures that
  the wildcard arm of the conversion covers.
\<close>

datatype time_unit = Second | Millisecond | Microsecond | Nanosecond

datatype interval_unit = YearMonth | DayTime | MonthDayNano

datatype union_mode = Sparse | Dense

datatype data_type =
    DT_Null
  | DT_Boolean
  | DT_Int8 | DT_Int16 | DT_Int32 | DT_Int64
  | DT_UInt8 | DT_UInt16 | DT_UInt32 | DT_UInt64
  | DT_Float16 | DT_Float32 | DT_Float64
  | DT_Timestamp time_unit "string option"
  | DT_Date32 | DT_Date64
  | DT_Time32 time_unit
  | DT_Time64 time_unit
  | DT_Duration time_unit
  | DT_Interval interval_unit
  | DT_Binary
  | DT_FixedSizeBinary i32
  | DT_LargeBinary
  | DT_Utf8
  | DT_LargeUtf8
  | DT_List field
  | DT_FixedSizeList field i32
  | DT_LargeList field
  | DT_Struct "field list"
  | DT_Union "(i8 \<times> field) list" union_mode
  | DT_Dictionary data_type data_type
  | DT_Decimal128 u8 i8
  | DT_Decimal256 u8 i8
  | DT_Map field bool
  | DT_RunEndEncoded field field
and field = Field (field_name: string) (field_data_type: data_type) (field_nullable: bool)

datatype volatility = Immutable | Stable | Volatile

datatype type_signature =
    TS_Variadic "data_type list"
  | TS_VariadicEqual
  | TS_VariadicAny
  | TS_Uniform u64 "data_type list"
  | TS_Exact "data_type list"
  | TS_Any u64
  | TS_OneOf "type_signature list"
  | TS_Other

record signature =
  sig_type_signature :: type_signature
  sig_volatility :: volatility

end
