(* ===== verification/Options.thy ===== *)
theory Options
  imports Arrow_Types "HOL-Library.Char_ord" "HOL-Library.List_Lexorder"
begin

section \<open>Options of databases, tables, tunnels and credentials\<close>

text \<open>
  The option structs of \<open>crates/protogen/src/metastore/types/options.rs\<close>, one record per
  struct (an empty struct is a datatype with one constructor) and one datatype per enum, with the
  \<open>as_str\<close> names that validation and error messages use. A \<open>BTreeMap\<close> is an association
  list in increasing key order; \<open>btree_insert\<close> keeps that order.
\<close>

subsection \<open>Column definitions\<close>

record internal_column_definition =
  icd_name :: string
  icd_nullable :: bool
  icd_arrow_type :: data_type

definition from_tuples :: "(string \<times> data_type \<times> bool) list \<Rightarrow> internal_column_definition list" where
  "from_tuples cols = map (\<lambda>(name, arrow_type, nullable).
     \<lparr>icd_name = name, icd_nullable = nullable, icd_arrow_type = arrow_type\<rparr>) cols"

definition from_arrow_fields :: "field list \<Rightarrow> internal_column_definition list" where
  "from_arrow_fields fs = map (\<lambda>f.
     \<lparr>icd_name = field_name f, icd_nullable = field_nullable f, icd_arrow_type = field_data_type f\<rparr>) fs"

definition icd_to_field :: "internal_column_definition \<Rightarrow> field" where
  "icd_to_field c = Field (icd_name c) (icd_arrow_type c) (icd_nullable c)"

definition to_arrow_fields :: "internal_column_definition list \<Rightarrow> field list" where
  "to_arrow_fields cols = map icd_to_field cols"

subsection \<open>Storage options\<close>

type_synonym btree_map = "(string \<times> string) list"

fun btree_insert :: "string \<Rightarrow> string \<Rightarrow> btree_map \<Rightarrow> btree_map" where
  "btree_insert k v [] = [(k, v)]"
| "btree_insert k v ((k', v') # m) =
     (if k < k' then (k, v) # (k', v') # m
      else if k = k' then (k, v) # m
      else (k', v') # btree_insert k v m)"

record storage_options =
  so_inner :: btree_map

definition storage_options_new_from_iter :: "(string \<times> string) list \<Rightarrow> storage_options" where
  "storage_options_new_from_iter kvs =
     \<lparr>so_inner = foldl (\<lambda>m (k, v). btree_insert k v m) [] kvs\<rparr>"

subsection \<open>Database options\<close>

datatype database_options_internal = DatabaseOptionsInternal

datatype database_options_debug = DatabaseOptionsDebug

record database_options_postgres =
  dbpg_connection_string :: string

record database_options_bigquery =
  dbbq_service_account_key :: string
  dbbq_project_id :: string

record database_options_mysql =
  dbmy_connection_string :: string

record database_options_mongodb =
  dbmo_connection_string :: string

record database_options_sqlserver =
  dbss_connection_string :: string

record database_options_clickhouse =
  dbch_connection_string :: string

record database_options_cassandra =
  dbca_host :: string
  dbca_username :: "string option"
  dbca_password :: "string option"

record database_options_snowflake =
  dbsf_account_name :: string
  dbsf_login_name :: string
  dbsf_password :: string
  dbsf_database_name :: string
  dbsf_warehouse :: string
  dbsf_role_name :: string

record delta_lake_unity_catalog =
  dluc_catalog_id :: string
  dluc_databricks_access_token :: string
  dluc_workspace_url :: string

datatype delta_lake_catalog = DLC_Unity delta_lake_unity_catalog

record database_options_delta_lake =
  dbdl_catalog :: delta_lake_catalog
  dbdl_storage_options :: storage_options

record database_options_sqlite =
  dbsq_location :: string
  dbsq_storage_options :: "storage_options option"

datatype database_options =
    DO_Internal database_options_internal
  | DO_Debug database_options_debug
  | DO_Postgres database_options_postgres
  | DO_BigQuery database_options_bigquery
  | DO_Mysql database_options_mysql
  | DO_MongoDb database_options_mongodb
  | DO_Snowflake database_options_snowflake
  | DO_Delta database_options_delta_lake
  | DO_SqlServer database_options_sqlserver
  | DO_Clickhouse database_options_clickhouse
  | DO_Cassandra database_options_cassandra
  | DO_Sqlite database_options_sqlite

fun database_options_as_str :: "database_options \<Rightarrow> string" where
  "database_options_as_str (DO_Internal _) = ''internal''"
| "database_options_as_str (DO_Debug _) = ''debug''"
| "database_options_as_str (DO_Postgres _) = ''postgres''"
| "database_options_as_str (DO_BigQuery _) = ''bigquery''"
| "database_options_as_str (DO_Mysql _) = ''mysql''"
| "database_options_as_str (DO_MongoDb _) = ''mongo''"
| "database_options_as_str (DO_Snowflake _) = ''snowflake''"
| "database_options_as_str (DO_Delta _) = ''delta''"
| "database_options_as_str (DO_SqlServer _) = ''sql_server''"
| "database_options_as_str (DO_Clickhouse _) = ''clickhouse''"
| "database_options_as_str (DO_Cassandra _) = ''cassandra''"
| "database_options_as_str (DO_Sqlite _) = ''sqlite''"

subsection \<open>Table options\<close>

record table_options_debug =
  tod_table_type :: string

record table_options_internal =
  toi_columns :: "internal_column_definition list"

record table_options_postgres =
  topg_connection_string :: string
  topg_schema :: string
  topg_table :: string

record table_options_bigquery =
  tobq_service_account_key :: string
  tobq_project_id :: string
  tobq_dataset_id :: string
  tobq_table_id :: string

record table_options_mysql =
  tomy_connection_string :: string
  tomy_schema :: string
  tomy_table :: string

record table_options_local =
  tolo_location :: string
  tolo_file_type :: string
  tolo_compression :: "string option"

record table_options_gcs =
  togc_service_account_key :: "string option"
  togc_bucket :: string
  togc_location :: string
  togc_file_type :: string
  togc_compression :: "string option"

record table_options_s3 =
  tos3_access_key_id :: "string option"
  tos3_secret_access_key :: "string option"
  tos3_region :: string
  tos3_bucket :: string
  tos3_location :: string
  tos3_file_type :: string
  tos3_compression :: "string option"

record table_options_mongodb =
  tomo_connection_string :: string
  tomo_database :: string
  tomo_collection :: string

record table_options_excel =
  toex_location :: string
  toex_storage_options :: storage_options
  toex_file_type :: "string option"
  toex_compression :: "string option"
  toex_sheet_name :: "string option"
  toex_has_header :: "bool option"

record table_options_sqlserver =
  toss_connection_string :: string
  toss_schema :: string
  toss_table :: string

record table_options_clickhouse =
  toch_connection_string :: string
  toch_table :: string
  toch_database :: "string option"

record table_options_cassandra =
  toca_host :: string
  toca_keyspace :: string
  toca_table :: string
  toca_username :: "string option"
  toca_password :: "string option"

record table_options_snowflake =
  tosf_account_name :: string
  tosf_login_name :: string
  tosf_password :: string
  tosf_database_name :: string
  tosf_warehouse :: string
  tosf_role_name :: string
  tosf_schema_name :: string
  tosf_table_name :: string

record table_options_object_store =
  toos_location :: string
  toos_name :: "string option"
  toos_storage_options :: storage_options
  toos_file_type :: "string option"
  toos_compression :: "string option"
  toos_schema_sample_size :: "i64 option"

datatype table_options_v0 =
    TO_Debug table_options_debug
  | TO_Internal table_options_internal
  | TO_Postgres table_options_postgres
  | TO_BigQuery table_options_bigquery
  | TO_Mysql table_options_mysql
  | TO_Local table_options_local
  | TO_Gcs table_options_gcs
  | TO_S3 table_options_s3
  | TO_MongoDb table_options_mongodb
  | TO_Snowflake table_options_snowflake
  | TO_Delta table_options_object_store
  | TO_Iceberg table_options_object_store
  | TO_Azure table_options_object_store
  | TO_SqlServer table_options_sqlserver
  | TO_Lance table_options_object_store
  | TO_Bson table_options_object_store
  | TO_Clickhouse table_options_clickhouse
  | TO_Cassandra table_options_cassandra
  | TO_Excel table_options_excel
  | TO_Sqlite table_options_object_store

fun table_options_v0_as_str :: "table_options_v0 \<Rightarrow> string" where
  "table_options_v0_as_str (TO_Debug _) = ''debug''"
| "table_options_v0_as_str (TO_Internal _) = ''internal''"
| "table_options_v0_as_str (TO_Postgres _) = ''postgres''"
| "table_options_v0_as_str (TO_BigQuery _) = ''bigquery''"
| "table_options_v0_as_str (TO_Mysql _) = ''mysql''"
| "table_options_v0_as_str (TO_Local _) = ''local''"
| "table_options_v0_as_str (TO_Gcs _) = ''gcs''"
| "table_options_v0_as_str (TO_S3 _) = ''s3''"
| "table_options_v0_as_str (TO_MongoDb _) = ''mongo''"
| "table_options_v0_as_str (TO_Snowflake _) = ''snowflake''"
| "table_options_v0_as_str (TO_Delta _) = ''delta''"
| "table_options_v0_as_str (TO_Iceberg _) = ''iceberg''"
| "table_options_v0_as_str (TO_Azure _) = ''azure''"
| "table_options_v0_as_str (TO_SqlServer _) = ''sql_server''"
| "table_options_v0_as_str (TO_Lance _) = ''lance''"
| "table_options_v0_as_str (TO_Bson _) = ''bson''"
| "table_options_v0_as_str (TO_Clickhouse _) = ''clickhouse''"
| "table_options_v0_as_str (TO_Cassandra _) = ''cassandra''"
| "table_options_v0_as_str (TO_Excel _) = ''excel''"
| "table_options_v0_as_str (TO_Sqlite _) = ''sqlite''"

subsection \<open>Tunnel options\<close>

datatype tunnel_options_internal = TunnelOptionsInternal

datatype tunnel_options_debug = TunnelOptionsDebug

record tunnel_options_ssh =
  tus_connection_string :: string
  tus_ssh_key :: bytes

datatype tunnel_options =
    TuO_Internal tunnel_options_internal
  | TuO_Debug tunnel_options_debug
  | TuO_Ssh tunnel_options_ssh

fun tunnel_options_as_str :: "tunnel_options \<Rightarrow> string" where
  "tunnel_options_as_str (TuO_Internal _) = ''internal''"
| "tunnel_options_as_str (TuO_Debug _) = ''debug''"
| "tunnel_options_as_str (TuO_Ssh _) = ''ssh''"

subsection \<open>Credentials options\<close>

record credentials_options_debug =
  crd_table_type :: string

record credentials_options_gcp =
  crg_service_account_key :: string

record credentials_options_aws =
  cra_access_key_id :: string
  cra_secret_access_key :: string

record credentials_options_azure =
  crz_account_name :: string
  crz_access_key :: string

record credentials_options_openai =
  cro_api_key :: string
  cro_api_base :: "string option"
  cro_org_id :: "string option"

datatype credentials_options =
    CO_Debug credentials_options_debug
  | CO_Gcp credentials_options_gcp
  | CO_Aws credentials_options_aws
  | CO_Azure credentials_options_azure
  | CO_OpenAI credentials_options_openai

fun credentials_options_as_str :: "credentials_options \<Rightarrow> string" where
  "credentials_options_as_str (CO_Debug _) = ''debug''"
| "credentials_options_as_str (CO_Gcp _) = ''gcp''"
| "credentials_options_as_str (CO_Aws _) = ''aws''"
| "credentials_options_as_str (CO_Azure _) = ''azure''"
| "credentials_options_as_str (CO_OpenAI _) = ''openai''"

subsection \<open>Properties of column definitions and storage options\<close>

lemma to_from_arrow_fields [simp]: "to_arrow_fields (from_arrow_fields fs) = fs"
  by (induction fs) (auto simp: to_arrow_fields_def from_arrow_fields_def icd_to_field_def)

lemma from_to_arrow_fields [simp]: "from_arrow_fields (to_arrow_fields cs) = cs"
  by (induction cs) (auto simp: to_arrow_fields_def from_arrow_fields_def icd_to_field_def)

lemma map_of_btree_insert: "map_of (btree_insert k v m) = (map_of m)(k \<mapsto> v)"
  by (induction k v m rule: btree_insert.induct) (auto simp: fun_eq_iff)

lemma set_btree_insert_keys: "fst ` set (btree_insert k v m) = insert k (fst ` set m)"
  by (induction k v m rule: btree_insert.induct) auto

lemma sorted_btree_insert:
  "sorted_wrt (<) (map fst m) \<Longrightarrow> sorted_wrt (<) (map fst (btree_insert k v m))"
proof (induction k v m rule: btree_insert.induct)
  case (1 k v)
  then show ?case by simp
next
  case (2 k v k' v' m)
  have keys: "set (map fst (btree_insert k v m)) = insert k (fst ` set m)"
    by (simp add: set_btree_insert_keys)
  show ?case
  proof (cases "k < k'")
    case True
    with "2.prems" show ?thesis by auto
  next
    case False
    show ?thesis
    proof (cases "k = k'")
      case True
      with "2.prems" show ?thesis by simp
    next
      case neq: False
      with False have "k' < k" by simp
      with "2" False neq keys show ?thesis by auto
    qed
  qed
qed

lemma storage_options_new_from_iter_sorted:
  "sorted_wrt (<) (map fst (so_inner (storage_options_new_from_iter kvs)))"
proof -
  have "sorted_wrt (<) (map fst m) \<Longrightarrow>
      sorted_wrt (<) (map fst (foldl (\<lambda>m (k, v). btree_insert k v m) m kvs))" for m
    by (induction kvs arbitrary: m) (auto simp: sorted_btree_insert split: prod.split)
  then show ?thesis by (simp add: storage_options_new_from_iter_def)
qed

lemma storage_options_new_from_iter_get:
  "map_of (so_inner (storage_options_new_from_iter kvs)) = map_of (rev kvs)"
proof -
  have "map_of (foldl (\<lambda>m (k, v). btree_insert k v m) m kvs) = map_of m ++ map_of (rev kvs)" for m
    by (induction kvs arbitrary: m) (auto simp: map_of_btree_insert split: prod.split)
  then show ?thesis by (simp add: storage_options_new_from_iter_def)
qed

end
