(* ===== verification/Catalog_Types.thy ===== *)
theory Catalog_Types
  imports Options
begin

section \<open>Catalog entries and mutations\<close>

text \<open>
  The types of \<open>crates/protogen/src/metastore/types/catalog.rs\<close> (entries, their metadata and
  the catalog state), \<open>storage.rs\<close> (the persisted catalog) and \<open>service.rs\<close> (the mutations
  a session sends to the metastore).
\<close>

subsection \<open>Entries\<close>

datatype entry_type =
    ET_Database | ET_Schema | ET_Table | ET_View | ET_Tunnel | ET_Function | ET_Credentials

fun entry_type_as_str :: "entry_type \<Rightarrow> string" where
  "entry_type_as_str ET_Database = ''database''"
| "entry_type_as_str ET_Schema = ''schema''"
| "entry_type_as_str ET_Table = ''table''"
| "entry_type_as_str ET_View = ''view''"
| "entry_type_as_str ET_Tunnel = ''tunnel''"
| "entry_type_as_str ET_Function = ''function''"
| "entry_type_as_str ET_Credentials = ''credentials''"

record entry_meta =
  meta_entry_type :: entry_type
  meta_id :: oid
  meta_parent :: oid
  meta_name :: string
  meta_builtin :: bool
  meta_external :: bool
  meta_is_temp :: bool

datatype source_access_mode = ReadOnly | ReadWrite

fun has_read_access :: "source_access_mode \<Rightarrow> bool" where
  "has_read_access ReadOnly = True"
| "has_read_access ReadWrite = True"

fun has_write_access :: "source_access_mode \<Rightarrow> bool" where
  "has_write_access ReadOnly = False"
| "has_write_access ReadWrite = True"

record database_entry =
  de_meta :: entry_meta
  de_options :: database_options
  de_tunnel_id :: "oid option"
  de_access_mode :: source_access_mode

record schema_entry =
  se_meta :: entry_meta

record table_entry =
  te_meta :: entry_meta
  te_options :: table_options_v0
  te_tunnel_id :: "oid option"
  te_access_mode :: source_access_mode
  te_columns :: "internal_column_definition list option"

record view_entry =
  ve_meta :: entry_meta
  ve_sql :: string
  ve_columns :: "string list"

record tunnel_entry =
  tu_meta :: entry_meta
  tu_options :: tunnel_options

datatype function_type = Aggregate | Scalar | TableReturning

fun function_type_as_str :: "function_type \<Rightarrow> string" where
  "function_type_as_str Aggregate = ''aggregate''"
| "function_type_as_str Scalar = ''scalar''"
| "function_type_as_str TableReturning = ''table''"

record function_entry =
  fe_meta :: entry_meta
  fe_func_type :: function_type
  fe_signature :: "signature option"
  fe_user_defined :: bool

record credentials_entry =
  ce_meta :: entry_meta
  ce_options :: credentials_options
  ce_comment :: string

datatype catalog_entry =
    Database database_entry
  | Schema schema_entry
  | Table table_entry
  | View view_entry
  | Tunnel tunnel_entry
  | Function function_entry
  | Credentials credentials_entry

fun catalog_entry_type :: "catalog_entry \<Rightarrow> entry_type" where
  "catalog_entry_type (Database _) = ET_Database"
| "catalog_entry_type (Schema _) = ET_Schema"
| "catalog_entry_type (View _) = ET_View"
| "catalog_entry_type (Table _) = ET_Table"
| "catalog_entry_type (Tunnel _) = ET_Tunnel"
| "catalog_entry_type (Function _) = ET_Function"
| "catalog_entry_type (Credentials _) = ET_Credentials"

fun get_meta :: "catalog_entry \<Rightarrow> entry_meta" where
  "get_meta (Database db) = de_meta db"
| "get_meta (Schema schema) = se_meta schema"
| "get_meta (View view) = ve_meta view"
| "get_meta (Table table) = te_meta table"
| "get_meta (Tunnel tunnel) = tu_meta tunnel"
| "get_meta (Function func) = fe_meta func"
| "get_meta (Credentials creds) = ce_meta creds"

text \<open>\<open>get_meta_mut\<close> hands out a mutable reference to the metadata; \<open>map_meta f\<close> is the
  entry after the update \<open>f\<close> is made through it.\<close>

fun map_meta :: "(entry_meta \<Rightarrow> entry_meta) \<Rightarrow> catalog_entry \<Rightarrow> catalog_entry" where
  "map_meta f (Database db) = Database (db\<lparr>de_meta := f (de_meta db)\<rparr>)"
| "map_meta f (Schema schema) = Schema (schema\<lparr>se_meta := f (se_meta schema)\<rparr>)"
| "map_meta f (View view) = View (view\<lparr>ve_meta := f (ve_meta view)\<rparr>)"
| "map_meta f (Table table) = Table (table\<lparr>te_meta := f (te_meta table)\<rparr>)"
| "map_meta f (Tunnel tunnel) = Tunnel (tunnel\<lparr>tu_meta := f (tu_meta tunnel)\<rparr>)"
| "map_meta f (Function func) = Function (func\<lparr>fe_meta := f (fe_meta func)\<rparr>)"
| "map_meta f (Credentials creds) = Credentials (creds\<lparr>ce_meta := f (ce_meta creds)\<rparr>)"

abbreviation ent_name :: "catalog_entry \<Rightarrow> string" where
  "ent_name e \<equiv> meta_name (get_meta e)"

abbreviation ent_parent :: "catalog_entry \<Rightarrow> oid" where
  "ent_parent e \<equiv> meta_parent (get_meta e)"

abbreviation ent_builtin :: "catalog_entry \<Rightarrow> bool" where
  "ent_builtin e \<equiv> meta_builtin (get_meta e)"

abbreviation ent_id :: "catalog_entry \<Rightarrow> oid" where
  "ent_id e \<equiv> meta_id (get_meta e)"

abbreviation ent_is_temp :: "catalog_entry \<Rightarrow> bool" where
  "ent_is_temp e \<equiv> meta_is_temp (get_meta e)"

definition table_get_internal_columns :: "table_entry \<Rightarrow> internal_column_definition list option" where
  "table_get_internal_columns t =
     (case te_options t of TO_Internal options \<Rightarrow> Some (toi_columns options) | _ \<Rightarrow> None)"

definition table_get_columns :: "table_entry \<Rightarrow> field list option" where
  "table_get_columns t = map_option (map icd_to_field) (table_get_internal_columns t)"

subsection \<open>Catalog state\<close>

record deployment_metadata =
  dm_storage_size :: u64

definition deployment_metadata_default :: deployment_metadata where
  "deployment_metadata_default = \<lparr>dm_storage_size = 0\<rparr>"

definition CURRENT_CATALOG_VERSION :: u32 where
  "CURRENT_CATALOG_VERSION = 1"

record catalog_state =
  cs_version :: u64
  cs_entries :: "(oid, catalog_entry) hashmap"
  cs_deployment :: deployment_metadata
  cs_catalog_version :: u32

record extra_state =
  ex_oid_counter :: oid

record persisted_catalog =
  pc_state :: catalog_state
  pc_extra :: extra_state

subsection \<open>Mutations\<close>

record drop_database =
  dd_name :: string
  dd_if_exists :: bool

record drop_schema =
  ds_name :: string
  ds_if_exists :: bool
  ds_cascade :: bool

record drop_object =
  dob_schema :: string
  dob_name :: string
  dob_if_exists :: bool

record create_schema =
  csc_name :: string
  csc_if_not_exists :: bool

record create_view =
  cv_schema :: string
  cv_name :: string
  cv_sql :: string
  cv_or_replace :: bool
  cv_columns :: "string list"

record create_table =
  ct_schema :: string
  ct_name :: string
  ct_options :: table_options_internal
  ct_if_not_exists :: bool
  ct_or_replace :: bool

record create_function =
  cf_name :: string
  cf_aliases :: "string list"
  cf_signature :: signature
  cf_function_type :: function_type

record create_external_table =
  cet_schema :: string
  cet_name :: string
  cet_options :: table_options_v0
  cet_or_replace :: bool
  cet_if_not_exists :: bool
  cet_tunnel :: "string option"
  cet_columns :: "internal_column_definition list option"

record create_external_database =
  ced_name :: string
  ced_options :: database_options
  ced_if_not_exists :: bool
  ced_tunnel :: "string option"

datatype alter_table_operation =
    RenameTable string
  | SetTableAccessMode source_access_mode

record alter_table =
  at_schema :: string
  at_name :: string
  at_operation :: alter_table_operation

datatype alter_database_operation =
    RenameDatabase string
  | SetDatabaseAccessMode source_access_mode

record alter_database =
  ad_name :: string
  ad_operation :: alter_database_operation

record create_tunnel =
  ctu_name :: string
  ctu_options :: tunnel_options
  ctu_if_not_exists :: bool

record drop_tunnel =
  dt_name :: string
  dt_if_exists :: bool

record alter_tunnel_rotate_keys =
  atr_name :: string
  atr_if_exists :: bool
  atr_new_ssh_key :: bytes

record create_credentials =
  cc_name :: string
  cc_options :: credentials_options
  cc_comment :: string
  cc_or_replace :: bool

record drop_credentials =
  dc_name :: string
  dc_if_exists :: bool

record update_deployment_storage =
  uds_new_storage_size :: u64

datatype mutation =
    DropDatabase drop_database
  | DropSchema drop_schema
  | DropObject drop_object
  | CreateSchema create_schema
  | CreateView create_view
  | CreateTable create_table
  | CreateExternalTable create_external_table
  | CreateExternalDatabase create_external_database
  | AlterTable alter_table
  | AlterDatabase alter_database
  | CreateTunnel create_tunnel
  | DropTunnel drop_tunnel
  | AlterTunnelRotateKeys alter_tunnel_rotate_keys
  | CreateCredentials create_credentials
  | DropCredentials drop_credentials
  | UpdateDeploymentStorage update_deployment_storage
  | CreateFunction create_function

subsection \<open>Rewrite rules for entries\<close>

lemma get_meta_map_meta [simp]: "get_meta (map_meta f e) = f (get_meta e)"
  by (cases e) auto

lemma catalog_entry_type_map_meta [simp]: "catalog_entry_type (map_meta f e) = catalog_entry_type e"
  by (cases e) auto

lemma catalog_entry_type_iff:
  "catalog_entry_type e = ET_Database \<longleftrightarrow> (\<exists>d. e = Database d)"
  "catalog_entry_type e = ET_Schema \<longleftrightarrow> (\<exists>s. e = Schema s)"
  "catalog_entry_type e = ET_Table \<longleftrightarrow> (\<exists>t. e = Table t)"
  "catalog_entry_type e = ET_View \<longleftrightarrow> (\<exists>v. e = View v)"
  "catalog_entry_type e = ET_Tunnel \<longleftrightarrow> (\<exists>t. e = Tunnel t)"
  "catalog_entry_type e = ET_Function \<longleftrightarrow> (\<exists>f. e = Function f)"
  "catalog_entry_type e = ET_Credentials \<longleftrightarrow> (\<exists>c. e = Credentials c)"
  by (cases e; simp)+

end
