(* ===== verification/Errors.thy ===== *)
theory Errors
  imports Catalog_Types
begin

section \<open>Errors\<close>

text \<open>
  The error enums of the catalog code: \<open>ProtoConvError\<close> (\<open>crates/protogen/src/lib.rs\<close>),
  \<open>ValidationError\<close> (\<open>crates/sqlbuiltins/src/validation.rs\<close>), \<open>StorageError\<close>
  (\<open>crates/metastore/src/storage/mod.rs\<close>), \<open>MetastoreError\<close>
  (\<open>crates/metastore/src/errors.rs\<close>) and \<open>CatalogError\<close> (\<open>crates/catalog/src/errors.rs\<close>).
  Variants that wrap an error value of another crate carry no payload, except that the errors
  of the object store keep the cases the code tells apart. A \<open>SystemTime\<close> is an integer number
  of nanoseconds since the Unix epoch.
\<close>

type_synonym system_time = int

datatype proto_conv_error =
    RequiredField string
  | UnknownEnumVariant string i32
  | UnknownVariant string
  | ZeroValueEnumVariant string
  | UnsupportedSerialization string
  | InvalidTableReference string string string
  | ParseError string
  | TimestampError
  | UuidError
  | TryFromIntError
  | DecodeError
  | DfLogicalFromProto
  | DfLogicalToProto
  | DataFusionError

datatype validation_error =
    InvalidNameLength nat nat
  | TunnelNotSupportedByDatasource string string
  | CredentialsNotSupportedByDatasource string string
  | FormatNotSupportedByDatasource string string

datatype object_store_error =
    OS_NotFound
  | OS_AlreadyExists
  | OS_Generic string string
  | OS_Other

datatype storage_error =
    LeaseHeldByOtherProcess uuid uuid uuid
  | MissingLeaseField uuid string
  | LeaseGenerationMismatch u64 u64 "uuid option"
  | LeaseExpired uuid system_time system_time
  | AttemptedOutOfDataCatalogWrite u64 u64
  | LeaseNotValid uuid
  | UnableToDropLeaseInInvalidState
  | LeaseRenewerExited
  | LeaseWriteError
  | SE_ProtoConv proto_conv_error
  | SE_ProstEncode
  | SE_ProstDecode
  | SE_ObjectStore object_store_error

datatype metastore_error =
    VersionMismatch u64 u64
  | DuplicateName string
  | ME_InvalidNameLength nat nat
  | DuplicateNameFoundDuringLoad string oid oid oid string
  | BuiltinObjectPersisted entry_meta
  | BuiltinRepeatedOid oid catalog_entry catalog_entry
  | MissingDatabase string
  | MissingTunnel string
  | MissingCredentials string
  | MissingNamedSchema string
  | MissingNamedObject string string
  | MissingEntry oid
  | TunnelNotSupportedForAction string string
  | InvalidDatabaseId bytes
  | ObjectHasNonZeroParent oid oid string
  | SchemaHasChildren oid nat
  | ObjectHasInvalidParentId oid oid string
  | FailedInProcessStartup string
  | CannotModifyBuiltin catalog_entry
  | MaxNumberOfObjects nat
  | ME_Storage storage_error
  | ME_ProtoConv proto_conv_error
  | ME_ObjectStore object_store_error
  | ME_Validation validation_error
  | ME_TonicTransport
  | InvalidCreatePolicy
  | ME_Io
  | ME_Catalog
  | MissingCatalog

type_synonym 'a metastore_result = "(metastore_error, 'a) outcome"
type_synonym 'a storage_result = "(storage_error, 'a) outcome"
type_synonym 'a proto_result = "(proto_conv_error, 'a) outcome"

datatype resolve_error_strategy = FetchCatalogAndRetry | UnknownStrategy

record catalog_error =
  cerr_msg :: string
  cerr_strategy :: "resolve_error_strategy option"

type_synonym 'a catalog_result = "(catalog_error, 'a) outcome"

end
