(* ===== verification/Proto_Codec.thy ===== *)
theory Proto_Codec
  imports Errors
begin

section \<open>Conversions to and from the wire format\<close>

text \<open>
  The extension trait \<open>FromOptionalField\<close> of \<open>crates/protogen/src/lib.rs\<close>, and the contract
  that the pairs of conversions of the \<open>protogen\<close> crate share. A message of the generated
  code is modelled from its declaration in \<open>crates/protogen/proto\<close>: a scalar field is a value,
  a message field and a \<open>oneof\<close> are options, an enum field is the \<open>i32\<close> number of the variant,
  a repeated field is a list and a map field is a hash map.

  The locale \<open>codec\<close> is the contract: on the values that satisfy \<open>fits\<close>, encoding succeeds and
  decoding gives the value back. Its lemmas lift the contract to repeated and to required and
  optional fields, and are used through one interpretation for each type that is converted.
\<close>

definition required :: "('p \<Rightarrow> 'a proto_result) \<Rightarrow> string \<Rightarrow> 'p option \<Rightarrow> 'a proto_result" where
  "required conv name v = (case v of None \<Rightarrow> Err (RequiredField name) | Some t \<Rightarrow> conv t)"

definition optional :: "('p \<Rightarrow> 'a proto_result) \<Rightarrow> 'p option \<Rightarrow> 'a option proto_result" where
  "optional conv v = (case v of None \<Rightarrow> Ok None | Some t \<Rightarrow> obind (conv t) (\<lambda>x. Ok (Some x)))"

lemma required_simps [simp]:
  "required conv name None = Err (RequiredField name)"
  "required conv name (Some t) = conv t"
  by (simp_all add: required_def)

lemma optional_simps [simp]:
  "optional conv None = Ok None"
  "optional conv (Some t) = obind (conv t) (\<lambda>x. Ok (Some x))"
  by (simp_all add: optional_def)

lemma required_cong [fundef_cong]:
  "v = w \<Longrightarrow> (\<And>t. w = Some t \<Longrightarrow> f t = g t) \<Longrightarrow> required f n v = required g n w"
  by (cases w) auto

lemma optional_cong [fundef_cong]:
  "v = w \<Longrightarrow> (\<And>t. w = Some t \<Longrightarrow> f t = g t) \<Longrightarrow> optional f v = optional g w"
  by (cases w) auto

lemma obind_cong [fundef_cong]:
  "r = r' \<Longrightarrow> (\<And>x. r' = Ok x \<Longrightarrow> f x = g x) \<Longrightarrow> obind r f = obind r' g"
  by (cases r') auto

lemma traverse_cong [fundef_cong]:
  "xs = ys \<Longrightarrow> (\<And>x. x \<in> set ys \<Longrightarrow> f x = g x) \<Longrightarrow> traverse f xs = traverse g ys"
  by (induction ys arbitrary: xs) auto

lemma narrow_widen [simp]:
  "ucast (scast (i :: i8) :: i32) = i"
  "ucast (ucast (p :: u8) :: u32) = p"
  by (rule bit_word_eqI, simp add: bit_simps)+

subsection \<open>The contract of a pair of conversions\<close>

locale codec =
  fixes fits :: "'a \<Rightarrow> bool"
    and enc :: "'a \<Rightarrow> ('e, 'p) outcome"
    and dec :: "'p \<Rightarrow> 'a proto_result"
  assumes encodes: "fits x \<Longrightarrow> is_ok (enc x)"
    and decodes: "fits x \<Longrightarrow> enc x = Ok p \<Longrightarrow> dec p = Ok x"
begin

lemma encE:
  assumes "fits x"
  obtains p where "enc x = Ok p" and "dec p = Ok x"
  using encodes [OF assms] decodes [OF assms] by (auto simp: is_ok_iff)

lemma enc_inj: "fits x \<Longrightarrow> fits y \<Longrightarrow> enc x = enc y \<Longrightarrow> x = y"
  by (metis decodes encE outcome.inject(1))

lemma required_enc: "fits x \<Longrightarrow> enc x = Ok p \<Longrightarrow> required dec n (Some p) = Ok x"
  by (simp add: decodes)

lemma traverse_enc: "list_all fits xs \<Longrightarrow> is_ok (traverse enc xs)"
  by (induction xs) (auto simp: is_ok_iff elim: encE)

lemma traverse_dec: "list_all fits xs \<Longrightarrow> traverse enc xs = Ok ps \<Longrightarrow> traverse dec ps = Ok xs"
proof (induction xs arbitrary: ps)
  case (Cons x xs)
  then obtain p qs where "ps = p # qs" "enc x = Ok p" "traverse enc xs = Ok qs"
    by auto
  with Cons show ?case by (simp add: decodes)
qed simp

lemma traverse_enc_inj:
  "list_all fits xs \<Longrightarrow> list_all fits ys \<Longrightarrow> traverse enc xs = traverse enc ys \<Longrightarrow> xs = ys"
  by (metis is_ok_iff outcome.inject(1) traverse_dec traverse_enc)

end

text \<open>Most messages hold exactly the data of the struct they stand for: encoding never fails, and
  a message decodes to a value if and only if it is the encoding of that value.\<close>

locale exact_codec =
  fixes enc :: "'a \<Rightarrow> 'p"
    and dec :: "'p \<Rightarrow> 'a proto_result"
  assumes exact: "dec p = Ok x \<longleftrightarrow> p = enc x"
begin

lemma dec_enc [simp]: "dec (enc x) = Ok x"
  by (simp add: exact)

lemma enc_eq_iff: "enc x = enc y \<longleftrightarrow> x = y"
  by (metis dec_enc outcome.inject(1))

lemma dec_inj: "dec p = Ok x \<Longrightarrow> dec q = Ok x \<Longrightarrow> p = q"
  by (simp add: exact)

lemma required_exact: "required dec n v = Ok x \<longleftrightarrow> v = Some (enc x)"
  by (cases v) (auto simp: exact)

lemma optional_exact: "optional dec v = Ok x \<longleftrightarrow> v = map_option enc x"
  by (cases v; cases x) (auto simp: exact)

end

sublocale exact_codec \<subseteq> wire: codec "\<lambda>_. True" "\<lambda>x. Ok (enc x) :: ('e, 'p) outcome" dec
  by unfold_locales (auto simp: exact)

end
