(* ===== verification/Arrow_Proto.thy ===== *)
theory Arrow_Proto
  imports Proto_Codec Arrow_Types
begin

section \<open>Arrow types on the wire\<close>

text \<open>
  The messages of \<open>crates/protogen/proto/common/arrow.proto\<close> and the conversions of
  \<open>crates/protogen/src/common/arrow.rs\<close>. \<open>UnionFields::new\<close> belongs to the Arrow crate and is
  the argument \<open>union_new\<close> of the decoder; \<open>union_new_spec\<close> states its documented behaviour on
  distinct, non-negative type ids.
\<close>

subsection \<open>Messages\<close>

datatype empty_message = EmptyMessage

datatype arrow_type = ArrowType (arrow_type_enum: "arrow_type_enum option")
and arrow_type_enum =
    AT_None empty_message
  | AT_Bool empty_message
  | AT_Uint8 empty_message | AT_Int8 empty_message
  | AT_Uint16 empty_message | AT_Int16 empty_message
  | AT_Uint32 empty_message | AT_Int32 empty_message
  | AT_Uint64 empty_message | AT_Int64 empty_message
  | AT_Float16 empty_message | AT_Float32 empty_message | AT_Float64 empty_message
  | AT_Utf8 empty_message
  | AT_LargeUtf8 empty_message
  | AT_Binary empty_message
  | AT_FixedSizeBinary i32
  | AT_LargeBinary empty_message
  | AT_Date32 empty_message | AT_Date64 empty_message
  | AT_Duration i32
  | AT_Timestamp i32 string
  | AT_Time32 i32
  | AT_Time64 i32
  | AT_Interval i32
  | AT_Decimal u32 i32
  | AT_List "pfield option"
  | AT_LargeList "pfield option"
  | AT_FixedSizeList "pfield option" i32
  | AT_Struct "pfield list"
  | AT_Union "pfield list" i32 "i32 list"
  | AT_Dictionary "arrow_type option" "arrow_type option"
and pfield =
    PField (pf_name: string) (pf_arrow_type: "arrow_type option") (pf_nullable: bool)
      (pf_children: "pfield list")

subsection \<open>Units\<close>

fun time_unit_to_i32 :: "time_unit \<Rightarrow> i32" where
  "time_unit_to_i32 Second = 0"
| "time_unit_to_i32 Millisecond = 1"
| "time_unit_to_i32 Microsecond = 2"
| "time_unit_to_i32 Nanosecond = 3"

definition parse_i32_to_time_unit :: "i32 \<Rightarrow> time_unit proto_result" where
  "parse_i32_to_time_unit v =
     (if v = 0 then Ok Second
      else if v = 1 then Ok Millisecond
      else if v = 2 then Ok Microsecond
      else if v = 3 then Ok Nanosecond
      else Err (UnknownEnumVariant ''TimeUnit'' v))"

fun interval_unit_to_i32 :: "interval_unit \<Rightarrow> i32" where
  "interval_unit_to_i32 YearMonth = 0"
| "interval_unit_to_i32 DayTime = 1"
| "interval_unit_to_i32 MonthDayNano = 2"

definition parse_i32_to_interval_unit :: "i32 \<Rightarrow> interval_unit proto_result" where
  "parse_i32_to_interval_unit v =
     (if v = 0 then Ok YearMonth
      else if v = 1 then Ok DayTime
      else if v = 2 then Ok MonthDayNano
      else Err (UnknownEnumVariant ''IntervalUnit'' v))"

fun union_mode_to_i32 :: "union_mode \<Rightarrow> i32" where
  "union_mode_to_i32 Sparse = 0"
| "union_mode_to_i32 Dense = 1"

definition parse_i32_to_union_mode :: "i32 \<Rightarrow> union_mode proto_result" where
  "parse_i32_to_union_mode v =
     (if v = 0 then Ok Sparse
      else if v = 1 then Ok Dense
      else Err (UnknownEnumVariant ''UnionMode'' v))"

subsection \<open>Decoding\<close>

type_synonym union_new = "i8 list \<Rightarrow> field list \<Rightarrow> (proto_conv_error, (i8 \<times> field) list) outcome"

text \<open>The default type ids of a union: the range \<open>0..union_fields.len() as i8\<close>, whose bound is
  cut to eight signed bits.\<close>

definition default_type_ids :: "nat \<Rightarrow> i8 list" where
  "default_type_ids n = map word_of_nat [0 ..< nat (sint (word_of_nat n :: i8))]"

definition union_type_ids :: "field list \<Rightarrow> i32 list \<Rightarrow> i8 list" where
  "union_type_ids fs ids = (if ids = [] then default_type_ids (length fs) else map ucast ids)"

fun data_type_try_from :: "union_new \<Rightarrow> arrow_type \<Rightarrow> data_type proto_result"
  and data_type_enum_try_from :: "union_new \<Rightarrow> arrow_type_enum \<Rightarrow> data_type proto_result"
  and field_try_from :: "union_new \<Rightarrow> pfield \<Rightarrow> field proto_result" where
  "data_type_try_from un (ArrowType e) = required (data_type_enum_try_from un) ''arrow_type_enum'' e"
| "data_type_enum_try_from un (AT_None _) = Ok DT_Null"
| "data_type_enum_try_from un (AT_Bool _) = Ok DT_Boolean"
| "data_type_enum_try_from un (AT_Uint8 _) = Ok DT_UInt8"
| "data_type_enum_try_from un (AT_Int8 _) = Ok DT_Int8"
| "data_type_enum_try_from un (AT_Uint16 _) = Ok DT_UInt16"
| "data_type_enum_try_from un (AT_Int16 _) = Ok DT_Int16"
| "data_type_enum_try_from un (AT_Uint32 _) = Ok DT_UInt32"
| "data_type_enum_try_from un (AT_Int32 _) = Ok DT_Int32"
| "data_type_enum_try_from un (AT_Uint64 _) = Ok DT_UInt64"
| "data_type_enum_try_from un (AT_Int64 _) = Ok DT_Int64"
| "data_type_enum_try_from un (AT_Float16 _) = Ok DT_Float16"
| "data_type_enum_try_from un (AT_Float32 _) = Ok DT_Float32"
| "data_type_enum_try_from un (AT_Float64 _) = Ok DT_Float64"
| "data_type_enum_try_from un (AT_Utf8 _) = Ok DT_Utf8"
| "data_type_enum_try_from un (AT_LargeUtf8 _) = Ok DT_LargeUtf8"
| "data_type_enum_try_from un (AT_Binary _) = Ok DT_Binary"
| "data_type_enum_try_from un (AT_FixedSizeBinary n) = Ok (DT_FixedSizeBinary n)"
| "data_type_enum_try_from un (AT_LargeBinary _) = Ok DT_LargeBinary"
| "data_type_enum_try_from un (AT_Date32 _) = Ok DT_Date32"
| "data_type_enum_try_from un (AT_Date64 _) = Ok DT_Date64"
| "data_type_enum_try_from un (AT_Duration u) =
     obind (parse_i32_to_time_unit u) (\<lambda>u. Ok (DT_Duration u))"
| "data_type_enum_try_from un (AT_Timestamp u tz) =
     obind (parse_i32_to_time_unit u) (\<lambda>u.
       Ok (DT_Timestamp u (if length tz = 0 then None else Some tz)))"
| "data_type_enum_try_from un (AT_Time32 u) =
     obind (parse_i32_to_time_unit u) (\<lambda>u. Ok (DT_Time32 u))"
| "data_type_enum_try_from un (AT_Time64 u) =
     obind (parse_i32_to_time_unit u) (\<lambda>u. Ok (DT_Time64 u))"
| "data_type_enum_try_from un (AT_Interval u) =
     obind (parse_i32_to_interval_unit u) (\<lambda>u. Ok (DT_Interval u))"
| "data_type_enum_try_from un (AT_Decimal p s) = Ok (DT_Decimal128 (ucast p) (ucast s))"
| "data_type_enum_try_from un (AT_List f) =
     obind (required (field_try_from un) ''field_type'' f) (\<lambda>f. Ok (DT_List f))"
| "data_type_enum_try_from un (AT_LargeList f) =
     obind (required (field_try_from un) ''field_type'' f) (\<lambda>f. Ok (DT_LargeList f))"
| "data_type_enum_try_from un (AT_FixedSizeList f n) =
     obind (required (field_try_from un) ''field_type'' f) (\<lambda>f. Ok (DT_FixedSizeList f n))"
| "data_type_enum_try_from un (AT_Struct fs) =
     obind (traverse (field_try_from un) fs) (\<lambda>fs. Ok (DT_Struct fs))"
| "data_type_enum_try_from un (AT_Union fs mode ids) =
     obind (parse_i32_to_union_mode mode) (\<lambda>mode.
     obind (traverse (field_try_from un) fs) (\<lambda>fs.
     obind (un (union_type_ids fs ids) fs) (\<lambda>ufs. Ok (DT_Union ufs mode))))"
| "data_type_enum_try_from un (AT_Dictionary k v) =
     obind (required (data_type_try_from un) ''key'' k) (\<lambda>k.
     obind (required (data_type_try_from un) ''value'' v) (\<lambda>v. Ok (DT_Dictionary k v)))"
| "field_try_from un (PField name t nullable children) =
     obind (required (data_type_try_from un) ''arrow_type'' t) (\<lambda>t. Ok (Field name t nullable))"

subsection \<open>Encoding\<close>

fun arrow_type_try_from :: "data_type \<Rightarrow> arrow_type proto_result"
  and arrow_type_enum_try_from :: "data_type \<Rightarrow> arrow_type_enum proto_result"
  and pfield_try_from :: "field \<Rightarrow> pfield proto_result" where
  "arrow_type_try_from t = obind (arrow_type_enum_try_from t) (\<lambda>e. Ok (ArrowType (Some e)))"
| "arrow_type_enum_try_from DT_Null = Ok (AT_None EmptyMessage)"
| "arrow_type_enum_try_from DT_Boolean = Ok (AT_Bool EmptyMessage)"
| "arrow_type_enum_try_from DT_Int8 = Ok (AT_Int8 EmptyMessage)"
| "arrow_type_enum_try_from DT_Int16 = Ok (AT_Int16 EmptyMessage)"
| "arrow_type_enum_try_from DT_Int32 = Ok (AT_Int32 EmptyMessage)"
| "arrow_type_enum_try_from DT_Int64 = Ok (AT_Int64 EmptyMessage)"
| "arrow_type_enum_try_from DT_UInt8 = Ok (AT_Uint8 EmptyMessage)"
| "arrow_type_enum_try_from DT_UInt16 = Ok (AT_Uint16 EmptyMessage)"
| "arrow_type_enum_try_from DT_UInt32 = Ok (AT_Uint32 EmptyMessage)"
| "arrow_type_enum_try_from DT_UInt64 = Ok (AT_Uint64 EmptyMessage)"
| "arrow_type_enum_try_from DT_Float16 = Ok (AT_Float16 EmptyMessage)"
| "arrow_type_enum_try_from DT_Float32 = Ok (AT_Float32 EmptyMessage)"
| "arrow_type_enum_try_from DT_Float64 = Ok (AT_Float64 EmptyMessage)"
| "arrow_type_enum_try_from (DT_Timestamp u tz) =
     Ok (AT_Timestamp (time_unit_to_i32 u) (case tz of Some s \<Rightarrow> s | None \<Rightarrow> ''''))"
| "arrow_type_enum_try_from DT_Date32 = Ok (AT_Date32 EmptyMessage)"
| "arrow_type_enum_try_from DT_Date64 = Ok (AT_Date64 EmptyMessage)"
| "arrow_type_enum_try_from (DT_Time32 u) = Ok (AT_Time32 (time_unit_to_i32 u))"
| "arrow_type_enum_try_from (DT_Time64 u) = Ok (AT_Time64 (time_unit_to_i32 u))"
| "arrow_type_enum_try_from (DT_Duration u) = Ok (AT_Duration (time_unit_to_i32 u))"
| "arrow_type_enum_try_from (DT_Interval u) = Ok (AT_Interval (interval_unit_to_i32 u))"
| "arrow_type_enum_try_from DT_Binary = Ok (AT_Binary EmptyMessage)"
| "arrow_type_enum_try_from (DT_FixedSizeBinary n) = Ok (AT_FixedSizeBinary n)"
| "arrow_type_enum_try_from DT_LargeBinary = Ok (AT_LargeBinary EmptyMessage)"
| "arrow_type_enum_try_from DT_Utf8 = Ok (AT_Utf8 EmptyMessage)"
| "arrow_type_enum_try_from DT_LargeUtf8 = Ok (AT_LargeUtf8 EmptyMessage)"
| "arrow_type_enum_try_from (DT_List f) = obind (pfield_try_from f) (\<lambda>f. Ok (AT_List (Some f)))"
| "arrow_type_enum_try_from (DT_FixedSizeList f n) =
     obind (pfield_try_from f) (\<lambda>f. Ok (AT_FixedSizeList (Some f) n))"
| "arrow_type_enum_try_from (DT_LargeList f) =
     obind (pfield_try_from f) (\<lambda>f. Ok (AT_LargeList (Some f)))"
| "arrow_type_enum_try_from (DT_Struct fs) =
     obind (traverse pfield_try_from fs) (\<lambda>fs. Ok (AT_Struct fs))"
| "arrow_type_enum_try_from (DT_Union ufs mode) =
     obind (traverse (\<lambda>(_, f). pfield_try_from f) ufs) (\<lambda>fs.
       Ok (AT_Union fs (union_mode_to_i32 mode) (map (\<lambda>(i, _). scast i) ufs)))"
| "arrow_type_enum_try_from (DT_Dictionary k v) =
     obind (arrow_type_try_from k) (\<lambda>k.
     obind (arrow_type_try_from v) (\<lambda>v. Ok (AT_Dictionary (Some k) (Some v))))"
| "arrow_type_enum_try_from (DT_Decimal128 p s) = Ok (AT_Decimal (ucast p) (scast s))"
| "arrow_type_enum_try_from (DT_Decimal256 p s) = Err (UnsupportedSerialization ''Decimal256'')"
| "arrow_type_enum_try_from (DT_Map f keys_sorted) = Err (UnsupportedSerialization ''Map'')"
| "arrow_type_enum_try_from (DT_RunEndEncoded r v) =
     Err (UnsupportedSerialization ''RunEndEncoded'')"
| "pfield_try_from (Field name t nullable) =
     obind (arrow_type_try_from t) (\<lambda>t. Ok (PField name (Some t) nullable []))"

text \<open>A schema keeps its metadata map on both sides.\<close>

record schema =
  sch_fields :: "field list"
  sch_metadata :: "(string, string) hashmap"

record pschema =
  psch_columns :: "pfield list"
  psch_metadata :: "(string, string) hashmap"

definition schema_try_from :: "union_new \<Rightarrow> pschema \<Rightarrow> schema proto_result" where
  "schema_try_from un s =
     obind (traverse (field_try_from un) (psch_columns s)) (\<lambda>fs.
       Ok \<lparr>sch_fields = fs, sch_metadata = psch_metadata s\<rparr>)"

definition pschema_try_from :: "schema \<Rightarrow> pschema proto_result" where
  "pschema_try_from s =
     obind (traverse pfield_try_from (sch_fields s)) (\<lambda>fs.
       Ok \<lparr>psch_columns = fs, psch_metadata = sch_metadata s\<rparr>)"

subsection \<open>Which types can be encoded\<close>

text \<open>\<open>dt_supported\<close> holds of the types without a \<open>Decimal256\<close>, \<open>Map\<close> or \<open>RunEndEncoded\<close>
  inside. \<open>dt_fits\<close> adds what the round trip needs: no empty time zone, and the type ids that
  \<open>UnionFields\<close> allows.\<close>

fun dt_supported :: "data_type \<Rightarrow> bool" and field_supported :: "field \<Rightarrow> bool" where
  "dt_supported (DT_List f) = field_supported f"
| "dt_supported (DT_FixedSizeList f n) = field_supported f"
| "dt_supported (DT_LargeList f) = field_supported f"
| "dt_supported (DT_Struct fs) = list_all field_supported fs"
| "dt_supported (DT_Union ufs mode) = list_all (\<lambda>(i, f). field_supported f) ufs"
| "dt_supported (DT_Dictionary k v) = (dt_supported k \<and> dt_supported v)"
| "dt_supported (DT_Decimal256 p s) = False"
| "dt_supported (DT_Map f keys_sorted) = False"
| "dt_supported (DT_RunEndEncoded r v) = False"
| "dt_supported t = True"
| "field_supported (Field name t nullable) = dt_supported t"

fun dt_fits :: "data_type \<Rightarrow> bool" and field_fits :: "field \<Rightarrow> bool" where
  "dt_fits (DT_Timestamp u tz) = (tz \<noteq> Some '''')"
| "dt_fits (DT_List f) = field_fits f"
| "dt_fits (DT_FixedSizeList f n) = field_fits f"
| "dt_fits (DT_LargeList f) = field_fits f"
| "dt_fits (DT_Struct fs) = list_all field_fits fs"
| "dt_fits (DT_Union ufs mode) =
     (distinct (map fst ufs) \<and> list_all (\<lambda>(i, f). 0 \<le> sint i \<and> field_fits f) ufs)"
| "dt_fits (DT_Dictionary k v) = (dt_fits k \<and> dt_fits v)"
| "dt_fits (DT_Decimal256 p s) = False"
| "dt_fits (DT_Map f keys_sorted) = False"
| "dt_fits (DT_RunEndEncoded r v) = False"
| "dt_fits t = True"
| "field_fits (Field name t nullable) = dt_fits t"

definition union_new_spec :: "union_new \<Rightarrow> bool" where
  "union_new_spec un = (\<forall>ids fs. length ids = length fs \<and> distinct ids \<and> list_all (\<lambda>i. 0 \<le> sint i) ids
     \<longrightarrow> un ids fs = Ok (zip ids fs))"

lemma traverse_is_ok: "is_ok (traverse f xs) \<longleftrightarrow> list_all (\<lambda>x. is_ok (f x)) xs"
  by (induction xs) (auto simp: is_ok_iff)

lemma traverse_no_panic:
  "(\<And>x. x \<in> set xs \<Longrightarrow> \<not> is_panic (f x)) \<Longrightarrow> \<not> is_panic (traverse f xs)"
  by (induction xs) (auto simp: is_panic_obind)

lemma is_ok_obind_Ok [simp]: "is_ok (obind r (\<lambda>x. Ok (g x))) \<longleftrightarrow> is_ok r"
  by (cases r) auto

lemma is_panic_obind_Ok [simp]: "is_panic (obind r (\<lambda>x. Ok (g x))) \<longleftrightarrow> is_panic r"
  by (cases r) auto

lemma arrow_encode_is_ok:
  "is_ok (arrow_type_try_from t) \<longleftrightarrow> dt_supported t"
  "is_ok (arrow_type_enum_try_from t) \<longleftrightarrow> dt_supported t"
  "is_ok (pfield_try_from f) \<longleftrightarrow> field_supported f"
proof (induction t and t and f rule: arrow_type_try_from_arrow_type_enum_try_from_pfield_try_from.induct)
  case (31 ufs mode)
  then show ?case by (fastforce simp: traverse_is_ok list_all_iff split_beta)
next
  case (32 k v)
  then show ?case by (fastforce simp: is_ok_iff)
qed (auto simp: traverse_is_ok list_all_iff)

lemma arrow_encode_no_panic:
  "\<not> is_panic (arrow_type_try_from t)"
  "\<not> is_panic (arrow_type_enum_try_from t)"
  "\<not> is_panic (pfield_try_from f)"
proof (induction t and t and f rule: arrow_type_try_from_arrow_type_enum_try_from_pfield_try_from.induct)
  case (30 fs)
  then show ?case by (simp add: traverse_no_panic)
next
  case (31 ufs mode)
  then show ?case by (auto intro!: traverse_no_panic)
next
  case (32 k v)
  then show ?case by (auto simp: is_panic_obind)
qed auto

lemma fits_supported:
  "dt_fits t \<Longrightarrow> dt_supported t" "field_fits f \<Longrightarrow> field_supported f"
  by (induction t and f rule: dt_supported_field_supported.induct) (auto simp: list_all_iff)

subsection \<open>Round trip\<close>

lemma parse_units [simp]:
  "parse_i32_to_time_unit (time_unit_to_i32 u) = Ok u"
  "parse_i32_to_interval_unit (interval_unit_to_i32 i) = Ok i"
  "parse_i32_to_union_mode (union_mode_to_i32 m) = Ok m"
  by (cases u; cases i; cases m;
      simp add: parse_i32_to_time_unit_def parse_i32_to_interval_unit_def parse_i32_to_union_mode_def)+

lemma union_ids_roundtrip:
  "length fs = length ufs \<Longrightarrow>
   union_type_ids fs (map (\<lambda>(i, _). scast i) ufs) = map fst (ufs :: (i8 \<times> field) list)"
  by (cases "ufs = []") (auto simp: union_type_ids_def default_type_ids_def)

lemma union_decode:
  assumes "union_new_spec un" and "distinct (map fst ufs)" and "list_all (\<lambda>(i, f). 0 \<le> sint i) ufs"
  shows "un (map fst ufs) (map snd ufs) = Ok ufs"
proof -
  have "list_all (\<lambda>i. 0 \<le> sint i) (map fst ufs)"
    using assms(3) by (auto simp: list_all_iff split: prod.splits)
  with assms(1,2) have "un (map fst ufs) (map snd ufs) = Ok (zip (map fst ufs) (map snd ufs))"
    unfolding union_new_spec_def by simp
  then show ?thesis by (simp add: zip_map_fst_snd)
qed

lemma arrow_roundtrip:
  assumes un: "union_new_spec un"
  shows "dt_fits t \<Longrightarrow> arrow_type_try_from t = Ok a \<Longrightarrow> data_type_try_from un a = Ok t"
    and "dt_fits t \<Longrightarrow> arrow_type_enum_try_from t = Ok e \<Longrightarrow> data_type_enum_try_from un e = Ok t"
    and "field_fits f \<Longrightarrow> pfield_try_from f = Ok p \<Longrightarrow> field_try_from un p = Ok f"
proof (induction t and t and f arbitrary: a and e and p
    rule: arrow_type_try_from_arrow_type_enum_try_from_pfield_try_from.induct)
  case (15 u tz)
  then show ?case by (auto split: option.splits)
next
  case (30 fs)
  then obtain ps where ps: "traverse pfield_try_from fs = Ok ps" and e: "e = AT_Struct ps" by auto
  from ps 30 have "list_all2 (\<lambda>p f. field_try_from un p = Ok f) ps fs"
    by (auto simp: traverse_eq_Ok list_all2_conv_all_nth list_all_length)
  with e show ?case by (simp add: traverse_eq_Ok)
next
  case (31 ufs mode)
  then obtain ps where ps: "traverse (\<lambda>(_, f). pfield_try_from f) ufs = Ok ps"
    and e: "e = AT_Union ps (union_mode_to_i32 mode) (map (\<lambda>(i, _). scast i) ufs)" by auto
  have elem: "field_try_from un q = Ok (snd u)"
    if "u \<in> set ufs" "pfield_try_from (snd u) = Ok q" for u q
    using "31.IH" [of u "fst u" "snd u"] "31.prems"(1) that by (auto simp: list_all_iff)
  from ps have "list_all2 (\<lambda>u q. pfield_try_from (snd u) = Ok q) ufs ps"
    by (simp add: traverse_eq_Ok case_prod_unfold)
  then have "list_all2 (\<lambda>p f. field_try_from un p = Ok f) ps (map snd ufs)"
    by (auto simp: list_all2_conv_all_nth intro: elem)
  then have "traverse (field_try_from un) ps = Ok (map snd ufs)"
    by (simp add: traverse_eq_Ok)
  moreover have "un (map fst ufs) (map snd ufs) = Ok ufs"
    using 31 un by (intro union_decode) (auto simp: list_all_iff)
  ultimately show ?case
    using e by (simp add: union_ids_roundtrip)
next
  case (32 k v)
  then obtain ak av where "arrow_type_try_from k = Ok ak" "arrow_type_try_from v = Ok av"
    and "e = AT_Dictionary (Some ak) (Some av)" by (auto simp del: arrow_type_try_from.simps)
  with 32 show ?case by (simp del: arrow_type_try_from.simps)
qed auto

declare arrow_type_try_from.simps [simp del]

text \<open>The contract holds for types and for fields, on the values that fit, when \<open>UnionFields::new\<close>
  behaves as documented.\<close>

definition wire_type :: "union_new \<Rightarrow> data_type \<Rightarrow> bool" where
  "wire_type un t = (union_new_spec un \<and> dt_fits t)"

definition wire_field :: "union_new \<Rightarrow> field \<Rightarrow> bool" where
  "wire_field un f = (union_new_spec un \<and> field_fits f)"

interpretation type_codec: codec "wire_type un" arrow_type_try_from "data_type_try_from un" for un
  by unfold_locales
    (auto simp: wire_type_def arrow_encode_is_ok(1) fits_supported intro: arrow_roundtrip(1))

interpretation field_codec: codec "wire_field un" pfield_try_from "field_try_from un" for un
  by unfold_locales
    (auto simp: wire_field_def arrow_encode_is_ok(3) fits_supported intro: arrow_roundtrip(3))

definition wire_schema :: "union_new \<Rightarrow> schema \<Rightarrow> bool" where
  "wire_schema un s = list_all (wire_field un) (sch_fields s)"

interpretation schema_codec: codec "wire_schema un" pschema_try_from "schema_try_from un" for un
  by unfold_locales
    (auto simp: wire_schema_def pschema_try_from_def schema_try_from_def
      dest: field_codec.traverse_enc field_codec.traverse_dec)

end
