(* ===== verification/Options_Proto.thy ===== *)
theory Options_Proto
  imports Arrow_Proto Options
begin

section \<open>Options on the wire\<close>

text \<open>
  The messages of \<open>crates/protogen/proto/metastore/options.proto\<close> and the conversions of
  \<open>crates/protogen/src/metastore/types/options.rs\<close> between them and the option structs of
  theory \<open>Options\<close>: a record \<open>p_s\<close> for the message of the struct \<open>s\<close>, \<open>s_try_from_proto\<close> for its
  \<open>TryFrom\<close> and \<open>s_into_proto\<close> for the \<open>From\<close> in the other direction. The decoders of options
  that hold Arrow types take \<open>UnionFields::new\<close> as the argument \<open>un\<close>.
\<close>

named_theorems wire_defs \<open>the definitions of the conversions\<close>

subsection \<open>Column definitions and storage options\<close>

record p_internal_column_definition =
  picd_name :: string
  picd_nullable :: bool
  picd_arrow_type :: "arrow_type option"

definition internal_column_definition_try_from_proto ::
  "union_new \<Rightarrow> p_internal_column_definition \<Rightarrow> internal_column_definition proto_result" where
  [wire_defs]: "internal_column_definition_try_from_proto un v =
     obind (required (data_type_try_from un) ''arrow_type'' (picd_arrow_type v)) (\<lambda>arrow_type.
     Ok \<lparr>icd_name = picd_name v, icd_nullable = picd_nullable v, icd_arrow_type = arrow_type\<rparr>)"

text \<open>The conversion in the other direction is infallible in its type and calls \<open>expect\<close> on the
  encoding of the Arrow type.\<close>

definition internal_column_definition_into_proto ::
  "internal_column_definition \<Rightarrow> (proto_conv_error, p_internal_column_definition) outcome" where
  [wire_defs]: "internal_column_definition_into_proto v =
     (case arrow_type_try_from (icd_arrow_type v) of
        Ok arrow_type \<Rightarrow>
          Ok \<lparr>picd_name = icd_name v, picd_nullable = icd_nullable v, picd_arrow_type = Some arrow_type\<rparr>
      | _ \<Rightarrow> Panic ''Arrow type must be serializable'')"

record p_storage_options =
  pso_inner :: btree_map

definition storage_options_from :: "p_storage_options \<Rightarrow> storage_options" where
  "storage_options_from v = \<lparr>so_inner = pso_inner v\<rparr>"

definition storage_options_into_proto :: "storage_options \<Rightarrow> p_storage_options" where
  "storage_options_into_proto v = \<lparr>pso_inner = so_inner v\<rparr>"

text \<open>\<open>required\<close> accepts an infallible \<open>From\<close> through the blanket \<open>TryInto\<close>.\<close>

abbreviation storage_options_from_proto :: "p_storage_options \<Rightarrow> storage_options proto_result" where
  "storage_options_from_proto v \<equiv> Ok (storage_options_from v)"

subsection \<open>Database options\<close>

datatype p_database_options_internal = PDatabaseOptionsInternal

definition database_options_internal_try_from_proto ::
  "p_database_options_internal \<Rightarrow> database_options_internal proto_result" where
  [wire_defs]: "database_options_internal_try_from_proto _ = Ok DatabaseOptionsInternal"

definition database_options_internal_into_proto ::
  "database_options_internal \<Rightarrow> p_database_options_internal" where
  [wire_defs]: "database_options_internal_into_proto _ = PDatabaseOptionsInternal"

datatype p_database_options_debug = PDatabaseOptionsDebug

definition database_options_debug_try_from_proto ::
  "p_database_options_debug \<Rightarrow> database_options_debug proto_result" where
  [wire_defs]: "database_options_debug_try_from_proto _ = Ok DatabaseOptionsDebug"

definition database_options_debug_into_proto ::
  "database_options_debug \<Rightarrow> p_database_options_debug" where
  [wire_defs]: "database_options_debug_into_proto _ = PDatabaseOptionsDebug"

record p_database_options_postgres =
  pdbpg_connection_string :: string

definition database_options_postgres_try_from_proto ::
  "p_database_options_postgres \<Rightarrow> database_options_postgres proto_result" where
  [wire_defs]: "database_options_postgres_try_from_proto v =
     Ok \<lparr>dbpg_connection_string = pdbpg_connection_string v\<rparr>"

definition database_options_postgres_into_proto ::
  "database_options_postgres \<Rightarrow> p_database_options_postgres" where
  [wire_defs]: "database_options_postgres_into_proto v =
     \<lparr>pdbpg_connection_string = dbpg_connection_string v\<rparr>"

record p_database_options_bigquery =
  pdbbq_service_account_key :: string
  pdbbq_project_id :: string

definition database_options_bigquery_try_from_proto ::
  "p_database_options_bigquery \<Rightarrow> database_options_bigquery proto_result" where
  [wire_defs]: "database_options_bigquery_try_from_proto v =
     Ok \<lparr>dbbq_service_account_key = pdbbq_service_account_key v,
          dbbq_project_id = pdbbq_project_id v\<rparr>"

definition database_options_bigquery_into_proto ::
  "database_options_bigquery \<Rightarrow> p_database_options_bigquery" where
  [wire_defs]: "database_options_bigquery_into_proto v =
     \<lparr>pdbbq_service_account_key = dbbq_service_account_key v,
      pdbbq_project_id = dbbq_project_id v\<rparr>"

record p_database_options_mysql =
  pdbmy_connection_string :: string

definition database_options_mysql_try_from_proto ::
  "p_database_options_mysql \<Rightarrow> database_options_mysql proto_result" where
  [wire_defs]: "database_options_mysql_try_from_proto v =
     Ok \<lparr>dbmy_connection_string = pdbmy_connection_string v\<rparr>"

definition database_options_mysql_into_proto ::
  "database_options_mysql \<Rightarrow> p_database_options_mysql" where
  [wire_defs]: "database_options_mysql_into_proto v =
     \<lparr>pdbmy_connection_string = dbmy_connection_string v\<rparr>"

record p_database_options_mongodb =
  pdbmo_connection_string :: string

definition database_options_mongodb_try_from_proto ::
  "p_database_options_mongodb \<Rightarrow> database_options_mongodb proto_result" where
  [wire_defs]: "database_options_mongodb_try_from_proto v =
     Ok \<lparr>dbmo_connection_string = pdbmo_connection_string v\<rparr>"

definition database_options_mongodb_into_proto ::
  "database_options_mongodb \<Rightarrow> p_database_options_mongodb" where
  [wire_defs]: "database_options_mongodb_into_proto v =
     \<lparr>pdbmo_connection_string = dbmo_connection_string v\<rparr>"

record p_database_options_sqlserver =
  pdbss_connection_string :: string

definition database_options_sqlserver_try_from_proto ::
  "p_database_options_sqlserver \<Rightarrow> database_options_sqlserver proto_result" where
  [wire_defs]: "database_options_sqlserver_try_from_proto v =
     Ok \<lparr>dbss_connection_string = pdbss_connection_string v\<rparr>"

definition database_options_sqlserver_into_proto ::
  "database_options_sqlserver \<Rightarrow> p_database_options_sqlserver" where
  [wire_defs]: "database_options_sqlserver_into_proto v =
     \<lparr>pdbss_connection_string = dbss_connection_string v\<rparr>"

record p_database_options_clickhouse =
  pdbch_connection_string :: string

definition database_options_clickhouse_try_from_proto ::
  "p_database_options_clickhouse \<Rightarrow> database_options_clickhouse proto_result" where
  [wire_defs]: "database_options_clickhouse_try_from_proto v =
     Ok \<lparr>dbch_connection_string = pdbch_connection_string v\<rparr>"

definition database_options_clickhouse_into_proto ::
  "database_options_clickhouse \<Rightarrow> p_database_options_clickhouse" where
  [wire_defs]: "database_options_clickhouse_into_proto v =
     \<lparr>pdbch_connection_string = dbch_connection_string v\<rparr>"

record p_database_options_cassandra =
  pdbca_host :: string
  pdbca_username :: "string option"
  pdbca_password :: "string option"

definition database_options_cassandra_try_from_proto ::
  "p_database_options_cassandra \<Rightarrow> database_options_cassandra proto_result" where
  [wire_defs]: "database_options_cassandra_try_from_proto v =
     Ok \<lparr>dbca_host = pdbca_host v, dbca_username = pdbca_username v,
          dbca_password = pdbca_password v\<rparr>"

definition database_options_cassandra_into_proto ::
  "database_options_cassandra \<Rightarrow> p_database_options_cassandra" where
  [wire_defs]: "database_options_cassandra_into_proto v =
     \<lparr>pdbca_host = dbca_host v, pdbca_username = dbca_username v,
      pdbca_password = dbca_password v\<rparr>"

record p_database_options_snowflake =
  pdbsf_account_name :: string
  pdbsf_login_name :: string
  pdbsf_password :: string
  pdbsf_database_name :: string
  pdbsf_warehouse :: string
  pdbsf_role_name :: string

definition database_options_snowflake_try_from_proto ::
  "p_database_options_snowflake \<Rightarrow> database_options_snowflake proto_result" where
  [wire_defs]: "database_options_snowflake_try_from_proto v =
     Ok \<lparr>dbsf_account_name = pdbsf_account_name v, dbsf_login_name = pdbsf_login_name v,
          dbsf_password = pdbsf_password v, dbsf_database_name = pdbsf_database_name v,
          dbsf_warehouse = pdbsf_warehouse v, dbsf_role_name = pdbsf_role_name v\<rparr>"

definition database_options_snowflake_into_proto ::
  "database_options_snowflake \<Rightarrow> p_database_options_snowflake" where
  [wire_defs]: "database_options_snowflake_into_proto v =
     \<lparr>pdbsf_account_name = dbsf_account_name v, pdbsf_login_name = dbsf_login_name v,
      pdbsf_password = dbsf_password v, pdbsf_database_name = dbsf_database_name v,
      pdbsf_warehouse = dbsf_warehouse v, pdbsf_role_name = dbsf_role_name v\<rparr>"

record p_delta_lake_unity_catalog =
  pdluc_catalog_id :: string
  pdluc_databricks_access_token :: string
  pdluc_workspace_url :: string

definition delta_lake_unity_catalog_try_from_proto ::
  "p_delta_lake_unity_catalog \<Rightarrow> delta_lake_unity_catalog proto_result" where
  [wire_defs]: "delta_lake_unity_catalog_try_from_proto v =
     Ok \<lparr>dluc_catalog_id = pdluc_catalog_id v,
          dluc_databricks_access_token = pdluc_databricks_access_token v,
          dluc_workspace_url = pdluc_workspace_url v\<rparr>"

definition delta_lake_unity_catalog_into_proto ::
  "delta_lake_unity_catalog \<Rightarrow> p_delta_lake_unity_catalog" where
  [wire_defs]: "delta_lake_unity_catalog_into_proto v =
     \<lparr>pdluc_catalog_id = dluc_catalog_id v,
      pdluc_databricks_access_token = dluc_databricks_access_token v,
      pdluc_workspace_url = dluc_workspace_url v\<rparr>"

datatype p_delta_lake_catalog = PDLC_Unity p_delta_lake_unity_catalog

fun delta_lake_catalog_try_from_proto ::
  "p_delta_lake_catalog \<Rightarrow> delta_lake_catalog proto_result" where
  "delta_lake_catalog_try_from_proto (PDLC_Unity v) =
     obind (delta_lake_unity_catalog_try_from_proto v) (\<lambda>v. Ok (DLC_Unity v))"

fun delta_lake_catalog_into_proto :: "delta_lake_catalog \<Rightarrow> p_delta_lake_catalog" where
  "delta_lake_catalog_into_proto (DLC_Unity v) = PDLC_Unity (delta_lake_unity_catalog_into_proto v)"

record p_database_options_delta_lake =
  pdbdl_catalog :: "p_delta_lake_catalog option"
  pdbdl_storage_options :: "p_storage_options option"

definition database_options_delta_lake_try_from_proto ::
  "p_database_options_delta_lake \<Rightarrow> database_options_delta_lake proto_result" where
  [wire_defs]: "database_options_delta_lake_try_from_proto v =
     obind (required delta_lake_catalog_try_from_proto ''catalog'' (pdbdl_catalog v)) (\<lambda>catalog.
     obind (required storage_options_from_proto ''storage_options'' (pdbdl_storage_options v)) (\<lambda>storage_options.
     Ok \<lparr>dbdl_catalog = catalog, dbdl_storage_options = storage_options\<rparr>))"

definition database_options_delta_lake_into_proto ::
  "database_options_delta_lake \<Rightarrow> p_database_options_delta_lake" where
  [wire_defs]: "database_options_delta_lake_into_proto v =
     \<lparr>pdbdl_catalog = Some (delta_lake_catalog_into_proto (dbdl_catalog v)),
      pdbdl_storage_options = Some (storage_options_into_proto (dbdl_storage_options v))\<rparr>"

record p_database_options_sqlite =
  pdbsq_location :: string
  pdbsq_storage_options :: "p_storage_options option"

definition database_options_sqlite_try_from_proto ::
  "p_database_options_sqlite \<Rightarrow> database_options_sqlite proto_result" where
  [wire_defs]: "database_options_sqlite_try_from_proto v =
     Ok \<lparr>dbsq_location = pdbsq_location v,
          dbsq_storage_options = map_option storage_options_from (pdbsq_storage_options v)\<rparr>"

definition database_options_sqlite_into_proto ::
  "database_options_sqlite \<Rightarrow> p_database_options_sqlite" where
  [wire_defs]: "database_options_sqlite_into_proto v =
     \<lparr>pdbsq_location = dbsq_location v,
      pdbsq_storage_options = map_option storage_options_into_proto (dbsq_storage_options v)\<rparr>"

datatype p_database_options_options =
    PDO_Internal p_database_options_internal
  | PDO_Debug p_database_options_debug
  | PDO_Postgres p_database_options_postgres
  | PDO_Bigquery p_database_options_bigquery
  | PDO_Mysql p_database_options_mysql
  | PDO_Mongodb p_database_options_mongodb
  | PDO_Snowflake p_database_options_snowflake
  | PDO_Delta p_database_options_delta_lake
  | PDO_SqlServer p_database_options_sqlserver
  | PDO_Clickhouse p_database_options_clickhouse
  | PDO_Cassandra p_database_options_cassandra
  | PDO_Sqlite p_database_options_sqlite

record p_database_options =
  pDO_options :: "p_database_options_options option"

fun database_options_options_try_from_proto ::
  "p_database_options_options \<Rightarrow> database_options proto_result" where
  "database_options_options_try_from_proto (PDO_Internal v) =
     obind (database_options_internal_try_from_proto v) (\<lambda>v. Ok (DO_Internal v))"
| "database_options_options_try_from_proto (PDO_Debug v) =
     obind (database_options_debug_try_from_proto v) (\<lambda>v. Ok (DO_Debug v))"
| "database_options_options_try_from_proto (PDO_Postgres v) =
     obind (database_options_postgres_try_from_proto v) (\<lambda>v. Ok (DO_Postgres v))"
| "database_options_options_try_from_proto (PDO_Bigquery v) =
     obind (database_options_bigquery_try_from_proto v) (\<lambda>v. Ok (DO_BigQuery v))"
| "database_options_options_try_from_proto (PDO_Mysql v) =
     obind (database_options_mysql_try_from_proto v) (\<lambda>v. Ok (DO_Mysql v))"
| "database_options_options_try_from_proto (PDO_Mongodb v) =
     obind (database_options_mongodb_try_from_proto v) (\<lambda>v. Ok (DO_MongoDb v))"
| "database_options_options_try_from_proto (PDO_Snowflake v) =
     obind (database_options_snowflake_try_from_proto v) (\<lambda>v. Ok (DO_Snowflake v))"
| "database_options_options_try_from_proto (PDO_Delta v) =
     obind (database_options_delta_lake_try_from_proto v) (\<lambda>v. Ok (DO_Delta v))"
| "database_options_options_try_from_proto (PDO_SqlServer v) =
     obind (database_options_sqlserver_try_from_proto v) (\<lambda>v. Ok (DO_SqlServer v))"
| "database_options_options_try_from_proto (PDO_Clickhouse v) =
     obind (database_options_clickhouse_try_from_proto v) (\<lambda>v. Ok (DO_Clickhouse v))"
| "database_options_options_try_from_proto (PDO_Cassandra v) =
     obind (database_options_cassandra_try_from_proto v) (\<lambda>v. Ok (DO_Cassandra v))"
| "database_options_options_try_from_proto (PDO_Sqlite v) =
     obind (database_options_sqlite_try_from_proto v) (\<lambda>v. Ok (DO_Sqlite v))"

definition database_options_try_from_proto ::
  "p_database_options \<Rightarrow> database_options proto_result" where
  [wire_defs]: "database_options_try_from_proto v =
     required database_options_options_try_from_proto ''options'' (pDO_options v)"

fun database_options_options_into_proto ::
  "database_options \<Rightarrow> p_database_options_options" where
  "database_options_options_into_proto (DO_Internal v) = PDO_Internal (database_options_internal_into_proto v)"
| "database_options_options_into_proto (DO_Debug v) = PDO_Debug (database_options_debug_into_proto v)"
| "database_options_options_into_proto (DO_Postgres v) = PDO_Postgres (database_options_postgres_into_proto v)"
| "database_options_options_into_proto (DO_BigQuery v) = PDO_Bigquery (database_options_bigquery_into_proto v)"
| "database_options_options_into_proto (DO_Mysql v) = PDO_Mysql (database_options_mysql_into_proto v)"
| "database_options_options_into_proto (DO_MongoDb v) = PDO_Mongodb (database_options_mongodb_into_proto v)"
| "database_options_options_into_proto (DO_Snowflake v) = PDO_Snowflake (database_options_snowflake_into_proto v)"
| "database_options_options_into_proto (DO_Delta v) = PDO_Delta (database_options_delta_lake_into_proto v)"
| "database_options_options_into_proto (DO_SqlServer v) = PDO_SqlServer (database_options_sqlserver_into_proto v)"
| "database_options_options_into_proto (DO_Clickhouse v) = PDO_Clickhouse (database_options_clickhouse_into_proto v)"
| "database_options_options_into_proto (DO_Cassandra v) = PDO_Cassandra (database_options_cassandra_into_proto v)"
| "database_options_options_into_proto (DO_Sqlite v) = PDO_Sqlite (database_options_sqlite_into_proto v)"

definition database_options_into_proto :: "database_options \<Rightarrow> p_database_options" where
  [wire_defs]: "database_options_into_proto v = \<lparr>pDO_options = Some (database_options_options_into_proto v)\<rparr>"

subsection \<open>Tunnel options\<close>

datatype p_tunnel_options_internal = PTunnelOptionsInternal

definition tunnel_options_internal_try_from_proto ::
  "p_tunnel_options_internal \<Rightarrow> tunnel_options_internal proto_result" where
  [wire_defs]: "tunnel_options_internal_try_from_proto _ = Ok TunnelOptionsInternal"

definition tunnel_options_internal_into_proto ::
  "tunnel_options_internal \<Rightarrow> p_tunnel_options_internal" where
  [wire_defs]: "tunnel_options_internal_into_proto _ = PTunnelOptionsInternal"

datatype p_tunnel_options_debug = PTunnelOptionsDebug

definition tunnel_options_debug_try_from_proto ::
  "p_tunnel_options_debug \<Rightarrow> tunnel_options_debug proto_result" where
  [wire_defs]: "tunnel_options_debug_try_from_proto _ = Ok TunnelOptionsDebug"

definition tunnel_options_debug_into_proto ::
  "tunnel_options_debug \<Rightarrow> p_tunnel_options_debug" where
  [wire_defs]: "tunnel_options_debug_into_proto _ = PTunnelOptionsDebug"

record p_tunnel_options_ssh =
  ptus_connection_string :: string
  ptus_ssh_key :: bytes

definition tunnel_options_ssh_try_from_proto ::
  "p_tunnel_options_ssh \<Rightarrow> tunnel_options_ssh proto_result" where
  [wire_defs]: "tunnel_options_ssh_try_from_proto v =
     Ok \<lparr>tus_connection_string = ptus_connection_string v, tus_ssh_key = ptus_ssh_key v\<rparr>"

definition tunnel_options_ssh_into_proto ::
  "tunnel_options_ssh \<Rightarrow> p_tunnel_options_ssh" where
  [wire_defs]: "tunnel_options_ssh_into_proto v =
     \<lparr>ptus_connection_string = tus_connection_string v, ptus_ssh_key = tus_ssh_key v\<rparr>"

datatype p_tunnel_options_options =
    PTuO_Internal p_tunnel_options_internal
  | PTuO_Debug p_tunnel_options_debug
  | PTuO_Ssh p_tunnel_options_ssh

record p_tunnel_options =
  pTuO_options :: "p_tunnel_options_options option"

fun tunnel_options_options_try_from_proto ::
  "p_tunnel_options_options \<Rightarrow> tunnel_options proto_result" where
  "tunnel_options_options_try_from_proto (PTuO_Internal v) =
     obind (tunnel_options_internal_try_from_proto v) (\<lambda>v. Ok (TuO_Internal v))"
| "tunnel_options_options_try_from_proto (PTuO_Debug v) =
     obind (tunnel_options_debug_try_from_proto v) (\<lambda>v. Ok (TuO_Debug v))"
| "tunnel_options_options_try_from_proto (PTuO_Ssh v) =
     obind (tunnel_options_ssh_try_from_proto v) (\<lambda>v. Ok (TuO_Ssh v))"

definition tunnel_options_try_from_proto ::
  "p_tunnel_options \<Rightarrow> tunnel_options proto_result" where
  [wire_defs]: "tunnel_options_try_from_proto v =
     required tunnel_options_options_try_from_proto ''options'' (pTuO_options v)"

fun tunnel_options_options_into_proto ::
  "tunnel_options \<Rightarrow> p_tunnel_options_options" where
  "tunnel_options_options_into_proto (TuO_Internal v) = PTuO_Internal (tunnel_options_internal_into_proto v)"
| "tunnel_options_options_into_proto (TuO_Debug v) = PTuO_Debug (tunnel_options_debug_into_proto v)"
| "tunnel_options_options_into_proto (TuO_Ssh v) = PTuO_Ssh (tunnel_options_ssh_into_proto v)"

definition tunnel_options_into_proto :: "tunnel_options \<Rightarrow> p_tunnel_options" where
  [wire_defs]: "tunnel_options_into_proto v = \<lparr>pTuO_options = Some (tunnel_options_options_into_proto v)\<rparr>"

subsection \<open>Credentials options\<close>

record p_credentials_options_debug =
  pcrd_table_type :: string

definition credentials_options_debug_try_from_proto ::
  "p_credentials_options_debug \<Rightarrow> credentials_options_debug proto_result" where
  [wire_defs]: "credentials_options_debug_try_from_proto v =
     Ok \<lparr>crd_table_type = pcrd_table_type v\<rparr>"

definition credentials_options_debug_into_proto ::
  "credentials_options_debug \<Rightarrow> p_credentials_options_debug" where
  [wire_defs]: "credentials_options_debug_into_proto v =
     \<lparr>pcrd_table_type = crd_table_type v\<rparr>"

record p_credentials_options_gcp =
  pcrg_service_account_key :: string

definition credentials_options_gcp_try_from_proto ::
  "p_credentials_options_gcp \<Rightarrow> credentials_options_gcp proto_result" where
  [wire_defs]: "credentials_options_gcp_try_from_proto v =
     Ok \<lparr>crg_service_account_key = pcrg_service_account_key v\<rparr>"

definition credentials_options_gcp_into_proto ::
  "credentials_options_gcp \<Rightarrow> p_credentials_options_gcp" where
  [wire_defs]: "credentials_options_gcp_into_proto v =
     \<lparr>pcrg_service_account_key = crg_service_account_key v\<rparr>"

record p_credentials_options_aws =
  pcra_access_key_id :: string
  pcra_secret_access_key :: string

definition credentials_options_aws_try_from_proto ::
  "p_credentials_options_aws \<Rightarrow> credentials_options_aws proto_result" where
  [wire_defs]: "credentials_options_aws_try_from_proto v =
     Ok \<lparr>cra_access_key_id = pcra_access_key_id v,
          cra_secret_access_key = pcra_secret_access_key v\<rparr>"

definition credentials_options_aws_into_proto ::
  "credentials_options_aws \<Rightarrow> p_credentials_options_aws" where
  [wire_defs]: "credentials_options_aws_into_proto v =
     \<lparr>pcra_access_key_id = cra_access_key_id v,
      pcra_secret_access_key = cra_secret_access_key v\<rparr>"

record p_credentials_options_azure =
  pcrz_account_name :: string
  pcrz_access_key :: string

definition credentials_options_azure_try_from_proto ::
  "p_credentials_options_azure \<Rightarrow> credentials_options_azure proto_result" where
  [wire_defs]: "credentials_options_azure_try_from_proto v =
     Ok \<lparr>crz_account_name = pcrz_account_name v, crz_access_key = pcrz_access_key v\<rparr>"

definition credentials_options_azure_into_proto ::
  "credentials_options_azure \<Rightarrow> p_credentials_options_azure" where
  [wire_defs]: "credentials_options_azure_into_proto v =
     \<lparr>pcrz_account_name = crz_account_name v, pcrz_access_key = crz_access_key v\<rparr>"

record p_credentials_options_openai =
  pcro_api_key :: string
  pcro_api_base :: "string option"
  pcro_org_id :: "string option"

definition credentials_options_openai_try_from_proto ::
  "p_credentials_options_openai \<Rightarrow> credentials_options_openai proto_result" where
  [wire_defs]: "credentials_options_openai_try_from_proto v =
     Ok \<lparr>cro_api_key = pcro_api_key v, cro_api_base = pcro_api_base v,
          cro_org_id = pcro_org_id v\<rparr>"

definition credentials_options_openai_into_proto ::
  "credentials_options_openai \<Rightarrow> p_credentials_options_openai" where
  [wire_defs]: "credentials_options_openai_into_proto v =
     \<lparr>pcro_api_key = cro_api_key v, pcro_api_base = cro_api_base v,
      pcro_org_id = cro_org_id v\<rparr>"

datatype p_credentials_options_options =
    PCO_Debug p_credentials_options_debug
  | PCO_Gcp p_credentials_options_gcp
  | PCO_Aws p_credentials_options_aws
  | PCO_Azure p_credentials_options_azure
  | PCO_Openai p_credentials_options_openai

record p_credentials_options =
  pCO_options :: "p_credentials_options_options option"

fun credentials_options_options_try_from_proto ::
  "p_credentials_options_options \<Rightarrow> credentials_options proto_result" where
  "credentials_options_options_try_from_proto (PCO_Debug v) =
     obind (credentials_options_debug_try_from_proto v) (\<lambda>v. Ok (CO_Debug v))"
| "credentials_options_options_try_from_proto (PCO_Gcp v) =
     obind (credentials_options_gcp_try_from_proto v) (\<lambda>v. Ok (CO_Gcp v))"
| "credentials_options_options_try_from_proto (PCO_Aws v) =
     obind (credentials_options_aws_try_from_proto v) (\<lambda>v. Ok (CO_Aws v))"
| "credentials_options_options_try_from_proto (PCO_Azure v) =
     obind (credentials_options_azure_try_from_proto v) (\<lambda>v. Ok (CO_Azure v))"
| "credentials_options_options_try_from_proto (PCO_Openai v) =
     obind (credentials_options_openai_try_from_proto v) (\<lambda>v. Ok (CO_OpenAI v))"

definition credentials_options_try_from_proto ::
  "p_credentials_options \<Rightarrow> credentials_options proto_result" where
  [wire_defs]: "credentials_options_try_from_proto v =
     required credentials_options_options_try_from_proto ''options'' (pCO_options v)"

fun credentials_options_options_into_proto ::
  "credentials_options \<Rightarrow> p_credentials_options_options" where
  "credentials_options_options_into_proto (CO_Debug v) = PCO_Debug (credentials_options_debug_into_proto v)"
| "credentials_options_options_into_proto (CO_Gcp v) = PCO_Gcp (credentials_options_gcp_into_proto v)"
| "credentials_options_options_into_proto (CO_Aws v) = PCO_Aws (credentials_options_aws_into_proto v)"
| "credentials_options_options_into_proto (CO_Azure v) = PCO_Azure (credentials_options_azure_into_proto v)"
| "credentials_options_options_into_proto (CO_OpenAI v) = PCO_Openai (credentials_options_openai_into_proto v)"

definition credentials_options_into_proto ::
  "credentials_options \<Rightarrow> p_credentials_options" where
  [wire_defs]: "credentials_options_into_proto v = \<lparr>pCO_options = Some (credentials_options_options_into_proto v)\<rparr>"

subsection \<open>The contracts\<close>

lemma storage_exact:
  "storage_options_from v = x \<longleftrightarrow> v = storage_options_into_proto x"
  "map_option storage_options_from w = y \<longleftrightarrow> w = map_option storage_options_into_proto y"
proof -
  have inv: "storage_options_from (storage_options_into_proto x) = x"
    "storage_options_into_proto (storage_options_from v) = v" for x v
    by (simp_all add: storage_options_from_def storage_options_into_proto_def)
  then show "storage_options_from v = x \<longleftrightarrow> v = storage_options_into_proto x" by metis
  show "map_option storage_options_from w = y \<longleftrightarrow> w = map_option storage_options_into_proto y"
    by (cases w; cases y) (auto simp: inv)
qed

lemma storage_inverse [simp]:
  "map_option storage_options_into_proto (map_option storage_options_from w) = w"
  by (metis storage_exact(2))

interpretation storage_codec: exact_codec storage_options_into_proto storage_options_from_proto
  by unfold_locales (simp add: storage_exact)

lemmas option_struct_eqI =
  database_options_postgres.equality p_database_options_postgres.equality
  database_options_bigquery.equality p_database_options_bigquery.equality
  database_options_mysql.equality p_database_options_mysql.equality
  database_options_mongodb.equality p_database_options_mongodb.equality
  database_options_sqlserver.equality p_database_options_sqlserver.equality
  database_options_clickhouse.equality p_database_options_clickhouse.equality
  database_options_cassandra.equality p_database_options_cassandra.equality
  database_options_snowflake.equality p_database_options_snowflake.equality
  delta_lake_unity_catalog.equality p_delta_lake_unity_catalog.equality
  database_options_delta_lake.equality p_database_options_delta_lake.equality
  database_options_sqlite.equality p_database_options_sqlite.equality
  tunnel_options_ssh.equality p_tunnel_options_ssh.equality credentials_options_debug.equality
  p_credentials_options_debug.equality credentials_options_gcp.equality
  p_credentials_options_gcp.equality credentials_options_aws.equality
  p_credentials_options_aws.equality credentials_options_azure.equality
  p_credentials_options_azure.equality credentials_options_openai.equality
  p_credentials_options_openai.equality

lemma empty_structs:
  "x1 = DatabaseOptionsInternal"
  "x2 = PDatabaseOptionsInternal"
  "x3 = DatabaseOptionsDebug"
  "x4 = PDatabaseOptionsDebug"
  "x5 = TunnelOptionsInternal"
  "x6 = PTunnelOptionsInternal"
  "x7 = TunnelOptionsDebug"
  "x8 = PTunnelOptionsDebug"
  by (metis database_options_internal.exhaust p_database_options_internal.exhaust
      database_options_debug.exhaust p_database_options_debug.exhaust
      tunnel_options_internal.exhaust p_tunnel_options_internal.exhaust
      tunnel_options_debug.exhaust p_tunnel_options_debug.exhaust)+

lemma database_structs_exact [simp]:
  "database_options_internal_try_from_proto p1 = Ok v1 \<longleftrightarrow> p1 = database_options_internal_into_proto v1"
  "database_options_debug_try_from_proto p2 = Ok v2 \<longleftrightarrow> p2 = database_options_debug_into_proto v2"
  "database_options_postgres_try_from_proto p3 = Ok v3 \<longleftrightarrow> p3 = database_options_postgres_into_proto v3"
  "database_options_bigquery_try_from_proto p4 = Ok v4 \<longleftrightarrow> p4 = database_options_bigquery_into_proto v4"
  "database_options_mysql_try_from_proto p5 = Ok v5 \<longleftrightarrow> p5 = database_options_mysql_into_proto v5"
  "database_options_mongodb_try_from_proto p6 = Ok v6 \<longleftrightarrow> p6 = database_options_mongodb_into_proto v6"
  "database_options_sqlserver_try_from_proto p7 = Ok v7 \<longleftrightarrow> p7 = database_options_sqlserver_into_proto v7"
  "database_options_clickhouse_try_from_proto p8 = Ok v8 \<longleftrightarrow> p8 = database_options_clickhouse_into_proto v8"
  "database_options_cassandra_try_from_proto p9 = Ok v9 \<longleftrightarrow> p9 = database_options_cassandra_into_proto v9"
  "database_options_snowflake_try_from_proto p10 = Ok v10 \<longleftrightarrow> p10 = database_options_snowflake_into_proto v10"
  "delta_lake_unity_catalog_try_from_proto p11 = Ok v11 \<longleftrightarrow> p11 = delta_lake_unity_catalog_into_proto v11"
  by (auto simp: wire_defs storage_exact intro!: option_struct_eqI
    intro: empty_structs empty_structs [symmetric])

lemma delta_lake_catalog_exact [simp]:
  "delta_lake_catalog_try_from_proto p = Ok v \<longleftrightarrow> p = delta_lake_catalog_into_proto v"
  by (cases p; cases v) auto

interpretation delta_codec: exact_codec delta_lake_catalog_into_proto delta_lake_catalog_try_from_proto
  by unfold_locales (rule delta_lake_catalog_exact)

lemma database_structs2_exact [simp]:
  "database_options_delta_lake_try_from_proto p1 = Ok v1 \<longleftrightarrow> p1 = database_options_delta_lake_into_proto v1"
  "database_options_sqlite_try_from_proto p2 = Ok v2 \<longleftrightarrow> p2 = database_options_sqlite_into_proto v2"
  by (auto simp: wire_defs storage_codec.required_exact delta_codec.required_exact
    storage_codec.enc_eq_iff delta_codec.enc_eq_iff storage_exact intro!: option_struct_eqI
    intro: empty_structs empty_structs [symmetric])

lemma tunnel_structs_exact [simp]:
  "tunnel_options_internal_try_from_proto p1 = Ok v1 \<longleftrightarrow> p1 = tunnel_options_internal_into_proto v1"
  "tunnel_options_debug_try_from_proto p2 = Ok v2 \<longleftrightarrow> p2 = tunnel_options_debug_into_proto v2"
  "tunnel_options_ssh_try_from_proto p3 = Ok v3 \<longleftrightarrow> p3 = tunnel_options_ssh_into_proto v3"
  by (auto simp: wire_defs storage_exact intro!: option_struct_eqI
    intro: empty_structs empty_structs [symmetric])

lemma credentials_structs_exact [simp]:
  "credentials_options_debug_try_from_proto p1 = Ok v1 \<longleftrightarrow> p1 = credentials_options_debug_into_proto v1"
  "credentials_options_gcp_try_from_proto p2 = Ok v2 \<longleftrightarrow> p2 = credentials_options_gcp_into_proto v2"
  "credentials_options_aws_try_from_proto p3 = Ok v3 \<longleftrightarrow> p3 = credentials_options_aws_into_proto v3"
  "credentials_options_azure_try_from_proto p4 = Ok v4 \<longleftrightarrow> p4 = credentials_options_azure_into_proto v4"
  "credentials_options_openai_try_from_proto p5 = Ok v5 \<longleftrightarrow> p5 = credentials_options_openai_into_proto v5"
  by (auto simp: wire_defs storage_exact intro!: option_struct_eqI
    intro: empty_structs empty_structs [symmetric])

lemma database_options_exact [simp]:
  "database_options_options_try_from_proto q = Ok v \<longleftrightarrow> q = database_options_options_into_proto v"
  by (cases q; cases v) auto

interpretation database_options_codec: exact_codec database_options_into_proto database_options_try_from_proto
  by unfold_locales (auto simp: wire_defs required_def split: option.splits)

lemma tunnel_options_exact [simp]:
  "tunnel_options_options_try_from_proto q = Ok v \<longleftrightarrow> q = tunnel_options_options_into_proto v"
  by (cases q; cases v) auto

interpretation tunnel_options_codec: exact_codec tunnel_options_into_proto tunnel_options_try_from_proto
  by unfold_locales (auto simp: wire_defs required_def split: option.splits)

lemma credentials_options_exact [simp]:
  "credentials_options_options_try_from_proto q = Ok v \<longleftrightarrow> q = credentials_options_options_into_proto v"
  by (cases q; cases v) auto

interpretation credentials_options_codec: exact_codec credentials_options_into_proto credentials_options_try_from_proto
  by unfold_locales (auto simp: wire_defs required_def split: option.splits)

text \<open>A column definition is encoded when its type can be; otherwise the \<open>expect\<close> panics.\<close>

definition wire_column ::
  "union_new \<Rightarrow> internal_column_definition \<Rightarrow> bool" where
  "wire_column un c = wire_type un (icd_arrow_type c)"

lemma column_encode_panics:
  "is_panic (internal_column_definition_into_proto c) \<longleftrightarrow> \<not> dt_supported (icd_arrow_type c)"
  using arrow_encode_is_ok(1) [of "icd_arrow_type c"]
  by (auto simp: wire_defs split: outcome.splits)

lemma column_encode_Ok:
  "internal_column_definition_into_proto c = Ok p \<longleftrightarrow>
   (\<exists>t. arrow_type_try_from (icd_arrow_type c) = Ok t \<and>
        p = \<lparr>picd_name = icd_name c, picd_nullable = icd_nullable c, picd_arrow_type = Some t\<rparr>)"
  by (auto simp: wire_defs split: outcome.splits)

interpretation column_codec: codec "wire_column un" internal_column_definition_into_proto
  "internal_column_definition_try_from_proto un" for un
proof
  fix c assume c: "wire_column un c"
  then obtain t where t: "arrow_type_try_from (icd_arrow_type c) = Ok t"
      "data_type_try_from un t = Ok (icd_arrow_type c)"
    by (auto simp: wire_column_def elim: type_codec.encE)
  then show "is_ok (internal_column_definition_into_proto c)"
    by (simp add: is_ok_iff column_encode_Ok)
  show "internal_column_definition_try_from_proto un p = Ok c"
    if "internal_column_definition_into_proto c = Ok p" for p
    using that t by (auto simp: column_encode_Ok internal_column_definition_try_from_proto_def
       )
qed

end
