(* ===== verification/Table_Options_Proto.thy ===== *)
theory Table_Options_Proto
  imports Options_Proto
begin

section \<open>Table options on the wire\<close>

text \<open>
  The table options of \<open>crates/protogen/src/metastore/types/options.rs\<close>: the messages of
  \<open>TableOptionsV0\<close> and its variants with their conversions, and \<open>TableOptionsV1\<close>, which holds the
  options as a name and their JSON text. JSON itself is the \<open>serde_json\<close> crate, a parameter of the
  definitions of \<open>TableOptionsV1\<close>.
\<close>

subsection \<open>Messages and conversions of the variants\<close>

record p_table_options_debug =
  ptod_table_type :: string

definition table_options_debug_try_from_proto ::
  "p_table_options_debug \<Rightarrow> table_options_debug proto_result" where
  [wire_defs]: "table_options_debug_try_from_proto v =
     Ok \<lparr>tod_table_type = ptod_table_type v\<rparr>"

definition table_options_debug_into_proto ::
  "table_options_debug \<Rightarrow> p_table_options_debug" where
  [wire_defs]: "table_options_debug_into_proto v =
     \<lparr>ptod_table_type = tod_table_type v\<rparr>"

record p_table_options_internal =
  ptoi_columns :: "p_internal_column_definition list"

definition table_options_internal_try_from_proto ::
  "union_new \<Rightarrow> p_table_options_internal \<Rightarrow> table_options_internal proto_result" where
  [wire_defs]: "table_options_internal_try_from_proto un v =
     obind (traverse (internal_column_definition_try_from_proto un) (ptoi_columns v)) (\<lambda>columns.
     Ok \<lparr>toi_columns = columns\<rparr>)"

definition table_options_internal_into_proto ::
  "table_options_internal \<Rightarrow> p_table_options_internal proto_result" where
  [wire_defs]: "table_options_internal_into_proto v =
     obind (traverse internal_column_definition_into_proto (toi_columns v)) (\<lambda>columns.
     Ok \<lparr>ptoi_columns = columns\<rparr>)"

record p_table_options_postgres =
  ptopg_connection_string :: string
  ptopg_schema :: string
  ptopg_table :: string

definition table_options_postgres_try_from_proto ::
  "p_table_options_postgres \<Rightarrow> table_options_postgres proto_result" where
  [wire_defs]: "table_options_postgres_try_from_proto v =
     Ok \<lparr>topg_connection_string = ptopg_connection_string v, topg_schema = ptopg_schema v,
          topg_table = ptopg_table v\<rparr>"

definition table_options_postgres_into_proto ::
  "table_options_postgres \<Rightarrow> p_table_options_postgres" where
  [wire_defs]: "table_options_postgres_into_proto v =
     \<lparr>ptopg_connection_string = topg_connection_string v, ptopg_schema = topg_schema v,
      ptopg_table = topg_table v\<rparr>"

record p_table_options_bigquery =
  ptobq_service_account_key :: string
  ptobq_project_id :: string
  ptobq_dataset_id :: string
  ptobq_table_id :: string

definition table_options_bigquery_try_from_proto ::
  "p_table_options_bigquery \<Rightarrow> table_options_bigquery proto_result" where
  [wire_defs]: "table_options_bigquery_try_from_proto v =
     Ok \<lparr>tobq_service_account_key = ptobq_service_account_key v,
          tobq_project_id = ptobq_project_id v, tobq_dataset_id = ptobq_dataset_id v,
          tobq_table_id = ptobq_table_id v\<rparr>"

definition table_options_bigquery_into_proto ::
  "table_options_bigquery \<Rightarrow> p_table_options_bigquery" where
  [wire_defs]: "table_options_bigquery_into_proto v =
     \<lparr>ptobq_service_account_key = tobq_service_account_key v,
      ptobq_project_id = tobq_project_id v, ptobq_dataset_id = tobq_dataset_id v,
      ptobq_table_id = tobq_table_id v\<rparr>"

record p_table_options_mysql =
  ptomy_connection_string :: string
  ptomy_schema :: string
  ptomy_table :: string

definition table_options_mysql_try_from_proto ::
  "p_table_options_mysql \<Rightarrow> table_options_mysql proto_result" where
  [wire_defs]: "table_options_mysql_try_from_proto v =
     Ok \<lparr>tomy_connection_string = ptomy_connection_string v, tomy_schema = ptomy_schema v,
          tomy_table = ptomy_table v\<rparr>"

definition table_options_mysql_into_proto ::
  "table_options_mysql \<Rightarrow> p_table_options_mysql" where
  [wire_defs]: "table_options_mysql_into_proto v =
     \<lparr>ptomy_connection_string = tomy_connection_string v, ptomy_schema = tomy_schema v,
      ptomy_table = tomy_table v\<rparr>"

record p_table_options_local =
  ptolo_location :: string
  ptolo_file_type :: string
  ptolo_compression :: "string option"

definition table_options_local_try_from_proto ::
  "p_table_options_local \<Rightarrow> table_options_local proto_result" where
  [wire_defs]: "table_options_local_try_from_proto v =
     Ok \<lparr>tolo_location = ptolo_location v, tolo_file_type = ptolo_file_type v,
          tolo_compression = ptolo_compression v\<rparr>"

definition table_options_local_into_proto ::
  "table_options_local \<Rightarrow> p_table_options_local" where
  [wire_defs]: "table_options_local_into_proto v =
     \<lparr>ptolo_location = tolo_location v, ptolo_file_type = tolo_file_type v,
      ptolo_compression = tolo_compression v\<rparr>"

record p_table_options_gcs =
  ptogc_service_account_key :: "string option"
  ptogc_bucket :: string
  ptogc_location :: string
  ptogc_file_type :: string
  ptogc_compression :: "string option"

definition table_options_gcs_try_from_proto ::
  "p_table_options_gcs \<Rightarrow> table_options_gcs proto_result" where
  [wire_defs]: "table_options_gcs_try_from_proto v =
     Ok \<lparr>togc_service_account_key = ptogc_service_account_key v,
          togc_bucket = ptogc_bucket v, togc_location = ptogc_location v,
          togc_file_type = ptogc_file_type v, togc_compression = ptogc_compression v\<rparr>"

definition table_options_gcs_into_proto ::
  "table_options_gcs \<Rightarrow> p_table_options_gcs" where
  [wire_defs]: "table_options_gcs_into_proto v =
     \<lparr>ptogc_service_account_key = togc_service_account_key v, ptogc_bucket = togc_bucket v,
      ptogc_location = togc_location v, ptogc_file_type = togc_file_type v,
      ptogc_compression = togc_compression v\<rparr>"

record p_table_options_s3 =
  ptos3_access_key_id :: "string option"
  ptos3_secret_access_key :: "string option"
  ptos3_region :: string
  ptos3_bucket :: string
  ptos3_location :: string
  ptos3_file_type :: string
  ptos3_compression :: "string option"

definition table_options_s3_try_from_proto ::
  "p_table_options_s3 \<Rightarrow> table_options_s3 proto_result" where
  [wire_defs]: "table_options_s3_try_from_proto v =
     Ok \<lparr>tos3_access_key_id = ptos3_access_key_id v,
          tos3_secret_access_key = ptos3_secret_access_key v, tos3_region = ptos3_region v,
          tos3_bucket = ptos3_bucket v, tos3_location = ptos3_location v,
          tos3_file_type = ptos3_file_type v, tos3_compression = ptos3_compression v\<rparr>"

definition table_options_s3_into_proto :: "table_options_s3 \<Rightarrow> p_table_options_s3" where
  [wire_defs]: "table_options_s3_into_proto v =
     \<lparr>ptos3_access_key_id = tos3_access_key_id v,
      ptos3_secret_access_key = tos3_secret_access_key v, ptos3_region = tos3_region v,
      ptos3_bucket = tos3_bucket v, ptos3_location = tos3_location v,
      ptos3_file_type = tos3_file_type v, ptos3_compression = tos3_compression v\<rparr>"

record p_table_options_mongodb =
  ptomo_connection_string :: string
  ptomo_database :: string
  ptomo_collection :: string

definition table_options_mongodb_try_from_proto ::
  "p_table_options_mongodb \<Rightarrow> table_options_mongodb proto_result" where
  [wire_defs]: "table_options_mongodb_try_from_proto v =
     Ok \<lparr>tomo_connection_string = ptomo_connection_string v,
          tomo_database = ptomo_database v, tomo_collection = ptomo_collection v\<rparr>"

definition table_options_mongodb_into_proto ::
  "table_options_mongodb \<Rightarrow> p_table_options_mongodb" where
  [wire_defs]: "table_options_mongodb_into_proto v =
     \<lparr>ptomo_connection_string = tomo_connection_string v, ptomo_database = tomo_database v,
      ptomo_collection = tomo_collection v\<rparr>"

record p_table_options_excel =
  ptoex_location :: string
  ptoex_storage_options :: "p_storage_options option"
  ptoex_file_type :: "string option"
  ptoex_compression :: "string option"
  ptoex_sheet_name :: "string option"
  ptoex_has_header :: "bool option"

definition table_options_excel_try_from_proto ::
  "p_table_options_excel \<Rightarrow> table_options_excel proto_result" where
  [wire_defs]: "table_options_excel_try_from_proto v =
     obind (required storage_options_from_proto ''storage_options'' (ptoex_storage_options v)) (\<lambda>storage_options.
     Ok \<lparr>toex_location = ptoex_location v, toex_storage_options = storage_options,
          toex_file_type = ptoex_file_type v, toex_compression = ptoex_compression v,
          toex_sheet_name = ptoex_sheet_name v, toex_has_header = ptoex_has_header v\<rparr>)"

definition table_options_excel_into_proto ::
  "table_options_excel \<Rightarrow> p_table_options_excel" where
  [wire_defs]: "table_options_excel_into_proto v =
     \<lparr>ptoex_location = toex_location v,
      ptoex_storage_options = Some (storage_options_into_proto (toex_storage_options v)),
      ptoex_file_type = toex_file_type v, ptoex_compression = toex_compression v,
      ptoex_sheet_name = toex_sheet_name v, ptoex_has_header = toex_has_header v\<rparr>"

record p_table_options_sqlserver =
  ptoss_connection_string :: string
  ptoss_schema :: string
  ptoss_table :: string

definition table_options_sqlserver_try_from_proto ::
  "p_table_options_sqlserver \<Rightarrow> table_options_sqlserver proto_result" where
  [wire_defs]: "table_options_sqlserver_try_from_proto v =
     Ok \<lparr>toss_connection_string = ptoss_connection_string v, toss_schema = ptoss_schema v,
          toss_table = ptoss_table v\<rparr>"

definition table_options_sqlserver_into_proto ::
  "table_options_sqlserver \<Rightarrow> p_table_options_sqlserver" where
  [wire_defs]: "table_options_sqlserver_into_proto v =
     \<lparr>ptoss_connection_string = toss_connection_string v, ptoss_schema = toss_schema v,
      ptoss_table = toss_table v\<rparr>"

record p_table_options_clickhouse =
  ptoch_connection_string :: string
  ptoch_table :: string
  ptoch_database :: "string option"

definition table_options_clickhouse_try_from_proto ::
  "p_table_options_clickhouse \<Rightarrow> table_options_clickhouse proto_result" where
  [wire_defs]: "table_options_clickhouse_try_from_proto v =
     Ok \<lparr>toch_connection_string = ptoch_connection_string v, toch_table = ptoch_table v,
          toch_database = ptoch_database v\<rparr>"

definition table_options_clickhouse_into_proto ::
  "table_options_clickhouse \<Rightarrow> p_table_options_clickhouse" where
  [wire_defs]: "table_options_clickhouse_into_proto v =
     \<lparr>ptoch_connection_string = toch_connection_string v, ptoch_table = toch_table v,
      ptoch_database = toch_database v\<rparr>"

record p_table_options_cassandra =
  ptoca_host :: string
  ptoca_keyspace :: string
  ptoca_table :: string
  ptoca_username :: "string option"
  ptoca_password :: "string option"

definition table_options_cassandra_try_from_proto ::
  "p_table_options_cassandra \<Rightarrow> table_options_cassandra proto_result" where
  [wire_defs]: "table_options_cassandra_try_from_proto v =
     Ok \<lparr>toca_host = ptoca_host v, toca_keyspace = ptoca_keyspace v,
          toca_table = ptoca_table v, toca_username = ptoca_username v,
          toca_password = ptoca_password v\<rparr>"

definition table_options_cassandra_into_proto ::
  "table_options_cassandra \<Rightarrow> p_table_options_cassandra" where
  [wire_defs]: "table_options_cassandra_into_proto v =
     \<lparr>ptoca_host = toca_host v, ptoca_keyspace = toca_keyspace v, ptoca_table = toca_table v,
      ptoca_username = toca_username v, ptoca_password = toca_password v\<rparr>"

record p_table_options_snowflake =
  ptosf_account_name :: string
  ptosf_login_name :: string
  ptosf_password :: string
  ptosf_database_name :: string
  ptosf_warehouse :: string
  ptosf_role_name :: string
  ptosf_schema_name :: string
  ptosf_table_name :: string

definition table_options_snowflake_try_from_proto ::
  "p_table_options_snowflake \<Rightarrow> table_options_snowflake proto_result" where
  [wire_defs]: "table_options_snowflake_try_from_proto v =
     Ok \<lparr>tosf_account_name = ptosf_account_name v, tosf_login_name = ptosf_login_name v,
          tosf_password = ptosf_password v, tosf_database_name = ptosf_database_name v,
          tosf_warehouse = ptosf_warehouse v, tosf_role_name = ptosf_role_name v,
          tosf_schema_name = ptosf_schema_name v, tosf_table_name = ptosf_table_name v\<rparr>"

definition table_options_snowflake_into_proto ::
  "table_options_snowflake \<Rightarrow> p_table_options_snowflake" where
  [wire_defs]: "table_options_snowflake_into_proto v =
     \<lparr>ptosf_account_name = tosf_account_name v, ptosf_login_name = tosf_login_name v,
      ptosf_password = tosf_password v, ptosf_database_name = tosf_database_name v,
      ptosf_warehouse = tosf_warehouse v, ptosf_role_name = tosf_role_name v,
      ptosf_schema_name = tosf_schema_name v, ptosf_table_name = tosf_table_name v\<rparr>"

record p_table_options_object_store =
  ptoos_location :: string
  ptoos_name :: "string option"
  ptoos_storage_options :: "p_storage_options option"
  ptoos_file_type :: "string option"
  ptoos_compression :: "string option"
  ptoos_schema_sample_size :: "i64 option"

definition table_options_object_store_try_from_proto ::
  "p_table_options_object_store \<Rightarrow> table_options_object_store proto_result" where
  [wire_defs]: "table_options_object_store_try_from_proto v =
     obind (required storage_options_from_proto ''storage_options'' (ptoos_storage_options v)) (\<lambda>storage_options.
     Ok \<lparr>toos_location = ptoos_location v, toos_name = ptoos_name v,
          toos_storage_options = storage_options, toos_file_type = ptoos_file_type v,
          toos_compression = ptoos_compression v,
          toos_schema_sample_size = ptoos_schema_sample_size v\<rparr>)"

definition table_options_object_store_into_proto ::
  "table_options_object_store \<Rightarrow> p_table_options_object_store" where
  [wire_defs]: "table_options_object_store_into_proto v =
     \<lparr>ptoos_location = toos_location v, ptoos_name = toos_name v,
      ptoos_storage_options = Some (storage_options_into_proto (toos_storage_options v)),
      ptoos_file_type = toos_file_type v, ptoos_compression = toos_compression v,
      ptoos_schema_sample_size = toos_schema_sample_size v\<rparr>"

datatype p_table_options_v0_options =
    PTO_Debug p_table_options_debug
  | PTO_Internal p_table_options_internal
  | PTO_Postgres p_table_options_postgres
  | PTO_Bigquery p_table_options_bigquery
  | PTO_Mysql p_table_options_mysql
  | PTO_Local p_table_options_local
  | PTO_Gcs p_table_options_gcs
  | PTO_S3 p_table_options_s3
  | PTO_Mongo p_table_options_mongodb
  | PTO_Snowflake p_table_options_snowflake
  | PTO_Delta p_table_options_object_store
  | PTO_Iceberg p_table_options_object_store
  | PTO_Azure p_table_options_object_store
  | PTO_SqlServer p_table_options_sqlserver
  | PTO_Lance p_table_options_object_store
  | PTO_Bson p_table_options_object_store
  | PTO_Clickhouse p_table_options_clickhouse
  | PTO_Cassandra p_table_options_cassandra
  | PTO_Excel p_table_options_excel
  | PTO_Sqlite p_table_options_object_store

record p_table_options_v0 =
  pTO_options :: "p_table_options_v0_options option"

fun table_options_v0_options_try_from_proto ::
  "union_new \<Rightarrow> p_table_options_v0_options \<Rightarrow> table_options_v0 proto_result" where
  "table_options_v0_options_try_from_proto un (PTO_Debug v) =
     obind (table_options_debug_try_from_proto v) (\<lambda>v. Ok (TO_Debug v))"
| "table_options_v0_options_try_from_proto un (PTO_Internal v) =
     obind (table_options_internal_try_from_proto un v) (\<lambda>v. Ok (TO_Internal v))"
| "table_options_v0_options_try_from_proto un (PTO_Postgres v) =
     obind (table_options_postgres_try_from_proto v) (\<lambda>v. Ok (TO_Postgres v))"
| "table_options_v0_options_try_from_proto un (PTO_Bigquery v) =
     obind (table_options_bigquery_try_from_proto v) (\<lambda>v. Ok (TO_BigQuery v))"
| "table_options_v0_options_try_from_proto un (PTO_Mysql v) =
     obind (table_options_mysql_try_from_proto v) (\<lambda>v. Ok (TO_Mysql v))"
| "table_options_v0_options_try_from_proto un (PTO_Local v) =
     obind (table_options_local_try_from_proto v) (\<lambda>v. Ok (TO_Local v))"
| "table_options_v0_options_try_from_proto un (PTO_Gcs v) =
     obind (table_options_gcs_try_from_proto v) (\<lambda>v. Ok (TO_Gcs v))"
| "table_options_v0_options_try_from_proto un (PTO_S3 v) =
     obind (table_options_s3_try_from_proto v) (\<lambda>v. Ok (TO_S3 v))"
| "table_options_v0_options_try_from_proto un (PTO_Mongo v) =
     obind (table_options_mongodb_try_from_proto v) (\<lambda>v. Ok (TO_MongoDb v))"
| "table_options_v0_options_try_from_proto un (PTO_Snowflake v) =
     obind (table_options_snowflake_try_from_proto v) (\<lambda>v. Ok (TO_Snowflake v))"
| "table_options_v0_options_try_from_proto un (PTO_Delta v) =
     obind (table_options_object_store_try_from_proto v) (\<lambda>v. Ok (TO_Delta v))"
| "table_options_v0_options_try_from_proto un (PTO_Iceberg v) =
     obind (table_options_object_store_try_from_proto v) (\<lambda>v. Ok (TO_Iceberg v))"
| "table_options_v0_options_try_from_proto un (PTO_Azure v) =
     obind (table_options_object_store_try_from_proto v) (\<lambda>v. Ok (TO_Azure v))"
| "table_options_v0_options_try_from_proto un (PTO_SqlServer v) =
     obind (table_options_sqlserver_try_from_proto v) (\<lambda>v. Ok (TO_SqlServer v))"
| "table_options_v0_options_try_from_proto un (PTO_Lance v) =
     obind (table_options_object_store_try_from_proto v) (\<lambda>v. Ok (TO_Lance v))"
| "table_options_v0_options_try_from_proto un (PTO_Bson v) =
     obind (table_options_object_store_try_from_proto v) (\<lambda>v. Ok (TO_Bson v))"
| "table_options_v0_options_try_from_proto un (PTO_Clickhouse v) =
     obind (table_options_clickhouse_try_from_proto v) (\<lambda>v. Ok (TO_Clickhouse v))"
| "table_options_v0_options_try_from_proto un (PTO_Cassandra v) =
     obind (table_options_cassandra_try_from_proto v) (\<lambda>v. Ok (TO_Cassandra v))"
| "table_options_v0_options_try_from_proto un (PTO_Excel v) =
     obind (table_options_excel_try_from_proto v) (\<lambda>v. Ok (TO_Excel v))"
| "table_options_v0_options_try_from_proto un (PTO_Sqlite v) =
     obind (table_options_object_store_try_from_proto v) (\<lambda>v. Ok (TO_Sqlite v))"

definition table_options_v0_try_from_proto ::
  "union_new \<Rightarrow> p_table_options_v0 \<Rightarrow> table_options_v0 proto_result" where
  [wire_defs]: "table_options_v0_try_from_proto un v =
     required (table_options_v0_options_try_from_proto un) ''options'' (pTO_options v)"

fun table_options_v0_options_into_proto ::
  "table_options_v0 \<Rightarrow> p_table_options_v0_options proto_result" where
  "table_options_v0_options_into_proto (TO_Debug v) = Ok (PTO_Debug (table_options_debug_into_proto v))"
| "table_options_v0_options_into_proto (TO_Internal v) =
     obind (table_options_internal_into_proto v) (\<lambda>v. Ok (PTO_Internal v))"
| "table_options_v0_options_into_proto (TO_Postgres v) = Ok (PTO_Postgres (table_options_postgres_into_proto v))"
| "table_options_v0_options_into_proto (TO_BigQuery v) = Ok (PTO_Bigquery (table_options_bigquery_into_proto v))"
| "table_options_v0_options_into_proto (TO_Mysql v) = Ok (PTO_Mysql (table_options_mysql_into_proto v))"
| "table_options_v0_options_into_proto (TO_Local v) = Ok (PTO_Local (table_options_local_into_proto v))"
| "table_options_v0_options_into_proto (TO_Gcs v) = Ok (PTO_Gcs (table_options_gcs_into_proto v))"
| "table_options_v0_options_into_proto (TO_S3 v) = Ok (PTO_S3 (table_options_s3_into_proto v))"
| "table_options_v0_options_into_proto (TO_MongoDb v) = Ok (PTO_Mongo (table_options_mongodb_into_proto v))"
| "table_options_v0_options_into_proto (TO_Snowflake v) = Ok (PTO_Snowflake (table_options_snowflake_into_proto v))"
| "table_options_v0_options_into_proto (TO_Delta v) = Ok (PTO_Delta (table_options_object_store_into_proto v))"
| "table_options_v0_options_into_proto (TO_Iceberg v) = Ok (PTO_Iceberg (table_options_object_store_into_proto v))"
| "table_options_v0_options_into_proto (TO_Azure v) = Ok (PTO_Azure (table_options_object_store_into_proto v))"
| "table_options_v0_options_into_proto (TO_SqlServer v) = Ok (PTO_SqlServer (table_options_sqlserver_into_proto v))"
| "table_options_v0_options_into_proto (TO_Lance v) = Ok (PTO_Lance (table_options_object_store_into_proto v))"
| "table_options_v0_options_into_proto (TO_Bson v) = Ok (PTO_Bson (table_options_object_store_into_proto v))"
| "table_options_v0_options_into_proto (TO_Clickhouse v) = Ok (PTO_Clickhouse (table_options_clickhouse_into_proto v))"
| "table_options_v0_options_into_proto (TO_Cassandra v) = Ok (PTO_Cassandra (table_options_cassandra_into_proto v))"
| "table_options_v0_options_into_proto (TO_Excel v) = Ok (PTO_Excel (table_options_excel_into_proto v))"
| "table_options_v0_options_into_proto (TO_Sqlite v) = Ok (PTO_Sqlite (table_options_object_store_into_proto v))"

definition table_options_v0_into_proto ::
  "table_options_v0 \<Rightarrow> p_table_options_v0 proto_result" where
  [wire_defs]: "table_options_v0_into_proto v =
     obind (table_options_v0_options_into_proto v) (\<lambda>options. Ok \<lparr>pTO_options = Some options\<rparr>)"

subsection \<open>The contracts\<close>

lemmas table_struct_eqI =
  table_options_debug.equality p_table_options_debug.equality table_options_postgres.equality
  p_table_options_postgres.equality table_options_bigquery.equality
  p_table_options_bigquery.equality table_options_mysql.equality p_table_options_mysql.equality
  table_options_local.equality p_table_options_local.equality table_options_gcs.equality
  p_table_options_gcs.equality table_options_s3.equality p_table_options_s3.equality
  table_options_mongodb.equality p_table_options_mongodb.equality table_options_excel.equality
  p_table_options_excel.equality table_options_sqlserver.equality
  p_table_options_sqlserver.equality table_options_clickhouse.equality
  p_table_options_clickhouse.equality table_options_cassandra.equality
  p_table_options_cassandra.equality table_options_snowflake.equality
  p_table_options_snowflake.equality table_options_object_store.equality
  p_table_options_object_store.equality

lemma table_structs_exact [simp]:
  "table_options_debug_try_from_proto p1 = Ok v1 \<longleftrightarrow> p1 = table_options_debug_into_proto v1"
  "table_options_postgres_try_from_proto p2 = Ok v2 \<longleftrightarrow> p2 = table_options_postgres_into_proto v2"
  "table_options_bigquery_try_from_proto p3 = Ok v3 \<longleftrightarrow> p3 = table_options_bigquery_into_proto v3"
  "table_options_mysql_try_from_proto p4 = Ok v4 \<longleftrightarrow> p4 = table_options_mysql_into_proto v4"
  "table_options_local_try_from_proto p5 = Ok v5 \<longleftrightarrow> p5 = table_options_local_into_proto v5"
  "table_options_gcs_try_from_proto p6 = Ok v6 \<longleftrightarrow> p6 = table_options_gcs_into_proto v6"
  "table_options_s3_try_from_proto p7 = Ok v7 \<longleftrightarrow> p7 = table_options_s3_into_proto v7"
  "table_options_mongodb_try_from_proto p8 = Ok v8 \<longleftrightarrow> p8 = table_options_mongodb_into_proto v8"
  "table_options_excel_try_from_proto p9 = Ok v9 \<longleftrightarrow> p9 = table_options_excel_into_proto v9"
  "table_options_sqlserver_try_from_proto p10 = Ok v10 \<longleftrightarrow> p10 = table_options_sqlserver_into_proto v10"
  "table_options_clickhouse_try_from_proto p11 = Ok v11 \<longleftrightarrow> p11 = table_options_clickhouse_into_proto v11"
  "table_options_cassandra_try_from_proto p12 = Ok v12 \<longleftrightarrow> p12 = table_options_cassandra_into_proto v12"
  "table_options_snowflake_try_from_proto p13 = Ok v13 \<longleftrightarrow> p13 = table_options_snowflake_into_proto v13"
  "table_options_object_store_try_from_proto p14 = Ok v14 \<longleftrightarrow> p14 = table_options_object_store_into_proto v14"
  by (auto simp: wire_defs storage_codec.required_exact storage_codec.enc_eq_iff intro!: table_struct_eqI)

definition wire_columns ::
  "union_new \<Rightarrow> internal_column_definition list \<Rightarrow> bool" where
  "wire_columns un cs = list_all (wire_column un) cs"

definition wire_table_options :: "union_new \<Rightarrow> table_options_v0 \<Rightarrow> bool" where
  "wire_table_options un v = (case v of TO_Internal t \<Rightarrow> wire_columns un (toi_columns t) | _ \<Rightarrow> True)"

interpretation columns_codec: codec "wire_columns un" "traverse internal_column_definition_into_proto"
  "traverse (internal_column_definition_try_from_proto un)" for un
  by unfold_locales (auto simp: wire_columns_def column_codec.traverse_enc column_codec.traverse_dec)

interpretation table_internal_codec: codec "\<lambda>t. wire_columns un (toi_columns t)"
  table_options_internal_into_proto "table_options_internal_try_from_proto un" for un
  by unfold_locales (auto simp: wire_defs columns_codec.encodes columns_codec.decodes)

lemma table_options_decode:
  assumes "wire_table_options un v" and "table_options_v0_options_into_proto v = Ok p"
  shows "table_options_v0_options_try_from_proto un p = Ok v"
  using assms by (cases v) (auto simp: wire_table_options_def dest: table_internal_codec.decodes)

interpretation table_options_codec: codec "wire_table_options un" table_options_v0_into_proto
  "table_options_v0_try_from_proto un" for un
proof
  fix v assume v: "wire_table_options un v"
  show "is_ok (table_options_v0_into_proto v)"
    using v by (cases v) (auto simp: wire_table_options_def table_options_v0_into_proto_def is_ok_iff
        elim: table_internal_codec.encE)
  show "table_options_v0_try_from_proto un p = Ok v" if "table_options_v0_into_proto v = Ok p" for p
    using that table_options_decode [OF v]
    by (auto simp: table_options_v0_into_proto_def table_options_v0_try_from_proto_def)
qed

end
