(* ===== verification/Table_Options_V1.thy ===== *)
theory Table_Options_V1
  imports Table_Options_Proto
begin

section \<open>The named table options\<close>

text \<open>
  \<open>TableOptionsV1\<close> of \<open>crates/protogen/src/metastore/types/options.rs\<close>: table options as the name
  of their type and their JSON text, and the conversions from and to \<open>TableOptionsV0\<close>. The
  \<open>Serialize\<close> and \<open>Deserialize\<close> implementations of the option structs are derived by the \<open>serde\<close>
  crate and run by \<open>serde_json\<close>; the record \<open>serde\<close> holds them as parameters, one pair for each
  struct. \<open>serde_ok\<close> states that what a struct serializes to is JSON and deserializes to the
  struct again.
\<close>

record table_options_v1 =
  tov1_name :: string
  tov1_options :: bytes
  tov1_version :: u32

record 'a json =
  to_vec :: "'a \<Rightarrow> bytes option"
  from_slice :: "bytes \<Rightarrow> string + 'a"

record serde =
  sj_value :: "bytes \<Rightarrow> bool"
  sj_debug :: "table_options_debug json"
  sj_internal :: "table_options_internal json"
  sj_postgres :: "table_options_postgres json"
  sj_bigquery :: "table_options_bigquery json"
  sj_mysql :: "table_options_mysql json"
  sj_local :: "table_options_local json"
  sj_gcs :: "table_options_gcs json"
  sj_s3 :: "table_options_s3 json"
  sj_mongodb :: "table_options_mongodb json"
  sj_excel :: "table_options_excel json"
  sj_sqlserver :: "table_options_sqlserver json"
  sj_clickhouse :: "table_options_clickhouse json"
  sj_cassandra :: "table_options_cassandra json"
  sj_snowflake :: "table_options_snowflake json"
  sj_object_store :: "table_options_object_store json"

definition VERSION :: u32 where
  "VERSION = 1"

definition table_options_v1_new ::
  "'a json \<Rightarrow> string \<Rightarrow> 'a \<Rightarrow> (proto_conv_error, table_options_v1) outcome" where
  "table_options_v1_new j NAME opts =
     (case to_vec j opts of
        Some options \<Rightarrow> Ok \<lparr>tov1_name = NAME, tov1_options = options, tov1_version = VERSION\<rparr>
      | None \<Rightarrow> Panic ''options must serialize'')"

definition extract_v1 ::
  "'a json \<Rightarrow> string \<Rightarrow> table_options_v1 \<Rightarrow> 'a proto_result" where
  "extract_v1 j NAME v =
     (if tov1_name v \<noteq> NAME
      then Err (ParseError (''Expected table options of type '' @ NAME @ '', got '' @ tov1_name v))
      else case from_slice j (tov1_options v) of Inl e \<Rightarrow> Err (ParseError e) | Inr opts \<Rightarrow> Ok opts)"

definition extract_unchecked ::
  "'a json \<Rightarrow> table_options_v1 \<Rightarrow> (proto_conv_error, 'a) outcome" where
  "extract_unchecked j v =
     (case from_slice j (tov1_options v) of
        Inr opts \<Rightarrow> Ok opts
      | Inl e \<Rightarrow> Panic ''Options should infallibly deserialize. This indicates a programming error.'')"

text \<open>The names are the \<open>NAME\<close> constants of the \<open>TableOptionsImpl\<close> implementations.\<close>

fun table_options_v1_from_v0 ::
  "serde \<Rightarrow> table_options_v0 \<Rightarrow> (proto_conv_error, table_options_v1) outcome" where
  "table_options_v1_from_v0 S (TO_Debug opts) = table_options_v1_new (sj_debug S) ''debug'' opts"
| "table_options_v1_from_v0 S (TO_Internal opts) = table_options_v1_new (sj_internal S) ''internal'' opts"
| "table_options_v1_from_v0 S (TO_Postgres opts) = table_options_v1_new (sj_postgres S) ''postgres'' opts"
| "table_options_v1_from_v0 S (TO_BigQuery opts) = table_options_v1_new (sj_bigquery S) ''bigquery'' opts"
| "table_options_v1_from_v0 S (TO_Mysql opts) = table_options_v1_new (sj_mysql S) ''mysql'' opts"
| "table_options_v1_from_v0 S (TO_Local opts) = table_options_v1_new (sj_local S) ''local'' opts"
| "table_options_v1_from_v0 S (TO_Gcs opts) = table_options_v1_new (sj_gcs S) ''gcs'' opts"
| "table_options_v1_from_v0 S (TO_S3 opts) = table_options_v1_new (sj_s3 S) ''s3'' opts"
| "table_options_v1_from_v0 S (TO_MongoDb opts) = table_options_v1_new (sj_mongodb S) ''mongo'' opts"
| "table_options_v1_from_v0 S (TO_Snowflake opts) = table_options_v1_new (sj_snowflake S) ''snowflake'' opts"
| "table_options_v1_from_v0 S (TO_Delta opts) = table_options_v1_new (sj_object_store S) ''object_store'' opts"
| "table_options_v1_from_v0 S (TO_Iceberg opts) = table_options_v1_new (sj_object_store S) ''object_store'' opts"
| "table_options_v1_from_v0 S (TO_Azure opts) = table_options_v1_new (sj_object_store S) ''object_store'' opts"
| "table_options_v1_from_v0 S (TO_SqlServer opts) = table_options_v1_new (sj_sqlserver S) ''sql_server'' opts"
| "table_options_v1_from_v0 S (TO_Lance opts) = table_options_v1_new (sj_object_store S) ''object_store'' opts"
| "table_options_v1_from_v0 S (TO_Bson opts) = table_options_v1_new (sj_object_store S) ''object_store'' opts"
| "table_options_v1_from_v0 S (TO_Clickhouse opts) = table_options_v1_new (sj_clickhouse S) ''clickhouse'' opts"
| "table_options_v1_from_v0 S (TO_Cassandra opts) = table_options_v1_new (sj_cassandra S) ''cassandra'' opts"
| "table_options_v1_from_v0 S (TO_Excel opts) = table_options_v1_new (sj_excel S) ''excel'' opts"
| "table_options_v1_from_v0 S (TO_Sqlite opts) = table_options_v1_new (sj_object_store S) ''object_store'' opts"

definition object_store_v0 ::
  "string \<Rightarrow> table_options_object_store \<Rightarrow> table_options_v0 proto_result" where
  "object_store_v0 name obj_store =
     (let file_type = (case toos_file_type obj_store of Some s \<Rightarrow> s | None \<Rightarrow> []) in
      if file_type = ''delta'' then Ok (TO_Delta obj_store)
      else if file_type = ''iceberg'' then Ok (TO_Iceberg obj_store)
      else if file_type = ''azure'' then Ok (TO_Azure obj_store)
      else if file_type = ''lance'' then Ok (TO_Lance obj_store)
      else if file_type = ''bson'' then Ok (TO_Bson obj_store)
      else Err (UnknownVariant name))"

definition table_options_v0_try_from_v1 ::
  "serde \<Rightarrow> table_options_v1 \<Rightarrow> table_options_v0 proto_result" where
  "table_options_v0_try_from_v1 S v =
     (if \<not> sj_value S (tov1_options v) then Panic ''called unwrap on an Err value''
      else if tov1_name v = ''object_store'' then
        obind (extract_v1 (sj_object_store S) ''object_store'' v) (object_store_v0 (tov1_name v))
      else if tov1_name v = ''internal'' then
        obind (extract_v1 (sj_internal S) ''internal'' v) (\<lambda>opts. Ok (TO_Internal opts))
      else if tov1_name v = ''postgres'' then
        obind (extract_v1 (sj_postgres S) ''postgres'' v) (\<lambda>opts. Ok (TO_Postgres opts))
      else if tov1_name v = ''bigquery'' then
        obind (extract_v1 (sj_bigquery S) ''bigquery'' v) (\<lambda>opts. Ok (TO_BigQuery opts))
      else if tov1_name v = ''mysql'' then
        obind (extract_v1 (sj_mysql S) ''mysql'' v) (\<lambda>opts. Ok (TO_Mysql opts))
      else if tov1_name v = ''local'' then
        obind (extract_v1 (sj_local S) ''local'' v) (\<lambda>opts. Ok (TO_Local opts))
      else if tov1_name v = ''gcs'' then
        obind (extract_v1 (sj_gcs S) ''gcs'' v) (\<lambda>opts. Ok (TO_Gcs opts))
      else if tov1_name v = ''s3'' then
        obind (extract_v1 (sj_s3 S) ''s3'' v) (\<lambda>opts. Ok (TO_S3 opts))
      else if tov1_name v = ''mongo'' then
        obind (extract_v1 (sj_mongodb S) ''mongo'' v) (\<lambda>opts. Ok (TO_MongoDb opts))
      else if tov1_name v = ''snowflake'' then
        obind (extract_v1 (sj_snowflake S) ''snowflake'' v) (\<lambda>opts. Ok (TO_Snowflake opts))
      else if tov1_name v = ''sql_server'' then
        obind (extract_v1 (sj_sqlserver S) ''sql_server'' v) (\<lambda>opts. Ok (TO_SqlServer opts))
      else if tov1_name v = ''clickhouse'' then
        obind (extract_v1 (sj_clickhouse S) ''clickhouse'' v) (\<lambda>opts. Ok (TO_Clickhouse opts))
      else if tov1_name v = ''cassandra'' then
        obind (extract_v1 (sj_cassandra S) ''cassandra'' v) (\<lambda>opts. Ok (TO_Cassandra opts))
      else if tov1_name v = ''excel'' then
        obind (extract_v1 (sj_excel S) ''excel'' v) (\<lambda>opts. Ok (TO_Excel opts))
      else if tov1_name v = ''sqlite'' then
        obind (extract_v1 (sj_object_store S) ''object_store'' v) (\<lambda>opts. Ok (TO_Sqlite opts))
      else if tov1_name v = ''debug'' then
        obind (extract_v1 (sj_debug S) ''debug'' v) (\<lambda>opts. Ok (TO_Debug opts))
      else Err (UnknownVariant (tov1_name v)))"

subsection \<open>Wire format\<close>

record p_table_options_v1 =
  ptov1_name :: string
  ptov1_options :: bytes
  ptov1_version :: u32

definition table_options_v1_try_from_proto ::
  "p_table_options_v1 \<Rightarrow> table_options_v1 proto_result" where
  [wire_defs]: "table_options_v1_try_from_proto v =
     Ok \<lparr>tov1_name = ptov1_name v, tov1_options = ptov1_options v, tov1_version = ptov1_version v\<rparr>"

definition table_options_v1_into_proto :: "table_options_v1 \<Rightarrow> p_table_options_v1" where
  [wire_defs]: "table_options_v1_into_proto v =
     \<lparr>ptov1_name = tov1_name v, ptov1_options = tov1_options v, ptov1_version = tov1_version v\<rparr>"

interpretation table_options_v1_codec: exact_codec table_options_v1_into_proto table_options_v1_try_from_proto
  by unfold_locales
    (auto simp: wire_defs intro!: table_options_v1.equality p_table_options_v1.equality)

subsection \<open>Old options as new options and back\<close>

definition json_ok :: "(bytes \<Rightarrow> bool) \<Rightarrow> 'a json \<Rightarrow> bool" where
  "json_ok value j = (\<forall>x b. to_vec j x = Some b \<longrightarrow> value b \<and> from_slice j b = Inr x)"

definition serde_ok :: "serde \<Rightarrow> bool" where
  "serde_ok S =
     (json_ok (sj_value S) (sj_debug S) \<and>
      json_ok (sj_value S) (sj_internal S) \<and>
      json_ok (sj_value S) (sj_postgres S) \<and>
      json_ok (sj_value S) (sj_bigquery S) \<and>
      json_ok (sj_value S) (sj_mysql S) \<and>
      json_ok (sj_value S) (sj_local S) \<and>
      json_ok (sj_value S) (sj_gcs S) \<and>
      json_ok (sj_value S) (sj_s3 S) \<and>
      json_ok (sj_value S) (sj_mongodb S) \<and>
      json_ok (sj_value S) (sj_excel S) \<and>
      json_ok (sj_value S) (sj_sqlserver S) \<and>
      json_ok (sj_value S) (sj_clickhouse S) \<and>
      json_ok (sj_value S) (sj_cassandra S) \<and>
      json_ok (sj_value S) (sj_snowflake S) \<and>
      json_ok (sj_value S) (sj_object_store S))"

lemma new_extract:
  assumes "json_ok value j" and "table_options_v1_new j NAME opts = Ok v"
  shows "tov1_name v = NAME" and "tov1_version v = VERSION" and "value (tov1_options v)"
    and "extract_v1 j NAME v = Ok opts" and "extract_unchecked j v = Ok opts"
  using assms
  by (auto simp: table_options_v1_new_def extract_v1_def extract_unchecked_def json_ok_def split: option.splits)

text \<open>What the way back gives: the options of an object store are told apart by their file type,
  since they all share one name.\<close>

fun v0_through_v1 :: "table_options_v0 \<Rightarrow> table_options_v0 proto_result" where
  "v0_through_v1 (TO_Delta opts) = object_store_v0 ''object_store'' opts"
| "v0_through_v1 (TO_Iceberg opts) = object_store_v0 ''object_store'' opts"
| "v0_through_v1 (TO_Azure opts) = object_store_v0 ''object_store'' opts"
| "v0_through_v1 (TO_Lance opts) = object_store_v0 ''object_store'' opts"
| "v0_through_v1 (TO_Bson opts) = object_store_v0 ''object_store'' opts"
| "v0_through_v1 (TO_Sqlite opts) = object_store_v0 ''object_store'' opts"
| "v0_through_v1 v = Ok v"

lemma v1_arm:
  assumes "table_options_v1_new j NAME opts = Ok v" and "json_ok (sj_value S) j"
    and "tov1_name v = NAME \<Longrightarrow> sj_value S (tov1_options v) \<Longrightarrow> extract_v1 j NAME v = Ok opts \<Longrightarrow>
      table_options_v0_try_from_v1 S v = r"
  shows "table_options_v0_try_from_v1 S v = r"
  using assms(3) new_extract(1,3,4) [OF assms(2,1)] .

lemma v0_v1_v0:
  assumes S: "serde_ok S" and v: "table_options_v1_from_v0 S t = Ok v"
  shows "table_options_v0_try_from_v1 S v = v0_through_v1 t"
  using v S unfolding serde_ok_def
proof (induct t)
qed (simp only: table_options_v1_from_v0.simps v0_through_v1.simps, elim conjE, rule v1_arm, assumption,
    assumption, (thin_tac "json_ok _ _")+, simp add: table_options_v0_try_from_v1_def)+

end
