(* ===== verification/Catalog_Proto.thy ===== *)
theory Catalog_Proto
  imports Table_Options_V1 Catalog_Types
begin

section \<open>Catalog entries on the wire\<close>

text \<open>
  The messages of \<open>crates/protogen/proto/metastore/catalog.proto\<close> and the conversions of
  \<open>crates/protogen/src/metastore/types/catalog.rs\<close>. A conversion whose type is infallible but
  which calls \<open>unwrap\<close> returns an outcome, so that its panics show.
\<close>

subsection \<open>Enums\<close>

fun entry_type_to_i32 :: "entry_type \<Rightarrow> i32" where
  "entry_type_to_i32 ET_Database = 1"
| "entry_type_to_i32 ET_Schema = 2"
| "entry_type_to_i32 ET_Table = 3"
| "entry_type_to_i32 ET_View = 4"
| "entry_type_to_i32 ET_Tunnel = 5"
| "entry_type_to_i32 ET_Function = 6"
| "entry_type_to_i32 ET_Credentials = 7"

definition entry_type_try_from :: "i32 \<Rightarrow> entry_type proto_result" where
  "entry_type_try_from v =
     (if v = 0 then Err (ZeroValueEnumVariant ''EntryType'')
      else if v = 1 then Ok ET_Database
      else if v = 2 then Ok ET_Schema
      else if v = 3 then Ok ET_Table
      else if v = 4 then Ok ET_View
      else if v = 5 then Ok ET_Tunnel
      else if v = 6 then Ok ET_Function
      else if v = 7 then Ok ET_Credentials
      else Err (UnknownEnumVariant ''EntryType'' v))"

fun source_access_mode_to_i32 :: "source_access_mode \<Rightarrow> i32" where
  "source_access_mode_to_i32 ReadOnly = 0"
| "source_access_mode_to_i32 ReadWrite = 1"

fun source_access_mode_as_str :: "source_access_mode \<Rightarrow> string" where
  "source_access_mode_as_str ReadOnly = ''READ_ONLY''"
| "source_access_mode_as_str ReadWrite = ''READ_WRITE''"

definition source_access_mode_try_from :: "i32 \<Rightarrow> source_access_mode proto_result" where
  "source_access_mode_try_from v =
     (if v = 0 then Ok ReadOnly
      else if v = 1 then Ok ReadWrite
      else Err (ParseError (''invalid source access mode: '' @ dec_of_int (sint v))))"

fun function_type_to_i32 :: "function_type \<Rightarrow> i32" where
  "function_type_to_i32 Aggregate = 1"
| "function_type_to_i32 Scalar = 2"
| "function_type_to_i32 TableReturning = 3"

definition function_type_try_from :: "i32 \<Rightarrow> function_type proto_result" where
  "function_type_try_from v =
     (if v = 0 then Err (ZeroValueEnumVariant ''FunctionType'')
      else if v = 1 then Ok Aggregate
      else if v = 2 then Ok Scalar
      else if v = 3 then Ok TableReturning
      else Err (UnknownEnumVariant ''FunctionType'' v))"

datatype runtime_preference = RP_Unspecified | RP_Local | RP_Remote

fun runtime_preference_as_str :: "runtime_preference \<Rightarrow> string" where
  "runtime_preference_as_str RP_Unspecified = ''unspecified''"
| "runtime_preference_as_str RP_Local = ''local''"
| "runtime_preference_as_str RP_Remote = ''remote''"

fun runtime_preference_to_i32 :: "runtime_preference \<Rightarrow> i32" where
  "runtime_preference_to_i32 RP_Unspecified = 0"
| "runtime_preference_to_i32 RP_Local = 1"
| "runtime_preference_to_i32 RP_Remote = 2"

definition runtime_preference_try_from :: "i32 \<Rightarrow> runtime_preference proto_result" where
  "runtime_preference_try_from v =
     (if v = 0 then Ok RP_Unspecified
      else if v = 1 then Ok RP_Local
      else if v = 2 then Ok RP_Remote
      else Err (UnknownEnumVariant ''RuntimePreference'' v))"

fun volatility_to_i32 :: "volatility \<Rightarrow> i32" where
  "volatility_to_i32 Immutable = 0"
| "volatility_to_i32 Stable = 1"
| "volatility_to_i32 Volatile = 2"

text \<open>The number of a volatility is decoded by the generated \<open>TryFrom<i32>\<close>, whose error is a
  \<open>prost::DecodeError\<close>.\<close>

definition volatility_try_from :: "i32 \<Rightarrow> volatility proto_result" where
  "volatility_try_from v =
     (if v = 0 then Ok Immutable
      else if v = 1 then Ok Stable
      else if v = 2 then Ok Volatile
      else Err DecodeError)"

interpretation entry_type_codec: exact_codec entry_type_to_i32 entry_type_try_from
  by unfold_locales (case_tac x; auto simp: entry_type_try_from_def)

interpretation access_mode_codec: exact_codec source_access_mode_to_i32 source_access_mode_try_from
  by unfold_locales (case_tac x; auto simp: source_access_mode_try_from_def)

interpretation function_type_codec: exact_codec function_type_to_i32 function_type_try_from
  by unfold_locales (case_tac x; auto simp: function_type_try_from_def)

interpretation runtime_preference_codec:
  exact_codec runtime_preference_to_i32 runtime_preference_try_from
  by unfold_locales (case_tac x; auto simp: runtime_preference_try_from_def)

interpretation volatility_codec: exact_codec volatility_to_i32 volatility_try_from
  by unfold_locales (case_tac x; auto simp: volatility_try_from_def)

lemmas enum_exact [simp] =
  entry_type_codec.exact access_mode_codec.exact function_type_codec.exact
  runtime_preference_codec.exact volatility_codec.exact
  entry_type_codec.enc_eq_iff access_mode_codec.enc_eq_iff function_type_codec.enc_eq_iff
  runtime_preference_codec.enc_eq_iff volatility_codec.enc_eq_iff

subsection \<open>Messages\<close>

record p_entry_meta =
  pmeta_entry_type :: i32
  pmeta_id :: oid
  pmeta_parent :: oid
  pmeta_name :: string
  pmeta_builtin :: bool
  pmeta_external :: bool
  pmeta_is_temp :: bool

record p_database_entry =
  pde_meta :: "p_entry_meta option"
  pde_options :: "p_database_options option"
  pde_tunnel_id :: "oid option"
  pde_access_mode :: i32

record p_schema_entry =
  pse_meta :: "p_entry_meta option"

record p_table_entry =
  pte_meta :: "p_entry_meta option"
  pte_options_v0 :: "p_table_options_v0 option"
  pte_tunnel_id :: "oid option"
  pte_access_mode :: i32
  pte_columns :: "p_internal_column_definition list"
  pte_options :: "p_table_options_v1 option"

record p_view_entry =
  pve_meta :: "p_entry_meta option"
  pve_sql :: string
  pve_columns :: "string list"

record p_tunnel_entry =
  ptu_meta :: "p_entry_meta option"
  ptu_options :: "p_tunnel_options option"

datatype p_type_signature = PTypeSignature "p_type_signature_signature option"
and p_type_signature_signature =
    PTS_Variadic "arrow_type list"
  | PTS_VariadicEqual
  | PTS_VariadicAny
  | PTS_Uniform u32 "arrow_type list"
  | PTS_Exact "arrow_type list"
  | PTS_Any u32
  | PTS_OneOf "p_type_signature list"

record p_signature =
  psig_volatility :: i32
  psig_type_signature :: "p_type_signature option"

record p_function_entry =
  pfe_meta :: "p_entry_meta option"
  pfe_func_type :: i32
  pfe_signature :: "p_signature option"
  pfe_user_defined :: bool

record p_credentials_entry =
  pce_meta :: "p_entry_meta option"
  pce_options :: "p_credentials_options option"
  pce_comment :: string

datatype p_catalog_entry_entry =
    PE_Database p_database_entry
  | PE_Schema p_schema_entry
  | PE_Table p_table_entry
  | PE_View p_view_entry
  | PE_Tunnel p_tunnel_entry
  | PE_Function p_function_entry
  | PE_Credentials p_credentials_entry

record p_catalog_entry =
  pent_entry :: "p_catalog_entry_entry option"

record p_deployment_metadata =
  pdm_storage_size :: u64

record p_catalog_state =
  pcs_catalog_version :: "u32 option"
  pcs_version :: u64
  pcs_entries :: "(oid, p_catalog_entry) hashmap"
  pcs_deployment :: "p_deployment_metadata option"

subsection \<open>Entry metadata and the entries without Arrow types\<close>

definition entry_meta_into_proto :: "entry_meta \<Rightarrow> p_entry_meta" where
  [wire_defs]: "entry_meta_into_proto v =
     \<lparr>pmeta_entry_type = entry_type_to_i32 (meta_entry_type v), pmeta_id = meta_id v,
      pmeta_parent = meta_parent v, pmeta_name = meta_name v, pmeta_builtin = meta_builtin v,
      pmeta_external = meta_external v, pmeta_is_temp = meta_is_temp v\<rparr>"

definition entry_meta_try_from_proto :: "p_entry_meta \<Rightarrow> entry_meta proto_result" where
  [wire_defs]: "entry_meta_try_from_proto v =
     obind (entry_type_try_from (pmeta_entry_type v)) (\<lambda>entry_type.
     Ok \<lparr>meta_entry_type = entry_type, meta_id = pmeta_id v, meta_parent = pmeta_parent v,
          meta_name = pmeta_name v, meta_builtin = pmeta_builtin v,
          meta_external = pmeta_external v, meta_is_temp = pmeta_is_temp v\<rparr>)"

definition database_entry_try_from_proto :: "p_database_entry \<Rightarrow> database_entry proto_result" where
  [wire_defs]: "database_entry_try_from_proto v =
     obind (required entry_meta_try_from_proto ''meta'' (pde_meta v)) (\<lambda>meta.
     obind (required database_options_try_from_proto ''options'' (pde_options v)) (\<lambda>options.
     obind (source_access_mode_try_from (pde_access_mode v)) (\<lambda>access_mode.
     Ok \<lparr>de_meta = meta, de_options = options, de_tunnel_id = pde_tunnel_id v,
          de_access_mode = access_mode\<rparr>)))"

definition database_entry_into_proto :: "database_entry \<Rightarrow> p_database_entry" where
  [wire_defs]: "database_entry_into_proto v =
     \<lparr>pde_meta = Some (entry_meta_into_proto (de_meta v)),
      pde_options = Some (database_options_into_proto (de_options v)),
      pde_tunnel_id = de_tunnel_id v,
      pde_access_mode = source_access_mode_to_i32 (de_access_mode v)\<rparr>"

definition schema_entry_try_from_proto :: "p_schema_entry \<Rightarrow> schema_entry proto_result" where
  [wire_defs]: "schema_entry_try_from_proto v =
     obind (required entry_meta_try_from_proto ''meta'' (pse_meta v)) (\<lambda>meta. Ok \<lparr>se_meta = meta\<rparr>)"

definition schema_entry_into_proto :: "schema_entry \<Rightarrow> p_schema_entry" where
  [wire_defs]: "schema_entry_into_proto v = \<lparr>pse_meta = Some (entry_meta_into_proto (se_meta v))\<rparr>"

definition view_entry_try_from_proto :: "p_view_entry \<Rightarrow> view_entry proto_result" where
  [wire_defs]: "view_entry_try_from_proto v =
     obind (required entry_meta_try_from_proto ''meta'' (pve_meta v)) (\<lambda>meta.
     Ok \<lparr>ve_meta = meta, ve_sql = pve_sql v, ve_columns = pve_columns v\<rparr>)"

definition view_entry_into_proto :: "view_entry \<Rightarrow> p_view_entry" where
  [wire_defs]: "view_entry_into_proto v =
     \<lparr>pve_meta = Some (entry_meta_into_proto (ve_meta v)), pve_sql = ve_sql v,
      pve_columns = ve_columns v\<rparr>"

definition tunnel_entry_try_from_proto :: "p_tunnel_entry \<Rightarrow> tunnel_entry proto_result" where
  [wire_defs]: "tunnel_entry_try_from_proto v =
     obind (required entry_meta_try_from_proto ''meta'' (ptu_meta v)) (\<lambda>meta.
     obind (required tunnel_options_try_from_proto ''options'' (ptu_options v)) (\<lambda>options.
     Ok \<lparr>tu_meta = meta, tu_options = options\<rparr>))"

definition tunnel_entry_into_proto :: "tunnel_entry \<Rightarrow> p_tunnel_entry" where
  [wire_defs]: "tunnel_entry_into_proto v =
     \<lparr>ptu_meta = Some (entry_meta_into_proto (tu_meta v)),
      ptu_options = Some (tunnel_options_into_proto (tu_options v))\<rparr>"

definition credentials_entry_try_from_proto :: "p_credentials_entry \<Rightarrow> credentials_entry proto_result" where
  [wire_defs]: "credentials_entry_try_from_proto v =
     obind (required entry_meta_try_from_proto ''meta'' (pce_meta v)) (\<lambda>meta.
     obind (required credentials_options_try_from_proto ''options'' (pce_options v)) (\<lambda>options.
     Ok \<lparr>ce_meta = meta, ce_options = options, ce_comment = pce_comment v\<rparr>))"

definition credentials_entry_into_proto :: "credentials_entry \<Rightarrow> p_credentials_entry" where
  [wire_defs]: "credentials_entry_into_proto v =
     \<lparr>pce_meta = Some (entry_meta_into_proto (ce_meta v)),
      pce_options = Some (credentials_options_into_proto (ce_options v)),
      pce_comment = ce_comment v\<rparr>"

subsection \<open>Table and function entries\<close>

text \<open>Both directions of a table entry treat an empty column list and no column list alike.\<close>

definition opt_columns :: "'c list \<Rightarrow> 'c list option" where
  "opt_columns columns = (if columns = [] then None else Some columns)"

definition table_entry_try_from_proto ::
  "union_new \<Rightarrow> p_table_entry \<Rightarrow> table_entry proto_result" where
  [wire_defs]: "table_entry_try_from_proto un v =
     obind (required entry_meta_try_from_proto ''meta'' (pte_meta v)) (\<lambda>meta.
     if pte_options v \<noteq> None
     then Err (UnsupportedSerialization ''new table options not suppported'')
     else
       obind (traverse (internal_column_definition_try_from_proto un) (pte_columns v)) (\<lambda>columns.
       obind (required (table_options_v0_try_from_proto un) ''options_v0'' (pte_options_v0 v)) (\<lambda>options.
       obind (source_access_mode_try_from (pte_access_mode v)) (\<lambda>access_mode.
       Ok \<lparr>te_meta = meta, te_options = options, te_tunnel_id = pte_tunnel_id v,
            te_access_mode = access_mode, te_columns = opt_columns columns\<rparr>))))"

definition table_entry_into_proto :: "table_entry \<Rightarrow> (proto_conv_error, p_table_entry) outcome" where
  [wire_defs]: "table_entry_into_proto v =
     obind (traverse internal_column_definition_into_proto
       (case te_columns v of Some columns \<Rightarrow> columns | None \<Rightarrow> [])) (\<lambda>columns.
     obind (ounwrap (table_options_v0_into_proto (te_options v))) (\<lambda>options_v0.
     Ok \<lparr>pte_meta = Some (entry_meta_into_proto (te_meta v)), pte_options_v0 = Some options_v0,
          pte_tunnel_id = te_tunnel_id v,
          pte_access_mode = source_access_mode_to_i32 (te_access_mode v),
          pte_columns = columns, pte_options = None\<rparr>))"

text \<open>A signature the conversion has no arm for meets \<open>unimplemented!\<close>. The argument counts are
  cut to 32 bits.\<close>

abbreviation unwrap_arrow :: "data_type list \<Rightarrow> (proto_conv_error, arrow_type list) outcome" where
  "unwrap_arrow args \<equiv> traverse (\<lambda>t. ounwrap (arrow_type_try_from t)) args"

fun type_signature_into_proto :: "type_signature \<Rightarrow> (proto_conv_error, p_type_signature) outcome" where
  "type_signature_into_proto (TS_Variadic args) =
     obind (unwrap_arrow args) (\<lambda>args. Ok (PTypeSignature (Some (PTS_Variadic args))))"
| "type_signature_into_proto TS_VariadicEqual = Ok (PTypeSignature (Some PTS_VariadicEqual))"
| "type_signature_into_proto TS_VariadicAny = Ok (PTypeSignature (Some PTS_VariadicAny))"
| "type_signature_into_proto (TS_Uniform n args) =
     obind (unwrap_arrow args) (\<lambda>args. Ok (PTypeSignature (Some (PTS_Uniform (ucast n) args))))"
| "type_signature_into_proto (TS_Exact args) =
     obind (unwrap_arrow args) (\<lambda>args. Ok (PTypeSignature (Some (PTS_Exact args))))"
| "type_signature_into_proto (TS_Any n) = Ok (PTypeSignature (Some (PTS_Any (ucast n))))"
| "type_signature_into_proto (TS_OneOf sigs) =
     obind (traverse type_signature_into_proto sigs) (\<lambda>sigs.
       Ok (PTypeSignature (Some (PTS_OneOf sigs))))"
| "type_signature_into_proto TS_Other = Panic ''not implemented''"

fun type_signature_try_from_proto ::
  "union_new \<Rightarrow> p_type_signature \<Rightarrow> type_signature proto_result"
  and type_signature_signature_try_from_proto ::
  "union_new \<Rightarrow> p_type_signature_signature \<Rightarrow> type_signature proto_result" where
  "type_signature_try_from_proto un (PTypeSignature None) = Panic ''called unwrap on a None value''"
| "type_signature_try_from_proto un (PTypeSignature (Some s)) =
     type_signature_signature_try_from_proto un s"
| "type_signature_signature_try_from_proto un (PTS_Variadic args) =
     obind (traverse (data_type_try_from un) args) (\<lambda>args. Ok (TS_Variadic args))"
| "type_signature_signature_try_from_proto un PTS_VariadicEqual = Ok TS_VariadicEqual"
| "type_signature_signature_try_from_proto un PTS_VariadicAny = Ok TS_VariadicAny"
| "type_signature_signature_try_from_proto un (PTS_Uniform n args) =
     obind (traverse (data_type_try_from un) args) (\<lambda>args. Ok (TS_Uniform (ucast n) args))"
| "type_signature_signature_try_from_proto un (PTS_Exact args) =
     obind (traverse (data_type_try_from un) args) (\<lambda>args. Ok (TS_Exact args))"
| "type_signature_signature_try_from_proto un (PTS_Any n) = Ok (TS_Any (ucast n))"
| "type_signature_signature_try_from_proto un (PTS_OneOf args) =
     obind (traverse (type_signature_try_from_proto un) args) (\<lambda>args. Ok (TS_OneOf args))"

definition signature_into_proto :: "signature \<Rightarrow> (proto_conv_error, p_signature) outcome" where
  [wire_defs]: "signature_into_proto v =
     obind (type_signature_into_proto (sig_type_signature v)) (\<lambda>type_signature.
     Ok \<lparr>psig_volatility = volatility_to_i32 (sig_volatility v),
          psig_type_signature = Some type_signature\<rparr>)"

definition signature_try_from_proto :: "union_new \<Rightarrow> p_signature \<Rightarrow> signature proto_result" where
  [wire_defs]: "signature_try_from_proto un v =
     obind (volatility_try_from (psig_volatility v)) (\<lambda>volatility.
     obind (required (type_signature_try_from_proto un) ''type_signature'' (psig_type_signature v))
       (\<lambda>type_signature.
     Ok \<lparr>sig_type_signature = type_signature, sig_volatility = volatility\<rparr>))"

definition function_entry_try_from_proto ::
  "union_new \<Rightarrow> p_function_entry \<Rightarrow> function_entry proto_result" where
  [wire_defs]: "function_entry_try_from_proto un v =
     obind (required entry_meta_try_from_proto ''meta'' (pfe_meta v)) (\<lambda>meta.
     obind (function_type_try_from (pfe_func_type v)) (\<lambda>func_type.
     obind (optional (signature_try_from_proto un) (pfe_signature v)) (\<lambda>signature.
     Ok \<lparr>fe_meta = meta, fe_func_type = func_type, fe_signature = signature,
          fe_user_defined = pfe_user_defined v\<rparr>)))"

definition function_entry_into_proto ::
  "function_entry \<Rightarrow> (proto_conv_error, p_function_entry) outcome" where
  [wire_defs]: "function_entry_into_proto v =
     obind (optional signature_into_proto (fe_signature v)) (\<lambda>signature.
     Ok \<lparr>pfe_meta = Some (entry_meta_into_proto (fe_meta v)),
          pfe_func_type = function_type_to_i32 (fe_func_type v),
          pfe_signature = signature, pfe_user_defined = fe_user_defined v\<rparr>)"

subsection \<open>Entries and the catalog state\<close>

fun catalog_entry_entry_try_from_proto ::
  "union_new \<Rightarrow> p_catalog_entry_entry \<Rightarrow> catalog_entry proto_result" where
  "catalog_entry_entry_try_from_proto un (PE_Database v) =
     obind (database_entry_try_from_proto v) (\<lambda>v. Ok (Database v))"
| "catalog_entry_entry_try_from_proto un (PE_Schema v) =
     obind (schema_entry_try_from_proto v) (\<lambda>v. Ok (Schema v))"
| "catalog_entry_entry_try_from_proto un (PE_Table v) =
     obind (table_entry_try_from_proto un v) (\<lambda>v. Ok (Table v))"
| "catalog_entry_entry_try_from_proto un (PE_View v) =
     obind (view_entry_try_from_proto v) (\<lambda>v. Ok (View v))"
| "catalog_entry_entry_try_from_proto un (PE_Tunnel v) =
     obind (tunnel_entry_try_from_proto v) (\<lambda>v. Ok (Tunnel v))"
| "catalog_entry_entry_try_from_proto un (PE_Function v) =
     obind (function_entry_try_from_proto un v) (\<lambda>v. Ok (Function v))"
| "catalog_entry_entry_try_from_proto un (PE_Credentials v) =
     obind (credentials_entry_try_from_proto v) (\<lambda>v. Ok (Credentials v))"

definition catalog_entry_try_from_proto ::
  "union_new \<Rightarrow> p_catalog_entry \<Rightarrow> catalog_entry proto_result" where
  [wire_defs]: "catalog_entry_try_from_proto un v =
     required (catalog_entry_entry_try_from_proto un) ''entry'' (pent_entry v)"

fun catalog_entry_entry_into_proto ::
  "catalog_entry \<Rightarrow> (proto_conv_error, p_catalog_entry_entry) outcome" where
  "catalog_entry_entry_into_proto (Database v) = Ok (PE_Database (database_entry_into_proto v))"
| "catalog_entry_entry_into_proto (Schema v) = Ok (PE_Schema (schema_entry_into_proto v))"
| "catalog_entry_entry_into_proto (View v) = Ok (PE_View (view_entry_into_proto v))"
| "catalog_entry_entry_into_proto (Table v) = obind (table_entry_into_proto v) (\<lambda>v. Ok (PE_Table v))"
| "catalog_entry_entry_into_proto (Tunnel v) = Ok (PE_Tunnel (tunnel_entry_into_proto v))"
| "catalog_entry_entry_into_proto (Function v) =
     obind (function_entry_into_proto v) (\<lambda>v. Ok (PE_Function v))"
| "catalog_entry_entry_into_proto (Credentials v) =
     Ok (PE_Credentials (credentials_entry_into_proto v))"

definition catalog_entry_into_proto :: "catalog_entry \<Rightarrow> p_catalog_entry proto_result" where
  [wire_defs]: "catalog_entry_into_proto v =
     obind (catalog_entry_entry_into_proto v) (\<lambda>ent. Ok \<lparr>pent_entry = Some ent\<rparr>)"

definition deployment_metadata_try_from_proto ::
  "p_deployment_metadata \<Rightarrow> deployment_metadata proto_result" where
  [wire_defs]: "deployment_metadata_try_from_proto v = Ok \<lparr>dm_storage_size = pdm_storage_size v\<rparr>"

definition deployment_metadata_into_proto :: "deployment_metadata \<Rightarrow> p_deployment_metadata" where
  [wire_defs]: "deployment_metadata_into_proto v = \<lparr>pdm_storage_size = dm_storage_size v\<rparr>"

text \<open>The loop over the received entries fills a new hash map.\<close>

definition catalog_state_try_from_proto ::
  "union_new \<Rightarrow> p_catalog_state \<Rightarrow> catalog_state proto_result" where
  [wire_defs]: "catalog_state_try_from_proto un v =
     obind (ofold (\<lambda>(i, ent) entries.
         obind (catalog_entry_try_from_proto un ent) (\<lambda>ent. Ok (hm_insert i ent entries)))
       (pcs_entries v) []) (\<lambda>entries.
     obind (optional deployment_metadata_try_from_proto (pcs_deployment v)) (\<lambda>deployment.
     Ok \<lparr>cs_version = pcs_version v, cs_entries = entries,
          cs_deployment = (case deployment of Some d \<Rightarrow> d | None \<Rightarrow> deployment_metadata_default),
          cs_catalog_version = (case pcs_catalog_version v of Some n \<Rightarrow> n | None \<Rightarrow> 0)\<rparr>))"

definition catalog_state_into_proto :: "catalog_state \<Rightarrow> p_catalog_state proto_result" where
  [wire_defs]: "catalog_state_into_proto v =
     obind (traverse (\<lambda>(i, ent). obind (catalog_entry_into_proto ent) (\<lambda>ent. Ok (i, ent)))
       (cs_entries v)) (\<lambda>entries.
     Ok \<lparr>pcs_catalog_version = Some (cs_catalog_version v), pcs_version = cs_version v,
          pcs_entries = hm_extend [] entries,
          pcs_deployment = Some (deployment_metadata_into_proto (cs_deployment v))\<rparr>)"

end
