(* ===== verification/Catalog_Codec.thy ===== *)
theory Catalog_Codec
  imports Catalog_Proto
begin

section \<open>The contracts of the catalog conversions\<close>

text \<open>
  The round trips of theory \<open>Catalog_Proto\<close>: the entries without Arrow types are exact; table and
  function entries and the catalog state are decoded to what was encoded on the values that the
  predicates \<open>wire_table\<close>, \<open>wire_signature\<close>, \<open>wire_entry\<close> and \<open>wire_state\<close> describe.
\<close>

interpretation entry_meta_codec: exact_codec entry_meta_into_proto entry_meta_try_from_proto
  by unfold_locales (auto simp: wire_defs
      intro!: entry_meta.equality p_entry_meta.equality)

lemmas message_exact =
  entry_meta_codec.required_exact database_options_codec.required_exact
  tunnel_options_codec.required_exact credentials_options_codec.required_exact
  entry_meta_codec.enc_eq_iff database_options_codec.enc_eq_iff tunnel_options_codec.enc_eq_iff
  credentials_options_codec.enc_eq_iff

interpretation database_entry_codec: exact_codec database_entry_into_proto database_entry_try_from_proto
  by unfold_locales
    (auto simp: database_entry_into_proto_def database_entry_try_from_proto_def message_exact
      intro!: database_entry.equality p_database_entry.equality)

interpretation schema_entry_codec: exact_codec schema_entry_into_proto schema_entry_try_from_proto
  by unfold_locales
    (auto simp: schema_entry_into_proto_def schema_entry_try_from_proto_def message_exact
      intro!: schema_entry.equality p_schema_entry.equality)

interpretation view_entry_codec: exact_codec view_entry_into_proto view_entry_try_from_proto
  by unfold_locales
    (auto simp: view_entry_into_proto_def view_entry_try_from_proto_def message_exact
      intro!: view_entry.equality p_view_entry.equality)

interpretation tunnel_entry_codec: exact_codec tunnel_entry_into_proto tunnel_entry_try_from_proto
  by unfold_locales
    (auto simp: tunnel_entry_into_proto_def tunnel_entry_try_from_proto_def message_exact
      intro!: tunnel_entry.equality p_tunnel_entry.equality)

interpretation credentials_entry_codec:
  exact_codec credentials_entry_into_proto credentials_entry_try_from_proto
  by unfold_locales
    (auto simp: credentials_entry_into_proto_def credentials_entry_try_from_proto_def message_exact
      intro!: credentials_entry.equality p_credentials_entry.equality)

interpretation deployment_codec:
  exact_codec deployment_metadata_into_proto deployment_metadata_try_from_proto
  by unfold_locales (auto simp: wire_defs intro!: deployment_metadata.equality p_deployment_metadata.equality)

subsection \<open>Table entries\<close>

definition wire_table :: "union_new \<Rightarrow> table_entry \<Rightarrow> bool" where
  "wire_table un t =
     (wire_table_options un (te_options t) \<and>
      (case te_columns t of None \<Rightarrow> True | Some cs \<Rightarrow> cs \<noteq> [] \<and> wire_columns un cs))"

lemma wire_columns_Nil [simp]: "wire_columns un []"
  by (simp add: wire_columns_def)

lemma wire_table_columns:
  "wire_table un t \<Longrightarrow> wire_columns un (case te_columns t of Some cs \<Rightarrow> cs | None \<Rightarrow> [])"
  by (auto simp: wire_table_def split: option.splits)

lemma opt_columns_roundtrip:
  "wire_table un t \<Longrightarrow> opt_columns (case te_columns t of Some cs \<Rightarrow> cs | None \<Rightarrow> []) = te_columns t"
  by (auto simp: wire_table_def opt_columns_def split: option.splits)

interpretation table_codec: codec "wire_table un" table_entry_into_proto "table_entry_try_from_proto un" for un
proof
  fix t assume t: "wire_table un t"
  obtain cs where cs: "traverse internal_column_definition_into_proto
        (case te_columns t of Some columns \<Rightarrow> columns | None \<Rightarrow> []) = Ok cs"
      "traverse (internal_column_definition_try_from_proto un) cs =
        Ok (case te_columns t of Some columns \<Rightarrow> columns | None \<Rightarrow> [])"
    using columns_codec.encE [OF wire_table_columns [OF t]] by blast
  obtain ov where ov: "table_options_v0_into_proto (te_options t) = Ok ov"
      "table_options_v0_try_from_proto un ov = Ok (te_options t)"
    using table_options_codec.encE t by (auto simp: wire_table_def)
  show "is_ok (table_entry_into_proto t)"
    using cs ov by (simp add: table_entry_into_proto_def)
  show "table_entry_try_from_proto un p = Ok t" if "table_entry_into_proto t = Ok p" for p
    using that cs ov opt_columns_roundtrip [OF t]
    by (auto simp: table_entry_into_proto_def table_entry_try_from_proto_def)
qed

subsection \<open>Function signatures\<close>

fun wire_type_signature :: "union_new \<Rightarrow> type_signature \<Rightarrow> bool" where
  "wire_type_signature un (TS_Variadic args) = list_all (wire_type un) args"
| "wire_type_signature un TS_VariadicEqual = True"
| "wire_type_signature un TS_VariadicAny = True"
| "wire_type_signature un (TS_Uniform n args) = (n < 2 ^ 32 \<and> list_all (wire_type un) args)"
| "wire_type_signature un (TS_Exact args) = list_all (wire_type un) args"
| "wire_type_signature un (TS_Any n) = (n < 2 ^ 32)"
| "wire_type_signature un (TS_OneOf sigs) = list_all (wire_type_signature un) sigs"
| "wire_type_signature un TS_Other = False"

lemma count_roundtrip [simp]: "n < 2 ^ 32 \<Longrightarrow> ucast (ucast (n :: u64) :: u32) = n"
  by (simp add: word_uint_eq_iff unsigned_ucast_eq unsigned_take_bit_eq word_less_def
      take_bit_int_eq_self_iff)

lemma unwrap_arrow_enc:
  "list_all (wire_type un) args \<Longrightarrow>
   \<exists>ps. unwrap_arrow args = Ok ps \<and> traverse (data_type_try_from un) ps = Ok args"
proof (induction args)
  case (Cons t args)
  then obtain p where "arrow_type_try_from t = Ok p" "data_type_try_from un p = Ok t"
    by (auto elim: type_codec.encE)
  with Cons show ?case by auto
qed simp

lemma type_signature_roundtrip:
  "wire_type_signature un s \<Longrightarrow>
   \<exists>p. type_signature_into_proto s = Ok p \<and> type_signature_try_from_proto un p = Ok s"
proof (induction s rule: type_signature_into_proto.induct)
  case (7 sigs)
  have "\<exists>ps. traverse type_signature_into_proto sigs = Ok ps \<and>
      traverse (type_signature_try_from_proto un) ps = Ok sigs"
    using 7
  proof (induction sigs)
    case (Cons s sigs)
    from Cons.prems obtain p where p: "type_signature_into_proto s = Ok p"
      "type_signature_try_from_proto un p = Ok s" using Cons.prems(1) [of s] by auto
    from Cons obtain ps where "traverse type_signature_into_proto sigs = Ok ps"
      "traverse (type_signature_try_from_proto un) ps = Ok sigs" by auto
    with p show ?case by auto
  qed simp
  then show ?case by auto
qed (auto dest: unwrap_arrow_enc)

definition wire_signature :: "union_new \<Rightarrow> signature \<Rightarrow> bool" where
  "wire_signature un s = wire_type_signature un (sig_type_signature s)"

interpretation signature_codec: codec "wire_signature un" signature_into_proto
  "signature_try_from_proto un" for un
  by unfold_locales
    (auto simp: wire_signature_def signature_into_proto_def signature_try_from_proto_def is_ok_iff
      dest!: type_signature_roundtrip)

definition wire_function :: "union_new \<Rightarrow> function_entry \<Rightarrow> bool" where
  "wire_function un f = (case fe_signature f of None \<Rightarrow> True | Some s \<Rightarrow> wire_signature un s)"

interpretation function_codec: codec "wire_function un" function_entry_into_proto
  "function_entry_try_from_proto un" for un
  by unfold_locales
    (auto simp: wire_function_def function_entry_into_proto_def function_entry_try_from_proto_def
      is_ok_iff optional_def split: option.splits elim!: signature_codec.encE
      intro!: function_entry.equality)

subsection \<open>Entries\<close>

fun wire_entry :: "union_new \<Rightarrow> catalog_entry \<Rightarrow> bool" where
  "wire_entry un (Table t) = wire_table un t"
| "wire_entry un (Function f) = wire_function un f"
| "wire_entry un _ = True"

lemma catalog_entry_entry_roundtrip:
  "wire_entry un e \<Longrightarrow>
   \<exists>p. catalog_entry_entry_into_proto e = Ok p \<and> catalog_entry_entry_try_from_proto un p = Ok e"
  by (cases e) (auto elim: table_codec.encE function_codec.encE)

interpretation entry_codec: codec "wire_entry un" catalog_entry_into_proto "catalog_entry_try_from_proto un"
  for un
  by unfold_locales
    (auto simp: catalog_entry_into_proto_def catalog_entry_try_from_proto_def is_ok_iff
      dest!: catalog_entry_entry_roundtrip)

subsection \<open>The catalog state\<close>

lemma hm_insert_fresh: "hm_get m k = None \<Longrightarrow> hm_insert k v m = m @ [(k, v)]"
  unfolding hm_get_def hm_insert_def by (induction m) auto

lemma ofold_insert_pairs:
  assumes "hm_ok (acc @ xs)" and "list_all2 (\<lambda>(i, p) (j, x). i = j \<and> conv p = Ok x) ps xs"
  shows "ofold (\<lambda>(i, p) m. obind (conv p) (\<lambda>x. Ok (hm_insert i x m))) ps acc = Ok (acc @ xs)"
  using assms(2,1)
proof (induction ps xs arbitrary: acc rule: list_all2_induct)
  case (Cons p ps x xs)
  obtain i q j y where px: "p = (i, q)" "x = (j, y)" by (cases p; cases x)
  from Cons.prems px have "hm_get acc j = None"
    by (auto simp: hm_ok_def hm_get_eq_None_iff)
  moreover from Cons.prems px have "hm_ok ((acc @ [(j, y)]) @ xs)" by simp
  ultimately show ?case using Cons.hyps(1) Cons.IH px by (simp add: hm_insert_fresh)
qed simp

lemma hm_extend_ok: "hm_ok (acc @ xs) \<Longrightarrow> hm_extend acc xs = acc @ xs"
proof (induction xs arbitrary: acc)
  case (Cons x xs)
  obtain k v where x: "x = (k, v)" by (cases x)
  from Cons.prems x have "hm_get acc k = None"
    by (auto simp: hm_ok_def hm_get_eq_None_iff)
  moreover from Cons.prems x have "hm_ok ((acc @ [(k, v)]) @ xs)" by simp
  ultimately show ?case using Cons.IH x by (simp add: hm_insert_fresh)
qed simp

definition wire_state :: "union_new \<Rightarrow> catalog_state \<Rightarrow> bool" where
  "wire_state un s = (hm_ok (cs_entries s) \<and> list_all (\<lambda>(i, e). wire_entry un e) (cs_entries s))"

lemma entries_roundtrip:
  assumes "list_all (\<lambda>(i, e). wire_entry un e) es"
  shows "\<exists>ps. traverse (\<lambda>(i, ent). obind (catalog_entry_into_proto ent) (\<lambda>ent. Ok (i, ent))) es = Ok ps \<and>
    list_all2 (\<lambda>(i, p) (j, x). i = j \<and> catalog_entry_try_from_proto un p = Ok x) ps es"
  using assms
proof (induction es)
  case (Cons x es)
  obtain i e where x: "x = (i, e)" by (cases x)
  with Cons obtain ps p where "traverse (\<lambda>(i, ent). obind (catalog_entry_into_proto ent) (\<lambda>ent. Ok (i, ent))) es = Ok ps"
    "list_all2 (\<lambda>(i, p) (j, x). i = j \<and> catalog_entry_try_from_proto un p = Ok x) ps es"
    "catalog_entry_into_proto e = Ok p" "catalog_entry_try_from_proto un p = Ok e"
    by (auto elim: entry_codec.encE)
  with x show ?case by auto
qed simp

lemma list_all2_keys:
  "list_all2 (\<lambda>(i, p) (j, x). i = j \<and> Q p x) ps xs \<Longrightarrow> map fst ps = map fst xs"
  by (induction ps xs rule: list_all2_induct) auto

interpretation state_codec: codec "wire_state un" catalog_state_into_proto "catalog_state_try_from_proto un"
  for un
proof
  fix s assume s: "wire_state un s"
  then obtain ps where ps:
      "traverse (\<lambda>(i, ent). obind (catalog_entry_into_proto ent) (\<lambda>ent. Ok (i, ent))) (cs_entries s) = Ok ps"
      "list_all2 (\<lambda>(i, p) (j, x). i = j \<and> catalog_entry_try_from_proto un p = Ok x) ps (cs_entries s)"
    using entries_roundtrip by (auto simp: wire_state_def)
  have keys: "hm_ok ps" using list_all2_keys [OF ps(2)] s by (simp add: hm_ok_def wire_state_def)
  then have ext: "hm_extend [] ps = ps" using hm_extend_ok [of "[]" ps] by simp
  have dec: "ofold (\<lambda>(i, ent) entries. obind (catalog_entry_try_from_proto un ent)
      (\<lambda>ent. Ok (hm_insert i ent entries))) ps [] = Ok (cs_entries s)"
    using ofold_insert_pairs [of "[]" "cs_entries s", OF _ ps(2)] s by (simp add: wire_state_def)
  show "is_ok (catalog_state_into_proto s)"
    using ps by (simp add: catalog_state_into_proto_def)
  show "catalog_state_try_from_proto un p = Ok s" if "catalog_state_into_proto s = Ok p" for p
    using that ps dec ext by (auto simp: catalog_state_into_proto_def catalog_state_try_from_proto_def)
qed

end
