(* ===== verification/Service_Proto.thy ===== *)
theory Service_Proto
  imports Catalog_Codec
begin

section \<open>Mutations on the wire\<close>

text \<open>
  The messages of \<open>crates/protogen/proto/metastore/service.proto\<close> that carry mutations, and the
  conversions of \<open>crates/protogen/src/metastore/types/service.rs\<close>. They follow the pattern of the
  option messages. The type of a created function is sent as the discriminant of the Rust enum
  (\<open>value.function_type as i32\<close>), while it is received as the number of the protobuf enum.
\<close>

subsection \<open>Mutations of names and sizes\<close>

record p_drop_database =
  pdd_name :: string
  pdd_if_exists :: bool

definition drop_database_try_from_proto ::
  "p_drop_database \<Rightarrow> drop_database proto_result" where
  [wire_defs]: "drop_database_try_from_proto v =
     Ok \<lparr>dd_name = pdd_name v, dd_if_exists = pdd_if_exists v\<rparr>"

definition drop_database_into_proto :: "drop_database \<Rightarrow> p_drop_database" where
  [wire_defs]: "drop_database_into_proto v =
     \<lparr>pdd_name = dd_name v, pdd_if_exists = dd_if_exists v\<rparr>"

record p_drop_schema =
  pds_name :: string
  pds_if_exists :: bool
  pds_cascade :: bool

definition drop_schema_try_from_proto ::
  "p_drop_schema \<Rightarrow> drop_schema proto_result" where
  [wire_defs]: "drop_schema_try_from_proto v =
     Ok \<lparr>ds_name = pds_name v, ds_if_exists = pds_if_exists v, ds_cascade = pds_cascade v\<rparr>"

definition drop_schema_into_proto :: "drop_schema \<Rightarrow> p_drop_schema" where
  [wire_defs]: "drop_schema_into_proto v =
     \<lparr>pds_name = ds_name v, pds_if_exists = ds_if_exists v, pds_cascade = ds_cascade v\<rparr>"

record p_drop_object =
  pdob_schema :: string
  pdob_name :: string
  pdob_if_exists :: bool

definition drop_object_try_from_proto ::
  "p_drop_object \<Rightarrow> drop_object proto_result" where
  [wire_defs]: "drop_object_try_from_proto v =
     Ok \<lparr>dob_schema = pdob_schema v, dob_name = pdob_name v,
          dob_if_exists = pdob_if_exists v\<rparr>"

definition drop_object_into_proto :: "drop_object \<Rightarrow> p_drop_object" where
  [wire_defs]: "drop_object_into_proto v =
     \<lparr>pdob_schema = dob_schema v, pdob_name = dob_name v, pdob_if_exists = dob_if_exists v\<rparr>"

record p_create_schema =
  pcsc_name :: string
  pcsc_if_not_exists :: bool

definition create_schema_try_from_proto ::
  "p_create_schema \<Rightarrow> create_schema proto_result" where
  [wire_defs]: "create_schema_try_from_proto v =
     Ok \<lparr>csc_name = pcsc_name v, csc_if_not_exists = pcsc_if_not_exists v\<rparr>"

definition create_schema_into_proto :: "create_schema \<Rightarrow> p_create_schema" where
  [wire_defs]: "create_schema_into_proto v =
     \<lparr>pcsc_name = csc_name v, pcsc_if_not_exists = csc_if_not_exists v\<rparr>"

record p_create_view =
  pcv_schema :: string
  pcv_name :: string
  pcv_sql :: string
  pcv_or_replace :: bool
  pcv_columns :: "string list"

definition create_view_try_from_proto ::
  "p_create_view \<Rightarrow> create_view proto_result" where
  [wire_defs]: "create_view_try_from_proto v =
     Ok \<lparr>cv_schema = pcv_schema v, cv_name = pcv_name v, cv_sql = pcv_sql v,
          cv_or_replace = pcv_or_replace v, cv_columns = pcv_columns v\<rparr>"

definition create_view_into_proto :: "create_view \<Rightarrow> p_create_view" where
  [wire_defs]: "create_view_into_proto v =
     \<lparr>pcv_schema = cv_schema v, pcv_name = cv_name v, pcv_sql = cv_sql v,
      pcv_or_replace = cv_or_replace v, pcv_columns = cv_columns v\<rparr>"

record p_drop_tunnel =
  pdt_name :: string
  pdt_if_exists :: bool

definition drop_tunnel_try_from_proto ::
  "p_drop_tunnel \<Rightarrow> drop_tunnel proto_result" where
  [wire_defs]: "drop_tunnel_try_from_proto v =
     Ok \<lparr>dt_name = pdt_name v, dt_if_exists = pdt_if_exists v\<rparr>"

definition drop_tunnel_into_proto :: "drop_tunnel \<Rightarrow> p_drop_tunnel" where
  [wire_defs]: "drop_tunnel_into_proto v =
     \<lparr>pdt_name = dt_name v, pdt_if_exists = dt_if_exists v\<rparr>"

record p_alter_tunnel_rotate_keys =
  patr_name :: string
  patr_if_exists :: bool
  patr_new_ssh_key :: bytes

definition alter_tunnel_rotate_keys_try_from_proto ::
  "p_alter_tunnel_rotate_keys \<Rightarrow> alter_tunnel_rotate_keys proto_result" where
  [wire_defs]: "alter_tunnel_rotate_keys_try_from_proto v =
     Ok \<lparr>atr_name = patr_name v, atr_if_exists = patr_if_exists v,
          atr_new_ssh_key = patr_new_ssh_key v\<rparr>"

definition alter_tunnel_rotate_keys_into_proto ::
  "alter_tunnel_rotate_keys \<Rightarrow> p_alter_tunnel_rotate_keys" where
  [wire_defs]: "alter_tunnel_rotate_keys_into_proto v =
     \<lparr>patr_name = atr_name v, patr_if_exists = atr_if_exists v,
      patr_new_ssh_key = atr_new_ssh_key v\<rparr>"

record p_drop_credentials =
  pdc_name :: string
  pdc_if_exists :: bool

definition drop_credentials_try_from_proto ::
  "p_drop_credentials \<Rightarrow> drop_credentials proto_result" where
  [wire_defs]: "drop_credentials_try_from_proto v =
     Ok \<lparr>dc_name = pdc_name v, dc_if_exists = pdc_if_exists v\<rparr>"

definition drop_credentials_into_proto :: "drop_credentials \<Rightarrow> p_drop_credentials" where
  [wire_defs]: "drop_credentials_into_proto v =
     \<lparr>pdc_name = dc_name v, pdc_if_exists = dc_if_exists v\<rparr>"

record p_update_deployment_storage =
  puds_new_storage_size :: u64

definition update_deployment_storage_try_from_proto ::
  "p_update_deployment_storage \<Rightarrow> update_deployment_storage proto_result" where
  [wire_defs]: "update_deployment_storage_try_from_proto v =
     Ok \<lparr>uds_new_storage_size = puds_new_storage_size v\<rparr>"

definition update_deployment_storage_into_proto ::
  "update_deployment_storage \<Rightarrow> p_update_deployment_storage" where
  [wire_defs]: "update_deployment_storage_into_proto v =
     \<lparr>puds_new_storage_size = uds_new_storage_size v\<rparr>"

subsection \<open>Mutations with options\<close>

record p_create_external_database =
  pced_name :: string
  pced_options :: "p_database_options option"
  pced_if_not_exists :: bool
  pced_tunnel :: "string option"

definition create_external_database_try_from_proto ::
  "p_create_external_database \<Rightarrow> create_external_database proto_result" where
  [wire_defs]: "create_external_database_try_from_proto v =
     obind (required database_options_try_from_proto ''options'' (pced_options v)) (\<lambda>options.
     Ok \<lparr>ced_name = pced_name v, ced_options = options, ced_if_not_exists = pced_if_not_exists v,
          ced_tunnel = pced_tunnel v\<rparr>)"

definition create_external_database_into_proto ::
  "create_external_database \<Rightarrow> p_create_external_database" where
  [wire_defs]: "create_external_database_into_proto v =
     \<lparr>pced_name = ced_name v, pced_options = Some (database_options_into_proto (ced_options v)),
      pced_if_not_exists = ced_if_not_exists v, pced_tunnel = ced_tunnel v\<rparr>"

record p_create_tunnel =
  pctu_name :: string
  pctu_options :: "p_tunnel_options option"
  pctu_if_not_exists :: bool

definition create_tunnel_try_from_proto ::
  "p_create_tunnel \<Rightarrow> create_tunnel proto_result" where
  [wire_defs]: "create_tunnel_try_from_proto v =
     obind (required tunnel_options_try_from_proto ''options'' (pctu_options v)) (\<lambda>options.
     Ok \<lparr>ctu_name = pctu_name v, ctu_options = options, ctu_if_not_exists = pctu_if_not_exists v\<rparr>)"

definition create_tunnel_into_proto :: "create_tunnel \<Rightarrow> p_create_tunnel" where
  [wire_defs]: "create_tunnel_into_proto v =
     \<lparr>pctu_name = ctu_name v, pctu_options = Some (tunnel_options_into_proto (ctu_options v)),
      pctu_if_not_exists = ctu_if_not_exists v\<rparr>"

record p_create_credentials =
  pcc_name :: string
  pcc_options :: "p_credentials_options option"
  pcc_comment :: string
  pcc_or_replace :: bool

definition create_credentials_try_from_proto ::
  "p_create_credentials \<Rightarrow> create_credentials proto_result" where
  [wire_defs]: "create_credentials_try_from_proto v =
     obind (required credentials_options_try_from_proto ''options'' (pcc_options v)) (\<lambda>options.
     Ok \<lparr>cc_name = pcc_name v, cc_options = options, cc_comment = pcc_comment v,
          cc_or_replace = pcc_or_replace v\<rparr>)"

definition create_credentials_into_proto ::
  "create_credentials \<Rightarrow> p_create_credentials" where
  [wire_defs]: "create_credentials_into_proto v =
     \<lparr>pcc_name = cc_name v, pcc_options = Some (credentials_options_into_proto (cc_options v)),
      pcc_comment = cc_comment v, pcc_or_replace = cc_or_replace v\<rparr>"

subsection \<open>Alterations\<close>

datatype p_alter_table_operation_operation =
    PAT_Rename string
  | PAT_SetAccessMode i32

record p_alter_table_operation =
  pato_operation :: "p_alter_table_operation_operation option"

fun alter_table_operation_operation_try_from_proto ::
  "p_alter_table_operation_operation \<Rightarrow> alter_table_operation proto_result" where
  "alter_table_operation_operation_try_from_proto (PAT_Rename new_name) = Ok (RenameTable new_name)"
| "alter_table_operation_operation_try_from_proto (PAT_SetAccessMode access_mode) =
     obind (source_access_mode_try_from access_mode) (\<lambda>access_mode. Ok (SetTableAccessMode access_mode))"

fun alter_table_operation_operation_into_proto ::
  "alter_table_operation \<Rightarrow> p_alter_table_operation_operation" where
  "alter_table_operation_operation_into_proto (RenameTable new_name) = PAT_Rename new_name"
| "alter_table_operation_operation_into_proto (SetTableAccessMode access_mode) =
     PAT_SetAccessMode (source_access_mode_to_i32 access_mode)"

definition alter_table_operation_try_from_proto ::
  "p_alter_table_operation \<Rightarrow> alter_table_operation proto_result" where
  [wire_defs]: "alter_table_operation_try_from_proto v =
     required alter_table_operation_operation_try_from_proto ''alter table operation'' (pato_operation v)"

definition alter_table_operation_into_proto ::
  "alter_table_operation \<Rightarrow> p_alter_table_operation" where
  [wire_defs]: "alter_table_operation_into_proto v =
     \<lparr>pato_operation = Some (alter_table_operation_operation_into_proto v)\<rparr>"

record p_alter_table =
  pat_schema :: string
  pat_name :: string
  pat_operation :: "p_alter_table_operation option"

definition alter_table_try_from_proto ::
  "p_alter_table \<Rightarrow> alter_table proto_result" where
  [wire_defs]: "alter_table_try_from_proto v =
     obind (required alter_table_operation_try_from_proto ''alter table operation'' (pat_operation v))
       (\<lambda>operation.
     Ok \<lparr>at_schema = pat_schema v, at_name = pat_name v, at_operation = operation\<rparr>)"

definition alter_table_into_proto :: "alter_table \<Rightarrow> p_alter_table" where
  [wire_defs]: "alter_table_into_proto v =
     \<lparr>pat_schema = at_schema v, pat_name = at_name v,
      pat_operation = Some (alter_table_operation_into_proto (at_operation v))\<rparr>"

datatype p_alter_database_operation_operation =
    PAD_Rename string
  | PAD_SetAccessMode i32

record p_alter_database_operation =
  pado_operation :: "p_alter_database_operation_operation option"

fun alter_database_operation_operation_try_from_proto ::
  "p_alter_database_operation_operation \<Rightarrow> alter_database_operation proto_result" where
  "alter_database_operation_operation_try_from_proto (PAD_Rename new_name) = Ok (RenameDatabase new_name)"
| "alter_database_operation_operation_try_from_proto (PAD_SetAccessMode access_mode) =
     obind (source_access_mode_try_from access_mode)
       (\<lambda>access_mode. Ok (SetDatabaseAccessMode access_mode))"

fun alter_database_operation_operation_into_proto ::
  "alter_database_operation \<Rightarrow> p_alter_database_operation_operation" where
  "alter_database_operation_operation_into_proto (RenameDatabase new_name) = PAD_Rename new_name"
| "alter_database_operation_operation_into_proto (SetDatabaseAccessMode access_mode) =
     PAD_SetAccessMode (source_access_mode_to_i32 access_mode)"

definition alter_database_operation_try_from_proto ::
  "p_alter_database_operation \<Rightarrow> alter_database_operation proto_result" where
  [wire_defs]: "alter_database_operation_try_from_proto v =
     required alter_database_operation_operation_try_from_proto ''alter database operation''
       (pado_operation v)"

definition alter_database_operation_into_proto ::
  "alter_database_operation \<Rightarrow> p_alter_database_operation" where
  [wire_defs]: "alter_database_operation_into_proto v =
     \<lparr>pado_operation = Some (alter_database_operation_operation_into_proto v)\<rparr>"

record p_alter_database =
  pad_name :: string
  pad_operation :: "p_alter_database_operation option"

definition alter_database_try_from_proto ::
  "p_alter_database \<Rightarrow> alter_database proto_result" where
  [wire_defs]: "alter_database_try_from_proto v =
     obind (required alter_database_operation_try_from_proto ''alter database operation''
       (pad_operation v)) (\<lambda>operation.
     Ok \<lparr>ad_name = pad_name v, ad_operation = operation\<rparr>)"

definition alter_database_into_proto :: "alter_database \<Rightarrow> p_alter_database" where
  [wire_defs]: "alter_database_into_proto v =
     \<lparr>pad_name = ad_name v, pad_operation = Some (alter_database_operation_into_proto (ad_operation v))\<rparr>"

subsection \<open>Tables and functions\<close>

record p_create_table =
  pct_schema :: string
  pct_name :: string
  pct_options :: "p_table_options_internal option"
  pct_if_not_exists :: bool
  pct_or_replace :: bool

definition create_table_try_from_proto ::
  "union_new \<Rightarrow> p_create_table \<Rightarrow> create_table proto_result" where
  [wire_defs]: "create_table_try_from_proto un v =
     obind (required (table_options_internal_try_from_proto un) ''options'' (pct_options v)) (\<lambda>options.
     Ok \<lparr>ct_schema = pct_schema v, ct_name = pct_name v, ct_options = options,
          ct_if_not_exists = pct_if_not_exists v, ct_or_replace = pct_or_replace v\<rparr>)"

definition create_table_into_proto :: "create_table \<Rightarrow> p_create_table proto_result" where
  [wire_defs]: "create_table_into_proto v =
     obind (table_options_internal_into_proto (ct_options v)) (\<lambda>options.
     Ok \<lparr>pct_schema = ct_schema v, pct_name = ct_name v, pct_options = Some options,
          pct_if_not_exists = ct_if_not_exists v, pct_or_replace = ct_or_replace v\<rparr>)"

record p_create_external_table =
  pcet_schema :: string
  pcet_name :: string
  pcet_options :: "p_table_options_v0 option"
  pcet_if_not_exists :: bool
  pcet_tunnel :: "string option"
  pcet_or_replace :: bool
  pcet_columns :: "p_internal_column_definition list"

definition create_external_table_try_from_proto ::
  "union_new \<Rightarrow> p_create_external_table \<Rightarrow> create_external_table proto_result" where
  [wire_defs]: "create_external_table_try_from_proto un v =
     obind (traverse (internal_column_definition_try_from_proto un) (pcet_columns v)) (\<lambda>columns.
     obind (required (table_options_v0_try_from_proto un) ''options'' (pcet_options v)) (\<lambda>options.
     Ok \<lparr>cet_schema = pcet_schema v, cet_name = pcet_name v, cet_options = options,
          cet_or_replace = pcet_or_replace v, cet_if_not_exists = pcet_if_not_exists v,
          cet_tunnel = pcet_tunnel v, cet_columns = opt_columns columns\<rparr>))"

definition create_external_table_into_proto ::
  "create_external_table \<Rightarrow> p_create_external_table proto_result" where
  [wire_defs]: "create_external_table_into_proto v =
     obind (case cet_columns v of
        Some columns \<Rightarrow> traverse internal_column_definition_into_proto columns
      | None \<Rightarrow> Ok []) (\<lambda>columns.
     obind (table_options_v0_into_proto (cet_options v)) (\<lambda>options.
     Ok \<lparr>pcet_schema = cet_schema v, pcet_name = cet_name v, pcet_options = Some options,
          pcet_if_not_exists = cet_if_not_exists v, pcet_tunnel = cet_tunnel v,
          pcet_or_replace = cet_or_replace v, pcet_columns = columns\<rparr>))"

record p_create_function =
  pcf_name :: string
  pcf_aliases :: "string list"
  pcf_signature :: "p_signature option"
  pcf_type :: i32

fun function_type_discriminant :: "function_type \<Rightarrow> i32" where
  "function_type_discriminant Aggregate = 0"
| "function_type_discriminant Scalar = 1"
| "function_type_discriminant TableReturning = 2"

definition create_function_try_from_proto ::
  "union_new \<Rightarrow> p_create_function \<Rightarrow> create_function proto_result" where
  [wire_defs]: "create_function_try_from_proto un v =
     obind (required (signature_try_from_proto un) ''signature'' (pcf_signature v)) (\<lambda>signature.
     obind (function_type_try_from (pcf_type v)) (\<lambda>function_type.
     Ok \<lparr>cf_name = pcf_name v, cf_aliases = pcf_aliases v, cf_signature = signature,
          cf_function_type = function_type\<rparr>))"

definition create_function_into_proto ::
  "create_function \<Rightarrow> p_create_function proto_result" where
  [wire_defs]: "create_function_into_proto v =
     obind (signature_into_proto (cf_signature v)) (\<lambda>signature.
     Ok \<lparr>pcf_name = cf_name v, pcf_aliases = cf_aliases v, pcf_signature = Some signature,
          pcf_type = function_type_discriminant (cf_function_type v)\<rparr>)"

subsection \<open>Mutations\<close>

datatype p_mutation_mutation =
    PM_DropDatabase p_drop_database
  | PM_DropSchema p_drop_schema
  | PM_DropObject p_drop_object
  | PM_CreateSchema p_create_schema
  | PM_CreateView p_create_view
  | PM_CreateTable p_create_table
  | PM_CreateExternalTable p_create_external_table
  | PM_CreateExternalDatabase p_create_external_database
  | PM_AlterTable p_alter_table
  | PM_AlterDatabase p_alter_database
  | PM_CreateTunnel p_create_tunnel
  | PM_DropTunnel p_drop_tunnel
  | PM_AlterTunnelRotateKeys p_alter_tunnel_rotate_keys
  | PM_CreateCredentials p_create_credentials
  | PM_DropCredentials p_drop_credentials
  | PM_UpdateDeploymentStorage p_update_deployment_storage
  | PM_CreateFunction p_create_function

record p_mutation =
  pm_mutation :: "p_mutation_mutation option"

fun mutation_mutation_try_from_proto ::
  "union_new \<Rightarrow> p_mutation_mutation \<Rightarrow> mutation proto_result" where
  "mutation_mutation_try_from_proto un (PM_DropDatabase v) =
     obind (drop_database_try_from_proto v) (\<lambda>v. Ok (DropDatabase v))"
| "mutation_mutation_try_from_proto un (PM_DropSchema v) =
     obind (drop_schema_try_from_proto v) (\<lambda>v. Ok (DropSchema v))"
| "mutation_mutation_try_from_proto un (PM_DropObject v) =
     obind (drop_object_try_from_proto v) (\<lambda>v. Ok (DropObject v))"
| "mutation_mutation_try_from_proto un (PM_CreateSchema v) =
     obind (create_schema_try_from_proto v) (\<lambda>v. Ok (CreateSchema v))"
| "mutation_mutation_try_from_proto un (PM_CreateView v) =
     obind (create_view_try_from_proto v) (\<lambda>v. Ok (CreateView v))"
| "mutation_mutation_try_from_proto un (PM_CreateTable v) =
     obind (create_table_try_from_proto un v) (\<lambda>v. Ok (CreateTable v))"
| "mutation_mutation_try_from_proto un (PM_CreateExternalTable v) =
     obind (create_external_table_try_from_proto un v) (\<lambda>v. Ok (CreateExternalTable v))"
| "mutation_mutation_try_from_proto un (PM_CreateExternalDatabase v) =
     obind (create_external_database_try_from_proto v) (\<lambda>v. Ok (CreateExternalDatabase v))"
| "mutation_mutation_try_from_proto un (PM_AlterTable v) =
     obind (alter_table_try_from_proto v) (\<lambda>v. Ok (AlterTable v))"
| "mutation_mutation_try_from_proto un (PM_AlterDatabase v) =
     obind (alter_database_try_from_proto v) (\<lambda>v. Ok (AlterDatabase v))"
| "mutation_mutation_try_from_proto un (PM_CreateTunnel v) =
     obind (create_tunnel_try_from_proto v) (\<lambda>v. Ok (CreateTunnel v))"
| "mutation_mutation_try_from_proto un (PM_DropTunnel v) =
     obind (drop_tunnel_try_from_proto v) (\<lambda>v. Ok (DropTunnel v))"
| "mutation_mutation_try_from_proto un (PM_AlterTunnelRotateKeys v) =
     obind (alter_tunnel_rotate_keys_try_from_proto v) (\<lambda>v. Ok (AlterTunnelRotateKeys v))"
| "mutation_mutation_try_from_proto un (PM_CreateCredentials v) =
     obind (create_credentials_try_from_proto v) (\<lambda>v. Ok (CreateCredentials v))"
| "mutation_mutation_try_from_proto un (PM_DropCredentials v) =
     obind (drop_credentials_try_from_proto v) (\<lambda>v. Ok (DropCredentials v))"
| "mutation_mutation_try_from_proto un (PM_UpdateDeploymentStorage v) =
     obind (update_deployment_storage_try_from_proto v) (\<lambda>v. Ok (UpdateDeploymentStorage v))"
| "mutation_mutation_try_from_proto un (PM_CreateFunction v) =
     obind (create_function_try_from_proto un v) (\<lambda>v. Ok (CreateFunction v))"

definition mutation_try_from_proto ::
  "union_new \<Rightarrow> p_mutation \<Rightarrow> mutation proto_result" where
  [wire_defs]: "mutation_try_from_proto un v =
     required (mutation_mutation_try_from_proto un) ''mutation'' (pm_mutation v)"

fun mutation_mutation_into_proto :: "mutation \<Rightarrow> p_mutation_mutation proto_result" where
  "mutation_mutation_into_proto (DropDatabase v) = Ok (PM_DropDatabase (drop_database_into_proto v))"
| "mutation_mutation_into_proto (DropSchema v) = Ok (PM_DropSchema (drop_schema_into_proto v))"
| "mutation_mutation_into_proto (DropObject v) = Ok (PM_DropObject (drop_object_into_proto v))"
| "mutation_mutation_into_proto (CreateSchema v) = Ok (PM_CreateSchema (create_schema_into_proto v))"
| "mutation_mutation_into_proto (CreateView v) = Ok (PM_CreateView (create_view_into_proto v))"
| "mutation_mutation_into_proto (CreateTable v) = obind (create_table_into_proto v) (\<lambda>v. Ok (PM_CreateTable v))"
| "mutation_mutation_into_proto (CreateExternalTable v) = obind (create_external_table_into_proto v) (\<lambda>v. Ok (PM_CreateExternalTable v))"
| "mutation_mutation_into_proto (CreateExternalDatabase v) = Ok (PM_CreateExternalDatabase (create_external_database_into_proto v))"
| "mutation_mutation_into_proto (AlterTable v) = Ok (PM_AlterTable (alter_table_into_proto v))"
| "mutation_mutation_into_proto (AlterDatabase v) = Ok (PM_AlterDatabase (alter_database_into_proto v))"
| "mutation_mutation_into_proto (CreateTunnel v) = Ok (PM_CreateTunnel (create_tunnel_into_proto v))"
| "mutation_mutation_into_proto (DropTunnel v) = Ok (PM_DropTunnel (drop_tunnel_into_proto v))"
| "mutation_mutation_into_proto (AlterTunnelRotateKeys v) = Ok (PM_AlterTunnelRotateKeys (alter_tunnel_rotate_keys_into_proto v))"
| "mutation_mutation_into_proto (CreateCredentials v) = Ok (PM_CreateCredentials (create_credentials_into_proto v))"
| "mutation_mutation_into_proto (DropCredentials v) = Ok (PM_DropCredentials (drop_credentials_into_proto v))"
| "mutation_mutation_into_proto (UpdateDeploymentStorage v) = Ok (PM_UpdateDeploymentStorage (update_deployment_storage_into_proto v))"
| "mutation_mutation_into_proto (CreateFunction v) = obind (create_function_into_proto v) (\<lambda>v. Ok (PM_CreateFunction v))"

definition mutation_into_proto :: "mutation \<Rightarrow> p_mutation proto_result" where
  [wire_defs]: "mutation_into_proto v =
     obind (mutation_mutation_into_proto v) (\<lambda>m. Ok \<lparr>pm_mutation = Some m\<rparr>)"

subsection \<open>The contracts\<close>

lemmas service_struct_eqI =
  drop_database.equality p_drop_database.equality drop_schema.equality p_drop_schema.equality
  drop_object.equality p_drop_object.equality create_schema.equality p_create_schema.equality
  create_view.equality p_create_view.equality drop_tunnel.equality p_drop_tunnel.equality
  alter_tunnel_rotate_keys.equality p_alter_tunnel_rotate_keys.equality
  drop_credentials.equality p_drop_credentials.equality update_deployment_storage.equality
  p_update_deployment_storage.equality create_external_database.equality
  p_create_external_database.equality create_tunnel.equality p_create_tunnel.equality
  create_credentials.equality p_create_credentials.equality alter_table.equality
  p_alter_table.equality alter_database.equality p_alter_database.equality

lemma service_structs_exact [simp]:
  "drop_database_try_from_proto p1 = Ok v1 \<longleftrightarrow> p1 = drop_database_into_proto v1"
  "drop_schema_try_from_proto p2 = Ok v2 \<longleftrightarrow> p2 = drop_schema_into_proto v2"
  "drop_object_try_from_proto p3 = Ok v3 \<longleftrightarrow> p3 = drop_object_into_proto v3"
  "create_schema_try_from_proto p4 = Ok v4 \<longleftrightarrow> p4 = create_schema_into_proto v4"
  "create_view_try_from_proto p5 = Ok v5 \<longleftrightarrow> p5 = create_view_into_proto v5"
  "drop_tunnel_try_from_proto p6 = Ok v6 \<longleftrightarrow> p6 = drop_tunnel_into_proto v6"
  "alter_tunnel_rotate_keys_try_from_proto p7 = Ok v7 \<longleftrightarrow> p7 = alter_tunnel_rotate_keys_into_proto v7"
  "drop_credentials_try_from_proto p8 = Ok v8 \<longleftrightarrow> p8 = drop_credentials_into_proto v8"
  "update_deployment_storage_try_from_proto p9 = Ok v9 \<longleftrightarrow> p9 = update_deployment_storage_into_proto v9"
  by (auto simp: wire_defs intro!: service_struct_eqI)

lemma alter_operations_exact [simp]:
  "alter_table_operation_operation_try_from_proto p = Ok v \<longleftrightarrow>
   p = alter_table_operation_operation_into_proto v"
  "alter_database_operation_operation_try_from_proto q = Ok w \<longleftrightarrow>
   q = alter_database_operation_operation_into_proto w"
  by (cases p; cases v; auto) (cases q; cases w; auto)

interpretation alter_table_operation_codec:
  exact_codec alter_table_operation_into_proto alter_table_operation_try_from_proto
  by unfold_locales (auto simp: wire_defs required_def split: option.splits)

interpretation alter_database_operation_codec:
  exact_codec alter_database_operation_into_proto alter_database_operation_try_from_proto
  by unfold_locales (auto simp: wire_defs required_def split: option.splits)

lemmas operation_exact =
  message_exact alter_table_operation_codec.required_exact alter_database_operation_codec.required_exact
  alter_table_operation_codec.enc_eq_iff alter_database_operation_codec.enc_eq_iff

lemmas option_mutation_defs =
  create_external_database_try_from_proto_def create_external_database_into_proto_def
  create_tunnel_try_from_proto_def create_tunnel_into_proto_def
  create_credentials_try_from_proto_def create_credentials_into_proto_def
  alter_table_try_from_proto_def alter_table_into_proto_def
  alter_database_try_from_proto_def alter_database_into_proto_def

lemma option_mutations_exact [simp]:
  "create_external_database_try_from_proto p1 = Ok v1 \<longleftrightarrow> p1 = create_external_database_into_proto v1"
  "create_tunnel_try_from_proto p2 = Ok v2 \<longleftrightarrow> p2 = create_tunnel_into_proto v2"
  "create_credentials_try_from_proto p3 = Ok v3 \<longleftrightarrow> p3 = create_credentials_into_proto v3"
  "alter_table_try_from_proto p4 = Ok v4 \<longleftrightarrow> p4 = alter_table_into_proto v4"
  "alter_database_try_from_proto p5 = Ok v5 \<longleftrightarrow> p5 = alter_database_into_proto v5"
  by (auto simp: option_mutation_defs operation_exact intro!: service_struct_eqI)

text \<open>A mutation survives the wire unless it creates a function: those are decoded with the type
  whose number is the discriminant that was sent.\<close>

definition wire_external_table ::
  "union_new \<Rightarrow> create_external_table \<Rightarrow> bool" where
  "wire_external_table un v =
     (wire_table_options un (cet_options v) \<and>
      (case cet_columns v of None \<Rightarrow> True | Some cs \<Rightarrow> cs \<noteq> [] \<and> wire_columns un cs))"

fun wire_mutation :: "union_new \<Rightarrow> mutation \<Rightarrow> bool" where
  "wire_mutation un (CreateTable v) = wire_columns un (toi_columns (ct_options v))"
| "wire_mutation un (CreateExternalTable v) = wire_external_table un v"
| "wire_mutation un (CreateFunction v) = False"
| "wire_mutation un _ = True"

interpretation create_table_codec: codec "\<lambda>v. wire_columns un (toi_columns (ct_options v))"
  create_table_into_proto "create_table_try_from_proto un" for un
proof
  fix v :: create_table
  assume "wire_columns un (toi_columns (ct_options v))"
  then obtain o' where o': "table_options_internal_into_proto (ct_options v) = Ok o'"
      "table_options_internal_try_from_proto un o' = Ok (ct_options v)"
    by (rule table_internal_codec.encE)
  then show "is_ok (create_table_into_proto v)" by (simp add: create_table_into_proto_def)
  show "create_table_try_from_proto un p = Ok v" if "create_table_into_proto v = Ok p" for p
    using that o' by (auto simp: create_table_into_proto_def create_table_try_from_proto_def)
qed

interpretation create_external_table_codec: codec "wire_external_table un"
  create_external_table_into_proto "create_external_table_try_from_proto un" for un
proof
  fix v assume v: "wire_external_table un v"
  obtain cs where cs: "traverse internal_column_definition_into_proto
        (case cet_columns v of Some columns \<Rightarrow> columns | None \<Rightarrow> []) = Ok cs"
      "traverse (internal_column_definition_try_from_proto un) cs =
        Ok (case cet_columns v of Some columns \<Rightarrow> columns | None \<Rightarrow> [])"
    using v by (auto simp: wire_external_table_def split: option.splits elim: columns_codec.encE)
  obtain ov where ov: "table_options_v0_into_proto (cet_options v) = Ok ov"
      "table_options_v0_try_from_proto un ov = Ok (cet_options v)"
    using v table_options_codec.encE unfolding wire_external_table_def by blast
  have columns: "opt_columns (case cet_columns v of Some columns \<Rightarrow> columns | None \<Rightarrow> []) = cet_columns v"
    using v by (auto simp: wire_external_table_def opt_columns_def split: option.splits)
  have enc: "create_external_table_into_proto v =
      Ok \<lparr>pcet_schema = cet_schema v, pcet_name = cet_name v, pcet_options = Some ov,
          pcet_if_not_exists = cet_if_not_exists v, pcet_tunnel = cet_tunnel v,
          pcet_or_replace = cet_or_replace v, pcet_columns = cs\<rparr>"
    using cs(1) ov(1) by (cases "cet_columns v") (auto simp: create_external_table_into_proto_def)
  then show "is_ok (create_external_table_into_proto v)" by simp
  show "create_external_table_try_from_proto un p = Ok v" if "create_external_table_into_proto v = Ok p" for p
    using that enc cs(2) ov(2) columns by (auto simp: create_external_table_try_from_proto_def)
qed

lemma mutation_mutation_roundtrip:
  "wire_mutation un m \<Longrightarrow>
   \<exists>p. mutation_mutation_into_proto m = Ok p \<and> mutation_mutation_try_from_proto un p = Ok m"
  by (cases m) (auto elim: create_table_codec.encE create_external_table_codec.encE)

interpretation mutation_codec: codec "wire_mutation un" mutation_into_proto "mutation_try_from_proto un" for un
  by unfold_locales
    (auto simp: mutation_into_proto_def mutation_try_from_proto_def is_ok_iff
      dest!: mutation_mutation_roundtrip)

lemma create_function_wire:
  assumes "wire_signature un (cf_signature f)"
  shows "\<exists>p. mutation_into_proto (CreateFunction f) = Ok p \<and>
    mutation_try_from_proto un p =
      (case cf_function_type f of
         Aggregate \<Rightarrow> Err (ZeroValueEnumVariant ''FunctionType'')
       | Scalar \<Rightarrow> Ok (CreateFunction (f\<lparr>cf_function_type := Aggregate\<rparr>))
       | TableReturning \<Rightarrow> Ok (CreateFunction (f\<lparr>cf_function_type := Scalar\<rparr>)))"
proof -
  obtain p where "signature_into_proto (cf_signature f) = Ok p" "signature_try_from_proto un p = Ok (cf_signature f)"
    using signature_codec.encE [OF assms] by blast
  then show ?thesis
    by (cases "cf_function_type f")
      (auto simp: mutation_into_proto_def mutation_try_from_proto_def create_function_into_proto_def
        create_function_try_from_proto_def function_type_try_from_def)
qed

end
