(* ===== verification/Copy_To.thy ===== *)
theory Copy_To
  imports Proto_Codec
begin

section \<open>Options of \<open>COPY TO\<close>\<close>

text \<open>
  The destination and format options of a \<open>COPY TO\<close> statement
  (\<open>crates/protogen/src/metastore/types/options.rs\<close>), the messages a remote plan carries them in and
  the conversions between the two (\<open>crates/protogen/src/sqlexec/copy_to.rs\<close>). A \<open>usize\<close> has 64 bits,
  so the casts between \<open>usize\<close> and \<open>u64\<close> change nothing.
\<close>

subsection \<open>Destinations\<close>

record copy_to_destination_options_local =
  cdl_location :: string

record copy_to_destination_options_gcs =
  cdg_service_account_key :: "string option"
  cdg_bucket :: string
  cdg_location :: string

record copy_to_destination_options_s3 =
  cds_access_key_id :: "string option"
  cds_secret_access_key :: "string option"
  cds_region :: string
  cds_bucket :: string
  cds_location :: string

record copy_to_destination_options_azure =
  cda_account :: string
  cda_access_key :: string
  cda_container :: string
  cda_location :: string

datatype copy_to_destination_options =
    CD_Local copy_to_destination_options_local
  | CD_Gcs copy_to_destination_options_gcs
  | CD_S3 copy_to_destination_options_s3
  | CD_Azure copy_to_destination_options_azure

fun copy_to_destination_as_str :: "copy_to_destination_options \<Rightarrow> string" where
  "copy_to_destination_as_str (CD_Local _) = ''local''"
| "copy_to_destination_as_str (CD_Gcs _) = ''gcs''"
| "copy_to_destination_as_str (CD_S3 _) = ''s3''"
| "copy_to_destination_as_str (CD_Azure _) = ''azure''"

fun copy_to_destination_location :: "copy_to_destination_options \<Rightarrow> string" where
  "copy_to_destination_location (CD_Local d) = cdl_location d"
| "copy_to_destination_location (CD_Gcs d) = cdg_location d"
| "copy_to_destination_location (CD_S3 d) = cds_location d"
| "copy_to_destination_location (CD_Azure d) = cda_location d"

subsection \<open>Formats\<close>

record copy_to_format_options_csv =
  cfc_delim :: u8
  cfc_header :: bool

record copy_to_format_options_parquet =
  cfp_row_group_size :: u64

record copy_to_format_options_json =
  cfj_array :: bool

datatype copy_to_format_options_bson = CopyToFormatOptionsBson

datatype copy_to_format_options_delta = CopyToFormatOptionsDelta

record copy_to_format_options_lance =
  cfl_max_rows_per_file :: "u64 option"
  cfl_max_rows_per_group :: "u64 option"
  cfl_max_bytes_per_file :: "u64 option"
  cfl_input_batch_size :: "u64 option"

datatype copy_to_format_options =
    CF_Csv copy_to_format_options_csv
  | CF_Parquet copy_to_format_options_parquet
  | CF_Lance copy_to_format_options_lance
  | CF_Delta copy_to_format_options_delta
  | CF_Json copy_to_format_options_json
  | CF_Bson copy_to_format_options_bson

definition copy_to_format_default :: copy_to_format_options where
  "copy_to_format_default = CF_Csv \<lparr>cfc_delim = 44, cfc_header = True\<rparr>"

fun copy_to_format_as_str :: "copy_to_format_options \<Rightarrow> string" where
  "copy_to_format_as_str (CF_Csv _) = ''csv''"
| "copy_to_format_as_str (CF_Parquet _) = ''parquet''"
| "copy_to_format_as_str (CF_Json _) = ''json''"
| "copy_to_format_as_str (CF_Bson _) = ''bson''"
| "copy_to_format_as_str (CF_Lance _) = ''lance''"
| "copy_to_format_as_str (CF_Delta _) = ''delta''"

fun copy_to_format_is_table :: "copy_to_format_options \<Rightarrow> bool" where
  "copy_to_format_is_table (CF_Delta _) = True"
| "copy_to_format_is_table (CF_Lance _) = True"
| "copy_to_format_is_table _ = False"

subsection \<open>Messages\<close>

record p_copy_to_destination_local =
  pcdl_location :: string

record p_copy_to_destination_gcs =
  pcdg_service_account_key :: "string option"
  pcdg_bucket :: string
  pcdg_location :: string

record p_copy_to_destination_s3 =
  pcds_access_key_id :: "string option"
  pcds_secret_access_key :: "string option"
  pcds_region :: string
  pcds_bucket :: string
  pcds_location :: string

record p_copy_to_destination_azure =
  pcda_account :: string
  pcda_access_key :: string
  pcda_container :: string
  pcda_location :: string

datatype p_copy_to_destination_enum =
    PCD_Local p_copy_to_destination_local
  | PCD_Gcs p_copy_to_destination_gcs
  | PCD_S3 p_copy_to_destination_s3
  | PCD_Azure p_copy_to_destination_azure

record p_copy_to_destination =
  pcd_enum :: "p_copy_to_destination_enum option"

record p_copy_to_format_csv =
  pcfc_delim :: u32
  pcfc_header :: bool

record p_copy_to_format_json =
  pcfj_array :: bool

record p_copy_to_format_parquet =
  pcfp_row_group_size :: u64

record p_copy_to_format_lance =
  pcfl_max_rows_per_file :: "u64 option"
  pcfl_max_rows_per_group :: "u64 option"
  pcfl_max_bytes_per_file :: "u64 option"
  pcfl_input_batch_size :: "u64 option"

datatype p_copy_to_format_bson = PCopyToFormatOptionsBson

datatype p_copy_to_format_delta = PCopyToFormatOptionsDelta

datatype p_copy_to_format_enum =
    PCF_Csv p_copy_to_format_csv
  | PCF_Json p_copy_to_format_json
  | PCF_Parquet p_copy_to_format_parquet
  | PCF_Lance p_copy_to_format_lance
  | PCF_Bson p_copy_to_format_bson
  | PCF_Delta p_copy_to_format_delta

record p_copy_to_format =
  pcf_enum :: "p_copy_to_format_enum option"

subsection \<open>Conversions\<close>

text \<open>The formats \<open>Bson\<close> and \<open>Delta\<close> are sent as the default message, which has no variant set.\<close>

fun copy_to_format_into_proto :: "copy_to_format_options \<Rightarrow> p_copy_to_format proto_result" where
  "copy_to_format_into_proto (CF_Bson _) = Ok \<lparr>pcf_enum = None\<rparr>"
| "copy_to_format_into_proto (CF_Delta _) = Ok \<lparr>pcf_enum = None\<rparr>"
| "copy_to_format_into_proto (CF_Lance opts) =
     Ok \<lparr>pcf_enum = Some (PCF_Lance
       \<lparr>pcfl_max_rows_per_file = cfl_max_rows_per_file opts,
        pcfl_max_rows_per_group = cfl_max_rows_per_group opts,
        pcfl_max_bytes_per_file = cfl_max_bytes_per_file opts,
        pcfl_input_batch_size = cfl_input_batch_size opts\<rparr>)\<rparr>"
| "copy_to_format_into_proto (CF_Csv csv) =
     Ok \<lparr>pcf_enum = Some (PCF_Csv \<lparr>pcfc_delim = ucast (cfc_delim csv), pcfc_header = cfc_header csv\<rparr>)\<rparr>"
| "copy_to_format_into_proto (CF_Json json) =
     Ok \<lparr>pcf_enum = Some (PCF_Json \<lparr>pcfj_array = cfj_array json\<rparr>)\<rparr>"
| "copy_to_format_into_proto (CF_Parquet parquet) =
     Ok \<lparr>pcf_enum = Some (PCF_Parquet \<lparr>pcfp_row_group_size = cfp_row_group_size parquet\<rparr>)\<rparr>"

definition copy_to_format_try_from_proto :: "p_copy_to_format \<Rightarrow> copy_to_format_options proto_result" where
  "copy_to_format_try_from_proto v =
     (case pcf_enum v of
        None \<Rightarrow> Err (RequiredField ''copy_to_format_options_enum'')
      | Some (PCF_Lance lance) \<Rightarrow> Ok (CF_Lance
          \<lparr>cfl_max_rows_per_file = pcfl_max_rows_per_file lance,
           cfl_max_rows_per_group = pcfl_max_rows_per_group lance,
           cfl_max_bytes_per_file = pcfl_max_rows_per_group lance,
           cfl_input_batch_size = pcfl_input_batch_size lance\<rparr>)
      | Some (PCF_Delta _) \<Rightarrow> Ok (CF_Delta CopyToFormatOptionsDelta)
      | Some (PCF_Parquet parquet) \<Rightarrow>
          Ok (CF_Parquet \<lparr>cfp_row_group_size = pcfp_row_group_size parquet\<rparr>)
      | Some (PCF_Csv csv) \<Rightarrow>
          Ok (CF_Csv \<lparr>cfc_delim = ucast (pcfc_delim csv), cfc_header = pcfc_header csv\<rparr>)
      | Some (PCF_Json json) \<Rightarrow> Ok (CF_Json \<lparr>cfj_array = pcfj_array json\<rparr>)
      | Some (PCF_Bson _) \<Rightarrow> Ok (CF_Bson CopyToFormatOptionsBson))"

fun copy_to_destination_into_proto ::
  "copy_to_destination_options \<Rightarrow> p_copy_to_destination proto_result" where
  "copy_to_destination_into_proto (CD_Local d) =
     Ok \<lparr>pcd_enum = Some (PCD_Local \<lparr>pcdl_location = cdl_location d\<rparr>)\<rparr>"
| "copy_to_destination_into_proto (CD_Gcs gcs) =
     Ok \<lparr>pcd_enum = Some (PCD_Gcs \<lparr>pcdg_service_account_key = cdg_service_account_key gcs,
       pcdg_bucket = cdg_bucket gcs, pcdg_location = cdg_location gcs\<rparr>)\<rparr>"
| "copy_to_destination_into_proto (CD_S3 s3) =
     Ok \<lparr>pcd_enum = Some (PCD_S3 \<lparr>pcds_access_key_id = cds_access_key_id s3,
       pcds_secret_access_key = cds_secret_access_key s3, pcds_region = cds_region s3,
       pcds_bucket = cds_bucket s3, pcds_location = cds_location s3\<rparr>)\<rparr>"
| "copy_to_destination_into_proto (CD_Azure azure) =
     Ok \<lparr>pcd_enum = Some (PCD_Azure \<lparr>pcda_account = cda_account azure,
       pcda_access_key = cda_access_key azure, pcda_container = cda_container azure,
       pcda_location = cda_location azure\<rparr>)\<rparr>"

definition copy_to_destination_try_from_proto ::
  "p_copy_to_destination \<Rightarrow> copy_to_destination_options proto_result" where
  "copy_to_destination_try_from_proto v =
     (case pcd_enum v of
        None \<Rightarrow> Err (RequiredField ''copy_to_destination_options_enum'')
      | Some (PCD_Local d) \<Rightarrow> Ok (CD_Local \<lparr>cdl_location = pcdl_location d\<rparr>)
      | Some (PCD_Gcs gcs) \<Rightarrow> Ok (CD_Gcs \<lparr>cdg_service_account_key = pcdg_service_account_key gcs,
          cdg_bucket = pcdg_bucket gcs, cdg_location = pcdg_location gcs\<rparr>)
      | Some (PCD_S3 s3) \<Rightarrow> Ok (CD_S3 \<lparr>cds_access_key_id = pcds_access_key_id s3,
          cds_secret_access_key = pcds_secret_access_key s3, cds_region = pcds_region s3,
          cds_bucket = pcds_bucket s3, cds_location = pcds_location s3\<rparr>)
      | Some (PCD_Azure azure) \<Rightarrow> Ok (CD_Azure \<lparr>cda_account = pcda_account azure,
          cda_access_key = pcda_access_key azure, cda_container = pcda_container azure,
          cda_location = pcda_location azure\<rparr>))"

subsection \<open>The contracts\<close>

interpretation copy_to_destination_codec:
  codec "\<lambda>_. True" copy_to_destination_into_proto copy_to_destination_try_from_proto
  by unfold_locales (case_tac x; auto simp: copy_to_destination_try_from_proto_def)+

text \<open>What a format arrives as. Csv, Json and Parquet arrive as they were sent; a Lance format takes
  its bytes per file from its rows per group, and Bson and Delta do not arrive.\<close>

fun format_through_wire :: "copy_to_format_options \<Rightarrow> copy_to_format_options proto_result" where
  "format_through_wire (CF_Lance opts) =
     Ok (CF_Lance (opts\<lparr>cfl_max_bytes_per_file := cfl_max_rows_per_group opts\<rparr>))"
| "format_through_wire (CF_Bson _) = Err (RequiredField ''copy_to_format_options_enum'')"
| "format_through_wire (CF_Delta _) = Err (RequiredField ''copy_to_format_options_enum'')"
| "format_through_wire f = Ok f"

lemma format_wire:
  "obind (copy_to_format_into_proto f) copy_to_format_try_from_proto = format_through_wire f"
  by (cases f) (auto simp: copy_to_format_try_from_proto_def)

interpretation copy_to_format_codec: codec "\<lambda>f. format_through_wire f = Ok f"
  copy_to_format_into_proto copy_to_format_try_from_proto
proof
  show "is_ok (copy_to_format_into_proto f)" if "format_through_wire f = Ok f" for f
    by (cases f) auto
  show "copy_to_format_try_from_proto p = Ok f"
    if "format_through_wire f = Ok f" "copy_to_format_into_proto f = Ok p" for f p
    using format_wire [of f] that by simp
qed

end
