(* ===== verification/Storage_Proto.thy ===== *)
theory Storage_Proto
  imports Catalog_Codec
begin

section \<open>Persisted objects on the wire\<close>

text \<open>
  The messages of \<open>crates/protogen/proto/metastore/storage.proto\<close> and the conversions of
  \<open>crates/protogen/src/metastore/types/storage.rs\<close>: the lease, the catalog metadata and the
  persisted catalog.

  The record \<open>externs\<close> holds what these conversions and the storage code call outside the
  repository: \<open>UnionFields::new\<close> of Arrow, the conversions of \<open>prost_types::Timestamp\<close>,
  \<open>Uuid::from_slice\<close> and the display of a UUID, and the \<open>prost\<close> encoders and decoders of the three
  messages. \<open>externs_ok\<close> states what the code relies on: decoding gives back what was encoded (for
  a persisted catalog up to the order of the entries, which are a map), a time survives the
  timestamp, and any 16 bytes are a UUID.
\<close>

datatype lease_state = Unlocked | Locked

record lease_information =
  li_state :: lease_state
  li_generation :: u64
  li_expires_at :: "system_time option"
  li_held_by :: "uuid option"

record catalog_metadata =
  cm_latest_version :: u64
  cm_last_written_by :: uuid

record timestamp =
  ts_seconds :: i64
  ts_nanos :: i32

record p_lease_information =
  pli_state :: i32
  pli_generation :: u64
  pli_expires_at :: "timestamp option"
  pli_held_by :: bytes

record p_catalog_metadata =
  pcm_latest_version :: u64
  pcm_last_written_by :: bytes

record p_extra_state =
  pex_oid_counter :: oid

record p_persisted_catalog =
  ppc_state :: "p_catalog_state option"
  ppc_extra :: "p_extra_state option"

record externs =
  x_union_new :: union_new
  x_timestamp_from :: "system_time \<Rightarrow> timestamp"
  x_timestamp_try_into :: "timestamp \<Rightarrow> system_time proto_result"
  x_uuid_from_slice :: "bytes \<Rightarrow> uuid proto_result"
  x_uuid_display :: "uuid \<Rightarrow> string"
  x_encode_lease :: "p_lease_information \<Rightarrow> bytes storage_result"
  x_decode_lease :: "bytes \<Rightarrow> p_lease_information storage_result"
  x_encode_metadata :: "p_catalog_metadata \<Rightarrow> bytes storage_result"
  x_decode_metadata :: "bytes \<Rightarrow> p_catalog_metadata storage_result"
  x_encode_catalog :: "p_persisted_catalog \<Rightarrow> bytes storage_result"
  x_decode_catalog :: "bytes \<Rightarrow> p_persisted_catalog storage_result"

subsection \<open>Conversions\<close>

definition lease_state_try_from :: "i32 \<Rightarrow> lease_state proto_result" where
  "lease_state_try_from v =
     (if v = 0 then Err (ZeroValueEnumVariant ''LockState'')
      else if v = 1 then Ok Unlocked
      else if v = 2 then Ok Locked
      else Err (UnknownEnumVariant ''LockState'' v))"

fun lease_state_to_i32 :: "lease_state \<Rightarrow> i32" where
  "lease_state_to_i32 Unlocked = 1"
| "lease_state_to_i32 Locked = 2"

definition lease_information_try_from_proto ::
  "externs \<Rightarrow> p_lease_information \<Rightarrow> lease_information proto_result" where
  "lease_information_try_from_proto X v =
     obind (lease_state_try_from (pli_state v)) (\<lambda>state.
     if state = Unlocked
     then Ok \<lparr>li_state = state, li_generation = pli_generation v, li_expires_at = None, li_held_by = None\<rparr>
     else
       obind (optional (x_timestamp_try_into X) (pli_expires_at v)) (\<lambda>expires_at.
       obind (x_uuid_from_slice X (pli_held_by v)) (\<lambda>held_by.
       Ok \<lparr>li_state = state, li_generation = pli_generation v, li_expires_at = expires_at,
            li_held_by = Some held_by\<rparr>)))"

definition lease_information_into_proto :: "externs \<Rightarrow> lease_information \<Rightarrow> p_lease_information" where
  "lease_information_into_proto X v =
     \<lparr>pli_state = lease_state_to_i32 (li_state v), pli_generation = li_generation v,
      pli_expires_at = map_option (x_timestamp_from X) (li_expires_at v),
      pli_held_by = (case li_held_by v of Some u \<Rightarrow> u | None \<Rightarrow> [])\<rparr>"

definition catalog_metadata_try_from_proto ::
  "externs \<Rightarrow> p_catalog_metadata \<Rightarrow> catalog_metadata proto_result" where
  "catalog_metadata_try_from_proto X v =
     obind (x_uuid_from_slice X (pcm_last_written_by v)) (\<lambda>last_written_by.
     Ok \<lparr>cm_latest_version = pcm_latest_version v, cm_last_written_by = last_written_by\<rparr>)"

definition catalog_metadata_into_proto :: "catalog_metadata \<Rightarrow> p_catalog_metadata" where
  "catalog_metadata_into_proto v =
     \<lparr>pcm_latest_version = cm_latest_version v, pcm_last_written_by = cm_last_written_by v\<rparr>"

definition extra_state_try_from_proto :: "p_extra_state \<Rightarrow> extra_state proto_result" where
  "extra_state_try_from_proto v = Ok \<lparr>ex_oid_counter = pex_oid_counter v\<rparr>"

definition extra_state_into_proto :: "extra_state \<Rightarrow> p_extra_state" where
  "extra_state_into_proto v = \<lparr>pex_oid_counter = ex_oid_counter v\<rparr>"

definition persisted_catalog_try_from_proto ::
  "externs \<Rightarrow> p_persisted_catalog \<Rightarrow> persisted_catalog proto_result" where
  "persisted_catalog_try_from_proto X v =
     obind (required (catalog_state_try_from_proto (x_union_new X)) ''state'' (ppc_state v)) (\<lambda>state.
     obind (required extra_state_try_from_proto ''extra'' (ppc_extra v)) (\<lambda>extra.
     Ok \<lparr>pc_state = state, pc_extra = extra\<rparr>))"

definition persisted_catalog_into_proto :: "persisted_catalog \<Rightarrow> p_persisted_catalog proto_result" where
  "persisted_catalog_into_proto v =
     obind (catalog_state_into_proto (pc_state v)) (\<lambda>state.
     Ok \<lparr>ppc_state = Some state, ppc_extra = Some (extra_state_into_proto (pc_extra v))\<rparr>)"

subsection \<open>The contracts\<close>

text \<open>Messages with a map are the same when the entries of the map are.\<close>

definition same_entries :: "('k \<times> 'v) list \<Rightarrow> ('k \<times> 'v) list \<Rightarrow> bool" where
  "same_entries m m' = (hm_ok m' \<and> set m = set m')"

definition same_message :: "p_persisted_catalog \<Rightarrow> p_persisted_catalog \<Rightarrow> bool" where
  "same_message p p' =
     (ppc_extra p = ppc_extra p' \<and>
      (\<exists>s s'. ppc_state p = Some s \<and> ppc_state p' = Some s' \<and> same_entries (pcs_entries s) (pcs_entries s') \<and>
        s\<lparr>pcs_entries := []\<rparr> = s'\<lparr>pcs_entries := []\<rparr>))"

text \<open>The times that \<open>SystemTime\<close> holds in 64 bits of seconds.\<close>

definition time_ok :: "system_time \<Rightarrow> bool" where
  "time_ok t = (- (2 ^ 63) * 1000000000 < t \<and> t < 2 ^ 63 * 1000000000)"

definition externs_ok :: "externs \<Rightarrow> bool" where
  "externs_ok X =
     (union_new_spec (x_union_new X) \<and>
      (\<forall>t. time_ok t \<longrightarrow> x_timestamp_try_into X (x_timestamp_from X t) = Ok t) \<and>
      (\<forall>u. length u = 16 \<longrightarrow> x_uuid_from_slice X u = Ok u) \<and>
      (\<forall>p. \<exists>b. x_encode_lease X p = Ok b \<and> x_decode_lease X b = Ok p) \<and>
      (\<forall>p. \<exists>b. x_encode_metadata X p = Ok b \<and> x_decode_metadata X b = Ok p) \<and>
      (\<forall>p s b. ppc_state p = Some s \<longrightarrow> hm_ok (pcs_entries s) \<longrightarrow> x_encode_catalog X p = Ok b \<longrightarrow>
        (\<exists>p'. x_decode_catalog X b = Ok p' \<and> same_message p p')))"

interpretation lease_state_codec: exact_codec lease_state_to_i32 lease_state_try_from
  by unfold_locales (case_tac x; auto simp: lease_state_try_from_def)

lemma lease_state_try_from_simps [simp]:
  "lease_state_try_from 1 = Ok Unlocked" "lease_state_try_from 2 = Ok Locked"
  by (simp_all add: lease_state_try_from_def)

definition wire_lease :: "lease_information \<Rightarrow> bool" where
  "wire_lease v =
     (case li_state v of
        Unlocked \<Rightarrow> li_expires_at v = None \<and> li_held_by v = None
      | Locked \<Rightarrow> (\<exists>u. li_held_by v = Some u \<and> length u = 16) \<and> (\<forall>t. li_expires_at v = Some t \<longrightarrow> time_ok t))"

interpretation lease_codec: codec "\<lambda>v. externs_ok X \<and> wire_lease v"
  "\<lambda>v. Ok (lease_information_into_proto X v)" "lease_information_try_from_proto X" for X
  by unfold_locales
    (auto simp: externs_ok_def wire_lease_def lease_information_into_proto_def
      lease_information_try_from_proto_def optional_def split: lease_state.splits option.splits)

interpretation metadata_codec: codec "\<lambda>v. externs_ok X \<and> length (cm_last_written_by v) = 16"
  "\<lambda>v. Ok (catalog_metadata_into_proto v)" "catalog_metadata_try_from_proto X" for X
  by unfold_locales
    (auto simp: externs_ok_def catalog_metadata_into_proto_def catalog_metadata_try_from_proto_def)

interpretation extra_codec: exact_codec extra_state_into_proto extra_state_try_from_proto
  by unfold_locales (auto simp: extra_state_into_proto_def extra_state_try_from_proto_def
      intro!: extra_state.equality p_extra_state.equality)

subsection \<open>The persisted catalog\<close>

definition same_catalog :: "persisted_catalog \<Rightarrow> persisted_catalog \<Rightarrow> bool" where
  "same_catalog c c' =
     (pc_extra c = pc_extra c' \<and>
      same_entries (cs_entries (pc_state c)) (cs_entries (pc_state c')) \<and>
      (pc_state c)\<lparr>cs_entries := []\<rparr> = (pc_state c')\<lparr>cs_entries := []\<rparr>)"

lemma list_all2_exists:
  "(\<And>x. x \<in> set xs \<Longrightarrow> \<exists>y. R x y) \<Longrightarrow> \<exists>ys. list_all2 R xs ys"
proof (induction xs)
  case (Cons x xs)
  then obtain y ys where "R x y" "list_all2 R xs ys" by (meson list.set_intros)
  then show ?case by blast
qed (auto intro: exI [of _ "[]"])

text \<open>Decoding a permutation of the encoded entries gives a permutation of the entries.\<close>

lemma entries_decode_permuted:
  assumes rel: "list_all2 (\<lambda>(i, p) (j, x). i = j \<and> conv p = Ok x) ps es"
    and es: "hm_ok es" and ps': "same_entries ps ps'"
  obtains es' where "list_all2 (\<lambda>(i, p) (j, x). i = j \<and> conv p = Ok x) ps' es'" and "same_entries es es'"
proof -
  have "\<exists>y. fst q = fst y \<and> conv (snd q) = Ok (snd y) \<and> y \<in> set es" if "q \<in> set ps" for q
    using rel that by (induction rule: list_all2_induct) auto
  then have each: "\<exists>y. fst q = fst y \<and> conv (snd q) = Ok (snd y) \<and> y \<in> set es" if "q \<in> set ps'" for q
    using that ps' by (simp add: same_entries_def)
  have "\<exists>es'. list_all2 (\<lambda>q y. fst q = fst y \<and> conv (snd q) = Ok (snd y) \<and> y \<in> set es) ps' es'"
    by (rule list_all2_exists) (rule each)
  then obtain es' where
    es': "list_all2 (\<lambda>q y. fst q = fst y \<and> conv (snd q) = Ok (snd y) \<and> y \<in> set es) ps' es'" ..
  then have keys: "map fst es' = map fst ps'" and sub: "set es' \<subseteq> set es"
    by (induction rule: list_all2_induct) auto
  have keyset: "fst ` set es = fst ` set es'"
    using list_all2_keys [OF rel] ps' keys by (metis list.set_map same_entries_def)
  have "y \<in> set es'" if y: "y \<in> set es" for y
  proof -
    obtain y' where y': "y' \<in> set es'" "fst y' = fst y"
      using keyset y by (metis image_iff)
    then have "(fst y, snd y') \<in> set es" using sub by (metis prod.collapse subsetD)
    with y es have "snd y' = snd y"
      unfolding hm_ok_def by (metis eq_key_imp_eq_value prod.collapse)
    with y' show ?thesis by (metis prod.expand)
  qed
  with sub have "set es = set es'" by blast
  moreover have "hm_ok es'" using keys ps' by (simp add: hm_ok_def same_entries_def)
  moreover have "list_all2 (\<lambda>(i, p) (j, x). i = j \<and> conv p = Ok x) ps' es'"
    using es' by (rule list_all2_mono) auto
  ultimately show ?thesis by (intro that) (auto simp: same_entries_def)
qed

lemma state_decode_permuted:
  assumes s: "wire_state un s" and p: "catalog_state_into_proto s = Ok p"
    and p': "same_entries (pcs_entries p) (pcs_entries p')" "p\<lparr>pcs_entries := []\<rparr> = p'\<lparr>pcs_entries := []\<rparr>"
  obtains s' where "catalog_state_try_from_proto un p' = Ok s'"
    and "same_entries (cs_entries s) (cs_entries s')" and "s\<lparr>cs_entries := []\<rparr> = s'\<lparr>cs_entries := []\<rparr>"
proof -
  have ok: "hm_ok (cs_entries s)" and "list_all (\<lambda>(i, e). wire_entry un e) (cs_entries s)"
    using s by (auto simp: wire_state_def)
  from entries_roundtrip [OF this(2)] obtain ps where
    ps: "traverse (\<lambda>(i, ent). obind (catalog_entry_into_proto ent) (\<lambda>ent. Ok (i, ent))) (cs_entries s) = Ok ps"
    and rel: "list_all2 (\<lambda>(i, p) (j, x). i = j \<and> catalog_entry_try_from_proto un p = Ok x) ps (cs_entries s)"
    by blast
  have "hm_ok ps" using list_all2_keys [OF rel] ok by (simp add: hm_ok_def)
  then have "hm_extend [] ps = ps" using hm_extend_ok [of "[]" ps] by simp
  with ps p have pcs: "pcs_entries p = ps" "pcs_version p = cs_version s"
    "pcs_catalog_version p = Some (cs_catalog_version s)"
    "pcs_deployment p = Some (deployment_metadata_into_proto (cs_deployment s))"
    by (auto simp: catalog_state_into_proto_def)
  from p'(2) have same: "pcs_version p' = pcs_version p" "pcs_catalog_version p' = pcs_catalog_version p"
    "pcs_deployment p' = pcs_deployment p"
    by (cases p; cases p'; simp)+
  obtain es' where
    es': "list_all2 (\<lambda>(i, p) (j, x). i = j \<and> catalog_entry_try_from_proto un p = Ok x) (pcs_entries p') es'"
      "same_entries (cs_entries s) es'"
    using entries_decode_permuted [OF rel ok] p'(1) pcs(1) by metis
  have "ofold (\<lambda>(i, ent) entries. obind (catalog_entry_try_from_proto un ent)
      (\<lambda>ent. Ok (hm_insert i ent entries))) (pcs_entries p') [] = Ok es'"
    using ofold_insert_pairs [of "[]" es', OF _ es'(1)] es'(2) by (simp add: same_entries_def)
  then have "catalog_state_try_from_proto un p' = Ok (s\<lparr>cs_entries := es'\<rparr>)"
    using pcs(2-4) same by (simp add: catalog_state_try_from_proto_def)
  then show ?thesis using es'(2) by (intro that [of "s\<lparr>cs_entries := es'\<rparr>"]) simp_all
qed

lemma catalog_bytes_roundtrip:
  assumes X: "externs_ok X" and c: "wire_state (x_union_new X) (pc_state c)"
  shows "\<exists>p. persisted_catalog_into_proto c = Ok p \<and> (\<forall>b. x_encode_catalog X p = Ok b \<longrightarrow>
    (\<exists>c'. obind (x_decode_catalog X b) (\<lambda>p. omap_err SE_ProtoConv (persisted_catalog_try_from_proto X p)) = Ok c' \<and>
       same_catalog c c'))"
proof -
  from state_codec.encE [OF c] obtain q where q: "catalog_state_into_proto (pc_state c) = Ok q" by blast
  then have p: "persisted_catalog_into_proto c =
      Ok \<lparr>ppc_state = Some q, ppc_extra = Some (extra_state_into_proto (pc_extra c))\<rparr>"
    (is "_ = Ok ?p") by (simp add: persisted_catalog_into_proto_def)
  have "hm_ok (pcs_entries q)" using q by (auto simp: catalog_state_into_proto_def hm_ok_extend)
  then have dec: "\<exists>p'. x_decode_catalog X b = Ok p' \<and> same_message ?p p'" if "x_encode_catalog X ?p = Ok b" for b
    using X that unfolding externs_ok_def by (metis p_persisted_catalog.select_convs(1))
  have "\<exists>c'. obind (x_decode_catalog X b) (\<lambda>p. omap_err SE_ProtoConv (persisted_catalog_try_from_proto X p)) = Ok c' \<and>
      same_catalog c c'" if b: "x_encode_catalog X ?p = Ok b" for b
  proof -
    from dec [OF b] obtain p' where p': "x_decode_catalog X b = Ok p'" "same_message ?p p'" by blast
    then obtain q' where q': "ppc_state p' = Some q'" "ppc_extra p' = Some (extra_state_into_proto (pc_extra c))"
      "same_entries (pcs_entries q) (pcs_entries q')" "q\<lparr>pcs_entries := []\<rparr> = q'\<lparr>pcs_entries := []\<rparr>"
      by (auto simp: same_message_def)
    from state_decode_permuted [OF c q q'(3,4)] obtain s' where
      s': "catalog_state_try_from_proto (x_union_new X) q' = Ok s'"
      "same_entries (cs_entries (pc_state c)) (cs_entries s')" "(pc_state c)\<lparr>cs_entries := []\<rparr> = s'\<lparr>cs_entries := []\<rparr>" .
    have "persisted_catalog_try_from_proto X p' = Ok \<lparr>pc_state = s', pc_extra = pc_extra c\<rparr>"
      using q'(1,2) s'(1) by (simp add: persisted_catalog_try_from_proto_def)
    with p' s' show ?thesis by (auto simp: same_catalog_def)
  qed
  with p show ?thesis by blast
qed

end
