(* ===== verification/Wire_Theorems.thy ===== *)
theory Wire_Theorems
  imports Service_Proto Copy_To Table_Options_V1 Storage_Proto
begin

section \<open>The main theorems on the wire formats\<close>

text \<open>
  What a value is after it was sent: the conversions to Protobuf messages and back, each theorem
  with an instance on concrete values. \<open>union_fields_new\<close> is an implementation of
  \<open>UnionFields::new\<close> with the documented behaviour, for these instances.
\<close>

definition union_fields_new :: union_new where
  "union_fields_new ids fs =
     (if length ids = length fs \<and> distinct ids \<and> list_all (\<lambda>i. 0 \<le> sint i) ids
      then Ok (zip ids fs) else Panic ''duplicate or negative type id'')"

lemma union_fields_new_spec: "union_new_spec union_fields_new"
  by (simp add: union_new_spec_def union_fields_new_def)

definition sample_column :: internal_column_definition where
  "sample_column = \<lparr>icd_name = ''a'', icd_nullable = True,
     icd_arrow_type = DT_List (Field ''item'' (DT_Timestamp Microsecond (Some ''UTC'')) True)\<rparr>"

lemma sample_column_wire: "wire_columns union_fields_new [sample_column]"
  by (simp add: wire_columns_def wire_column_def wire_type_def union_fields_new_spec sample_column_def)

definition sample_table :: table_entry where
  "sample_table =
     \<lparr>te_meta = \<lparr>meta_entry_type = ET_Table, meta_id = 20001, meta_parent = 20000, meta_name = ''t'',
        meta_builtin = False, meta_external = False, meta_is_temp = False\<rparr>,
      te_options = TO_Internal \<lparr>toi_columns = [sample_column]\<rparr>, te_tunnel_id = None,
      te_access_mode = ReadWrite, te_columns = Some [sample_column]\<rparr>"

subsection \<open>Round trips\<close>

text \<open>C18. A mutation other than \<open>CreateFunction\<close> arrives as it was sent, whenever its column types can
  be encoded and a list of columns, where there is one, is not empty.\<close>

theorem mutation_wire_roundtrip:
  assumes "wire_mutation un m"
  shows "\<exists>p. mutation_into_proto m = Ok p \<and> mutation_try_from_proto un p = Ok m"
  by (rule mutation_codec.encE [OF assms]) blast

theorem mutation_wire_roundtrip_witness:
  "let m = CreateTable \<lparr>ct_schema = ''s'', ct_name = ''t'', ct_options = \<lparr>toi_columns = [sample_column]\<rparr>,
       ct_if_not_exists = False, ct_or_replace = True\<rparr>
   in \<exists>p. mutation_into_proto m = Ok p \<and> mutation_try_from_proto union_fields_new p = Ok m"
  unfolding Let_def by (rule mutation_wire_roundtrip) (simp add: sample_column_wire)

text \<open>C19. The state of a catalog arrives as it was sent: every entry, the version, the deployment
  metadata and the format version. Entries are a map without repeated oids.\<close>

theorem catalog_state_wire_roundtrip:
  assumes "wire_state un s"
  shows "\<exists>p. catalog_state_into_proto s = Ok p \<and> catalog_state_try_from_proto un p = Ok s"
  by (rule state_codec.encE [OF assms]) blast

theorem catalog_state_wire_roundtrip_witness:
  "let s = \<lparr>cs_version = 3, cs_entries = [(20001, Table sample_table)], cs_deployment = \<lparr>dm_storage_size = 5\<rparr>,
       cs_catalog_version = 0\<rparr>
   in \<exists>p. catalog_state_into_proto s = Ok p \<and> catalog_state_try_from_proto union_fields_new p = Ok s"
  unfolding Let_def
  by (rule catalog_state_wire_roundtrip)
    (simp add: wire_state_def hm_ok_def wire_table_def wire_table_options_def sample_table_def sample_column_wire)

text \<open>C26. An Arrow type can be encoded exactly when no \<open>Decimal256\<close>, \<open>Map\<close> or \<open>RunEndEncoded\<close> occurs in
  it, encoding never panics, and a type that \<open>dt_fits\<close> admits (no empty time zone, union type ids that
  are distinct and not negative) arrives as it was sent.\<close>

theorem arrow_type_wire:
  "(is_ok (arrow_type_try_from t) \<longleftrightarrow> dt_supported t) \<and> \<not> is_panic (arrow_type_try_from t) \<and>
   (union_new_spec un \<and> dt_fits t \<longrightarrow>
     (\<exists>a. arrow_type_try_from t = Ok a \<and> data_type_try_from un a = Ok t))"
  using arrow_encode_is_ok(1) arrow_encode_no_panic(1) type_codec.encE [of un t]
  unfolding wire_type_def by blast

theorem arrow_type_wire_witness:
  "let t = DT_Union [(1, Field ''a'' DT_Utf8 False), (0, Field ''b'' (DT_Decimal128 38 10) True)] Dense
   in \<exists>a. arrow_type_try_from t = Ok a \<and> data_type_try_from union_fields_new a = Ok t"
  unfolding Let_def
  using arrow_type_wire [of "DT_Union [(1, Field ''a'' DT_Utf8 False), (0, Field ''b'' (DT_Decimal128 38 10) True)] Dense"
      union_fields_new] union_fields_new_spec by simp

text \<open>C27. Database, tunnel and credentials options are encoded exactly: a message decodes to an
  option value if and only if it is the encoding of that value, so that decoding never changes
  what was sent and no two messages mean the same.\<close>

theorem options_wire_exact:
  "(database_options_try_from_proto p = Ok v \<longleftrightarrow> p = database_options_into_proto v) \<and>
   (tunnel_options_try_from_proto q = Ok w \<longleftrightarrow> q = tunnel_options_into_proto w) \<and>
   (credentials_options_try_from_proto r = Ok u \<longleftrightarrow> r = credentials_options_into_proto u)"
  by (simp add: database_options_codec.exact tunnel_options_codec.exact credentials_options_codec.exact)

subsection \<open>Where a value does not arrive\<close>

text \<open>C28. A \<open>CreateFunction\<close> mutation never arrives as it was sent. The sender writes the Rust
  discriminant of the function type and the receiver reads the value of the Protobuf enum, which is
  one less: an aggregate function is refused, a scalar function becomes an aggregate and a
  table function becomes scalar.\<close>

theorem create_function_wire_shifted:
  assumes "wire_signature un (cf_signature f)"
  shows "\<exists>p. mutation_into_proto (CreateFunction f) = Ok p \<and>
    mutation_try_from_proto un p =
      (case cf_function_type f of
         Aggregate \<Rightarrow> Err (ZeroValueEnumVariant ''FunctionType'')
       | Scalar \<Rightarrow> Ok (CreateFunction (f\<lparr>cf_function_type := Aggregate\<rparr>))
       | TableReturning \<Rightarrow> Ok (CreateFunction (f\<lparr>cf_function_type := Scalar\<rparr>)))"
  using assms by (rule create_function_wire)

theorem create_function_wire_shifted_witness:
  "let f = \<lparr>cf_name = ''f'', cf_aliases = [''g''],
       cf_signature = \<lparr>sig_type_signature = TS_Exact [DT_Utf8], sig_volatility = Stable\<rparr>, cf_function_type = Scalar\<rparr>
   in \<exists>p. mutation_into_proto (CreateFunction f) = Ok p \<and>
     mutation_try_from_proto union_fields_new p = Ok (CreateFunction (f\<lparr>cf_function_type := Aggregate\<rparr>))"
  using create_function_wire_shifted [of union_fields_new "\<lparr>cf_name = ''f'', cf_aliases = [''g''],
       cf_signature = \<lparr>sig_type_signature = TS_Exact [DT_Utf8], sig_volatility = Stable\<rparr>, cf_function_type = Scalar\<rparr>"]
  by (simp add: wire_signature_def wire_type_def union_fields_new_spec)

text \<open>C31. Encoding a column definition panics exactly when its type has no encoding.\<close>

theorem column_definition_panics_iff:
  "is_panic (internal_column_definition_into_proto c) \<longleftrightarrow> \<not> dt_supported (icd_arrow_type c)"
  by (rule column_encode_panics)

text \<open>C29. Table options of version 0 that were converted to version 1 come back as \<open>v0_through_v1\<close> says:
  unchanged for the options that have a name of their own; for the six kinds that share the name
  \<open>object_store\<close> by their file type, so that for example SQLite options fail or change their kind.\<close>

theorem table_options_upgrade:
  assumes "serde_ok S" and "table_options_v1_from_v0 S t = Ok v"
  shows "table_options_v0_try_from_v1 S v = v0_through_v1 t"
  using assms by (rule v0_v1_v0)

text \<open>A serializer that accepts one value, and one that accepts none.\<close>

definition json_none :: "'a json" where
  "json_none = \<lparr>to_vec = (\<lambda>_. None), from_slice = (\<lambda>_. Inl ''expected value'')\<rparr>"

definition json_only :: "'a \<Rightarrow> 'a json" where
  "json_only x = \<lparr>to_vec = (\<lambda>y. if y = x then Some [1] else None),
     from_slice = (\<lambda>b. if b = [1] then Inr x else Inl ''expected value'')\<rparr>"

lemma json_only_ok: "json_ok value json_none" "value [1] \<Longrightarrow> json_ok value (json_only x)"
  by (simp_all add: json_ok_def json_only_def json_none_def)

definition sample_sqlite :: table_options_object_store where
  "sample_sqlite = \<lparr>toos_location = ''a.db'', toos_name = Some ''t'', toos_storage_options = \<lparr>so_inner = []\<rparr>,
     toos_file_type = None, toos_compression = None, toos_schema_sample_size = None\<rparr>"

theorem table_options_upgrade_witness:
  "\<exists>S v. serde_ok S \<and> table_options_v1_from_v0 S (TO_Sqlite sample_sqlite) = Ok v \<and>
     table_options_v0_try_from_v1 S v = Err (UnknownVariant ''object_store'')"
proof -
  define S where "S = \<lparr>sj_value = (\<lambda>b. b = [1]), sj_debug = json_none, sj_internal = json_none,
    sj_postgres = json_none, sj_bigquery = json_none, sj_mysql = json_none,
    sj_local = json_none, sj_gcs = json_none, sj_s3 = json_none,
    sj_mongodb = json_none, sj_excel = json_none, sj_sqlserver = json_none,
    sj_clickhouse = json_none, sj_cassandra = json_none, sj_snowflake = json_none,
    sj_object_store = json_only sample_sqlite\<rparr>"
  have S: "serde_ok S" by (simp add: serde_ok_def S_def json_only_ok)
  have "table_options_v1_from_v0 S (TO_Sqlite sample_sqlite) =
      Ok \<lparr>tov1_name = ''object_store'', tov1_options = [1], tov1_version = VERSION\<rparr>"
    by (simp add: S_def table_options_v1_new_def json_only_def)
  with table_options_upgrade [OF S this] S show ?thesis
    by (auto simp: object_store_v0_def sample_sqlite_def)
qed


end
