(* ===== verification/Validation.thy ===== *)
theory Validation
  imports Errors
begin

section \<open>Validation of names and of data source combinations\<close>

text \<open>
  \<open>crates/sqlbuiltins/src/validation.rs\<close>: the length limit on object names and the tables of
  which tunnels, credentials and formats a data source supports. The combinations are given by
  the \<open>as_str\<close> names of the options, as in the source.
\<close>

definition POSTGRES_IDENT_MAX_LENGTH :: nat where
  "POSTGRES_IDENT_MAX_LENGTH = 63"

definition validate_object_name :: "string \<Rightarrow> (validation_error, unit) outcome" where
  "validate_object_name name =
     (if length name > POSTGRES_IDENT_MAX_LENGTH
      then Err (InvalidNameLength (length name) POSTGRES_IDENT_MAX_LENGTH)
      else Ok ())"

definition validate_database_tunnel_support :: "string \<Rightarrow> string \<Rightarrow> (validation_error, unit) outcome" where
  "validate_database_tunnel_support database tunnel =
     (if (database, tunnel) \<in> {(''debug'', ''debug''), (''postgres'', ''ssh''), (''mysql'', ''ssh'')}
      then Ok () else Err (TunnelNotSupportedByDatasource tunnel database))"

definition validate_table_tunnel_support :: "string \<Rightarrow> string \<Rightarrow> (validation_error, unit) outcome" where
  "validate_table_tunnel_support table tunnel =
     (if (table, tunnel) \<in> {(''debug'', ''debug''), (''postgres'', ''ssh''), (''mysql'', ''ssh'')}
      then Ok () else Err (TunnelNotSupportedByDatasource tunnel table))"

definition validate_database_creds_support :: "string \<Rightarrow> string \<Rightarrow> (validation_error, unit) outcome" where
  "validate_database_creds_support database creds =
     (if (database = ''bigquery'' \<and> creds = ''gcp'')
       \<or> (database = ''delta'' \<and> (creds = ''gcp'' \<or> creds = ''aws'' \<or> creds = ''azure''))
      then Ok () else Err (CredentialsNotSupportedByDatasource creds database))"

definition validate_table_creds_support :: "string \<Rightarrow> string \<Rightarrow> (validation_error, unit) outcome" where
  "validate_table_creds_support table creds =
     (if (table = ''debug'' \<and> creds = ''debug'')
       \<or> (table = ''gcs'' \<and> creds = ''gcp'')
       \<or> (table = ''bigquery'' \<and> creds = ''gcp'')
       \<or> (table = ''s3'' \<and> creds = ''aws'')
       \<or> (table = ''azure'' \<and> creds = ''azure'')
       \<or> ((table = ''delta'' \<or> table = ''iceberg'' \<or> table = ''lance'')
          \<and> (creds = ''gcp'' \<or> creds = ''aws'' \<or> creds = ''azure''))
      then Ok () else Err (CredentialsNotSupportedByDatasource creds table))"

definition validate_copyto_dest_creds_support :: "string \<Rightarrow> string \<Rightarrow> (validation_error, unit) outcome" where
  "validate_copyto_dest_creds_support dest creds =
     (if (dest, creds) \<in> {(''gcs'', ''gcp''), (''s3'', ''aws''), (''azure'', ''azure'')}
      then Ok () else Err (CredentialsNotSupportedByDatasource creds dest))"

definition validate_copyto_dest_format_support :: "string \<Rightarrow> string \<Rightarrow> (validation_error, unit) outcome" where
  "validate_copyto_dest_format_support dest format =
     (if dest = ''local'' \<or> dest = ''gcs'' \<or> dest = ''s3'' \<or> dest = ''azure''
      then Ok () else Err (FormatNotSupportedByDatasource format dest))"

subsection \<open>What validation accepts\<close>

lemma validate_object_name_no_panic [simp]: "\<not> is_panic (validate_object_name name)"
  by (simp add: validate_object_name_def)

lemma validate_database_tunnel_support_no_panic [simp]:
  "\<not> is_panic (validate_database_tunnel_support database tunnel)"
  by (simp add: validate_database_tunnel_support_def)

lemma validate_table_tunnel_support_no_panic [simp]:
  "\<not> is_panic (validate_table_tunnel_support table tunnel)"
  by (simp add: validate_table_tunnel_support_def)

lemma validate_object_name_Ok_iff: "validate_object_name name = Ok u \<longleftrightarrow> length name \<le> 63"
  by (auto simp: validate_object_name_def POSTGRES_IDENT_MAX_LENGTH_def)

lemma validate_table_tunnel_support_options:
  "validate_table_tunnel_support (table_options_v0_as_str t) (tunnel_options_as_str u) = Ok () \<longleftrightarrow>
     (case (t, u) of
        (TO_Debug _, TuO_Debug _) \<Rightarrow> True
      | (TO_Postgres _, TuO_Ssh _) \<Rightarrow> True
      | (TO_Mysql _, TuO_Ssh _) \<Rightarrow> True
      | _ \<Rightarrow> False)"
  by (cases t; cases u) (simp_all add: validate_table_tunnel_support_def)

end
