(* ===== verification/Builtins.thy ===== *)
theory Builtins
  imports Validation
begin

section \<open>Builtin objects\<close>

text \<open>
  The builtin databases, schemas, tables and views of \<open>crates/sqlbuiltins/src/builtins.rs\<close>
  and the oid ranges of \<open>crates/pgrepr/src/oid.rs\<close>. The SQL texts of the builtin views are
  never inspected by the catalog code: they are the parameter \<open>sql\<close>, a function of the name of
  the view. A builtin function is the part of the trait \<open>BuiltinFunction\<close> that the builtin
  catalog reads; the registry of functions itself is an argument of the definitions that use it.
\<close>

definition FIRST_GLAREDB_BUILTIN_ID :: oid where
  "FIRST_GLAREDB_BUILTIN_ID = 16384"

definition FIRST_AVAILABLE_ID :: oid where
  "FIRST_AVAILABLE_ID = 20000"

definition DEFAULT_CATALOG :: string where "DEFAULT_CATALOG = ''default''"
definition DEFAULT_SCHEMA :: string where "DEFAULT_SCHEMA = ''public''"
definition INTERNAL_SCHEMA :: string where "INTERNAL_SCHEMA = ''glare_catalog''"
definition INFORMATION_SCHEMA :: string where "INFORMATION_SCHEMA = ''information_schema''"
definition POSTGRES_SCHEMA :: string where "POSTGRES_SCHEMA = ''pg_catalog''"
definition CURRENT_SESSION_SCHEMA :: string where "CURRENT_SESSION_SCHEMA = ''current_session''"

definition FIRST_NON_STATIC_OID :: oid where
  "FIRST_NON_STATIC_OID = FIRST_GLAREDB_BUILTIN_ID + 116"

lemmas builtin_names = DEFAULT_CATALOG_def DEFAULT_SCHEMA_def INTERNAL_SCHEMA_def
  INFORMATION_SCHEMA_def POSTGRES_SCHEMA_def CURRENT_SESSION_SCHEMA_def

lemmas builtin_oids = FIRST_GLAREDB_BUILTIN_ID_def FIRST_AVAILABLE_ID_def FIRST_NON_STATIC_OID_def

subsection \<open>Databases and schemas\<close>

record builtin_database =
  bd_name :: string
  bd_oid :: oid

definition DATABASE_DEFAULT :: builtin_database where
  "DATABASE_DEFAULT = \<lparr>bd_name = DEFAULT_CATALOG, bd_oid = FIRST_GLAREDB_BUILTIN_ID\<rparr>"

definition builtin_databases :: "builtin_database list" where
  "builtin_databases = [DATABASE_DEFAULT]"

record builtin_schema =
  bs_name :: string
  bs_oid :: oid

definition SCHEMA_INTERNAL :: builtin_schema where
  "SCHEMA_INTERNAL = \<lparr>bs_name = INTERNAL_SCHEMA, bs_oid = 16385\<rparr>"

definition SCHEMA_DEFAULT :: builtin_schema where
  "SCHEMA_DEFAULT = \<lparr>bs_name = DEFAULT_SCHEMA, bs_oid = 16386\<rparr>"

definition SCHEMA_INFORMATION :: builtin_schema where
  "SCHEMA_INFORMATION = \<lparr>bs_name = INFORMATION_SCHEMA, bs_oid = 16387\<rparr>"

definition SCHEMA_POSTGRES :: builtin_schema where
  "SCHEMA_POSTGRES = \<lparr>bs_name = POSTGRES_SCHEMA, bs_oid = 16388\<rparr>"

definition SCHEMA_CURRENT_SESSION :: builtin_schema where
  "SCHEMA_CURRENT_SESSION = \<lparr>bs_name = CURRENT_SESSION_SCHEMA, bs_oid = 16389\<rparr>"

definition builtin_schemas :: "builtin_schema list" where
  "builtin_schemas =
     [SCHEMA_INTERNAL, SCHEMA_DEFAULT, SCHEMA_INFORMATION, SCHEMA_POSTGRES,
      SCHEMA_CURRENT_SESSION]"

lemmas builtin_schema_defs = SCHEMA_INTERNAL_def SCHEMA_DEFAULT_def SCHEMA_INFORMATION_def
  SCHEMA_POSTGRES_def SCHEMA_CURRENT_SESSION_def

subsection \<open>Tables\<close>

record builtin_table =
  bt_schema :: string
  bt_name :: string
  bt_columns :: "internal_column_definition list"
  bt_oid :: oid

definition builtin_table_matches :: "builtin_table \<Rightarrow> string \<Rightarrow> string \<Rightarrow> bool" where
  "builtin_table_matches t schema name \<longleftrightarrow> bt_schema t = schema \<and> bt_name t = name"

definition builtin_table_arrow_schema :: "builtin_table \<Rightarrow> field list" where
  "builtin_table_arrow_schema t =
     map (\<lambda>col. Field (icd_name col) (icd_arrow_type col) (icd_nullable col)) (bt_columns t)"

definition GLARE_DATABASES :: builtin_table where
  "GLARE_DATABASES =
     \<lparr>bt_schema = INTERNAL_SCHEMA, bt_name = ''databases'',
      bt_columns = from_tuples
       [(''oid'', DT_UInt32, False),
        (''database_name'', DT_Utf8, False),
        (''builtin'', DT_Boolean, False),
        (''external'', DT_Boolean, False),
        (''datasource'', DT_Utf8, False),
        (''access_mode'', DT_Utf8, False)],
      bt_oid = 16401\<rparr>"

definition GLARE_TUNNELS :: builtin_table where
  "GLARE_TUNNELS =
     \<lparr>bt_schema = INTERNAL_SCHEMA, bt_name = ''tunnels'',
      bt_columns = from_tuples
       [(''oid'', DT_UInt32, False),
        (''tunnel_name'', DT_Utf8, False),
        (''builtin'', DT_Boolean, False),
        (''tunnel_type'', DT_Utf8, False)],
      bt_oid = 16402\<rparr>"

definition GLARE_CREDENTIALS :: builtin_table where
  "GLARE_CREDENTIALS =
     \<lparr>bt_schema = INTERNAL_SCHEMA, bt_name = ''credentials'',
      bt_columns = from_tuples
       [(''oid'', DT_UInt32, False),
        (''credentials_name'', DT_Utf8, False),
        (''builtin'', DT_Boolean, False),
        (''provider'', DT_Utf8, False),
        (''comment'', DT_Utf8, False)],
      bt_oid = 16403\<rparr>"

definition GLARE_SCHEMAS :: builtin_table where
  "GLARE_SCHEMAS =
     \<lparr>bt_schema = INTERNAL_SCHEMA, bt_name = ''schemas'',
      bt_columns = from_tuples
       [(''oid'', DT_UInt32, False),
        (''database_oid'', DT_UInt32, False),
        (''database_name'', DT_Utf8, False),
        (''schema_name'', DT_Utf8, False),
        (''builtin'', DT_Boolean, False)],
      bt_oid = 16404\<rparr>"

definition GLARE_TABLES :: builtin_table where
  "GLARE_TABLES =
     \<lparr>bt_schema = INTERNAL_SCHEMA, bt_name = ''tables'',
      bt_columns = from_tuples
       [(''oid'', DT_UInt32, False),
        (''database_oid'', DT_UInt32, False),
        (''schema_oid'', DT_UInt32, False),
        (''schema_name'', DT_Utf8, False),
        (''table_name'', DT_Utf8, False),
        (''builtin'', DT_Boolean, False),
        (''external'', DT_Boolean, False),
        (''datasource'', DT_Utf8, False),
        (''access_mode'', DT_Utf8, False)],
      bt_oid = 16405\<rparr>"

definition GLARE_VIEWS :: builtin_table where
  "GLARE_VIEWS =
     \<lparr>bt_schema = INTERNAL_SCHEMA, bt_name = ''views'',
      bt_columns = from_tuples
       [(''oid'', DT_UInt32, False),
        (''database_oid'', DT_UInt32, False),
        (''schema_oid'', DT_UInt32, False),
        (''schema_name'', DT_Utf8, False),
        (''view_name'', DT_Utf8, False),
        (''builtin'', DT_Boolean, False),
        (''sql'', DT_Utf8, False)],
      bt_oid = 16406\<rparr>"

definition GLARE_COLUMNS :: builtin_table where
  "GLARE_COLUMNS =
     \<lparr>bt_schema = INTERNAL_SCHEMA, bt_name = ''columns'',
      bt_columns = from_tuples
       [(''schema_oid'', DT_UInt32, False),
        (''table_oid'', DT_UInt32, False),
        (''table_name'', DT_Utf8, False),
        (''column_name'', DT_Utf8, False),
        (''column_ordinal'', DT_UInt32, False),
        (''data_type'', DT_Utf8, False),
        (''is_nullable'', DT_Boolean, False)],
      bt_oid = 16407\<rparr>"

definition GLARE_FUNCTIONS :: builtin_table where
  "GLARE_FUNCTIONS =
     \<lparr>bt_schema = INTERNAL_SCHEMA, bt_name = ''functions'',
      bt_columns = from_tuples
       [(''oid'', DT_UInt32, False),
        (''schema_oid'', DT_UInt32, False),
        (''function_name'', DT_Utf8, False),
        (''function_type'', DT_Utf8, False),
        (''parameters'', DT_List (Field ''item'' DT_Utf8 True), False),
        (''builtin'', DT_Boolean, False),
        (''example'', DT_Utf8, True),
        (''description'', DT_Utf8, True)],
      bt_oid = 16408\<rparr>"

definition GLARE_SSH_KEYS :: builtin_table where
  "GLARE_SSH_KEYS =
     \<lparr>bt_schema = INTERNAL_SCHEMA, bt_name = ''ssh_keys'',
      bt_columns = from_tuples
       [(''ssh_tunnel_oid'', DT_UInt32, False),
        (''ssh_tunnel_name'', DT_Utf8, False),
        (''public_key'', DT_Utf8, False)],
      bt_oid = 16409\<rparr>"

definition GLARE_DEPLOYMENT_METADATA :: builtin_table where
  "GLARE_DEPLOYMENT_METADATA =
     \<lparr>bt_schema = INTERNAL_SCHEMA, bt_name = ''deployment_metadata'',
      bt_columns = from_tuples
       [(''key'', DT_Utf8, False),
        (''value'', DT_Utf8, False)],
      bt_oid = 16410\<rparr>"

definition GLARE_CACHED_EXTERNAL_DATABASE_TABLES :: builtin_table where
  "GLARE_CACHED_EXTERNAL_DATABASE_TABLES =
     \<lparr>bt_schema = INTERNAL_SCHEMA, bt_name = ''cached_external_database_tables'',
      bt_columns = from_tuples
       [(''database_oid'', DT_UInt32, False),
        (''schema_name'', DT_Utf8, False),
        (''table_name'', DT_Utf8, False),
        (''column_name'', DT_Utf8, False),
        (''data_type'', DT_Utf8, False)],
      bt_oid = 16411\<rparr>"

definition builtin_tables :: "builtin_table list" where
  "builtin_tables =
     [GLARE_DATABASES, GLARE_TUNNELS, GLARE_CREDENTIALS, GLARE_SCHEMAS, GLARE_VIEWS,
      GLARE_TABLES, GLARE_COLUMNS, GLARE_FUNCTIONS, GLARE_SSH_KEYS, GLARE_DEPLOYMENT_METADATA,
      GLARE_CACHED_EXTERNAL_DATABASE_TABLES]"

lemmas builtin_table_defs =
  GLARE_DATABASES_def GLARE_TUNNELS_def GLARE_CREDENTIALS_def GLARE_SCHEMAS_def
  GLARE_VIEWS_def GLARE_TABLES_def GLARE_COLUMNS_def GLARE_FUNCTIONS_def GLARE_SSH_KEYS_def
  GLARE_DEPLOYMENT_METADATA_def GLARE_CACHED_EXTERNAL_DATABASE_TABLES_def

subsection \<open>Views and functions\<close>

record builtin_view =
  bv_schema :: string
  bv_name :: string
  bv_sql :: string

definition builtin_view_names :: "(string \<times> string) list" where
  "builtin_view_names =
     [(INTERNAL_SCHEMA, ''external_datasources''), (INFORMATION_SCHEMA, ''schemata''),
     (INFORMATION_SCHEMA, ''tables''), (INFORMATION_SCHEMA, ''columns''),
     (POSTGRES_SCHEMA, ''pg_am''), (POSTGRES_SCHEMA, ''pg_attribute''),
     (POSTGRES_SCHEMA, ''pg_class''), (POSTGRES_SCHEMA, ''pg_namespace''),
     (POSTGRES_SCHEMA, ''pg_description''), (POSTGRES_SCHEMA, ''pg_database''),
     (POSTGRES_SCHEMA, ''pg_tables''), (POSTGRES_SCHEMA, ''pg_views''),
     (POSTGRES_SCHEMA, ''pg_type''), (POSTGRES_SCHEMA, ''pg_matviews''),
     (POSTGRES_SCHEMA, ''pg_rewrite''), (POSTGRES_SCHEMA, ''pg_depend'')]"

definition builtin_views :: "(string \<Rightarrow> string) \<Rightarrow> builtin_view list" where
  "builtin_views sql =
     map (\<lambda>(schema, name). \<lparr>bv_schema = schema, bv_name = name, bv_sql = sql name\<rparr>)
       builtin_view_names"

record builtin_function =
  bf_name :: string
  bf_aliases :: "string list"
  bf_function_type :: function_type
  bf_signature :: "signature option"

subsection \<open>Oid ranges and names\<close>

lemma builtin_schema_oid_range:
  "s \<in> set builtin_schemas \<Longrightarrow> 16385 \<le> bs_oid s \<and> bs_oid s \<le> 16400"
  by (auto simp: builtin_schemas_def builtin_schema_defs)

lemma builtin_schema_oids_distinct: "distinct (map bs_oid builtin_schemas)"
  by (simp add: builtin_schemas_def builtin_schema_defs)

lemma builtin_schema_names_distinct: "distinct (map bs_name builtin_schemas)"
  by (simp add: builtin_schemas_def builtin_schema_defs builtin_names)

lemma builtin_table_oid_range:
  "t \<in> set builtin_tables \<Longrightarrow> 16401 \<le> bt_oid t \<and> bt_oid t < FIRST_NON_STATIC_OID"
  by (auto simp: builtin_tables_def builtin_table_defs builtin_oids)

lemma builtin_table_oids_distinct: "distinct (map bt_oid builtin_tables)"
  by (simp add: builtin_tables_def builtin_table_defs)

lemma builtin_table_schemas:
  "t \<in> set builtin_tables \<Longrightarrow> bt_schema t \<in> set (map bs_name builtin_schemas)"
  by (auto simp: builtin_tables_def builtin_table_defs builtin_schemas_def builtin_schema_defs)

lemma builtin_view_schemas:
  "v \<in> set (builtin_views sql) \<Longrightarrow> bv_schema v \<in> set (map bs_name builtin_schemas)"
  by (auto simp: builtin_views_def builtin_view_names_def builtin_schemas_def builtin_schema_defs)

lemma builtin_view_names_distinct: "distinct builtin_view_names"
  by (simp add: builtin_view_names_def builtin_names)

lemma length_builtin_views: "length (builtin_views sql) = 16"
  by (simp add: builtin_views_def builtin_view_names_def)

end
