(* ===== verification/Entry_Index.thy ===== *)
theory Entry_Index
  imports Errors
begin

section \<open>Name indexes over catalog entries\<close>

text \<open>
  The metastore keeps every entry in one map from oids to entries and, beside it, maps from
  names to oids: one for databases, tunnels, credentials and schemas, and two per schema for the
  table and the function namespace. Read together they are one index from keys (namespace,
  parent, name) to oids. \<open>indexes\<close> says that an index agrees with the entries:
  every key points to an entry that carries it, and every entry that a user created is found
  under its key. Builtin functions may share a name, so the second half leaves builtin entries
  out.

  The locale \<open>name_index\<close> is the contract between a catalog and its index: how the operations
  that write an entry or a name show up in what is read. Its lemmas are the
  effects of create, drop, replace and rename, on the agreement and on what a key resolves to.
\<close>

subsection \<open>Keys and agreement\<close>

datatype namespace =
    NS_Database | NS_Tunnel | NS_Credentials | NS_Schema | NS_Table | NS_Function

type_synonym key = "namespace \<times> oid \<times> string"

fun namespace_of :: "entry_type \<Rightarrow> namespace" where
  "namespace_of ET_Database = NS_Database"
| "namespace_of ET_Tunnel = NS_Tunnel"
| "namespace_of ET_Credentials = NS_Credentials"
| "namespace_of ET_Schema = NS_Schema"
| "namespace_of ET_Table = NS_Table"
| "namespace_of ET_View = NS_Table"
| "namespace_of ET_Function = NS_Function"

definition entry_key :: "catalog_entry \<Rightarrow> key" where
  "entry_key e = (namespace_of (catalog_entry_type e), ent_parent e, ent_name e)"

definition indexes :: "(key \<rightharpoonup> oid) \<Rightarrow> (oid \<rightharpoonup> catalog_entry) \<Rightarrow> bool" where
  "indexes idx E \<longleftrightarrow>
     (\<forall>k i. idx k = Some i \<longrightarrow> (\<exists>e. E i = Some e \<and> entry_key e = k)) \<and>
     (\<forall>i e. E i = Some e \<longrightarrow> \<not> ent_builtin e \<longrightarrow> idx (entry_key e) = Some i)"

lemma indexesD: "indexes idx E \<Longrightarrow> idx k = Some i \<Longrightarrow> \<exists>e. E i = Some e \<and> entry_key e = k"
  unfolding indexes_def by blast

lemma indexes_complete: "indexes idx E \<Longrightarrow> E i = Some e \<Longrightarrow> \<not> ent_builtin e \<Longrightarrow> idx (entry_key e) = Some i"
  unfolding indexes_def by blast

lemma indexesI:
  assumes "\<And>k i. idx k = Some i \<Longrightarrow> \<exists>e. E i = Some e \<and> entry_key e = k"
    and "\<And>i e. E i = Some e \<Longrightarrow> \<not> ent_builtin e \<Longrightarrow> idx (entry_key e) = Some i"
  shows "indexes idx E"
  unfolding indexes_def using assms by blast

lemma indexes_inj:
  assumes "indexes idx E" "idx k = Some i" "idx k' = Some i"
  shows "k = k'"
  using indexesD [OF assms(1,2)] indexesD [OF assms(1,3)] by auto

lemma indexes_insert:
  assumes ix: "indexes idx E" and E: "E i = None"
    and k: "idx (entry_key e) = None \<or> (\<forall>i e. E i = Some e \<longrightarrow> ent_builtin e)"
  shows "indexes (idx(entry_key e \<mapsto> i)) (E(i \<mapsto> e))"
proof (rule indexesI)
  fix k' j assume "(idx(entry_key e \<mapsto> i)) k' = Some j"
  with E show "\<exists>e'. (E(i \<mapsto> e)) j = Some e' \<and> entry_key e' = k'"
    using indexesD [OF ix, of k' j] by (cases "k' = entry_key e") auto
next
  fix j e' assume "(E(i \<mapsto> e)) j = Some e'" "\<not> ent_builtin e'"
  with k show "(idx(entry_key e \<mapsto> i)) (entry_key e') = Some j"
    using indexes_complete [OF ix, of j e'] by (cases "j = i") auto
qed

lemma indexes_remove:
  assumes ix: "indexes idx E" and k: "idx k = Some i"
  shows "indexes (idx(k := None)) (E(i := None))"
proof (rule indexesI)
  fix k' j assume *: "(idx(k := None)) k' = Some j"
  then have "j \<noteq> i" using indexes_inj [OF ix k, of k'] by (auto split: if_splits)
  with * show "\<exists>e'. (E(i := None)) j = Some e' \<and> entry_key e' = k'"
    using indexesD [OF ix, of k' j] by (auto split: if_splits)
next
  fix j e' assume "(E(i := None)) j = Some e'" "\<not> ent_builtin e'"
  with k show "(idx(k := None)) (entry_key e') = Some j"
    using indexes_complete [OF ix, of j e'] by (auto split: if_splits)
qed

lemma indexes_replace:
  assumes ix: "indexes idx E" and k: "idx (entry_key e') = Some i"
  shows "indexes idx (E(i \<mapsto> e'))"
proof (rule indexesI)
  fix k' j assume *: "idx k' = Some j"
  then show "\<exists>e. (E(i \<mapsto> e')) j = Some e \<and> entry_key e = k'"
    using indexesD [OF ix *] indexes_inj [OF ix k, of k'] by (cases "j = i") auto
next
  fix j e assume "(E(i \<mapsto> e')) j = Some e" "\<not> ent_builtin e"
  with k show "idx (entry_key e) = Some j"
    using indexes_complete [OF ix, of j e] by (cases "j = i") auto
qed

lemma indexes_rename:
  assumes ix: "indexes idx E" and k: "idx k = Some i" and new: "idx (entry_key e') = None"
  shows "indexes (idx(k := None, entry_key e' \<mapsto> i)) (E(i \<mapsto> e'))"
proof -
  have "indexes (idx(k := None)) (E(i := None))"
    using ix k by (rule indexes_remove)
  then have "indexes ((idx(k := None))(entry_key e' \<mapsto> i)) ((E(i := None))(i \<mapsto> e'))"
    by (rule indexes_insert) (use new in auto)
  then show ?thesis by simp
qed

subsection \<open>The contract between a catalog and its index\<close>

locale name_index =
  fixes ents :: "'s \<Rightarrow> oid \<rightharpoonup> catalog_entry"
    and names :: "'s \<Rightarrow> key \<rightharpoonup> oid"
    and valid_key :: "key \<Rightarrow> bool"
    and droppable :: "key \<Rightarrow> bool"
    and put_entry :: "oid \<Rightarrow> catalog_entry \<Rightarrow> 's \<Rightarrow> 's"
    and del_entry :: "oid \<Rightarrow> 's \<Rightarrow> 's"
    and put_name :: "key \<Rightarrow> oid \<Rightarrow> 's \<Rightarrow> 's"
    and del_name :: "key \<Rightarrow> 's \<Rightarrow> 's"
  assumes ents_put_entry: "ents (put_entry i e s) = (ents s)(i \<mapsto> e)"
    and ents_del_entry: "ents (del_entry i s) = (ents s)(i := None)"
    and ents_put_name: "ents (put_name k i s) = ents s"
    and ents_del_name: "ents (del_name k s) = ents s"
    and names_put_entry: "names (put_entry i e s) = names s"
    and names_del_entry: "names (del_entry i s) = names s"
    and names_put_name: "valid_key k \<Longrightarrow> names (put_name k i s) = (names s)(k \<mapsto> i)"
    and names_del_name: "droppable k \<Longrightarrow> names (del_name k s) = (names s)(k := None)"
begin

lemmas laws = ents_put_entry ents_del_entry ents_put_name ents_del_name
  names_put_entry names_del_entry names_put_name names_del_name

definition agrees :: "'s \<Rightarrow> bool" where
  "agrees s \<longleftrightarrow> indexes (names s) (ents s)"

definition resolve :: "'s \<Rightarrow> key \<Rightarrow> catalog_entry option" where
  "resolve s k = (case names s k of None \<Rightarrow> None | Some i \<Rightarrow> ents s i)"

lemma agrees_create:
  assumes "agrees s" "ents s i = None" "names s (entry_key e) = None" "valid_key (entry_key e)"
  shows "agrees (put_name (entry_key e) i (put_entry i e s))"
  using assms by (simp add: agrees_def laws indexes_insert)

lemma agrees_drop:
  assumes "agrees s" "names s k = Some i" "droppable k"
  shows "agrees (del_entry i (del_name k s))"
  using assms by (simp add: agrees_def laws indexes_remove)

lemma agrees_replace:
  assumes "agrees s" "names s (entry_key e') = Some i"
  shows "agrees (put_entry i e' s)"
  using assms by (simp add: agrees_def laws indexes_replace)

lemma agrees_rename:
  assumes "agrees s" "names s k = Some i" "droppable k" "names s (entry_key e') = None"
    "valid_key (entry_key e')"
  shows "agrees (put_name (entry_key e') i (put_entry i e' (del_name k s)))"
  using assms by (simp add: agrees_def laws indexes_rename)

lemma resolve_agrees:
  assumes "agrees s" "names s k = Some i"
  shows "\<exists>e. resolve s k = Some e \<and> entry_key e = k"
  using indexesD [OF assms(1) [unfolded agrees_def] assms(2)] assms(2)
  by (auto simp: resolve_def)

lemma resolve_create:
  assumes "agrees s" "ents s i = None" "valid_key k"
  shows "resolve (put_name k i (put_entry i e s)) = (resolve s)(k \<mapsto> e)"
proof
  fix k'
  have "names s k' \<noteq> Some i"
    using indexesD [OF assms(1) [unfolded agrees_def], of k' i] assms(2) by (cases "names s k'") auto
  with assms(3) show "resolve (put_name k i (put_entry i e s)) k' = ((resolve s)(k \<mapsto> e)) k'"
    by (auto simp: resolve_def laws split: option.split)
qed

lemma resolve_drop:
  assumes "agrees s" "names s k = Some i" "droppable k"
  shows "resolve (del_entry i (del_name k s)) = (resolve s)(k := None)"
proof
  fix k'
  have "names s k' = Some i \<Longrightarrow> k' = k"
    using indexes_inj [OF assms(1) [unfolded agrees_def] assms(2), of k'] by simp
  with assms(3) show "resolve (del_entry i (del_name k s)) k' = ((resolve s)(k := None)) k'"
    by (auto simp: resolve_def laws split: option.split)
qed

lemma resolve_replace:
  assumes "agrees s" "names s k = Some i"
  shows "resolve (put_entry i e s) = (resolve s)(k \<mapsto> e)"
proof
  fix k'
  show "resolve (put_entry i e s) k' = ((resolve s)(k \<mapsto> e)) k'"
  proof (cases "k' = k")
    case True
    with assms(2) show ?thesis by (simp add: resolve_def laws)
  next
    case False
    then have "names s k' \<noteq> Some i"
      using indexes_inj [OF assms(1) [unfolded agrees_def] assms(2), of k'] by auto
    with False show ?thesis by (auto simp: resolve_def laws split: option.split)
  qed
qed

end

end
