(* ===== verification/Builtin_Catalog.thy ===== *)
theory Builtin_Catalog
  imports Builtins Entry_Index
begin

section \<open>The builtin catalog\<close>

text \<open>
  \<open>SchemaObjects\<close> and \<open>BuiltinCatalog\<close> of \<open>crates/metastore/src/database.rs\<close>: the catalog of
  builtin objects that every database catalog is initialised with. The three iterators of the
  registry of builtin functions are arguments of \<open>builtin_catalog_new\<close>.

  The theory shows that a successful build is well formed (every name resolves to a builtin
  entry of its kind, ids and parents are right), that the build succeeds whenever the registry
  has at most 3484 names, and that all builtin oids then lie below the first user oid.
\<close>

subsection \<open>Objects of a schema\<close>

record schema_objects =
  sob_tables :: "(string, oid) hashmap"
  sob_functions :: "(string, oid) hashmap"

definition schema_objects_default :: schema_objects where
  "schema_objects_default = \<lparr>sob_tables = [], sob_functions = []\<rparr>"

definition schema_objects_is_empty :: "schema_objects \<Rightarrow> bool" where
  "schema_objects_is_empty objs \<longleftrightarrow> sob_tables objs = [] \<and> sob_functions objs = []"

definition iter_oids :: "schema_objects \<Rightarrow> oid list" where
  "iter_oids objs = hm_values (sob_tables objs) @ hm_values (sob_functions objs)"

definition num_objects :: "schema_objects \<Rightarrow> nat" where
  "num_objects objs = hm_len (sob_tables objs) + hm_len (sob_functions objs)"

text \<open>The table and the function namespaces of all schemas, read as one index each.\<close>

definition table_index :: "(oid, schema_objects) hashmap \<Rightarrow> oid \<times> string \<rightharpoonup> oid" where
  "table_index so k =
     (case hm_get so (fst k) of None \<Rightarrow> None | Some objs \<Rightarrow> hm_get (sob_tables objs) (snd k))"

definition function_index :: "(oid, schema_objects) hashmap \<Rightarrow> oid \<times> string \<rightharpoonup> oid" where
  "function_index so k =
     (case hm_get so (fst k) of None \<Rightarrow> None | Some objs \<Rightarrow> hm_get (sob_functions objs) (snd k))"

definition schema_objects_ok :: "(oid, schema_objects) hashmap \<Rightarrow> bool" where
  "schema_objects_ok so \<longleftrightarrow> hm_ok so \<and>
     (\<forall>sid objs. hm_get so sid = Some objs \<longrightarrow> hm_ok (sob_tables objs) \<and> hm_ok (sob_functions objs))"

subsection \<open>Building the catalog\<close>

record builtin_catalog =
  bc_entries :: "(oid, catalog_entry) hashmap"
  bc_database_names :: "(string, oid) hashmap"
  bc_schema_names :: "(string, oid) hashmap"
  bc_schema_objects :: "(oid, schema_objects) hashmap"

definition builtin_catalog_empty :: builtin_catalog where
  "builtin_catalog_empty =
     \<lparr>bc_entries = [], bc_database_names = [], bc_schema_names = [], bc_schema_objects = []\<rparr>"

definition insert_entry :: "oid \<Rightarrow> catalog_entry \<Rightarrow> builtin_catalog \<Rightarrow> builtin_catalog metastore_result" where
  "insert_entry i ent bc =
     (case hm_get (bc_entries bc) i of
        Some old \<Rightarrow> Err (BuiltinRepeatedOid i old ent)
      | None \<Rightarrow> Ok (bc\<lparr>bc_entries := hm_insert i ent (bc_entries bc)\<rparr>))"

definition builtin_meta :: "entry_type \<Rightarrow> oid \<Rightarrow> oid \<Rightarrow> string \<Rightarrow> entry_meta" where
  "builtin_meta ty i parent name =
     \<lparr>meta_entry_type = ty, meta_id = i, meta_parent = parent, meta_name = name,
      meta_builtin = True, meta_external = False, meta_is_temp = False\<rparr>"

definition DATABASE_PARENT_ID :: oid where
  "DATABASE_PARENT_ID = 0"

definition add_builtin_database ::
    "builtin_database \<Rightarrow> builtin_catalog \<Rightarrow> builtin_catalog metastore_result" where
  "add_builtin_database database bc =
     insert_entry (bd_oid database)
       (Database \<lparr>de_meta = builtin_meta ET_Database (bd_oid database) DATABASE_PARENT_ID (bd_name database),
          de_options = DO_Internal DatabaseOptionsInternal, de_tunnel_id = None, de_access_mode = ReadWrite\<rparr>)
       (bc\<lparr>bc_database_names := hm_insert (bd_name database) (bd_oid database) (bc_database_names bc)\<rparr>)"

definition add_builtin_schema ::
    "builtin_schema \<Rightarrow> builtin_catalog \<Rightarrow> builtin_catalog metastore_result" where
  "add_builtin_schema schema bc =
     insert_entry (bs_oid schema)
       (Schema \<lparr>se_meta = builtin_meta ET_Schema (bs_oid schema) (bd_oid DATABASE_DEFAULT) (bs_name schema)\<rparr>)
       (bc\<lparr>bc_schema_names := hm_insert (bs_name schema) (bs_oid schema) (bc_schema_names bc),
           bc_schema_objects := hm_insert (bs_oid schema) schema_objects_default (bc_schema_objects bc)\<rparr>)"

text \<open>\<open>schema_objects.get_mut(schema_id).unwrap()\<close> followed by an insert.\<close>

definition add_schema_object ::
    "oid \<Rightarrow> (schema_objects \<Rightarrow> schema_objects) \<Rightarrow> builtin_catalog \<Rightarrow> builtin_catalog metastore_result" where
  "add_schema_object schema_id upd bc =
     (case hm_get (bc_schema_objects bc) schema_id of
        None \<Rightarrow> Panic ''called unwrap on a None value''
      | Some objs \<Rightarrow> Ok (bc\<lparr>bc_schema_objects := hm_insert schema_id (upd objs) (bc_schema_objects bc)\<rparr>))"

definition bc_schema_id :: "string \<Rightarrow> builtin_catalog \<Rightarrow> oid metastore_result" where
  "bc_schema_id name bc =
     (case hm_get (bc_schema_names bc) name of
        None \<Rightarrow> Err (MissingNamedSchema name)
      | Some schema_id \<Rightarrow> Ok schema_id)"

definition add_builtin_table ::
    "builtin_table \<Rightarrow> builtin_catalog \<Rightarrow> builtin_catalog metastore_result" where
  "add_builtin_table table bc =
     obind (bc_schema_id (bt_schema table) bc) (\<lambda>schema_id.
     obind (insert_entry (bt_oid table)
       (Table \<lparr>te_meta = builtin_meta ET_Table (bt_oid table) schema_id (bt_name table),
          te_options = TO_Internal \<lparr>toi_columns = bt_columns table\<rparr>, te_tunnel_id = None,
          te_access_mode = ReadOnly, te_columns = None\<rparr>) bc) (\<lambda>bc.
     add_schema_object schema_id
       (\<lambda>objs. objs\<lparr>sob_tables := hm_insert (bt_name table) (bt_oid table) (sob_tables objs)\<rparr>) bc))"

text \<open>The loop over the views threads the next free oid.\<close>

definition add_builtin_view ::
    "builtin_view \<Rightarrow> oid \<times> builtin_catalog \<Rightarrow> (oid \<times> builtin_catalog) metastore_result" where
  "add_builtin_view view = (\<lambda>(i, bc).
     obind (bc_schema_id (bv_schema view) bc) (\<lambda>schema_id.
     obind (insert_entry i
       (View \<lparr>ve_meta = builtin_meta ET_View i schema_id (bv_name view),
          ve_sql = bv_sql view, ve_columns = []\<rparr>) bc) (\<lambda>bc.
     obind (add_schema_object schema_id
       (\<lambda>objs. objs\<lparr>sob_tables := hm_insert (bv_name view) i (sob_tables objs)\<rparr>) bc) (\<lambda>bc.
     Ok (i + 1, bc)))))"

text \<open>\<open>builtin_function_to_entries\<close>: the inner loop gives every alias and the name an entry with
  an oid of its own.\<close>

fun function_name_entries ::
    "oid \<Rightarrow> builtin_function \<Rightarrow> string list \<Rightarrow> oid \<Rightarrow> function_entry list \<times> oid" where
  "function_name_entries parent func [] i = ([], i)"
| "function_name_entries parent func (name # names) i =
     (let (ents, i') = function_name_entries parent func names (i + 1)
      in (\<lparr>fe_meta = builtin_meta ET_Function i parent name, fe_func_type = bf_function_type func,
           fe_signature = bf_signature func, fe_user_defined = False\<rparr> # ents, i'))"

fun builtin_function_to_entries ::
    "oid \<Rightarrow> builtin_function list \<Rightarrow> oid \<Rightarrow> function_entry list \<times> oid" where
  "builtin_function_to_entries parent [] i = ([], i)"
| "builtin_function_to_entries parent (func # funcs) i =
     (let (ents, i') = function_name_entries parent func (bf_aliases func @ [bf_name func]) i;
          (ents', i'') = builtin_function_to_entries parent funcs i'
      in (ents @ ents', i''))"

definition add_builtin_function ::
    "oid \<Rightarrow> function_entry \<Rightarrow> builtin_catalog \<Rightarrow> builtin_catalog metastore_result" where
  "add_builtin_function schema_id func_ent bc =
     (let name = meta_name (fe_meta func_ent); i = meta_id (fe_meta func_ent)
      in obind (insert_entry i (Function func_ent) bc) (\<lambda>bc.
         add_schema_object schema_id
           (\<lambda>objs. objs\<lparr>sob_functions := hm_insert name i (sob_functions objs)\<rparr>) bc))"

definition builtin_catalog_new :: "builtin_function list \<Rightarrow> builtin_function list \<Rightarrow>
    builtin_function list \<Rightarrow> (string \<Rightarrow> string) \<Rightarrow> builtin_catalog metastore_result" where
  "builtin_catalog_new table_funcs scalar_funcs scalar_udfs sql =
     obind (ofold add_builtin_database builtin_databases builtin_catalog_empty) (\<lambda>bc.
     obind (ofold add_builtin_schema builtin_schemas bc) (\<lambda>bc.
     obind (ofold add_builtin_table builtin_tables bc) (\<lambda>bc.
     obind (ofold add_builtin_view (builtin_views sql) (FIRST_NON_STATIC_OID, bc)) (\<lambda>(i, bc).
     obind (bc_schema_id DEFAULT_SCHEMA bc) (\<lambda>schema_id.
       let (table_func_ents, i) = builtin_function_to_entries schema_id table_funcs i;
           (scalar_func_ents, i) = builtin_function_to_entries schema_id scalar_funcs i;
           (scalar_udf_ents, i) = builtin_function_to_entries schema_id scalar_udfs i
       in ofold (add_builtin_function schema_id)
            (table_func_ents @ scalar_func_ents @ scalar_udf_ents) bc)))))"

subsection \<open>Well-formedness of the builtin catalog\<close>

text \<open>The name maps of a catalog read as one index. \<open>key_index\<close> is shared with the state of
  the metastore, which has two more maps.\<close>

fun key_index :: "(string \<rightharpoonup> oid) \<Rightarrow> (string \<rightharpoonup> oid) \<Rightarrow> (string \<rightharpoonup> oid) \<Rightarrow> (string \<rightharpoonup> oid) \<Rightarrow>
    (oid \<times> string \<rightharpoonup> oid) \<Rightarrow> (oid \<times> string \<rightharpoonup> oid) \<Rightarrow> key \<rightharpoonup> oid" where
  "key_index db tn cn sn ti fi (NS_Database, p, n) = (if p = DATABASE_PARENT_ID then db n else None)"
| "key_index db tn cn sn ti fi (NS_Tunnel, p, n) = (if p = DATABASE_PARENT_ID then tn n else None)"
| "key_index db tn cn sn ti fi (NS_Credentials, p, n) = (if p = DATABASE_PARENT_ID then cn n else None)"
| "key_index db tn cn sn ti fi (NS_Schema, p, n) = (if p = bd_oid DATABASE_DEFAULT then sn n else None)"
| "key_index db tn cn sn ti fi (NS_Table, p, n) = ti (p, n)"
| "key_index db tn cn sn ti fi (NS_Function, p, n) = fi (p, n)"

definition bc_lookup :: "builtin_catalog \<Rightarrow> key \<rightharpoonup> oid" where
  "bc_lookup bc = key_index (hm_get (bc_database_names bc)) Map.empty Map.empty
     (hm_get (bc_schema_names bc)) (table_index (bc_schema_objects bc))
     (function_index (bc_schema_objects bc))"

definition parent_ok :: "(oid \<rightharpoonup> catalog_entry) \<Rightarrow> catalog_entry \<Rightarrow> bool" where
  "parent_ok E e \<longleftrightarrow>
     (case catalog_entry_type e of
        ET_Database \<Rightarrow> ent_parent e = DATABASE_PARENT_ID
      | ET_Tunnel \<Rightarrow> ent_parent e = DATABASE_PARENT_ID
      | ET_Credentials \<Rightarrow> ent_parent e = DATABASE_PARENT_ID
      | ET_Schema \<Rightarrow> ent_parent e = bd_oid DATABASE_DEFAULT
      | _ \<Rightarrow> (\<exists>s. E (ent_parent e) = Some (Schema s)))"

definition builtin_entry_ok :: "(oid \<rightharpoonup> catalog_entry) \<Rightarrow> oid \<Rightarrow> catalog_entry \<Rightarrow> bool" where
  "builtin_entry_ok E i e \<longleftrightarrow> ent_id e = i \<and> meta_entry_type (get_meta e) = catalog_entry_type e \<and>
     ent_builtin e \<and> \<not> ent_is_temp e \<and> parent_ok E e"

definition bc_wf :: "builtin_catalog \<Rightarrow> bool" where
  "bc_wf bc \<longleftrightarrow>
     hm_ok (bc_entries bc) \<and> hm_ok (bc_database_names bc) \<and> hm_ok (bc_schema_names bc) \<and>
     schema_objects_ok (bc_schema_objects bc) \<and>
     (\<forall>i e. hm_get (bc_entries bc) i = Some e \<longrightarrow> builtin_entry_ok (hm_get (bc_entries bc)) i e) \<and>
     indexes (bc_lookup bc) (hm_get (bc_entries bc)) \<and>
     (\<forall>n i. hm_get (bc_schema_names bc) n = Some i \<longrightarrow> hm_get (bc_schema_objects bc) i \<noteq> None)"

definition bc_oids_below :: "oid \<Rightarrow> builtin_catalog \<Rightarrow> bool" where
  "bc_oids_below b bc \<longleftrightarrow> (\<forall>i e. hm_get (bc_entries bc) i = Some e \<longrightarrow> i < b \<and> i \<noteq> 0)"

subsection \<open>Lookups in the namespaces of a schema\<close>

lemma table_index_insert_default [simp]:
  "table_index (hm_insert sid schema_objects_default so) =
     (\<lambda>k. if fst k = sid then None else table_index so k)"
  by (auto simp: table_index_def schema_objects_default_def fun_eq_iff)

lemma function_index_insert_default [simp]:
  "function_index (hm_insert sid schema_objects_default so) =
     (\<lambda>k. if fst k = sid then None else function_index so k)"
  by (auto simp: function_index_def schema_objects_default_def fun_eq_iff)

lemma table_index_put_table:
  "hm_get so sid = Some objs \<Longrightarrow>
   table_index (hm_insert sid (objs\<lparr>sob_tables := hm_insert n i (sob_tables objs)\<rparr>) so) =
     (table_index so)((sid, n) \<mapsto> i)"
  by (auto simp: table_index_def fun_eq_iff)

lemma function_index_put_table:
  "hm_get so sid = Some objs \<Longrightarrow>
   function_index (hm_insert sid (objs\<lparr>sob_tables := ts\<rparr>) so) = function_index so"
  by (auto simp: function_index_def fun_eq_iff)

lemma function_index_put_function:
  "hm_get so sid = Some objs \<Longrightarrow>
   function_index (hm_insert sid (objs\<lparr>sob_functions := hm_insert n i (sob_functions objs)\<rparr>) so) =
     (function_index so)((sid, n) \<mapsto> i)"
  by (auto simp: function_index_def fun_eq_iff)

lemma table_index_put_function:
  "hm_get so sid = Some objs \<Longrightarrow>
   table_index (hm_insert sid (objs\<lparr>sob_functions := fs\<rparr>) so) = table_index so"
  by (auto simp: table_index_def fun_eq_iff)

lemmas schema_index_puts = table_index_put_table function_index_put_table
  function_index_put_function table_index_put_function

lemma schema_objects_ok_insert:
  "schema_objects_ok so \<Longrightarrow> hm_ok (sob_tables objs) \<Longrightarrow> hm_ok (sob_functions objs) \<Longrightarrow>
   schema_objects_ok (hm_insert sid objs so)"
  by (auto simp: schema_objects_ok_def)

lemma schema_objects_okD:
  "schema_objects_ok so \<Longrightarrow> hm_get so sid = Some objs \<Longrightarrow>
   hm_ok (sob_tables objs) \<and> hm_ok (sob_functions objs)"
  by (auto simp: schema_objects_ok_def)

lemma key_index_updates:
  "key_index (db(n \<mapsto> i)) tn cn sn ti fi =
     (key_index db tn cn sn ti fi)((NS_Database, DATABASE_PARENT_ID, n) \<mapsto> i)"
  "key_index db (tn(n \<mapsto> i)) cn sn ti fi =
     (key_index db tn cn sn ti fi)((NS_Tunnel, DATABASE_PARENT_ID, n) \<mapsto> i)"
  "key_index db tn (cn(n \<mapsto> i)) sn ti fi =
     (key_index db tn cn sn ti fi)((NS_Credentials, DATABASE_PARENT_ID, n) \<mapsto> i)"
  "key_index db tn cn (sn(n \<mapsto> i)) ti fi =
     (key_index db tn cn sn ti fi)((NS_Schema, bd_oid DATABASE_DEFAULT, n) \<mapsto> i)"
  "key_index db tn cn sn (ti((p, n) \<mapsto> i)) fi = (key_index db tn cn sn ti fi)((NS_Table, p, n) \<mapsto> i)"
  "key_index db tn cn sn ti (fi((p, n) \<mapsto> i)) = (key_index db tn cn sn ti fi)((NS_Function, p, n) \<mapsto> i)"
  by (rule ext, rename_tac k, case_tac "(db, tn, cn, sn, ti, fi, k)" rule: key_index.cases, auto)+

lemma key_index_removes:
  "key_index (db(n := None)) tn cn sn ti fi =
     (key_index db tn cn sn ti fi)((NS_Database, DATABASE_PARENT_ID, n) := None)"
  "key_index db (tn(n := None)) cn sn ti fi =
     (key_index db tn cn sn ti fi)((NS_Tunnel, DATABASE_PARENT_ID, n) := None)"
  "key_index db tn (cn(n := None)) sn ti fi =
     (key_index db tn cn sn ti fi)((NS_Credentials, DATABASE_PARENT_ID, n) := None)"
  "key_index db tn cn (sn(n := None)) ti fi =
     (key_index db tn cn sn ti fi)((NS_Schema, bd_oid DATABASE_DEFAULT, n) := None)"
  "key_index db tn cn sn (ti((p, n) := None)) fi = (key_index db tn cn sn ti fi)((NS_Table, p, n) := None)"
  by (rule ext, rename_tac k, case_tac "(db, tn, cn, sn, ti, fi, k)" rule: key_index.cases, auto)+

subsection \<open>Every step of the build keeps the catalog well formed\<close>

lemma bc_wf_builtin: "bc_wf bc \<Longrightarrow> hm_get (bc_entries bc) i = Some e \<Longrightarrow> ent_builtin e"
  by (simp add: bc_wf_def builtin_entry_ok_def)

lemma parent_ok_mono:
  "parent_ok E e \<Longrightarrow> E i = None \<Longrightarrow> parent_ok (E(i \<mapsto> x)) e"
  by (auto simp: parent_ok_def split: entry_type.splits)

lemma builtin_entries_insert:
  assumes "\<forall>i e. E i = Some e \<longrightarrow> builtin_entry_ok E i e" "E i = None" "builtin_entry_ok (E(i \<mapsto> x)) i x"
  shows "\<forall>j e. (E(i \<mapsto> x)) j = Some e \<longrightarrow> builtin_entry_ok (E(i \<mapsto> x)) j e"
  using assms by (auto simp: builtin_entry_ok_def parent_ok_mono)

lemma insert_entry_eq_Ok [simp]:
  "insert_entry i ent bc = Ok bc' \<longleftrightarrow>
     hm_get (bc_entries bc) i = None \<and> bc' = bc\<lparr>bc_entries := hm_insert i ent (bc_entries bc)\<rparr>"
  by (auto simp: insert_entry_def split: option.splits)

lemma add_schema_object_eq_Ok [simp]:
  "add_schema_object sid upd bc = Ok bc' \<longleftrightarrow>
     (\<exists>objs. hm_get (bc_schema_objects bc) sid = Some objs \<and>
        bc' = bc\<lparr>bc_schema_objects := hm_insert sid (upd objs) (bc_schema_objects bc)\<rparr>)"
  by (auto simp: add_schema_object_def split: option.splits)

lemma bc_schema_id_eq_Ok [simp]:
  "bc_schema_id n bc = Ok i \<longleftrightarrow> hm_get (bc_schema_names bc) n = Some i"
  by (auto simp: bc_schema_id_def split: option.splits)

lemma bc_wf_empty: "bc_wf builtin_catalog_empty"
proof -
  have "bc_lookup builtin_catalog_empty k = None" for k
    by (cases "(Map.empty :: string \<rightharpoonup> oid, Map.empty :: string \<rightharpoonup> oid, Map.empty :: string \<rightharpoonup> oid,
          Map.empty :: string \<rightharpoonup> oid, Map.empty :: oid \<times> string \<rightharpoonup> oid, Map.empty :: oid \<times> string \<rightharpoonup> oid, k)"
        rule: key_index.cases)
      (auto simp: bc_lookup_def builtin_catalog_empty_def table_index_def function_index_def)
  then show ?thesis
    by (auto simp: bc_wf_def builtin_catalog_empty_def indexes_def schema_objects_ok_def)
qed

lemma bc_wf_step:
  assumes wf: "bc_wf bc" and fresh: "hm_get (bc_entries bc) i = None"
    and ent: "builtin_entry_ok (hm_get (bc_entries bc')) i x"
    and "bc_entries bc' = hm_insert i x (bc_entries bc)"
    and "bc_lookup bc' = (bc_lookup bc)(entry_key x \<mapsto> i)"
    and "hm_ok (bc_database_names bc')" "hm_ok (bc_schema_names bc')"
      "schema_objects_ok (bc_schema_objects bc')"
      "\<And>n i. hm_get (bc_schema_names bc') n = Some i \<Longrightarrow> hm_get (bc_schema_objects bc') i \<noteq> None"
  shows "bc_wf bc'"
proof -
  have E: "hm_get (bc_entries bc') = (hm_get (bc_entries bc))(i \<mapsto> x)"
    using assms(4) by simp
  have "\<forall>j e. hm_get (bc_entries bc') j = Some e \<longrightarrow> builtin_entry_ok (hm_get (bc_entries bc')) j e"
    unfolding E
    by (rule builtin_entries_insert) (use wf fresh ent E in \<open>auto simp: bc_wf_def\<close>)
  moreover have "hm_ok (bc_entries bc')"
    using assms(4) wf by (simp add: bc_wf_def)
  moreover have "indexes (bc_lookup bc') (hm_get (bc_entries bc'))"
    unfolding E assms(5)
    by (rule indexes_insert) (use wf fresh bc_wf_builtin [OF wf] in \<open>auto simp: bc_wf_def\<close>)
  ultimately show ?thesis
    using assms(6-9) unfolding bc_wf_def by blast
qed

lemmas builtin_step_defs = builtin_meta_def builtin_entry_ok_def parent_ok_def entry_key_def
  bc_lookup_def key_index_updates

lemma bc_wf_namespace_empty:
  assumes wf: "bc_wf bc" and fresh: "hm_get (bc_entries bc) sid = None"
  shows "table_index (bc_schema_objects bc) (sid, n) = None" "function_index (bc_schema_objects bc) (sid, n) = None"
proof -
  have "bc_lookup bc (ns, sid, n) = None" if ns: "ns = NS_Table \<or> ns = NS_Function" for ns
  proof (rule ccontr)
    assume "bc_lookup bc (ns, sid, n) \<noteq> None"
    with wf obtain i e where e: "hm_get (bc_entries bc) i = Some e" "entry_key e = (ns, sid, n)"
      by (auto simp: bc_wf_def dest!: indexesD)
    from wf e(1) have "parent_ok (hm_get (bc_entries bc)) e"
      by (simp add: bc_wf_def builtin_entry_ok_def)
    with e(2) ns fresh show False
      by (cases e) (auto simp: parent_ok_def entry_key_def)
  qed
  from this [of NS_Table] this [of NS_Function]
  show "table_index (bc_schema_objects bc) (sid, n) = None" "function_index (bc_schema_objects bc) (sid, n) = None"
    by (auto simp: bc_lookup_def)
qed

lemma bc_wf_maps:
  assumes "bc_wf bc"
  shows "hm_ok (bc_database_names bc)" "hm_ok (bc_schema_names bc)" "schema_objects_ok (bc_schema_objects bc)"
    "\<And>n i. hm_get (bc_schema_names bc) n = Some i \<Longrightarrow> hm_get (bc_schema_objects bc) i \<noteq> None"
  using assms by (simp_all add: bc_wf_def)

lemma schema_objects_default_maps [simp]:
  "sob_tables schema_objects_default = []" "sob_functions schema_objects_default = []"
  by (simp_all add: schema_objects_default_def)

lemma bc_wf_add_database:
  assumes wf: "bc_wf bc" and ok: "add_builtin_database d bc = Ok bc'"
  shows "bc_wf bc'"
  by (rule bc_wf_step [OF wf])
    (use bc_wf_maps [OF wf] ok in \<open>auto simp: add_builtin_database_def builtin_step_defs\<close>)

lemma bc_wf_add_schema:
  assumes wf: "bc_wf bc" and ok: "add_builtin_schema s bc = Ok bc'"
  shows "bc_wf bc'"
proof -
  from ok have fresh: "hm_get (bc_entries bc) (bs_oid s) = None"
    by (simp add: add_builtin_schema_def)
  note empty = bc_wf_namespace_empty [OF wf fresh]
  have idx: "(\<lambda>k. if fst k = bs_oid s then None else table_index (bc_schema_objects bc) k) =
      table_index (bc_schema_objects bc)"
    "(\<lambda>k. if fst k = bs_oid s then None else function_index (bc_schema_objects bc) k) =
      function_index (bc_schema_objects bc)"
    using empty by (auto simp: fun_eq_iff)
  show ?thesis
    by (rule bc_wf_step [OF wf fresh])
      (use bc_wf_maps [OF wf] ok idx in \<open>auto simp: add_builtin_schema_def builtin_step_defs
        intro!: schema_objects_ok_insert split: if_splits\<close>)
qed

lemma bc_wf_schema_entry:
  assumes "bc_wf bc" "hm_get (bc_schema_names bc) n = Some sid"
  shows "\<exists>s. hm_get (bc_entries bc) sid = Some (Schema s)"
proof -
  from assms(2) have "bc_lookup bc (NS_Schema, bd_oid DATABASE_DEFAULT, n) = Some sid"
    by (simp add: bc_lookup_def)
  with assms(1) obtain e where "hm_get (bc_entries bc) sid = Some e" "fst (entry_key e) = NS_Schema"
    by (auto simp: bc_wf_def dest!: indexesD)
  then show ?thesis by (cases e) (auto simp: entry_key_def)
qed

lemma bc_wf_put_table:
  assumes wf: "bc_wf bc" and sid: "hm_get (bc_schema_names bc) n = Some sid"
    and fresh: "hm_get (bc_entries bc) i = None" and objs: "hm_get (bc_schema_objects bc) sid = Some objs"
    and meta: "get_meta x = builtin_meta (catalog_entry_type x) i sid name" and kind: "namespace_of (catalog_entry_type x) = NS_Table"
  shows "bc_wf (bc\<lparr>bc_entries := hm_insert i x (bc_entries bc), bc_schema_objects := hm_insert sid
    (objs\<lparr>sob_tables := hm_insert name i (sob_tables objs)\<rparr>) (bc_schema_objects bc)\<rparr>)"
proof -
  from bc_wf_schema_entry [OF wf sid] obtain s where e: "hm_get (bc_entries bc) sid = Some (Schema s)"
    by blast
  with fresh have "i \<noteq> sid" by auto
  with e show ?thesis
    by (intro bc_wf_step [OF wf fresh, where x = x])
      (use bc_wf_maps [OF wf] meta kind objs schema_objects_okD [OF bc_wf_maps(3) [OF wf] objs] in
        \<open>auto simp: builtin_step_defs schema_index_puts intro!: schema_objects_ok_insert
          split: entry_type.splits\<close>)
qed

lemma bc_wf_put_function:
  assumes wf: "bc_wf bc" and sid: "hm_get (bc_schema_names bc) n = Some sid"
    and fresh: "hm_get (bc_entries bc) i = None" and objs: "hm_get (bc_schema_objects bc) sid = Some objs"
    and meta: "get_meta x = builtin_meta ET_Function i sid name" and kind: "catalog_entry_type x = ET_Function"
  shows "bc_wf (bc\<lparr>bc_entries := hm_insert i x (bc_entries bc), bc_schema_objects := hm_insert sid
    (objs\<lparr>sob_functions := hm_insert name i (sob_functions objs)\<rparr>) (bc_schema_objects bc)\<rparr>)"
proof -
  from bc_wf_schema_entry [OF wf sid] obtain s where e: "hm_get (bc_entries bc) sid = Some (Schema s)"
    by blast
  with fresh have "i \<noteq> sid" by auto
  with e show ?thesis
    by (intro bc_wf_step [OF wf fresh, where x = x])
      (use bc_wf_maps [OF wf] meta kind objs schema_objects_okD [OF bc_wf_maps(3) [OF wf] objs] in
        \<open>auto simp: builtin_step_defs schema_index_puts intro!: schema_objects_ok_insert
          split: entry_type.splits\<close>)
qed

lemma bc_wf_add_table:
  "bc_wf bc \<Longrightarrow> add_builtin_table t bc = Ok bc' \<Longrightarrow> bc_wf bc'"
  by (auto simp: add_builtin_table_def builtin_meta_def intro!: bc_wf_put_table)

lemma bc_wf_add_view:
  "bc_wf bc \<Longrightarrow> add_builtin_view v (i, bc) = Ok (i', bc') \<Longrightarrow> bc_wf bc' \<and> i' = i + 1"
  by (auto simp: add_builtin_view_def builtin_meta_def intro!: bc_wf_put_table)

lemma bc_wf_add_function:
  assumes "bc_wf bc" "hm_get (bc_schema_names bc) n = Some sid" "add_builtin_function sid f bc = Ok bc'"
    "fe_meta f = builtin_meta ET_Function i sid name"
  shows "bc_wf bc' \<and> bc_schema_names bc' = bc_schema_names bc"
  using assms by (auto simp: add_builtin_function_def Let_def builtin_meta_def
      intro!: bc_wf_put_function)

subsection \<open>The build succeeds\<close>

lemma ofold_progress:
  assumes "\<And>x xs s. Q (x # xs) s \<Longrightarrow> \<exists>s'. f x s = Ok s' \<and> Q xs s'" "Q xs s"
  shows "\<exists>s'. ofold f xs s = Ok s' \<and> Q [] s'"
  using assms(2)
proof (induction xs arbitrary: s)
  case (Cons x xs)
  from assms(1) [OF Cons.prems] obtain s' where "f x s = Ok s'" "Q xs s'" by blast
  with Cons.IH [of s'] show ?case by simp
qed simp

definition schemas_known :: "builtin_catalog \<Rightarrow> bool" where
  "schemas_known bc \<longleftrightarrow> (\<forall>n \<in> set (map bs_name builtin_schemas). hm_get (bc_schema_names bc) n \<noteq> None)"

lemma base_catalog_ok:
  "\<exists>bc. obind (ofold add_builtin_database builtin_databases builtin_catalog_empty)
       (ofold add_builtin_schema builtin_schemas) = Ok bc \<and>
     bc_wf bc \<and> schemas_known bc \<and> bc_oids_below 16390 bc \<and>
     hm_get (bc_database_names bc) DEFAULT_CATALOG = Some (bd_oid DATABASE_DEFAULT)"
proof -
  obtain bc where bc: "obind (ofold add_builtin_database builtin_databases builtin_catalog_empty)
       (ofold add_builtin_schema builtin_schemas) = Ok bc" and
    known: "schemas_known bc" and below: "bc_oids_below 16390 bc" and
    db: "hm_get (bc_database_names bc) DEFAULT_CATALOG = Some (bd_oid DATABASE_DEFAULT)"
    by (simp add: builtin_databases_def builtin_schemas_def builtin_schema_defs DATABASE_DEFAULT_def
        builtin_catalog_empty_def add_builtin_database_def add_builtin_schema_def insert_entry_def
        schemas_known_def bc_oids_below_def builtin_oids builtin_names)
  from bc obtain bc0 where bc0: "ofold add_builtin_database builtin_databases builtin_catalog_empty = Ok bc0"
    "ofold add_builtin_schema builtin_schemas bc0 = Ok bc" by auto
  from bc0(1) bc_wf_empty have "bc_wf bc0"
    by (rule ofold_invariant) (rule bc_wf_add_database)
  with bc0(2) have "bc_wf bc"
    by (rule ofold_invariant) (rule bc_wf_add_schema)
  with bc known below db show ?thesis by blast
qed

lemma add_schema_object_ok:
  "hm_get (bc_schema_objects bc) sid \<noteq> None \<Longrightarrow> \<exists>bc'. add_schema_object sid upd bc = Ok bc'"
  by (auto simp: add_schema_object_def)

lemma add_builtin_table_progress:
  assumes wf: "bc_wf bc" and known: "hm_get (bc_schema_names bc) (bt_schema t) \<noteq> None"
    and fresh: "hm_get (bc_entries bc) (bt_oid t) = None"
  shows "\<exists>bc'. add_builtin_table t bc = Ok bc' \<and> bc_wf bc' \<and>
     bc_schema_names bc' = bc_schema_names bc \<and> bc_database_names bc' = bc_database_names bc \<and>
     dom (hm_get (bc_entries bc')) = insert (bt_oid t) (dom (hm_get (bc_entries bc)))"
proof -
  from known obtain sid where sid: "hm_get (bc_schema_names bc) (bt_schema t) = Some sid" by blast
  with bc_wf_maps(4) [OF wf this] fresh obtain bc' where bc': "add_builtin_table t bc = Ok bc'"
    by (auto simp: add_builtin_table_def)
  with sid bc_wf_add_table [OF wf bc'] show ?thesis
    by (auto simp: add_builtin_table_def)
qed

lemma bc_oids_below_dom:
  "bc_oids_below b bc \<longleftrightarrow> (\<forall>i \<in> dom (hm_get (bc_entries bc)). i < b \<and> i \<noteq> 0)"
  by (auto simp: bc_oids_below_def)

lemma bc_oids_below_mono: "bc_oids_below a bc \<Longrightarrow> a \<le> b \<Longrightarrow> bc_oids_below b bc"
  unfolding bc_oids_below_def by (metis less_le_trans)

lemma builtin_tables_progress:
  assumes "bc_wf bc" "schemas_known bc" "bc_oids_below 16390 bc"
  shows "\<exists>bc'. ofold add_builtin_table builtin_tables bc = Ok bc' \<and> bc_wf bc' \<and>
     schemas_known bc' \<and> bc_oids_below FIRST_NON_STATIC_OID bc' \<and> bc_database_names bc' = bc_database_names bc"
proof -
  let ?Q = "\<lambda>ts b. bc_wf b \<and> bc_schema_names b = bc_schema_names bc \<and>
     bc_database_names b = bc_database_names bc \<and> bc_oids_below FIRST_NON_STATIC_OID b \<and>
     distinct (map bt_oid ts) \<and> set ts \<subseteq> set builtin_tables \<and>
     (\<forall>t \<in> set ts. bt_oid t \<notin> dom (hm_get (bc_entries b)))"
  have step: "\<exists>b'. add_builtin_table t b = Ok b' \<and> ?Q ts b'" if Q: "?Q (t # ts) b" for t ts b
  proof -
    from Q assms(2) have "hm_get (bc_schema_names b) (bt_schema t) \<noteq> None"
      using builtin_table_schemas [of t] unfolding schemas_known_def by auto
    with Q add_builtin_table_progress [of b t] obtain b' where b': "add_builtin_table t b = Ok b'" "bc_wf b'"
      "bc_schema_names b' = bc_schema_names b" "bc_database_names b' = bc_database_names b"
      "dom (hm_get (bc_entries b')) = insert (bt_oid t) (dom (hm_get (bc_entries b)))" by auto
    moreover have "bc_oids_below FIRST_NON_STATIC_OID b'"
      using Q builtin_table_oid_range [of t] unfolding bc_oids_below_dom b'(5) by auto
    moreover have "\<forall>u \<in> set ts. bt_oid u \<notin> dom (hm_get (bc_entries b'))"
      unfolding b'(5) using Q by (simp, metis imageI)
    ultimately show ?thesis using Q by auto
  qed
  from assms(3) have early: "bc_oids_below FIRST_NON_STATIC_OID bc"
    by (rule bc_oids_below_mono) (simp add: builtin_oids)
  have fresh: "bt_oid t \<notin> dom (hm_get (bc_entries bc))" if "t \<in> set builtin_tables" for t
  proof
    assume "bt_oid t \<in> dom (hm_get (bc_entries bc))"
    with assms(3) have "bt_oid t < 16390" by (simp add: bc_oids_below_dom)
    moreover have "16401 \<le> bt_oid t" using builtin_table_oid_range [OF that] by simp
    ultimately have "(16401 :: oid) < 16390" by (rule le_less_trans [rotated])
    then show False by simp
  qed
  have "?Q builtin_tables bc"
    using assms builtin_table_oids_distinct early fresh by simp
  then have "\<exists>b'. ofold add_builtin_table builtin_tables bc = Ok b' \<and> ?Q [] b'"
    by (rule ofold_progress [rotated]) (rule step)
  then show ?thesis using assms(2) by (auto simp: schemas_known_def)
qed

lemma unat_Suc_word: "unat i < 20000 \<Longrightarrow> unat (i + 1 :: oid) = unat i + 1"
  by (simp add: unat_word_ariths)

lemma bc_oids_below_insert:
  assumes "bc_oids_below i bc" "unat i < 20000" "0 < unat i"
    "dom (hm_get (bc_entries bc')) = insert i (dom (hm_get (bc_entries bc)))"
  shows "bc_oids_below (i + 1) bc'"
  using assms(1) unat_Suc_word [OF assms(2)]
    assms(3)
  unfolding bc_oids_below_dom assms(4) word_less_nat_alt
  by (auto intro: less_SucI)

lemma bc_oids_below_fresh: "bc_oids_below i bc \<Longrightarrow> hm_get (bc_entries bc) i = None"
  by (auto simp: bc_oids_below_def)

lemma add_builtin_view_progress:
  assumes wf: "bc_wf bc" and known: "hm_get (bc_schema_names bc) (bv_schema v) \<noteq> None"
    and below: "bc_oids_below i bc"
  shows "\<exists>bc'. add_builtin_view v (i, bc) = Ok (i + 1, bc') \<and> bc_wf bc' \<and>
     bc_schema_names bc' = bc_schema_names bc \<and> bc_database_names bc' = bc_database_names bc \<and>
     dom (hm_get (bc_entries bc')) = insert i (dom (hm_get (bc_entries bc)))"
proof -
  from known obtain sid where sid: "hm_get (bc_schema_names bc) (bv_schema v) = Some sid" by blast
  with bc_wf_maps(4) [OF wf this] bc_oids_below_fresh [OF below]
  obtain bc' where bc': "add_builtin_view v (i, bc) = Ok (i + 1, bc')"
    by (auto simp: add_builtin_view_def)
  with sid bc_wf_add_view [OF wf bc'] show ?thesis
    by (auto simp: add_builtin_view_def)
qed

lemma builtin_views_progress:
  assumes "bc_wf bc" "schemas_known bc" "bc_oids_below i bc" "unat i + length vs \<le> 20000" "0 < unat i"
    "\<forall>v \<in> set vs. bv_schema v \<in> set (map bs_name builtin_schemas)"
  shows "\<exists>i' bc'. ofold add_builtin_view vs (i, bc) = Ok (i', bc') \<and> bc_wf bc' \<and>
     schemas_known bc' \<and> bc_oids_below i' bc' \<and> unat i' = unat i + length vs \<and>
     bc_database_names bc' = bc_database_names bc"
  using assms
proof (induction vs arbitrary: i bc)
  case (Cons v vs)
  from Cons.prems have "hm_get (bc_schema_names bc) (bv_schema v) \<noteq> None"
    by (auto simp: schemas_known_def)
  with Cons.prems add_builtin_view_progress [of bc v i] obtain bc1 where
    bc1: "add_builtin_view v (i, bc) = Ok (i + 1, bc1)" "bc_wf bc1"
      "bc_schema_names bc1 = bc_schema_names bc" "bc_database_names bc1 = bc_database_names bc"
      "dom (hm_get (bc_entries bc1)) = insert i (dom (hm_get (bc_entries bc)))" by blast
  from Cons.prems have i: "unat i < 20000" by simp
  from Cons.prems bc1(2,3) bc_oids_below_insert [OF Cons.prems(3) i Cons.prems(5) bc1(5)] unat_Suc_word [OF i]
  obtain i' bc' where "ofold add_builtin_view vs (i + 1, bc1) = Ok (i', bc')" "bc_wf bc'"
     "schemas_known bc'" "bc_oids_below i' bc'" "unat i' = unat i + length (v # vs)"
     "bc_database_names bc' = bc_database_names bc"
    using Cons.IH [of bc1 "i + 1"] bc1(4) by (auto simp: schemas_known_def)
  with bc1(1) show ?case by simp
qed simp

fun entries_from :: "oid \<Rightarrow> oid \<Rightarrow> function_entry list \<Rightarrow> bool" where
  "entries_from parent i [] = True"
| "entries_from parent i (e # es) =
     ((\<exists>n. fe_meta e = builtin_meta ET_Function i parent n) \<and> entries_from parent (i + 1) es)"

lemma entries_from_append:
  "entries_from p i (xs @ ys) \<longleftrightarrow> entries_from p i xs \<and> entries_from p (i + of_nat (length xs)) ys"
  by (induction xs arbitrary: i) (auto simp: algebra_simps)

lemma function_name_entries_from:
  "function_name_entries p f ns i = (es, i') \<Longrightarrow>
   entries_from p i es \<and> length es = length ns \<and> i' = i + of_nat (length ns)"
  by (induction p f ns i arbitrary: es i' rule: function_name_entries.induct)
    (auto split: prod.splits simp: algebra_simps)

definition function_names :: "builtin_function list \<Rightarrow> nat" where
  "function_names fs = sum_list (map (\<lambda>f. length (bf_aliases f) + 1) fs)"

lemma builtin_function_to_entries_from:
  "builtin_function_to_entries p fs i = (es, i') \<Longrightarrow>
   entries_from p i es \<and> length es = function_names fs \<and> i' = i + of_nat (function_names fs)"
proof (induction p fs i arbitrary: es i' rule: builtin_function_to_entries.induct)
  case (2 p f fs i)
  obtain es1 i1 where 1: "function_name_entries p f (bf_aliases f @ [bf_name f]) i = (es1, i1)"
    by fastforce
  obtain es2 i2 where 2: "builtin_function_to_entries p fs i1 = (es2, i2)" by fastforce
  from function_name_entries_from [OF 1] "2.IH" [OF 1 [symmetric] refl 2] 1 2 "2.prems" show ?case
    by (auto simp: entries_from_append function_names_def algebra_simps)
qed (simp add: function_names_def)

lemma builtin_functions_progress:
  assumes "bc_wf bc" "hm_get (bc_schema_names bc) n = Some sid" "bc_oids_below i bc"
    "unat i + length es \<le> 20000" "0 < unat i" "entries_from sid i es"
  shows "\<exists>bc'. ofold (add_builtin_function sid) es bc = Ok bc' \<and> bc_wf bc' \<and>
     bc_oids_below FIRST_AVAILABLE_ID bc' \<and>
     bc_schema_names bc' = bc_schema_names bc \<and> bc_database_names bc' = bc_database_names bc"
  using assms
proof (induction es arbitrary: i bc)
  case Nil
  then show ?case by (fastforce simp: bc_oids_below_def builtin_oids word_less_nat_alt)
next
  case (Cons e es)
  from Cons.prems obtain name where meta: "fe_meta e = builtin_meta ET_Function i sid name" by auto
  from bc_wf_maps(4) [OF Cons.prems(1,2)] bc_oids_below_fresh [OF Cons.prems(3)] meta
  obtain bc1 where ok: "add_builtin_function sid e bc = Ok bc1"
    and db: "bc_database_names bc1 = bc_database_names bc"
    and dom: "dom (hm_get (bc_entries bc1)) = insert i (dom (hm_get (bc_entries bc)))"
    by (auto simp: add_builtin_function_def Let_def builtin_meta_def)
  note wf = bc_wf_add_function [OF Cons.prems(1,2) ok meta]
  from Cons.prems have i: "unat i < 20000" by simp
  from Cons.IH [of bc1 "i + 1"] Cons.prems wf db bc_oids_below_insert [OF Cons.prems(3) i Cons.prems(5) dom]
    unat_Suc_word [OF i] ok
  show ?case by auto
qed

lemma builtin_catalog_new_succeeds:
  assumes "function_names table_funcs + function_names scalar_funcs + function_names scalar_udfs \<le> 3484"
  shows "\<exists>bc. builtin_catalog_new table_funcs scalar_funcs scalar_udfs sql = Ok bc \<and> bc_wf bc \<and>
     bc_oids_below FIRST_AVAILABLE_ID bc \<and> schemas_known bc \<and>
     hm_get (bc_database_names bc) DEFAULT_CATALOG = Some (bd_oid DATABASE_DEFAULT)"
proof -
  from base_catalog_ok obtain b0 b1 where 1:
    "ofold add_builtin_database builtin_databases builtin_catalog_empty = Ok b0"
    "ofold add_builtin_schema builtin_schemas b0 = Ok b1" "bc_wf b1" "schemas_known b1"
    "bc_oids_below 16390 b1" "hm_get (bc_database_names b1) DEFAULT_CATALOG = Some (bd_oid DATABASE_DEFAULT)"
    by auto
  from builtin_tables_progress [OF 1(3-5)] obtain b2 where 2:
    "ofold add_builtin_table builtin_tables b1 = Ok b2" "bc_wf b2" "schemas_known b2"
    "bc_oids_below FIRST_NON_STATIC_OID b2" "bc_database_names b2 = bc_database_names b1" by blast
  have "unat FIRST_NON_STATIC_OID = 16500" by (simp add: builtin_oids)
  with builtin_views_progress [OF 2(2-4), of "builtin_views sql"] obtain i b3 where 3:
    "ofold add_builtin_view (builtin_views sql) (FIRST_NON_STATIC_OID, b2) = Ok (i, b3)" "bc_wf b3"
    "schemas_known b3" "bc_oids_below i b3" "unat i = 16516" "bc_database_names b3 = bc_database_names b2"
    using length_builtin_views [of sql] builtin_view_schemas [of _ sql] by auto
  from 3(3) obtain sid where sid: "hm_get (bc_schema_names b3) DEFAULT_SCHEMA = Some sid"
    by (auto simp: schemas_known_def builtin_schemas_def SCHEMA_DEFAULT_def)
  obtain es1 i1 where e1: "builtin_function_to_entries sid table_funcs i = (es1, i1)" by fastforce
  obtain es2 i2 where e2: "builtin_function_to_entries sid scalar_funcs i1 = (es2, i2)" by fastforce
  obtain es3 i3 where e3: "builtin_function_to_entries sid scalar_udfs i2 = (es3, i3)" by fastforce
  note f = builtin_function_to_entries_from [OF e1] builtin_function_to_entries_from [OF e2]
    builtin_function_to_entries_from [OF e3]
  have "entries_from sid i (es1 @ es2 @ es3)" "unat i + length (es1 @ es2 @ es3) \<le> 20000"
    "0 < unat i"
    using f assms 3(5) by (auto simp: entries_from_append algebra_simps)
  from builtin_functions_progress [OF 3(2) sid 3(4) this(2,3,1)] obtain b4 where 4:
    "ofold (add_builtin_function sid) (es1 @ es2 @ es3) b3 = Ok b4" "bc_wf b4"
    "bc_oids_below FIRST_AVAILABLE_ID b4" "bc_schema_names b4 = bc_schema_names b3"
    "bc_database_names b4 = bc_database_names b3" by blast
  have "builtin_catalog_new table_funcs scalar_funcs scalar_udfs sql = Ok b4"
    unfolding builtin_catalog_new_def
    by (simp only: 1(1,2) 2(1) 3(1) 4(1) sid bc_schema_id_eq_Ok [THEN iffD2] obind.simps prod.case e1 e2 e3 Let_def)
  with 1(6) 2(5) 3(3,6) 4 show ?thesis
    by (simp add: schemas_known_def)
qed

end
