(* ===== verification/Metastore_State.thy ===== *)
theory Metastore_State
  imports Builtin_Catalog
begin

section \<open>The state of the metastore\<close>

text \<open>
  \<open>DatabaseEntries\<close>, \<open>CreatePolicy\<close> and \<open>State\<close> of \<open>crates/metastore/src/database.rs\<close>. A
  method that takes \<open>&mut self\<close> returns the state it leaves behind together with its outcome,
  also when it fails half way; \<open>and_then\<close> is the \<open>?\<close> operator in such a method. There is one
  definition per arm of \<open>State::mutate_one\<close>. The static \<open>BUILTIN_CATALOG\<close> is the argument
  \<open>bc\<close> of the definitions that read it.
\<close>

subsection \<open>Database entries\<close>

definition MAX_DATABASE_OBJECTS :: nat where
  "MAX_DATABASE_OBJECTS = 2048"

type_synonym database_entries = "(oid, catalog_entry) hashmap"

definition db_entries_get :: "oid \<Rightarrow> database_entries \<Rightarrow> catalog_entry option metastore_result" where
  "db_entries_get i es =
     (case hm_get es i of
        Some ent \<Rightarrow> if ent_builtin ent then Err (CannotModifyBuiltin ent) else Ok (Some ent)
      | None \<Rightarrow> Ok None)"

text \<open>\<open>get_mut\<close> fails as \<open>get\<close> does; the write through the reference it returns is
  \<open>modify_entry\<close> below.\<close>

definition db_entries_get_mut :: "oid \<Rightarrow> database_entries \<Rightarrow> catalog_entry option metastore_result" where
  "db_entries_get_mut i es =
     (case hm_get es i of
        Some ent \<Rightarrow> if ent_builtin ent then Err (CannotModifyBuiltin ent) else Ok (Some ent)
      | None \<Rightarrow> Ok None)"

definition db_entries_remove ::
    "oid \<Rightarrow> database_entries \<Rightarrow> database_entries \<times> catalog_entry option metastore_result" where
  "db_entries_remove i es =
     (case hm_get es i of
        Some ent \<Rightarrow>
          if ent_builtin ent then (es, Err (CannotModifyBuiltin ent))
          else (hm_remove i es, Ok (Some ent))
      | None \<Rightarrow> (es, Ok None))"

definition in_reserved_schema :: "catalog_entry \<Rightarrow> bool" where
  "in_reserved_schema ent \<longleftrightarrow>
     (\<exists>builtin \<in> set builtin_schemas.
        bs_oid builtin \<noteq> bs_oid SCHEMA_DEFAULT \<and> bs_oid builtin = ent_parent ent)"

definition db_entries_insert ::
    "oid \<Rightarrow> catalog_entry \<Rightarrow> database_entries \<Rightarrow> database_entries \<times> catalog_entry option metastore_result" where
  "db_entries_insert i ent es =
     (if hm_len es > MAX_DATABASE_OBJECTS then (es, Err (MaxNumberOfObjects MAX_DATABASE_OBJECTS))
      else case hm_get es i of
        Some old \<Rightarrow>
          if ent_builtin old then (es, Err (CannotModifyBuiltin old))
          else if in_reserved_schema ent then (es, Err (CannotModifyBuiltin ent))
          else (hm_insert i ent es, Ok (Some old))
      | None \<Rightarrow>
          if in_reserved_schema ent then (es, Err (CannotModifyBuiltin ent))
          else (hm_insert i ent es, Ok None))"

subsection \<open>Create policies\<close>

datatype create_policy = CreateIfNotExists | CreateOrReplace | Create

fun create_policy_new :: "bool \<Rightarrow> bool \<Rightarrow> create_policy metastore_result" where
  "create_policy_new True True = Err InvalidCreatePolicy"
| "create_policy_new True False = Ok CreateIfNotExists"
| "create_policy_new False True = Ok CreateOrReplace"
| "create_policy_new False False = Ok Create"

subsection \<open>The state and its accessors\<close>

record state =
  st_version :: u64
  st_deployment :: deployment_metadata
  st_oid_counter :: oid
  st_entries :: database_entries
  st_database_names :: "(string, oid) hashmap"
  st_tunnel_names :: "(string, oid) hashmap"
  st_credentials_names :: "(string, oid) hashmap"
  st_schema_names :: "(string, oid) hashmap"
  st_schema_objects :: "(oid, schema_objects) hashmap"

type_synonym 'a step = "state \<times> 'a metastore_result"

fun and_then :: "'a step \<Rightarrow> (state \<Rightarrow> 'a \<Rightarrow> 'b step) \<Rightarrow> 'b step" where
  "and_then (s, Ok x) f = f s x"
| "and_then (s, Err e) f = (s, Err e)"
| "and_then (s, Panic msg) f = (s, Panic msg)"

definition put_entry :: "oid \<Rightarrow> catalog_entry \<Rightarrow> state \<Rightarrow> state" where
  "put_entry i e s = s\<lparr>st_entries := hm_insert i e (st_entries s)\<rparr>"

definition del_entry :: "oid \<Rightarrow> state \<Rightarrow> state" where
  "del_entry i s = s\<lparr>st_entries := hm_remove i (st_entries s)\<rparr>"

text \<open>\<open>schema_objects.entry(schema_id).or_default()\<close> and the writes to the two namespaces.\<close>

definition or_default :: "oid \<Rightarrow> state \<Rightarrow> schema_objects" where
  "or_default sid s =
     (case hm_get (st_schema_objects s) sid of None \<Rightarrow> schema_objects_default | Some objs \<Rightarrow> objs)"

definition put_objects :: "oid \<Rightarrow> schema_objects \<Rightarrow> state \<Rightarrow> state" where
  "put_objects sid objs s = s\<lparr>st_schema_objects := hm_insert sid objs (st_schema_objects s)\<rparr>"

definition put_table_name :: "oid \<Rightarrow> string \<Rightarrow> oid \<Rightarrow> state \<Rightarrow> state" where
  "put_table_name sid n i s =
     (let objs = or_default sid s
      in put_objects sid (objs\<lparr>sob_tables := hm_insert n i (sob_tables objs)\<rparr>) s)"

definition del_table_name :: "oid \<Rightarrow> string \<Rightarrow> state \<Rightarrow> state" where
  "del_table_name sid n s =
     (let objs = or_default sid s
      in put_objects sid (objs\<lparr>sob_tables := hm_remove n (sob_tables objs)\<rparr>) s)"

definition put_function_name :: "oid \<Rightarrow> string \<Rightarrow> oid \<Rightarrow> state \<Rightarrow> state" where
  "put_function_name sid n i s =
     (let objs = or_default sid s
      in put_objects sid (objs\<lparr>sob_functions := hm_insert n i (sob_functions objs)\<rparr>) s)"

definition put_database_name :: "string \<Rightarrow> oid \<Rightarrow> state \<Rightarrow> state" where
  "put_database_name n i s = s\<lparr>st_database_names := hm_insert n i (st_database_names s)\<rparr>"

definition del_database_name :: "string \<Rightarrow> state \<Rightarrow> state" where
  "del_database_name n s = s\<lparr>st_database_names := hm_remove n (st_database_names s)\<rparr>"

definition put_tunnel_name :: "string \<Rightarrow> oid \<Rightarrow> state \<Rightarrow> state" where
  "put_tunnel_name n i s = s\<lparr>st_tunnel_names := hm_insert n i (st_tunnel_names s)\<rparr>"

definition del_tunnel_name :: "string \<Rightarrow> state \<Rightarrow> state" where
  "del_tunnel_name n s = s\<lparr>st_tunnel_names := hm_remove n (st_tunnel_names s)\<rparr>"

definition put_credentials_name :: "string \<Rightarrow> oid \<Rightarrow> state \<Rightarrow> state" where
  "put_credentials_name n i s = s\<lparr>st_credentials_names := hm_insert n i (st_credentials_names s)\<rparr>"

definition del_credentials_name :: "string \<Rightarrow> state \<Rightarrow> state" where
  "del_credentials_name n s = s\<lparr>st_credentials_names := hm_remove n (st_credentials_names s)\<rparr>"

definition put_schema_name :: "string \<Rightarrow> oid \<Rightarrow> state \<Rightarrow> state" where
  "put_schema_name n i s = s\<lparr>st_schema_names := hm_insert n i (st_schema_names s)\<rparr>"

definition del_schema_name :: "string \<Rightarrow> state \<Rightarrow> state" where
  "del_schema_name n s = s\<lparr>st_schema_names := hm_remove n (st_schema_names s)\<rparr>"

definition insert_entry_step :: "oid \<Rightarrow> catalog_entry \<Rightarrow> state \<Rightarrow> catalog_entry option step" where
  "insert_entry_step i ent s =
     (let (es, r) = db_entries_insert i ent (st_entries s) in (s\<lparr>st_entries := es\<rparr>, r))"

text \<open>\<open>self.entries.remove(&oid)?.unwrap()\<close>\<close>

definition remove_entry_step :: "oid \<Rightarrow> state \<Rightarrow> catalog_entry step" where
  "remove_entry_step i s =
     (let (es, r) = db_entries_remove i (st_entries s)
      in and_then (s\<lparr>st_entries := es\<rparr>, r) (\<lambda>s removed.
           case removed of
             None \<Rightarrow> (s, Panic ''called unwrap on a None value'')
           | Some ent \<Rightarrow> (s, Ok ent)))"

text \<open>\<open>self.entries.get_mut(&oid)?.unwrap()\<close> followed by a write \<open>f\<close> through the reference.\<close>

definition modify_entry :: "oid \<Rightarrow> (catalog_entry \<Rightarrow> catalog_entry metastore_result) \<Rightarrow> state \<Rightarrow> unit step" where
  "modify_entry i f s =
     and_then (s, db_entries_get_mut i (st_entries s)) (\<lambda>s found.
       case found of
         None \<Rightarrow> (s, Panic ''called unwrap on a None value'')
       | Some ent \<Rightarrow> and_then (s, f ent) (\<lambda>s ent'. (put_entry i ent' s, Ok ())))"

definition next_oid :: "state \<Rightarrow> state \<times> oid" where
  "next_oid s = (s\<lparr>st_oid_counter := st_oid_counter s + 1\<rparr>, st_oid_counter s)"

definition get_or_next_oid :: "oid \<Rightarrow> string \<Rightarrow> state \<Rightarrow> state \<times> oid" where
  "get_or_next_oid schema_id name s =
     (case table_index (st_schema_objects s) (schema_id, name) of
        Some i \<Rightarrow> (s, i)
      | None \<Rightarrow> next_oid s)"

definition get_schema_id :: "string \<Rightarrow> state \<Rightarrow> oid metastore_result" where
  "get_schema_id name s =
     (case hm_get (st_schema_names s) name of
        None \<Rightarrow> Err (MissingNamedSchema name)
      | Some schema_id \<Rightarrow> Ok schema_id)"

definition get_tunnel_entry :: "string option \<Rightarrow> state \<Rightarrow> tunnel_entry option metastore_result" where
  "get_tunnel_entry tunnel_name s =
     (case tunnel_name of
        None \<Rightarrow> Ok None
      | Some tunnel \<Rightarrow>
          (case hm_get (st_tunnel_names s) tunnel of
             None \<Rightarrow> Err (MissingTunnel tunnel)
           | Some tunnel_id \<Rightarrow>
               obind (db_entries_get tunnel_id (st_entries s)) (\<lambda>found.
                 case found of
                   None \<Rightarrow> Panic ''entry should exist''
                 | Some (Tunnel tunnel_entry) \<Rightarrow> Ok (Some tunnel_entry)
                 | Some _ \<Rightarrow> Panic ''entry should be a tunnel entry'')))"

definition try_insert_table_namespace ::
    "catalog_entry \<Rightarrow> oid \<Rightarrow> oid \<Rightarrow> create_policy \<Rightarrow> state \<Rightarrow> unit step" where
  "try_insert_table_namespace ent schema_id i create_policy s0 =
     (let objs = or_default schema_id s0;
          s = put_objects schema_id objs s0;
          name = ent_name ent;
          insert_new = (\<lambda>s. and_then (insert_entry_step i ent (put_table_name schema_id name i s)) (\<lambda>s _. (s, Ok ())));
          replace = (\<lambda>s. and_then (insert_entry_step i ent s) (\<lambda>s _. (s, Ok ())))
      in case create_policy of
           CreateIfNotExists \<Rightarrow>
             if hm_contains_key (sob_tables objs) name then (s, Ok ()) else insert_new s
         | CreateOrReplace \<Rightarrow>
             if hm_contains_key (sob_tables objs) name then replace s else insert_new s
         | Create \<Rightarrow>
             if hm_contains_key (sob_tables objs) name then (s, Err (DuplicateName name)) else insert_new s)"

subsection \<open>The arms of \<open>mutate_one\<close>: drops\<close>

definition mutate_drop_database :: "drop_database \<Rightarrow> state \<Rightarrow> unit step" where
  "mutate_drop_database m s =
     (case hm_get (st_database_names s) (dd_name m) of
        None \<Rightarrow> (s, if dd_if_exists m then Ok () else Err (MissingDatabase (dd_name m)))
      | Some database_id \<Rightarrow>
          and_then (remove_entry_step database_id (del_database_name (dd_name m) s)) (\<lambda>s _. (s, Ok ())))"

definition mutate_drop_tunnel :: "drop_tunnel \<Rightarrow> state \<Rightarrow> unit step" where
  "mutate_drop_tunnel m s =
     (case hm_get (st_tunnel_names s) (dt_name m) of
        None \<Rightarrow> (s, if dt_if_exists m then Ok () else Err (MissingTunnel (dt_name m)))
      | Some tunnel_id \<Rightarrow>
          and_then (remove_entry_step tunnel_id (del_tunnel_name (dt_name m) s)) (\<lambda>s _. (s, Ok ())))"

definition mutate_drop_credentials :: "drop_credentials \<Rightarrow> state \<Rightarrow> unit step" where
  "mutate_drop_credentials m s =
     (case hm_get (st_credentials_names s) (dc_name m) of
        None \<Rightarrow> (s, if dc_if_exists m then Ok () else Err (MissingCredentials (dc_name m)))
      | Some credentials_id \<Rightarrow>
          and_then (remove_entry_step credentials_id (del_credentials_name (dc_name m) s)) (\<lambda>s _. (s, Ok ())))"

fun remove_children :: "oid list \<Rightarrow> state \<Rightarrow> unit step" where
  "remove_children [] s = (s, Ok ())"
| "remove_children (child_oid # oids) s =
     and_then (remove_entry_step child_oid s) (\<lambda>s _. remove_children oids s)"

definition del_objects :: "oid \<Rightarrow> state \<Rightarrow> state" where
  "del_objects sid s = s\<lparr>st_schema_objects := hm_remove sid (st_schema_objects s)\<rparr>"

definition mutate_drop_schema :: "drop_schema \<Rightarrow> state \<Rightarrow> unit step" where
  "mutate_drop_schema m s0 =
     (case hm_get (st_schema_names s0) (ds_name m) of
        None \<Rightarrow> (s0, if ds_if_exists m then Ok () else Err (MissingNamedSchema (ds_name m)))
      | Some schema_id \<Rightarrow>
          (let s = del_schema_name (ds_name m) s0
           in and_then
             (case hm_get (st_schema_objects s) schema_id of
                Some so \<Rightarrow>
                  if schema_objects_is_empty so then (del_objects schema_id s, Ok ())
                  else if ds_cascade m then remove_children (iter_oids so) (del_objects schema_id s)
                  else (s, Err (SchemaHasChildren schema_id (num_objects so)))
              | None \<Rightarrow> (s, Ok ()))
             (\<lambda>s _. and_then (remove_entry_step schema_id s) (\<lambda>s _. (s, Ok ())))))"

definition mutate_drop_object :: "drop_object \<Rightarrow> state \<Rightarrow> unit step" where
  "mutate_drop_object m s =
     (case hm_get (st_schema_names s) (dob_schema m) of
        None \<Rightarrow> (s, if dob_if_exists m then Ok () else Err (MissingNamedSchema (dob_schema m)))
      | Some schema_id \<Rightarrow>
          (case hm_get (st_schema_objects s) schema_id of
             None \<Rightarrow> (s, if dob_if_exists m then Ok ()
                          else Err (MissingNamedObject (dob_schema m) (dob_name m)))
           | Some objs \<Rightarrow>
               (case hm_get (sob_tables objs) (dob_name m) of
                  None \<Rightarrow> (s, if dob_if_exists m then Ok ()
                               else Err (MissingNamedObject (dob_schema m) (dob_name m)))
                | Some obj_id \<Rightarrow>
                    and_then (remove_entry_step obj_id (del_table_name schema_id (dob_name m) s))
                      (\<lambda>s _. (s, Ok ())))))"

subsection \<open>The arms of \<open>mutate_one\<close>: creates\<close>

definition user_meta :: "entry_type \<Rightarrow> oid \<Rightarrow> oid \<Rightarrow> string \<Rightarrow> bool \<Rightarrow> entry_meta" where
  "user_meta ty i parent name ext =
     \<lparr>meta_entry_type = ty, meta_id = i, meta_parent = parent, meta_name = name,
      meta_builtin = False, meta_external = ext, meta_is_temp = False\<rparr>"

definition validate_name_step :: "string \<Rightarrow> state \<Rightarrow> unit step" where
  "validate_name_step name s = (s, omap_err ME_Validation (validate_object_name name))"

text \<open>The tunnel lookup shared by external databases and external tables: \<open>check\<close> is the
  validation of the tunnel against the data source.\<close>

definition get_tunnel_id ::
    "(string \<Rightarrow> (validation_error, unit) outcome) \<Rightarrow> string option \<Rightarrow> state \<Rightarrow> oid option metastore_result" where
  "get_tunnel_id check tunnel s =
     obind (get_tunnel_entry tunnel s) (\<lambda>found.
       case found of
         None \<Rightarrow> Ok None
       | Some tunnel_entry \<Rightarrow>
           obind (omap_err ME_Validation (check (tunnel_options_as_str (tu_options tunnel_entry)))) (\<lambda>_.
             Ok (Some (meta_id (tu_meta tunnel_entry)))))"

definition mutate_create_external_database :: "create_external_database \<Rightarrow> state \<Rightarrow> unit step" where
  "mutate_create_external_database m s =
     and_then (validate_name_step (ced_name m) s) (\<lambda>s _.
     case hm_get (st_database_names s) (ced_name m) of
       Some _ \<Rightarrow> (s, if ced_if_not_exists m then Ok () else Err (DuplicateName (ced_name m)))
     | None \<Rightarrow>
         and_then (s, get_tunnel_id (validate_database_tunnel_support
             (database_options_as_str (ced_options m))) (ced_tunnel m) s) (\<lambda>s tunnel_id.
         let (s, i) = next_oid s;
             ent = \<lparr>de_meta = user_meta ET_Database i DATABASE_PARENT_ID (ced_name m) True,
                    de_options = ced_options m, de_tunnel_id = tunnel_id, de_access_mode = ReadOnly\<rparr>
         in and_then (insert_entry_step i (Database ent) s) (\<lambda>s _.
              (put_database_name (ced_name m) i s, Ok ()))))"

definition mutate_create_tunnel :: "create_tunnel \<Rightarrow> state \<Rightarrow> unit step" where
  "mutate_create_tunnel m s =
     and_then (validate_name_step (ctu_name m) s) (\<lambda>s _.
     case hm_get (st_tunnel_names s) (ctu_name m) of
       Some _ \<Rightarrow> (s, if ctu_if_not_exists m then Ok () else Err (DuplicateName (ctu_name m)))
     | None \<Rightarrow>
         (let (s, i) = next_oid s;
              ent = \<lparr>tu_meta = user_meta ET_Tunnel i DATABASE_PARENT_ID (ctu_name m) False,
                     tu_options = ctu_options m\<rparr>
          in and_then (insert_entry_step i (Tunnel ent) s) (\<lambda>s _.
               (put_tunnel_name (ctu_name m) i s, Ok ()))))"

definition mutate_create_credentials :: "create_credentials \<Rightarrow> state \<Rightarrow> unit step" where
  "mutate_create_credentials m s =
     and_then (validate_name_step (cc_name m) s) (\<lambda>s _.
     and_then (case (hm_get (st_credentials_names s) (cc_name m), cc_or_replace m) of
         (Some _, False) \<Rightarrow> (s, Err (DuplicateName (cc_name m)))
       | (Some i, True) \<Rightarrow> (s, Ok i)
       | (None, _) \<Rightarrow> (let (s, i) = next_oid s in (s, Ok i))) (\<lambda>s i.
     let ent = \<lparr>ce_meta = user_meta ET_Credentials i DATABASE_PARENT_ID (cc_name m) False,
                ce_options = cc_options m, ce_comment = cc_comment m\<rparr>
     in and_then (insert_entry_step i (Credentials ent) s) (\<lambda>s _.
          (put_credentials_name (cc_name m) i s, Ok ()))))"

definition mutate_create_schema :: "create_schema \<Rightarrow> state \<Rightarrow> unit step" where
  "mutate_create_schema m s =
     and_then (validate_name_step (csc_name m) s) (\<lambda>s _.
     if hm_contains_key (st_schema_names s) (csc_name m)
     then (s, if csc_if_not_exists m then Ok () else Err (DuplicateName (csc_name m)))
     else
       (let (s, i) = next_oid s;
            ent = \<lparr>se_meta = user_meta ET_Schema i (bd_oid DATABASE_DEFAULT) (csc_name m) False\<rparr>
        in and_then (insert_entry_step i (Schema ent) s) (\<lambda>s _.
             (put_schema_name (csc_name m) i s, Ok ()))))"

definition mutate_create_view :: "create_view \<Rightarrow> state \<Rightarrow> unit step" where
  "mutate_create_view m s =
     and_then (validate_name_step (cv_name m) s) (\<lambda>s _.
     and_then (s, get_schema_id (cv_schema m) s) (\<lambda>s schema_id.
     let (s, i) = get_or_next_oid schema_id (cv_name m) s;
         ent = \<lparr>ve_meta = user_meta ET_View i schema_id (cv_name m) False,
                ve_sql = cv_sql m, ve_columns = cv_columns m\<rparr>;
         policy = (if cv_or_replace m then CreateOrReplace else Create)
     in try_insert_table_namespace (View ent) schema_id i policy s))"

definition mutate_create_table :: "create_table \<Rightarrow> state \<Rightarrow> unit step" where
  "mutate_create_table m s =
     and_then (validate_name_step (ct_name m) s) (\<lambda>s _.
     and_then (s, get_schema_id (ct_schema m) s) (\<lambda>s schema_id.
     let (s, i) = get_or_next_oid schema_id (ct_name m) s;
         ent = \<lparr>te_meta = user_meta ET_Table i schema_id (ct_name m) False,
                te_options = TO_Internal (ct_options m), te_tunnel_id = None,
                te_access_mode = ReadWrite, te_columns = None\<rparr>
     in and_then (s, create_policy_new (ct_if_not_exists m) (ct_or_replace m)) (\<lambda>s policy.
          try_insert_table_namespace (Table ent) schema_id i policy s)))"

definition mutate_create_external_table :: "create_external_table \<Rightarrow> state \<Rightarrow> unit step" where
  "mutate_create_external_table m s =
     and_then (validate_name_step (cet_name m) s) (\<lambda>s _.
     and_then (s, get_schema_id (cet_schema m) s) (\<lambda>s schema_id.
     and_then (s, get_tunnel_id (validate_table_tunnel_support
         (table_options_v0_as_str (cet_options m))) (cet_tunnel m) s) (\<lambda>s tunnel_id.
     let (s, i) = get_or_next_oid schema_id (cet_name m) s;
         ent = \<lparr>te_meta = user_meta ET_Table i schema_id (cet_name m) True,
                te_options = cet_options m, te_tunnel_id = tunnel_id,
                te_access_mode = ReadOnly, te_columns = cet_columns m\<rparr>
     in and_then (s, create_policy_new (cet_if_not_exists m) (cet_or_replace m)) (\<lambda>s policy.
          try_insert_table_namespace (Table ent) schema_id i policy s))))"

definition mutate_create_function :: "create_function \<Rightarrow> state \<Rightarrow> unit step" where
  "mutate_create_function f s =
     and_then (s, get_schema_id DEFAULT_SCHEMA s) (\<lambda>s schema_id.
     case function_index (st_schema_objects s) (schema_id, cf_name f) of
       Some _ \<Rightarrow> (s, Err (DuplicateName (cf_name f)))
     | None \<Rightarrow>
         (let (s, i) = next_oid s;
              ent = \<lparr>fe_meta = user_meta ET_Function i schema_id (cf_name f) True,
                     fe_func_type = cf_function_type f, fe_signature = Some (cf_signature f),
                     fe_user_defined = True\<rparr>
          in and_then (insert_entry_step i (Function ent) s) (\<lambda>s _.
               (put_function_name schema_id (cf_name f) i s, Ok ()))))"

subsection \<open>The arms of \<open>mutate_one\<close>: alters\<close>

definition mutate_rename_table :: "string \<Rightarrow> string \<Rightarrow> oid \<Rightarrow> string \<Rightarrow> state \<Rightarrow> unit step" where
  "mutate_rename_table schema name schema_id new_name s =
     and_then (validate_name_step new_name s) (\<lambda>s _.
     if hm_contains_key (st_schema_names s) new_name then (s, Err (DuplicateName new_name))
     else case hm_get (sob_tables (or_default schema_id s)) name of
       None \<Rightarrow> (s, Err (MissingNamedObject schema name))
     | Some i \<Rightarrow>
         and_then (remove_entry_step i (del_table_name schema_id name s)) (\<lambda>s ent.
         case ent of
           Table _ \<Rightarrow> try_insert_table_namespace (map_meta (\<lambda>m. m\<lparr>meta_name := new_name\<rparr>) ent) schema_id i Create s
         | View _ \<Rightarrow> try_insert_table_namespace (map_meta (\<lambda>m. m\<lparr>meta_name := new_name\<rparr>) ent) schema_id i Create s
         | _ \<Rightarrow> (s, Panic ''unexpected entry type'')))"

definition mutate_set_table_access_mode ::
    "string \<Rightarrow> string \<Rightarrow> oid \<Rightarrow> source_access_mode \<Rightarrow> state \<Rightarrow> unit step" where
  "mutate_set_table_access_mode schema name schema_id access_mode s =
     (case hm_get (sob_tables (or_default schema_id s)) name of
        None \<Rightarrow> (s, Err (MissingNamedObject schema name))
      | Some i \<Rightarrow>
          modify_entry i (\<lambda>ent. case ent of
              Table t \<Rightarrow> Ok (Table (t\<lparr>te_access_mode := access_mode\<rparr>))
            | _ \<Rightarrow> Panic ''unexpected entry type'') s)"

definition mutate_alter_table :: "alter_table \<Rightarrow> state \<Rightarrow> unit step" where
  "mutate_alter_table m s =
     (case hm_get (st_schema_names s) (at_schema m) of
        None \<Rightarrow> (s, Err (MissingNamedSchema (at_schema m)))
      | Some schema_id \<Rightarrow>
          (case hm_get (st_schema_objects s) schema_id of
             None \<Rightarrow> (s, Err (MissingNamedObject (at_schema m) (at_name m)))
           | Some objs \<Rightarrow>
               (case at_operation m of
                  RenameTable new_name \<Rightarrow>
                    mutate_rename_table (at_schema m) (at_name m) schema_id new_name s
                | SetTableAccessMode access_mode \<Rightarrow>
                    mutate_set_table_access_mode (at_schema m) (at_name m) schema_id access_mode s)))"

definition mutate_alter_database :: "alter_database \<Rightarrow> state \<Rightarrow> unit step" where
  "mutate_alter_database m s =
     (case ad_operation m of
        RenameDatabase new_name \<Rightarrow>
          and_then (validate_name_step new_name s) (\<lambda>s _.
          if hm_contains_key (st_database_names s) new_name then (s, Err (DuplicateName new_name))
          else case hm_get (st_database_names s) (ad_name m) of
            None \<Rightarrow> (s, Err (MissingDatabase (ad_name m)))
          | Some i \<Rightarrow>
              and_then (modify_entry i (\<lambda>ent. Ok (map_meta (\<lambda>m. m\<lparr>meta_name := new_name\<rparr>) ent))
                  (del_database_name (ad_name m) s)) (\<lambda>s _.
                (put_database_name new_name i s, Ok ())))
      | SetDatabaseAccessMode access_mode \<Rightarrow>
          (case hm_get (st_database_names s) (ad_name m) of
             None \<Rightarrow> (s, Err (MissingDatabase (ad_name m)))
           | Some i \<Rightarrow>
               modify_entry i (\<lambda>ent. case ent of
                   Database db \<Rightarrow> Ok (Database (db\<lparr>de_access_mode := access_mode\<rparr>))
                 | _ \<Rightarrow> Panic ''unexpected entry type'') s))"

definition rotate_tunnel_keys :: "bytes \<Rightarrow> catalog_entry \<Rightarrow> catalog_entry metastore_result" where
  "rotate_tunnel_keys new_ssh_key ent =
     (case ent of
        Tunnel t \<Rightarrow>
          (case tu_options t of
             TuO_Ssh opts \<Rightarrow> Ok (Tunnel (t\<lparr>tu_options := TuO_Ssh (opts\<lparr>tus_ssh_key := new_ssh_key\<rparr>)\<rparr>))
           | opt \<Rightarrow> Err (TunnelNotSupportedForAction (tunnel_options_as_str opt) ''rotating keys''))
      | _ \<Rightarrow> Panic ''entry should be a tunnel'')"

definition mutate_alter_tunnel_rotate_keys :: "alter_tunnel_rotate_keys \<Rightarrow> state \<Rightarrow> unit step" where
  "mutate_alter_tunnel_rotate_keys m s =
     (case hm_get (st_tunnel_names s) (atr_name m) of
        None \<Rightarrow> (s, if atr_if_exists m then Ok () else Err (MissingTunnel (atr_name m)))
      | Some i \<Rightarrow> modify_entry i (rotate_tunnel_keys (atr_new_ssh_key m)) s)"

definition mutate_update_deployment_storage :: "update_deployment_storage \<Rightarrow> state \<Rightarrow> unit step" where
  "mutate_update_deployment_storage m s =
     (s\<lparr>st_deployment := (st_deployment s)\<lparr>dm_storage_size := uds_new_storage_size m\<rparr>\<rparr>, Ok ())"

fun mutate_one :: "mutation \<Rightarrow> state \<Rightarrow> unit step" where
  "mutate_one (DropDatabase m) s = mutate_drop_database m s"
| "mutate_one (DropTunnel m) s = mutate_drop_tunnel m s"
| "mutate_one (DropCredentials m) s = mutate_drop_credentials m s"
| "mutate_one (DropSchema m) s = mutate_drop_schema m s"
| "mutate_one (DropObject m) s = mutate_drop_object m s"
| "mutate_one (CreateExternalDatabase m) s = mutate_create_external_database m s"
| "mutate_one (CreateTunnel m) s = mutate_create_tunnel m s"
| "mutate_one (CreateCredentials m) s = mutate_create_credentials m s"
| "mutate_one (CreateSchema m) s = mutate_create_schema m s"
| "mutate_one (CreateView m) s = mutate_create_view m s"
| "mutate_one (CreateTable m) s = mutate_create_table m s"
| "mutate_one (CreateExternalTable m) s = mutate_create_external_table m s"
| "mutate_one (AlterTable m) s = mutate_alter_table m s"
| "mutate_one (AlterDatabase m) s = mutate_alter_database m s"
| "mutate_one (AlterTunnelRotateKeys m) s = mutate_alter_tunnel_rotate_keys m s"
| "mutate_one (UpdateDeploymentStorage m) s = mutate_update_deployment_storage m s"
| "mutate_one (CreateFunction m) s = mutate_create_function m s"

fun mutate_all :: "mutation list \<Rightarrow> state \<Rightarrow> unit step" where
  "mutate_all [] s = (s, Ok ())"
| "mutate_all (m # ms) s = and_then (mutate_one m s) (\<lambda>s _. mutate_all ms s)"

definition mutate :: "mutation list \<Rightarrow> state \<Rightarrow> unit step" where
  "mutate mutations s = mutate_all mutations (s\<lparr>st_version := st_version s + 1\<rparr>)"

subsection \<open>Loading and persisting\<close>

text \<open>The five maps that \<open>from_persisted\<close> builds, and the body of its loop over the user
  entries.\<close>

record name_maps =
  nm_database_names :: "(string, oid) hashmap"
  nm_tunnel_names :: "(string, oid) hashmap"
  nm_credentials_names :: "(string, oid) hashmap"
  nm_schema_names :: "(string, oid) hashmap"
  nm_schema_objects :: "(oid, schema_objects) hashmap"

definition nm_or_default :: "oid \<Rightarrow> name_maps \<Rightarrow> schema_objects" where
  "nm_or_default sid nm =
     (case hm_get (nm_schema_objects nm) sid of None \<Rightarrow> schema_objects_default | Some objs \<Rightarrow> objs)"

definition load_table_or_view :: "oid \<Rightarrow> entry_meta \<Rightarrow> name_maps \<Rightarrow> name_maps metastore_result" where
  "load_table_or_view i meta nm =
     (if meta_parent meta = DATABASE_PARENT_ID
      then Err (ObjectHasInvalidParentId i (meta_parent meta) (entry_type_as_str (meta_entry_type meta)))
      else
        (let schema_id = meta_parent meta; objects = nm_or_default schema_id nm
         in case hm_get (sob_tables objects) (meta_name meta) of
              Some existing \<Rightarrow>
                Err (DuplicateNameFoundDuringLoad (meta_name meta) schema_id i existing ''table'')
            | None \<Rightarrow>
                Ok (nm\<lparr>nm_schema_objects := hm_insert schema_id
                  (objects\<lparr>sob_tables := hm_insert (meta_name meta) i (sob_tables objects)\<rparr>)
                  (nm_schema_objects nm)\<rparr>)))"

definition load_function :: "oid \<Rightarrow> entry_meta \<Rightarrow> name_maps \<Rightarrow> name_maps metastore_result" where
  "load_function i meta nm =
     (if meta_parent meta = DATABASE_PARENT_ID
      then Err (ObjectHasInvalidParentId i (meta_parent meta) (entry_type_as_str (meta_entry_type meta)))
      else
        (let objects = nm_or_default (meta_parent meta) nm
         in case hm_get (sob_functions objects) (meta_name meta) of
              Some existing \<Rightarrow>
                Err (DuplicateNameFoundDuringLoad (meta_name meta) (meta_parent meta) i existing ''function'')
            | None \<Rightarrow>
                Ok (nm\<lparr>nm_schema_objects := hm_insert (meta_parent meta)
                  (objects\<lparr>sob_functions := hm_insert (meta_name meta) i (sob_functions objects)\<rparr>)
                  (nm_schema_objects nm)\<rparr>)))"

fun load_entry :: "oid \<times> catalog_entry \<Rightarrow> name_maps \<Rightarrow> name_maps metastore_result" where
  "load_entry (i, Database database) nm =
     (if meta_parent (de_meta database) \<noteq> DATABASE_PARENT_ID
      then Err (ObjectHasNonZeroParent i (meta_parent (de_meta database)) ''database'')
      else Ok (nm\<lparr>nm_database_names := hm_insert (meta_name (de_meta database)) i (nm_database_names nm)\<rparr>))"
| "load_entry (i, Tunnel tunnel) nm =
     (if meta_parent (tu_meta tunnel) \<noteq> DATABASE_PARENT_ID
      then Err (ObjectHasNonZeroParent i (meta_parent (tu_meta tunnel)) ''tunnel'')
      else Ok (nm\<lparr>nm_tunnel_names := hm_insert (meta_name (tu_meta tunnel)) i (nm_tunnel_names nm)\<rparr>))"
| "load_entry (i, Credentials creds) nm =
     (if meta_parent (ce_meta creds) \<noteq> DATABASE_PARENT_ID
      then Err (ObjectHasNonZeroParent i (meta_parent (ce_meta creds)) ''credentials'')
      else Ok (nm\<lparr>nm_credentials_names := hm_insert (meta_name (ce_meta creds)) i (nm_credentials_names nm)\<rparr>))"
| "load_entry (i, Schema schema) nm =
     (if meta_parent (se_meta schema) = DATABASE_PARENT_ID
      then Err (ObjectHasInvalidParentId i (meta_parent (se_meta schema)) ''schema'')
      else Ok (nm\<lparr>nm_schema_names := hm_insert (meta_name (se_meta schema)) i (nm_schema_names nm)\<rparr>))"
| "load_entry (i, View view) nm = load_table_or_view i (ve_meta view) nm"
| "load_entry (i, Table table) nm = load_table_or_view i (te_meta table) nm"
| "load_entry (i, Function func) nm = load_function i (fe_meta func) nm"

definition from_persisted :: "builtin_catalog \<Rightarrow> persisted_catalog \<Rightarrow> state metastore_result" where
  "from_persisted bc persisted =
     (case find (\<lambda>(i, ent). i < FIRST_AVAILABLE_ID \<or> ent_builtin ent) (cs_entries (pc_state persisted)) of
        Some (i, ent) \<Rightarrow> Err (BuiltinObjectPersisted (get_meta ent))
      | None \<Rightarrow>
          (let entries = hm_extend (cs_entries (pc_state persisted)) (bc_entries bc);
               nm = \<lparr>nm_database_names = hm_extend [] (bc_database_names bc), nm_tunnel_names = [],
                     nm_credentials_names = [], nm_schema_names = hm_extend [] (bc_schema_names bc),
                     nm_schema_objects = hm_extend [] (bc_schema_objects bc)\<rparr>
           in obind (ofold load_entry (filter (\<lambda>(i, ent). \<not> ent_builtin ent) entries) nm) (\<lambda>nm.
              Ok \<lparr>st_version = cs_version (pc_state persisted),
                  st_deployment = cs_deployment (pc_state persisted),
                  st_oid_counter = ex_oid_counter (pc_extra persisted),
                  st_entries = entries,
                  st_database_names = nm_database_names nm,
                  st_tunnel_names = nm_tunnel_names nm,
                  st_credentials_names = nm_credentials_names nm,
                  st_schema_names = nm_schema_names nm,
                  st_schema_objects = nm_schema_objects nm\<rparr>)))"

definition from_catalog_state_and_counter ::
    "builtin_catalog \<Rightarrow> catalog_state \<Rightarrow> oid \<Rightarrow> state metastore_result" where
  "from_catalog_state_and_counter bc state counter =
     (if \<exists>(i, ent) \<in> set (cs_entries state). ent_is_temp ent
      then Panic ''temp object found in catalog''
      else from_persisted bc
        \<lparr>pc_state = state\<lparr>cs_entries :=
            filter (\<lambda>(i, ent). \<not> ent_is_temp ent \<and> \<not> ent_builtin ent) (cs_entries state)\<rparr>,
         pc_extra = \<lparr>ex_oid_counter = counter\<rparr>\<rparr>)"

definition to_persisted :: "state \<Rightarrow> persisted_catalog metastore_result" where
  "to_persisted s =
     (if \<exists>(i, ent) \<in> set (st_entries s). ent_is_temp ent
      then Panic ''temp object found in catalog''
      else Ok
        \<lparr>pc_state =
           \<lparr>cs_version = st_version s,
            cs_entries = filter (\<lambda>(i, ent). \<not> ent_builtin ent) (st_entries s),
            cs_deployment = st_deployment s,
            cs_catalog_version = CURRENT_CATALOG_VERSION\<rparr>,
         pc_extra = \<lparr>ex_oid_counter = st_oid_counter s\<rparr>\<rparr>)"

end
