(* ===== verification/Metastore_Invariant.thy ===== *)
theory Metastore_Invariant
  imports Metastore_State
begin

section \<open>The invariant of the metastore state\<close>

text \<open>
  \<open>wf_state bc s\<close> is the well-formedness of a state over the builtin catalog \<open>bc\<close>: the hash maps
  hold each key once, the builtin part of the state is the builtin catalog, user entries carry
  their own oid, lie between the first user oid and the oid counter and have an existing parent,
  and the name maps, read as one index, agree with the entries. The theory shows that every
  mutation that succeeds keeps the invariant, that on a well-formed state a mutation panics in
  one case only, and that no mutation, failing ones included, touches a builtin entry.
\<close>

subsection \<open>Well-formed states\<close>

definition lookup :: "state \<Rightarrow> key \<rightharpoonup> oid" where
  "lookup s = key_index (hm_get (st_database_names s)) (hm_get (st_tunnel_names s))
     (hm_get (st_credentials_names s)) (hm_get (st_schema_names s))
     (table_index (st_schema_objects s)) (function_index (st_schema_objects s))"

definition ents :: "state \<Rightarrow> oid \<rightharpoonup> catalog_entry" where
  "ents s = hm_get (st_entries s)"

definition builtin_ok :: "builtin_catalog \<Rightarrow> bool" where
  "builtin_ok bc \<longleftrightarrow> bc_wf bc \<and> bc_oids_below FIRST_AVAILABLE_ID bc \<and> schemas_known bc"

definition user_entry_ok :: "(oid \<rightharpoonup> catalog_entry) \<Rightarrow> oid \<Rightarrow> catalog_entry \<Rightarrow> bool" where
  "user_entry_ok E i e \<longleftrightarrow> ent_id e = i \<and> meta_entry_type (get_meta e) = catalog_entry_type e \<and>
     \<not> ent_builtin e \<and> \<not> ent_is_temp e \<and> parent_ok E e"

definition wf_core :: "builtin_catalog \<Rightarrow> oid \<Rightarrow> (oid \<rightharpoonup> catalog_entry) \<Rightarrow> (key \<rightharpoonup> oid) \<Rightarrow> bool" where
  "wf_core bc counter E L \<longleftrightarrow>
     FIRST_AVAILABLE_ID \<le> counter \<and>
     (\<forall>i. i < FIRST_AVAILABLE_ID \<longrightarrow> E i = hm_get (bc_entries bc) i) \<and>
     (\<forall>i e. E i = Some e \<longrightarrow> FIRST_AVAILABLE_ID \<le> i \<longrightarrow> user_entry_ok E i e \<and> i < counter) \<and>
     indexes L E \<and>
     (\<forall>k i. i < FIRST_AVAILABLE_ID \<longrightarrow> (L k = Some i \<longleftrightarrow> bc_lookup bc k = Some i))"

definition maps_ok :: "state \<Rightarrow> bool" where
  "maps_ok s \<longleftrightarrow> hm_ok (st_entries s) \<and> hm_ok (st_database_names s) \<and> hm_ok (st_tunnel_names s) \<and>
     hm_ok (st_credentials_names s) \<and> hm_ok (st_schema_names s) \<and> schema_objects_ok (st_schema_objects s)"

definition wf_state :: "builtin_catalog \<Rightarrow> state \<Rightarrow> bool" where
  "wf_state bc s \<longleftrightarrow> maps_ok s \<and> wf_core bc (st_oid_counter s) (ents s) (lookup s)"

subsection \<open>The state implements the contract of an index\<close>

fun valid_key :: "key \<Rightarrow> bool" where
  "valid_key (NS_Database, p, n) = (p = DATABASE_PARENT_ID)"
| "valid_key (NS_Tunnel, p, n) = (p = DATABASE_PARENT_ID)"
| "valid_key (NS_Credentials, p, n) = (p = DATABASE_PARENT_ID)"
| "valid_key (NS_Schema, p, n) = (p = bd_oid DATABASE_DEFAULT)"
| "valid_key (NS_Table, p, n) = True"
| "valid_key (NS_Function, p, n) = True"

definition droppable :: "key \<Rightarrow> bool" where
  "droppable k \<longleftrightarrow> valid_key k \<and> fst k \<noteq> NS_Function"

fun put_name :: "key \<Rightarrow> oid \<Rightarrow> state \<Rightarrow> state" where
  "put_name (NS_Database, p, n) i s = put_database_name n i s"
| "put_name (NS_Tunnel, p, n) i s = put_tunnel_name n i s"
| "put_name (NS_Credentials, p, n) i s = put_credentials_name n i s"
| "put_name (NS_Schema, p, n) i s = put_schema_name n i s"
| "put_name (NS_Table, p, n) i s = put_table_name p n i s"
| "put_name (NS_Function, p, n) i s = put_function_name p n i s"

text \<open>The metastore has no operation that drops a function by its name.\<close>

fun del_name :: "key \<Rightarrow> state \<Rightarrow> state" where
  "del_name (NS_Database, p, n) s = del_database_name n s"
| "del_name (NS_Tunnel, p, n) s = del_tunnel_name n s"
| "del_name (NS_Credentials, p, n) s = del_credentials_name n s"
| "del_name (NS_Schema, p, n) s = del_schema_name n s"
| "del_name (NS_Table, p, n) s = del_table_name p n s"
| "del_name (NS_Function, p, n) s = s"

lemmas name_op_defs = put_database_name_def del_database_name_def put_tunnel_name_def
  del_tunnel_name_def put_credentials_name_def del_credentials_name_def put_schema_name_def
  del_schema_name_def put_table_name_def del_table_name_def put_function_name_def put_objects_def

lemma table_index_or_default:
  "table_index (st_schema_objects s) (sid, n) = hm_get (sob_tables (or_default sid s)) n"
  by (simp add: table_index_def or_default_def split: option.split)

lemma function_index_or_default:
  "function_index (st_schema_objects s) (sid, n) = hm_get (sob_functions (or_default sid s)) n"
  by (simp add: function_index_def or_default_def split: option.split)

lemma table_index_put_objects:
  "table_index (hm_insert sid objs so) =
     (\<lambda>k. if fst k = sid then hm_get (sob_tables objs) (snd k) else table_index so k)"
  by (auto simp: table_index_def fun_eq_iff)

lemma function_index_put_objects:
  "function_index (hm_insert sid objs so) =
     (\<lambda>k. if fst k = sid then hm_get (sob_functions objs) (snd k) else function_index so k)"
  by (auto simp: function_index_def fun_eq_iff)

lemma table_index_puts [simp]:
  "table_index (st_schema_objects (put_table_name sid n i s)) = (table_index (st_schema_objects s))((sid, n) \<mapsto> i)"
  "table_index (st_schema_objects (del_table_name sid n s)) = (table_index (st_schema_objects s))((sid, n) := None)"
  "table_index (st_schema_objects (put_function_name sid n i s)) = table_index (st_schema_objects s)"
  by (auto simp: name_op_defs Let_def table_index_put_objects fun_eq_iff table_index_or_default [symmetric])

lemma function_index_puts [simp]:
  "function_index (st_schema_objects (put_table_name sid n i s)) = function_index (st_schema_objects s)"
  "function_index (st_schema_objects (del_table_name sid n s)) = function_index (st_schema_objects s)"
  "function_index (st_schema_objects (put_function_name sid n i s)) =
     (function_index (st_schema_objects s))((sid, n) \<mapsto> i)"
  by (auto simp: name_op_defs Let_def function_index_put_objects fun_eq_iff function_index_or_default [symmetric])

named_theorems state_simps \<open>what the entries and the index are after an operation on the state\<close>

lemma names_put_objects [simp]:
  "st_database_names (put_objects sid objs s) = st_database_names s"
  "st_tunnel_names (put_objects sid objs s) = st_tunnel_names s"
  "st_credentials_names (put_objects sid objs s) = st_credentials_names s"
  "st_schema_names (put_objects sid objs s) = st_schema_names s"
  by (simp_all add: put_objects_def)

lemma names_put_table_name [simp]:
  "st_database_names (put_table_name sid n i s) = st_database_names s"
  "st_tunnel_names (put_table_name sid n i s) = st_tunnel_names s"
  "st_credentials_names (put_table_name sid n i s) = st_credentials_names s"
  "st_schema_names (put_table_name sid n i s) = st_schema_names s"
  "st_database_names (del_table_name sid n s) = st_database_names s"
  "st_tunnel_names (del_table_name sid n s) = st_tunnel_names s"
  "st_credentials_names (del_table_name sid n s) = st_credentials_names s"
  "st_schema_names (del_table_name sid n s) = st_schema_names s"
  "st_database_names (put_function_name sid n i s) = st_database_names s"
  "st_tunnel_names (put_function_name sid n i s) = st_tunnel_names s"
  "st_credentials_names (put_function_name sid n i s) = st_credentials_names s"
  "st_schema_names (put_function_name sid n i s) = st_schema_names s"
  by (simp_all add: put_table_name_def del_table_name_def put_function_name_def Let_def)

lemma ents_ops [state_simps]:
  "ents (put_entry i e s) = (ents s)(i \<mapsto> e)"
  "ents (del_entry i s) = (ents s)(i := None)"
  "ents (put_database_name n i s) = ents s" "ents (del_database_name n s) = ents s"
  "ents (put_tunnel_name n i s) = ents s" "ents (del_tunnel_name n s) = ents s"
  "ents (put_credentials_name n i s) = ents s" "ents (del_credentials_name n s) = ents s"
  "ents (put_schema_name n i s) = ents s" "ents (del_schema_name n s) = ents s"
  "ents (put_table_name sid n i s) = ents s" "ents (del_table_name sid n s) = ents s"
  "ents (put_function_name sid n i s) = ents s" "ents (put_objects sid objs s) = ents s"
  by (simp_all add: ents_def put_entry_def del_entry_def name_op_defs Let_def)

lemma lookup_ops [state_simps]:
  "lookup (put_entry i e s) = lookup s"
  "lookup (del_entry i s) = lookup s"
  "lookup (put_database_name n i s) = (lookup s)((NS_Database, DATABASE_PARENT_ID, n) \<mapsto> i)"
  "lookup (del_database_name n s) = (lookup s)((NS_Database, DATABASE_PARENT_ID, n) := None)"
  "lookup (put_tunnel_name n i s) = (lookup s)((NS_Tunnel, DATABASE_PARENT_ID, n) \<mapsto> i)"
  "lookup (del_tunnel_name n s) = (lookup s)((NS_Tunnel, DATABASE_PARENT_ID, n) := None)"
  "lookup (put_credentials_name n i s) = (lookup s)((NS_Credentials, DATABASE_PARENT_ID, n) \<mapsto> i)"
  "lookup (del_credentials_name n s) = (lookup s)((NS_Credentials, DATABASE_PARENT_ID, n) := None)"
  "lookup (put_schema_name n i s) = (lookup s)((NS_Schema, bd_oid DATABASE_DEFAULT, n) \<mapsto> i)"
  "lookup (del_schema_name n s) = (lookup s)((NS_Schema, bd_oid DATABASE_DEFAULT, n) := None)"
  "lookup (put_table_name sid n i s) = (lookup s)((NS_Table, sid, n) \<mapsto> i)"
  "lookup (del_table_name sid n s) = (lookup s)((NS_Table, sid, n) := None)"
  "lookup (put_function_name sid n i s) = (lookup s)((NS_Function, sid, n) \<mapsto> i)"
  by (simp_all only: lookup_def table_index_puts function_index_puts names_put_table_name key_index_updates key_index_removes)
    (simp_all add: put_entry_def del_entry_def put_database_name_def del_database_name_def
      put_tunnel_name_def del_tunnel_name_def put_credentials_name_def del_credentials_name_def
      put_schema_name_def del_schema_name_def key_index_updates key_index_removes)

interpretation sidx: name_index ents lookup valid_key droppable put_entry del_entry put_name del_name
proof
  fix k :: key and i :: oid and e :: catalog_entry and s :: state
  show "ents (put_name k i s) = ents s" "ents (del_name k s) = ents s"
    by (cases "(k, i, s)" rule: put_name.cases; simp add: state_simps)+
  show "valid_key k \<Longrightarrow> lookup (put_name k i s) = (lookup s)(k \<mapsto> i)"
    by (cases "(k, i, s)" rule: put_name.cases; simp add: state_simps)
  show "droppable k \<Longrightarrow> lookup (del_name k s) = (lookup s)(k := None)"
    by (cases "(k, i, s)" rule: put_name.cases; simp add: state_simps droppable_def)
qed (simp_all add: state_simps)

subsection \<open>The effects of writes on the core of the invariant\<close>

lemma wf_coreI:
  assumes "FIRST_AVAILABLE_ID \<le> c"
    and "\<And>i. i < FIRST_AVAILABLE_ID \<Longrightarrow> E i = hm_get (bc_entries bc) i"
    and "\<And>i e. E i = Some e \<Longrightarrow> FIRST_AVAILABLE_ID \<le> i \<Longrightarrow> user_entry_ok E i e \<and> i < c"
    and "indexes L E"
    and "\<And>k i. i < FIRST_AVAILABLE_ID \<Longrightarrow> L k = Some i \<longleftrightarrow> bc_lookup bc k = Some i"
  shows "wf_core bc c E L"
  unfolding wf_core_def using assms by blast

lemma wf_coreD:
  assumes "wf_core bc c E L"
  shows "FIRST_AVAILABLE_ID \<le> c"
    and "i < FIRST_AVAILABLE_ID \<Longrightarrow> E i = hm_get (bc_entries bc) i"
    and "E i = Some e \<Longrightarrow> FIRST_AVAILABLE_ID \<le> i \<Longrightarrow> user_entry_ok E i e"
    and "E i = Some e \<Longrightarrow> FIRST_AVAILABLE_ID \<le> i \<Longrightarrow> i < c"
    and "indexes L E"
    and "i < FIRST_AVAILABLE_ID \<Longrightarrow> L k = Some i \<longleftrightarrow> bc_lookup bc k = Some i"
  using assms unfolding wf_core_def by blast+

lemma builtin_okD:
  assumes "builtin_ok bc" "hm_get (bc_entries bc) i = Some e"
  shows "i < FIRST_AVAILABLE_ID" "builtin_entry_ok (hm_get (bc_entries bc)) i e" "i \<noteq> 0"
  using assms unfolding builtin_ok_def bc_wf_def bc_oids_below_def by blast+

lemma wf_core_builtin_iff:
  assumes "builtin_ok bc" "wf_core bc c E L" "E i = Some e"
  shows "ent_builtin e \<longleftrightarrow> i < FIRST_AVAILABLE_ID"
proof (cases "i < FIRST_AVAILABLE_ID")
  case True
  with wf_coreD(2) [OF assms(2) True] assms(3) builtin_okD(2) [OF assms(1), of i e] show ?thesis
    by (simp add: builtin_entry_ok_def)
next
  case False
  with wf_coreD(3) [OF assms(2,3)] show ?thesis by (simp add: user_entry_ok_def not_less)
qed

lemma wf_core_fresh:
  assumes "wf_core bc c E L" "builtin_ok bc"
  shows "E c = None"
proof (rule ccontr)
  assume "E c \<noteq> None"
  then obtain e where "E c = Some e" by blast
  with wf_coreD(4) [OF assms(1) this wf_coreD(1) [OF assms(1)]] show False by simp
qed

lemma wf_core_id:
  assumes "builtin_ok bc" "wf_core bc c E L" "E i = Some e"
  shows "ent_id e = i" "\<not> ent_is_temp e" "meta_entry_type (get_meta e) = catalog_entry_type e"
    "parent_ok E e"
proof -
  have "ent_id e = i \<and> \<not> ent_is_temp e \<and> meta_entry_type (get_meta e) = catalog_entry_type e \<and> parent_ok E e"
  proof (cases "i < FIRST_AVAILABLE_ID")
    case True
    from wf_coreD(2) [OF assms(2) True] assms(3) builtin_okD(2) [OF assms(1)]
    have ok: "builtin_entry_ok (hm_get (bc_entries bc)) i e" by simp
    moreover have "hm_get (bc_entries bc) j = Some x \<Longrightarrow> E j = Some x" for j x
      using wf_coreD(2) [OF assms(2), of j] builtin_okD(1) [OF assms(1), of j x] by simp
    ultimately show ?thesis
      unfolding builtin_entry_ok_def parent_ok_def by (auto split: entry_type.splits)
  next
    case False
    with wf_coreD(3) [OF assms(2,3)] show ?thesis by (simp add: user_entry_ok_def not_less)
  qed
  then show "ent_id e = i" "\<not> ent_is_temp e" "meta_entry_type (get_meta e) = catalog_entry_type e"
    "parent_ok E e" by simp_all
qed

lemma parent_ok_upd:
  assumes "parent_ok E e" "E i = None \<or> (\<exists>s s'. E i = Some (Schema s) \<and> x = Schema s') \<or> (\<exists>y. E i = Some y \<and> catalog_entry_type y \<noteq> ET_Schema)"
  shows "parent_ok (E(i \<mapsto> x)) e"
  using assms unfolding parent_ok_def by (auto split: entry_type.splits)

lemma wf_core_insert:
  assumes b: "builtin_ok bc" and wf: "wf_core bc c E L" and i: "FIRST_AVAILABLE_ID \<le> i" "i < c'" "c \<le> c'"
    and E: "E i = None" and e: "user_entry_ok (E(i \<mapsto> e)) i e" and L: "L (entry_key e) = None"
  shows "wf_core bc c' (E(i \<mapsto> e)) (L(entry_key e \<mapsto> i))"
proof (rule wf_coreI)
  show "FIRST_AVAILABLE_ID \<le> c'" using i by simp
  show "j < FIRST_AVAILABLE_ID \<Longrightarrow> (E(i \<mapsto> e)) j = hm_get (bc_entries bc) j" for j
    using i wf_coreD(2) [OF wf, of j] by (cases "j = i") auto
  show "indexes (L(entry_key e \<mapsto> i)) (E(i \<mapsto> e))"
    by (rule indexes_insert [OF wf_coreD(5) [OF wf] E]) (simp add: L)
next
  fix j x assume j: "(E(i \<mapsto> e)) j = Some x" "FIRST_AVAILABLE_ID \<le> j"
  show "user_entry_ok (E(i \<mapsto> e)) j x \<and> j < c'"
  proof (cases "j = i")
    case True
    with j e i show ?thesis by simp
  next
    case False
    with j wf_coreD(3,4) [OF wf, of j x] i(3) E show ?thesis
      by (auto simp: user_entry_ok_def intro: parent_ok_mono less_le_trans)
  qed
next
  fix k j assume "j < FIRST_AVAILABLE_ID"
  then show "(L(entry_key e \<mapsto> i)) k = Some j \<longleftrightarrow> bc_lookup bc k = Some j"
    using wf_coreD(6) [OF wf, of j k] i(1) L by auto
qed

lemma wf_core_replace:
  assumes b: "builtin_ok bc" and wf: "wf_core bc c E L" and i: "FIRST_AVAILABLE_ID \<le> i"
    and L: "L (entry_key e) = Some i" and e: "user_entry_ok (E(i \<mapsto> e)) i e"
  shows "wf_core bc c (E(i \<mapsto> e)) L"
proof (rule wf_coreI)
  from indexesD [OF wf_coreD(5) [OF wf] L] obtain old where old: "E i = Some old" "entry_key old = entry_key e"
    by blast
  then have schema: "(\<exists>s. old = Schema s) \<longleftrightarrow> (\<exists>s. e = Schema s)"
    by (cases old; cases e) (auto simp: entry_key_def)
  have parent: "parent_ok (E(i \<mapsto> e)) x" if "parent_ok E x" for x
    using that schema old(1) by (intro parent_ok_upd) (auto simp: catalog_entry_type_iff)
  show "FIRST_AVAILABLE_ID \<le> c" using wf_coreD(1) [OF wf] .
  show "j < FIRST_AVAILABLE_ID \<Longrightarrow> (E(i \<mapsto> e)) j = hm_get (bc_entries bc) j" for j
    using i wf_coreD(2) [OF wf, of j] by (cases "j = i") auto
  show "indexes L (E(i \<mapsto> e))"
    by (rule indexes_replace [OF wf_coreD(5) [OF wf] L])
  show "j < FIRST_AVAILABLE_ID \<Longrightarrow> L k = Some j \<longleftrightarrow> bc_lookup bc k = Some j" for k j
    using wf_coreD(6) [OF wf] .
  show "user_entry_ok (E(i \<mapsto> e)) j x \<and> j < c" if "(E(i \<mapsto> e)) j = Some x" "FIRST_AVAILABLE_ID \<le> j" for j x
  proof (cases "j = i")
    case True
    with that e wf_coreD(4) [OF wf old(1) i] show ?thesis by simp
  next
    case False
    with that wf_coreD(3,4) [OF wf, of j x] show ?thesis
      by (auto simp: user_entry_ok_def intro: parent)
  qed
qed

definition without :: "'a set \<Rightarrow> ('a \<rightharpoonup> 'b) \<Rightarrow> 'a \<rightharpoonup> 'b" where
  "without X m = (\<lambda>a. if a \<in> X then None else m a)"

lemma without_eq_Some [simp]: "without X m a = Some v \<longleftrightarrow> a \<notin> X \<and> m a = Some v"
  by (simp add: without_def)

lemma indexes_without:
  assumes ix: "indexes L E" and I: "\<And>i. i \<in> I \<longleftrightarrow> (\<exists>k \<in> K. L k = Some i)"
  shows "indexes (without K L) (without I E)"
proof (rule indexesI)
  fix k i assume *: "without K L k = Some i"
  then have "i \<notin> I" using I [of i] indexes_inj [OF ix, of k i] by auto
  with * show "\<exists>e. without I E i = Some e \<and> entry_key e = k"
    using indexesD [OF ix, of k i] by auto
next
  fix i e assume "without I E i = Some e" "\<not> ent_builtin e"
  then show "without K L (entry_key e) = Some i"
    using indexes_complete [OF ix, of i e] I [of i] by auto
qed

lemma wf_core_without:
  assumes b: "builtin_ok bc" and wf: "wf_core bc c E L"
    and I: "\<And>i. i \<in> I \<longleftrightarrow> (\<exists>k \<in> K. L k = Some i)"
    and user: "\<And>i. i \<in> I \<Longrightarrow> FIRST_AVAILABLE_ID \<le> i"
    and children: "\<And>j x s. E j = Some x \<Longrightarrow> j \<notin> I \<Longrightarrow> \<not> ent_builtin x \<Longrightarrow>
      namespace_of (catalog_entry_type x) \<in> {NS_Table, NS_Function} \<Longrightarrow> ent_parent x \<notin> I"
  shows "wf_core bc c (without I E) (without K L)"
proof (rule wf_coreI)
  show "FIRST_AVAILABLE_ID \<le> c" using wf_coreD(1) [OF wf] .
  show "j < FIRST_AVAILABLE_ID \<Longrightarrow> without I E j = hm_get (bc_entries bc) j" for j
    using user [of j] wf_coreD(2) [OF wf, of j] by (auto simp: without_def)
  show "indexes (without K L) (without I E)"
    using wf_coreD(5) [OF wf] I by (rule indexes_without)
  show "without K L k = Some j \<longleftrightarrow> bc_lookup bc k = Some j" if j: "j < FIRST_AVAILABLE_ID" for k j
  proof -
    have "k \<notin> K \<or> L k \<noteq> Some j" using I [of j] user [of j] j by (meson leD)
    with wf_coreD(6) [OF wf j, of k] show ?thesis by (auto simp: without_def)
  qed
  show "user_entry_ok (without I E) j x \<and> j < c" if j: "without I E j = Some x" "FIRST_AVAILABLE_ID \<le> j" for j x
  proof -
    from j have x: "user_entry_ok E j x" "j < c" using wf_coreD(3,4) [OF wf, of j x] by auto
    moreover have "parent_ok (without I E) x"
      using x(1) children [of j x] j by (cases x) (auto simp: user_entry_ok_def parent_ok_def)
    ultimately show ?thesis by (simp add: user_entry_ok_def)
  qed
qed

lemma wf_core_delete:
  assumes b: "builtin_ok bc" and wf: "wf_core bc c E L" and L: "L k = Some i" and i: "FIRST_AVAILABLE_ID \<le> i"
    and k: "fst k \<noteq> NS_Schema"
  shows "wf_core bc c (E(i := None)) (L(k := None))"
proof -
  from indexesD [OF wf_coreD(5) [OF wf] L] obtain e where e: "E i = Some e" "entry_key e = k" by blast
  have "wf_core bc c (without {i} E) (without {k} L)"
  proof (rule wf_core_without [OF b wf])
    fix j x assume "E j = Some x" "namespace_of (catalog_entry_type x) \<in> {NS_Table, NS_Function}"
    with wf_core_id(4) [OF b wf, of j x] have "\<exists>s. E (ent_parent x) = Some (Schema s)"
      by (cases x) (auto simp: parent_ok_def)
    with e k show "ent_parent x \<notin> {i}" by (auto simp: entry_key_def)
  qed (use L i in auto)
  moreover have "without {i} E = E(i := None)" "without {k} L = L(k := None)"
    by (auto simp: without_def)
  ultimately show ?thesis by simp
qed

lemma wf_core_rename:
  assumes b: "builtin_ok bc" and wf: "wf_core bc c E L" and L: "L k = Some i" and i: "FIRST_AVAILABLE_ID \<le> i"
    and k: "fst k \<noteq> NS_Schema" and e: "user_entry_ok (E(i \<mapsto> e)) i e" and new: "(L(k := None)) (entry_key e) = None"
  shows "wf_core bc c (E(i \<mapsto> e)) (L(k := None, entry_key e \<mapsto> i))"
proof -
  from indexesD [OF wf_coreD(5) [OF wf] L] obtain old where "E i = Some old" by blast
  then have c: "i < c" using wf_coreD(4) [OF wf _ i] by blast
  have "wf_core bc c ((E(i := None))(i \<mapsto> e)) ((L(k := None))(entry_key e \<mapsto> i))"
    by (rule wf_core_insert [OF b wf_core_delete [OF b wf L i k]]) (use e new i c in auto)
  then show ?thesis by simp
qed

subsection \<open>What a step that succeeds has done\<close>

lemma and_then_eq_Ok [simp]:
  "and_then r f = (s', Ok y) \<longleftrightarrow> (\<exists>s x. r = (s, Ok x) \<and> f s x = (s', Ok y))"
  by (cases "(r, f)" rule: and_then.cases) auto

lemma validate_name_step_eq_Ok [simp]:
  "validate_name_step n s = (s', Ok u) \<longleftrightarrow> s' = s \<and> length n \<le> 63"
  by (auto simp: validate_name_step_def validate_object_name_Ok_iff)

lemma insert_entry_step_eq_Ok:
  "insert_entry_step i e s = (s', Ok r) \<Longrightarrow>
   s' = put_entry i e s \<and> (\<forall>old. ents s i = Some old \<longrightarrow> \<not> ent_builtin old) \<and> \<not> in_reserved_schema e \<and>
   length (st_entries s) \<le> MAX_DATABASE_OBJECTS"
  by (auto simp: insert_entry_step_def db_entries_insert_def put_entry_def ents_def hm_len_def
      split: if_splits option.splits)

lemma remove_entry_step_eq_Ok [simp]:
  "remove_entry_step i s = (s', Ok e) \<longleftrightarrow> ents s i = Some e \<and> \<not> ent_builtin e \<and> s' = del_entry i s"
  by (auto simp: remove_entry_step_def db_entries_remove_def del_entry_def ents_def
      split: if_splits option.splits)

lemma modify_entry_eq_Ok [simp]:
  "modify_entry i f s = (s', Ok u) \<longleftrightarrow>
     (\<exists>e e'. ents s i = Some e \<and> \<not> ent_builtin e \<and> f e = Ok e' \<and> s' = put_entry i e' s)"
  by (auto simp: modify_entry_def db_entries_get_mut_def ents_def split: if_splits option.splits)

lemma ents_st_oid_counter [state_simps]: "ents (s\<lparr>st_oid_counter := c\<rparr>) = ents s"
  by (simp add: ents_def)

lemma lookup_st_oid_counter [state_simps]: "lookup (s\<lparr>st_oid_counter := c\<rparr>) = lookup s"
  by (simp add: lookup_def)

lemma counter_ops [state_simps]:
  "st_oid_counter (put_entry i e s) = st_oid_counter s"
  "st_oid_counter (del_entry i s) = st_oid_counter s"
  "st_oid_counter (put_objects sid objs s) = st_oid_counter s"
  "st_oid_counter (put_name k i s) = st_oid_counter s"
  "st_oid_counter (del_name k s) = st_oid_counter s"
  "st_oid_counter (put_table_name sid n i s) = st_oid_counter s"
  "st_oid_counter (del_table_name sid n s) = st_oid_counter s"
  by (simp_all add: put_entry_def del_entry_def name_op_defs Let_def)
    (cases "(k, i, s)" rule: put_name.cases; simp add: name_op_defs Let_def)+

lemma maps_ok_objects:
  "maps_ok s \<Longrightarrow> hm_ok (sob_tables (or_default sid s)) \<and> hm_ok (sob_functions (or_default sid s))"
  by (auto simp: maps_ok_def or_default_def dest: schema_objects_okD split: option.split)

lemma maps_ok_put_objects:
  "maps_ok s \<Longrightarrow> hm_ok (sob_tables objs) \<Longrightarrow> hm_ok (sob_functions objs) \<Longrightarrow> maps_ok (put_objects sid objs s)"
  by (simp add: maps_ok_def put_objects_def schema_objects_ok_insert)

lemma maps_ok_ops [state_simps]:
  assumes "maps_ok s"
  shows "maps_ok (put_entry i e s)" "maps_ok (del_entry i s)" "maps_ok (put_name k i s)" "maps_ok (del_name k s)"
    "maps_ok (s\<lparr>st_oid_counter := c\<rparr>)" "maps_ok (put_objects sid (or_default sid s) s)"
proof -
  show "maps_ok (put_entry i e s)" "maps_ok (del_entry i s)" "maps_ok (s\<lparr>st_oid_counter := c\<rparr>)"
    using assms by (simp_all add: maps_ok_def put_entry_def del_entry_def)
  show "maps_ok (put_objects sid (or_default sid s) s)"
    using maps_ok_objects [OF assms] by (simp add: maps_ok_put_objects assms)
  note put = maps_ok_put_objects [OF assms]
  show "maps_ok (put_name k i s)"
    by (cases "(k, i, s)" rule: put_name.cases)
      (use assms maps_ok_objects [OF assms] put in \<open>simp_all add: put_table_name_def put_function_name_def Let_def\<close>,
        simp_all add: maps_ok_def name_op_defs)
  show "maps_ok (del_name k s)"
    by (cases "(k, i, s)" rule: put_name.cases)
      (use assms maps_ok_objects [OF assms] put in \<open>simp_all add: del_table_name_def Let_def\<close>,
        simp_all add: maps_ok_def name_op_defs)
qed

lemma lookup_put_default [state_simps]: "lookup (put_objects sid (or_default sid s) s) = lookup s"
proof -
  have "table_index (st_schema_objects (put_objects sid (or_default sid s) s)) = table_index (st_schema_objects s)"
    "function_index (st_schema_objects (put_objects sid (or_default sid s) s)) = function_index (st_schema_objects s)"
    by (auto simp: put_objects_def table_index_put_objects function_index_put_objects fun_eq_iff
        table_index_or_default [symmetric] function_index_or_default [symmetric])
  then show ?thesis by (simp add: lookup_def)
qed

subsection \<open>The invariant under the writes of the mutations\<close>

lemma word_less_Suc: "(i :: oid) + 1 \<noteq> 0 \<Longrightarrow> i < i + 1"
  by uint_arith

lemma wf_state_insert:
  assumes "builtin_ok bc" "wf_state bc s" "FIRST_AVAILABLE_ID \<le> i" "ents s i = None"
    "user_entry_ok ((ents s)(i \<mapsto> e)) i e" "lookup s (entry_key e) = None"
    "ents s' = (ents s)(i \<mapsto> e)" "lookup s' = (lookup s)(entry_key e \<mapsto> i)"
    "i < st_oid_counter s'" "st_oid_counter s \<le> st_oid_counter s'" "maps_ok s'"
  shows "wf_state bc s'"
  using assms unfolding wf_state_def
  by (simp, intro wf_core_insert [where c = "st_oid_counter s"]) auto

lemma wf_state_create:
  assumes b: "builtin_ok bc" and wf: "wf_state bc s" and i: "i = st_oid_counter s" "st_oid_counter s + 1 \<noteq> 0"
    and "user_entry_ok ((ents s)(i \<mapsto> e)) i e" "lookup s (entry_key e) = None"
    "ents s' = (ents s)(i \<mapsto> e)" "lookup s' = (lookup s)(entry_key e \<mapsto> i)"
    "st_oid_counter s' = st_oid_counter s + 1" "maps_ok s'"
  shows "wf_state bc s'"
proof -
  from wf have core: "wf_core bc i (ents s) (lookup s)"
    using i(1) by (simp add: wf_state_def)
  show ?thesis
    by (rule wf_state_insert [OF b wf, of i e])
      (use assms wf_coreD(1) [OF core] wf_core_fresh [OF core b] word_less_Suc [OF i(2)] in auto)
qed

lemma wf_state_replace:
  assumes "builtin_ok bc" "wf_state bc s" "FIRST_AVAILABLE_ID \<le> i" "lookup s (entry_key e) = Some i"
    "user_entry_ok ((ents s)(i \<mapsto> e)) i e" "ents s' = (ents s)(i \<mapsto> e)" "lookup s' = lookup s"
    "st_oid_counter s' = st_oid_counter s" "maps_ok s'"
  shows "wf_state bc s'"
  using assms unfolding wf_state_def by (simp add: wf_core_replace)

lemma wf_state_delete:
  assumes "builtin_ok bc" "wf_state bc s" "lookup s k = Some i" "FIRST_AVAILABLE_ID \<le> i" "fst k \<noteq> NS_Schema"
    "ents s' = (ents s)(i := None)" "lookup s' = (lookup s)(k := None)"
    "st_oid_counter s' = st_oid_counter s" "maps_ok s'"
  shows "wf_state bc s'"
  using assms unfolding wf_state_def by (simp add: wf_core_delete)

lemma wf_state_rename:
  assumes "builtin_ok bc" "wf_state bc s" "lookup s k = Some i" "FIRST_AVAILABLE_ID \<le> i" "fst k \<noteq> NS_Schema"
    "user_entry_ok ((ents s)(i \<mapsto> e)) i e" "((lookup s)(k := None)) (entry_key e) = None"
    "ents s' = (ents s)(i \<mapsto> e)" "lookup s' = (lookup s)(k := None, entry_key e \<mapsto> i)"
    "st_oid_counter s' = st_oid_counter s" "maps_ok s'"
  shows "wf_state bc s'"
  using assms unfolding wf_state_def by (simp add: wf_core_rename)

lemma wf_state_same:
  assumes "wf_state bc s" "ents s' = ents s" "lookup s' = lookup s"
    "st_oid_counter s' = st_oid_counter s" "maps_ok s'"
  shows "wf_state bc s'"
  using assms unfolding wf_state_def by simp

lemma wf_state_user:
  assumes "builtin_ok bc" "wf_state bc s" "ents s i = Some e" "\<not> ent_builtin e"
  shows "FIRST_AVAILABLE_ID \<le> i"
  using wf_core_builtin_iff [OF assms(1) assms(2) [unfolded wf_state_def, THEN conjunct2] assms(3)] assms(4)
  by (simp add: not_less)

lemma lookup_iffs:
  "hm_get (st_database_names s) n = lookup s (NS_Database, DATABASE_PARENT_ID, n)"
  "hm_get (st_tunnel_names s) n = lookup s (NS_Tunnel, DATABASE_PARENT_ID, n)"
  "hm_get (st_credentials_names s) n = lookup s (NS_Credentials, DATABASE_PARENT_ID, n)"
  "hm_get (st_schema_names s) n = lookup s (NS_Schema, bd_oid DATABASE_DEFAULT, n)"
  "hm_get (sob_tables (or_default sid s)) n = lookup s (NS_Table, sid, n)"
  "table_index (st_schema_objects s) (sid, n) = lookup s (NS_Table, sid, n)"
  "function_index (st_schema_objects s) (sid, n) = lookup s (NS_Function, sid, n)"
  by (simp_all add: lookup_def table_index_or_default)

lemma put_name_forms:
  "put_database_name n i s = put_name (NS_Database, DATABASE_PARENT_ID, n) i s"
  "put_tunnel_name n i s = put_name (NS_Tunnel, DATABASE_PARENT_ID, n) i s"
  "put_credentials_name n i s = put_name (NS_Credentials, DATABASE_PARENT_ID, n) i s"
  "put_schema_name n i s = put_name (NS_Schema, bd_oid DATABASE_DEFAULT, n) i s"
  "put_table_name sid n i s = put_name (NS_Table, sid, n) i s"
  "put_function_name sid n i s = put_name (NS_Function, sid, n) i s"
  by simp_all

lemma del_name_forms:
  "del_database_name n s = del_name (NS_Database, DATABASE_PARENT_ID, n) s"
  "del_tunnel_name n s = del_name (NS_Tunnel, DATABASE_PARENT_ID, n) s"
  "del_credentials_name n s = del_name (NS_Credentials, DATABASE_PARENT_ID, n) s"
  "del_schema_name n s = del_name (NS_Schema, bd_oid DATABASE_DEFAULT, n) s"
  "del_table_name sid n s = del_name (NS_Table, sid, n) s"
  by simp_all

subsection \<open>Dropping\<close>

lemma wf_state_drop:
  assumes b: "builtin_ok bc" and wf: "wf_state bc s" and k: "lookup s k = Some i" "droppable k" "fst k \<noteq> NS_Schema"
    and ok: "and_then (remove_entry_step i (del_name k s)) (\<lambda>s _. (s, Ok ())) = (s', Ok ())"
  shows "wf_state bc s'"
proof -
  from ok obtain e where e: "ents s i = Some e" "\<not> ent_builtin e" "s' = del_entry i (del_name k s)"
    by (auto simp: sidx.laws)
  show ?thesis
    by (rule wf_state_delete [OF b wf k(1) wf_state_user [OF b wf e(1,2)] k(3)])
      (use e k wf in \<open>simp_all add: sidx.laws state_simps wf_state_def\<close>)
qed

lemma wf_drop_database:
  assumes "builtin_ok bc" "wf_state bc s" "mutate_drop_database m s = (s', Ok ())"
  shows "wf_state bc s'"
  using assms wf_state_drop [OF assms(1,2), of "(NS_Database, DATABASE_PARENT_ID, dd_name m)"]
  unfolding mutate_drop_database_def
  by (auto simp only: lookup_iffs del_name_forms droppable_def valid_key.simps fst_conv
      split: option.splits prod.splits)

end
