(* ===== verification/Metastore_Preservation.thy ===== *)
theory Metastore_Preservation
  imports Metastore_Invariant
begin

section \<open>Every mutation keeps the invariant\<close>

text \<open>
  One lemma per arm of \<open>State::mutate_one\<close>: when the arm succeeds on a well-formed state, the
  new state is well formed. The only side condition is that the oid counter has not reached its
  last value, since \<open>next_oid\<close> would then wrap around to an oid of a builtin object.
\<close>

lemmas entry_simps = user_entry_ok_def user_meta_def parent_ok_def entry_key_def

lemma wf_state_entry:
  assumes "wf_state bc s" "lookup s k = Some i"
  shows "\<exists>e. ents s i = Some e \<and> entry_key e = k"
  using assms by (auto simp: wf_state_def dest!: wf_coreD(5) dest: indexesD)

lemma wf_state_schema:
  assumes "wf_state bc s" "lookup s (NS_Schema, p, n) = Some i"
  shows "\<exists>x. ents s i = Some (Schema x)"
proof -
  from wf_state_entry [OF assms] obtain e where e: "ents s i = Some e" "entry_key e = (NS_Schema, p, n)"
    by blast
  then show ?thesis by (cases e) (auto simp: entry_key_def)
qed

lemma wf_state_kind:
  assumes "wf_state bc s"
  shows "lookup s (NS_Database, p, n) = Some i \<Longrightarrow> \<exists>x. ents s i = Some (Database x)"
    and "lookup s (NS_Tunnel, p, n) = Some i \<Longrightarrow> \<exists>x. ents s i = Some (Tunnel x)"
    and "lookup s (NS_Table, p, n) = Some i \<Longrightarrow> \<exists>x. ents s i = Some (Table x) \<or> (\<exists>x. ents s i = Some (View x))"
proof -
  have "\<exists>e. ents s i = Some e \<and> namespace_of (catalog_entry_type e) = ns" if "lookup s (ns, p, n) = Some i" for ns
    using wf_state_entry [OF assms that] by (auto simp: entry_key_def)
  then show "lookup s (NS_Database, p, n) = Some i \<Longrightarrow> \<exists>x. ents s i = Some (Database x)"
    "lookup s (NS_Tunnel, p, n) = Some i \<Longrightarrow> \<exists>x. ents s i = Some (Tunnel x)"
    "lookup s (NS_Table, p, n) = Some i \<Longrightarrow> \<exists>x. ents s i = Some (Table x) \<or> (\<exists>x. ents s i = Some (View x))"
    by (metis catalog_entry.exhaust catalog_entry_type.simps namespace_of.simps namespace.distinct)+
qed

lemma wf_state_maps: "wf_state bc s \<Longrightarrow> maps_ok s"
  by (simp add: wf_state_def)

lemma wf_core_mono: "wf_core bc c E L \<Longrightarrow> c \<le> c' \<Longrightarrow> wf_core bc c' E L"
  unfolding wf_core_def by (meson order_trans less_le_trans)

lemma wf_state_next_oid:
  assumes "builtin_ok bc" "wf_state bc s" "st_oid_counter s + 1 \<noteq> 0" "next_oid s = (s', i)"
  shows "wf_state bc s'" "ents s' i = None" "FIRST_AVAILABLE_ID \<le> i" "i < st_oid_counter s'"
    "ents s' = ents s" "lookup s' = lookup s" "i = st_oid_counter s" "s' = s\<lparr>st_oid_counter := i + 1\<rparr>"
proof -
  from assms(4) have s': "i = st_oid_counter s" "s' = s\<lparr>st_oid_counter := i + 1\<rparr>"
    by (auto simp: next_oid_def)
  from assms(2) have core: "wf_core bc i (ents s) (lookup s)" by (simp add: wf_state_def s')
  from assms(3) have lt: "i < i + 1" by (simp add: s' word_less_Suc)
  show E: "ents s' = ents s" and L: "lookup s' = lookup s" by (simp_all add: s' state_simps)
  show "i < st_oid_counter s'" using lt by (simp add: s')
  show "FIRST_AVAILABLE_ID \<le> i" using wf_coreD(1) [OF core] .
  show "ents s' i = None" using wf_core_fresh [OF core assms(1)] E by simp
  have "wf_core bc (i + 1) (ents s) (lookup s)"
    using core lt by (rule wf_core_mono [OF _ less_imp_le])
  then show "wf_state bc s'"
    using wf_state_maps [OF assms(2)] by (simp add: wf_state_def E L) (simp add: s' state_simps)
qed (use assms(4) in \<open>auto simp: next_oid_def\<close>)

subsection \<open>Drops\<close>

lemma wf_drop_tunnel:
  assumes "builtin_ok bc" "wf_state bc s" "mutate_drop_tunnel m s = (s', Ok ())"
  shows "wf_state bc s'"
  using assms wf_state_drop [OF assms(1,2), of "(NS_Tunnel, DATABASE_PARENT_ID, dt_name m)"]
  unfolding mutate_drop_tunnel_def
  by (auto simp only: lookup_iffs del_name_forms droppable_def valid_key.simps fst_conv
      split: option.splits prod.splits)

lemma wf_drop_credentials:
  assumes "builtin_ok bc" "wf_state bc s" "mutate_drop_credentials m s = (s', Ok ())"
  shows "wf_state bc s'"
  using assms wf_state_drop [OF assms(1,2), of "(NS_Credentials, DATABASE_PARENT_ID, dc_name m)"]
  unfolding mutate_drop_credentials_def
  by (auto simp only: lookup_iffs del_name_forms droppable_def valid_key.simps fst_conv
      split: option.splits prod.splits)

lemma or_default_Some: "hm_get (st_schema_objects s) sid = Some objs \<Longrightarrow> or_default sid s = objs"
  by (simp add: or_default_def)

lemma wf_drop_object:
  assumes b: "builtin_ok bc" and wf: "wf_state bc s" and ok: "mutate_drop_object m s = (s', Ok ())"
  shows "wf_state bc s'"
proof (cases "s' = s")
  case True
  then show ?thesis using wf by simp
next
  case False
  with ok obtain sid objs i where objs: "hm_get (st_schema_objects s) sid = Some objs"
    and i: "hm_get (sob_tables objs) (dob_name m) = Some i"
    and rm: "and_then (remove_entry_step i (del_table_name sid (dob_name m) s)) (\<lambda>s _. (s, Ok ())) = (s', Ok ())"
    unfolding mutate_drop_object_def by (auto split: option.splits if_splits)
  from i have "lookup s (NS_Table, sid, dob_name m) = Some i"
    using or_default_Some [OF objs] lookup_iffs(5) [of sid s] by simp
  then show ?thesis
    by (rule wf_state_drop [OF b wf]) (use rm in \<open>simp_all add: droppable_def\<close>)
qed

lemma remove_children_Ok:
  "remove_children oids s = (s', Ok ()) \<Longrightarrow>
     ents s' = without (set oids) (ents s) \<and> lookup s' = lookup s \<and> st_oid_counter s' = st_oid_counter s \<and>
     (maps_ok s \<longrightarrow> maps_ok s') \<and> (\<forall>i \<in> set oids. \<exists>e. ents s i = Some e \<and> \<not> ent_builtin e)"
proof (induction oids s rule: remove_children.induct)
  case (1 s)
  then show ?case by (auto simp: without_def)
next
  case (2 i oids s)
  from "2.prems" obtain e where e: "ents s i = Some e" "\<not> ent_builtin e"
    and rest: "remove_children oids (del_entry i s) = (s', Ok ())" by auto
  from "2.IH" [OF rest] e show ?case
    by (auto simp: state_simps without_def fun_eq_iff split: if_splits)
qed

definition schema_keys :: "oid \<Rightarrow> key set" where
  "schema_keys sid = {(ns, p, n). p = sid \<and> (ns = NS_Table \<or> ns = NS_Function)}"

lemma table_index_remove: "table_index (hm_remove sid so) = without {k. fst k = sid} (table_index so)"
  by (auto simp: table_index_def without_def fun_eq_iff)

lemma function_index_remove: "function_index (hm_remove sid so) = without {k. fst k = sid} (function_index so)"
  by (auto simp: function_index_def without_def fun_eq_iff)

lemma del_objects_simps:
  "ents (del_objects sid s) = ents s"
  "st_oid_counter (del_objects sid s) = st_oid_counter s"
  "lookup (del_objects sid s) = without (schema_keys sid) (lookup s)"
  "maps_ok s \<Longrightarrow> maps_ok (del_objects sid s)"
proof -
  show "lookup (del_objects sid s) = without (schema_keys sid) (lookup s)"
  proof
    fix k :: key
    show "lookup (del_objects sid s) k = without (schema_keys sid) (lookup s) k"
      by (cases "(k, 0 :: oid, s)" rule: put_name.cases)
        (auto simp: del_objects_def lookup_def schema_keys_def without_def table_index_remove function_index_remove)
  qed
  show "maps_ok s \<Longrightarrow> maps_ok (del_objects sid s)"
    by (auto simp: maps_ok_def del_objects_def schema_objects_ok_def split: if_splits)
qed (simp_all add: del_objects_def ents_def)

lemma iter_oids_lookup:
  assumes maps: "maps_ok s" and objs: "hm_get (st_schema_objects s) sid = Some objs"
  shows "set (iter_oids objs) = {i. \<exists>k \<in> schema_keys sid. lookup s k = Some i}"
proof -
  from maps objs have ok: "hm_ok (sob_tables objs)" "hm_ok (sob_functions objs)"
    by (auto simp: maps_ok_def dest: schema_objects_okD)
  have vals: "set (hm_values m) = {i. \<exists>n. hm_get m n = Some i}" if "hm_ok m" for m :: "(string, oid) hashmap"
    using that by (auto simp: hm_values_def hm_get_eq_Some_iff image_iff; force)
  have T: "lookup s (NS_Table, sid, n) = hm_get (sob_tables objs) n"
    "lookup s (NS_Function, sid, n) = hm_get (sob_functions objs) n" for n
    by (simp_all add: lookup_def table_index_def function_index_def objs)
  have "(\<exists>k \<in> schema_keys sid. lookup s k = Some i) \<longleftrightarrow>
      (\<exists>n. lookup s (NS_Table, sid, n) = Some i) \<or> (\<exists>n. lookup s (NS_Function, sid, n) = Some i)" for i
    unfolding schema_keys_def by blast
  then show ?thesis
    by (auto simp: iter_oids_def vals ok T)
qed

lemma wf_drop_schema_core:
  assumes b: "builtin_ok bc" and wf: "wf_core bc c E L"
    and sid: "L (NS_Schema, bd_oid DATABASE_DEFAULT, n) = Some sid"
    and I: "I = {i. \<exists>k \<in> schema_keys sid. L k = Some i}"
    and user: "\<And>i. i \<in> insert sid I \<Longrightarrow> FIRST_AVAILABLE_ID \<le> i"
  shows "wf_core bc c (without (insert sid I) E)
     (without (insert (NS_Schema, bd_oid DATABASE_DEFAULT, n) (schema_keys sid)) L)"
proof (rule wf_core_without [OF b wf])
  show "i \<in> insert sid I \<longleftrightarrow> (\<exists>k \<in> insert (NS_Schema, bd_oid DATABASE_DEFAULT, n) (schema_keys sid). L k = Some i)" for i
    using sid I by auto
  show "i \<in> insert sid I \<Longrightarrow> FIRST_AVAILABLE_ID \<le> i" for i by (rule user)
next
  fix j x assume j: "E j = Some x" "j \<notin> insert sid I" "\<not> ent_builtin x"
    and ns: "namespace_of (catalog_entry_type x) \<in> {NS_Table, NS_Function}"
  from indexes_complete [OF wf_coreD(5) [OF wf] j(1,3)] have L: "L (entry_key x) = Some j" .
  have "ent_parent x \<noteq> sid"
  proof
    assume "ent_parent x = sid"
    with ns have "entry_key x \<in> schema_keys sid" by (auto simp: entry_key_def schema_keys_def)
    with L j(2) I show False by auto
  qed
  moreover have "ent_parent x \<notin> I"
  proof
    assume "ent_parent x \<in> I"
    with I obtain k where k: "k \<in> schema_keys sid" "L k = Some (ent_parent x)" by blast
    from indexesD [OF wf_coreD(5) [OF wf] k(2)] obtain p where "E (ent_parent x) = Some p" "entry_key p = k"
      by blast
    moreover have "\<exists>s. E (ent_parent x) = Some (Schema s)"
      using wf_core_id(4) [OF b wf j(1)] ns by (cases x) (auto simp: parent_ok_def)
    ultimately show False using k(1) by (auto simp: schema_keys_def entry_key_def)
  qed
  ultimately show "ent_parent x \<notin> insert sid I" by simp
qed

lemma schema_children_step:
  assumes maps: "maps_ok s" and
    step: "(case hm_get (st_schema_objects s) sid of
        Some so \<Rightarrow>
          if schema_objects_is_empty so then (del_objects sid s, Ok ())
          else if cascade then remove_children (iter_oids so) (del_objects sid s)
          else (s, Err (SchemaHasChildren sid (num_objects so)))
      | None \<Rightarrow> (s, Ok ())) = (s1, Ok ())"
    and I: "I = {i. \<exists>k \<in> schema_keys sid. lookup s k = Some i}"
  shows "ents s1 = without I (ents s)" "lookup s1 = without (schema_keys sid) (lookup s)"
    "st_oid_counter s1 = st_oid_counter s" "maps_ok s1"
    "i \<in> I \<Longrightarrow> \<exists>e. ents s i = Some e \<and> \<not> ent_builtin e"
proof -
  have "ents s1 = without I (ents s) \<and> lookup s1 = without (schema_keys sid) (lookup s) \<and>
      st_oid_counter s1 = st_oid_counter s \<and> maps_ok s1 \<and> (\<forall>i \<in> I. \<exists>e. ents s i = Some e \<and> \<not> ent_builtin e)"
  proof (cases "hm_get (st_schema_objects s) sid")
    case None
    then have "lookup s (NS_Table, sid, n) = None" "lookup s (NS_Function, sid, n) = None" for n
      by (simp_all add: lookup_def table_index_def function_index_def)
    then have none: "k \<in> schema_keys sid \<Longrightarrow> lookup s k = None" for k by (auto simp: schema_keys_def)
    with None step maps I show ?thesis
      by (auto simp: without_def fun_eq_iff)
  next
    case (Some so)
    note iter = iter_oids_lookup [OF maps Some, folded I]
    show ?thesis
    proof (cases "schema_objects_is_empty so")
      case True
      with iter have "I = {}" by (simp add: schema_objects_is_empty_def iter_oids_def hm_values_def)
      with True Some step maps show ?thesis
        by (auto simp: del_objects_simps without_def)
    next
      case False
      with Some step have "remove_children (iter_oids so) (del_objects sid s) = (s1, Ok ())"
        by (auto split: if_splits)
      from remove_children_Ok [OF this] maps iter show ?thesis
        by (simp add: del_objects_simps)
    qed
  qed
  then show "ents s1 = without I (ents s)" "lookup s1 = without (schema_keys sid) (lookup s)"
    "st_oid_counter s1 = st_oid_counter s" "maps_ok s1"
    "i \<in> I \<Longrightarrow> \<exists>e. ents s i = Some e \<and> \<not> ent_builtin e" by blast+
qed

lemma without_without: "without X (without Y m) = without (X \<union> Y) m"
  by (auto simp: without_def)

lemma upd_None_without: "m(k := None) = without {k} m"
  by (auto simp: without_def)

lemma wf_drop_schema:
  assumes b: "builtin_ok bc" and wf: "wf_state bc s" and ok: "mutate_drop_schema m s = (s', Ok ())"
  shows "wf_state bc s'"
proof (cases "hm_get (st_schema_names s) (ds_name m)")
  case None
  with wf ok show ?thesis by (auto simp: mutate_drop_schema_def split: if_splits)
next
  case (Some sid)
  let ?k = "(NS_Schema, bd_oid DATABASE_DEFAULT, ds_name m)"
  let ?s0 = "del_schema_name (ds_name m) s"
  have L: "lookup s ?k = Some sid" using Some by (simp add: lookup_iffs)
  have core: "wf_core bc (st_oid_counter s) (ents s) (lookup s)" and maps: "maps_ok ?s0"
    using wf maps_ok_ops(4) [of s "?k"] by (simp_all add: wf_state_def)
  define I where "I = {i. \<exists>k \<in> schema_keys sid. lookup ?s0 k = Some i}"
  have I: "I = {i. \<exists>k \<in> schema_keys sid. lookup s k = Some i}"
    by (auto simp: I_def state_simps schema_keys_def)
  from ok Some obtain s1 e where
    step: "(case hm_get (st_schema_objects ?s0) sid of
        Some so \<Rightarrow>
          if schema_objects_is_empty so then (del_objects sid ?s0, Ok ())
          else if ds_cascade m then remove_children (iter_oids so) (del_objects sid ?s0)
          else (?s0, Err (SchemaHasChildren sid (num_objects so)))
      | None \<Rightarrow> (?s0, Ok ())) = (s1, Ok ())"
    and e: "ents s1 sid = Some e" "\<not> ent_builtin e" and s': "s' = del_entry sid s1"
    by (auto simp: mutate_drop_schema_def Let_def)
  note st = schema_children_step [OF maps step I_def]
  have e': "ents s sid = Some e" using st(1) e by (simp add: state_simps)
  have "wf_core bc (st_oid_counter s) (without (insert sid I) (ents s)) (without (insert ?k (schema_keys sid)) (lookup s))"
  proof (rule wf_drop_schema_core [OF b core L I])
    fix i assume "i \<in> insert sid I"
    then have "\<exists>e. ents s i = Some e \<and> \<not> ent_builtin e" using st(5) [of i] e' e(2) by (auto simp: state_simps)
    then show "FIRST_AVAILABLE_ID \<le> i" using wf_state_user [OF b wf] by blast
  qed
  moreover have "ents s' = without (insert sid I) (ents s)" "lookup s' = without (insert ?k (schema_keys sid)) (lookup s)"
    using st(1,2) by (simp_all add: s' state_simps upd_None_without without_without)
  moreover have "st_oid_counter s' = st_oid_counter s" "maps_ok s'"
    using st(3,4) by (simp_all add: s' state_simps del_schema_name_def)
  ultimately show ?thesis by (simp add: wf_state_def)
qed

subsection \<open>Creates\<close>

lemma wf_create_entry:
  assumes b: "builtin_ok bc" and wf: "wf_state bc s" and c: "st_oid_counter s + 1 \<noteq> 0"
    and ins: "insert_entry_step (st_oid_counter s) e (s\<lparr>st_oid_counter := st_oid_counter s + 1\<rparr>) = (r, Ok u)"
    and key: "valid_key (entry_key e)" "lookup s (entry_key e) = None"
    and e: "user_entry_ok ((ents s)(st_oid_counter s \<mapsto> e)) (st_oid_counter s) e"
  shows "wf_state bc (put_name (entry_key e) (st_oid_counter s) r)"
proof -
  from insert_entry_step_eq_Ok [OF ins]
  have r: "r = put_entry (st_oid_counter s) e (s\<lparr>st_oid_counter := st_oid_counter s + 1\<rparr>)" by simp
  show ?thesis
    by (rule wf_state_create [OF b wf refl c e key(2)])
      (use key(1) wf_state_maps [OF wf] in \<open>simp_all add: r sidx.laws state_simps\<close>)
qed

lemma wf_create_external_database:
  assumes b: "builtin_ok bc" and wf: "wf_state bc s" and c: "st_oid_counter s + 1 \<noteq> 0"
    and ok: "mutate_create_external_database m s = (s', Ok ())"
  shows "wf_state bc s'"
proof (cases "hm_get (st_database_names s) (ced_name m)")
  case None
  let ?e = "\<lambda>tid. Database \<lparr>de_meta = user_meta ET_Database (st_oid_counter s) DATABASE_PARENT_ID (ced_name m) True,
    de_options = ced_options m, de_tunnel_id = tid, de_access_mode = ReadOnly\<rparr>"
  from ok None obtain tid r u where
    ins: "insert_entry_step (st_oid_counter s) (?e tid) (s\<lparr>st_oid_counter := st_oid_counter s + 1\<rparr>) = (r, Ok u)"
    and s': "s' = put_database_name (ced_name m) (st_oid_counter s) r"
    by (auto simp: mutate_create_external_database_def next_oid_def)
  have "wf_state bc (put_name (entry_key (?e tid)) (st_oid_counter s) r)"
    by (rule wf_create_entry [OF b wf c ins]) (use None in \<open>simp_all add: entry_simps lookup_iffs\<close>)
  then show ?thesis by (simp add: s' entry_simps)
qed (use wf ok in \<open>auto simp: mutate_create_external_database_def split: if_splits\<close>)

lemma wf_create_tunnel:
  assumes b: "builtin_ok bc" and wf: "wf_state bc s" and c: "st_oid_counter s + 1 \<noteq> 0"
    and ok: "mutate_create_tunnel m s = (s', Ok ())"
  shows "wf_state bc s'"
proof (cases "hm_get (st_tunnel_names s) (ctu_name m)")
  case None
  let ?e = "Tunnel \<lparr>tu_meta = user_meta ET_Tunnel (st_oid_counter s) DATABASE_PARENT_ID (ctu_name m) False,
    tu_options = ctu_options m\<rparr>"
  from ok None obtain r u where
    ins: "insert_entry_step (st_oid_counter s) ?e (s\<lparr>st_oid_counter := st_oid_counter s + 1\<rparr>) = (r, Ok u)"
    and s': "s' = put_tunnel_name (ctu_name m) (st_oid_counter s) r"
    by (auto simp: mutate_create_tunnel_def next_oid_def)
  have "wf_state bc (put_name (entry_key ?e) (st_oid_counter s) r)"
    by (rule wf_create_entry [OF b wf c ins]) (use None in \<open>simp_all add: entry_simps lookup_iffs\<close>)
  then show ?thesis by (simp add: s' entry_simps)
qed (use wf ok in \<open>auto simp: mutate_create_tunnel_def split: if_splits\<close>)

lemma wf_create_schema:
  assumes b: "builtin_ok bc" and wf: "wf_state bc s" and c: "st_oid_counter s + 1 \<noteq> 0"
    and ok: "mutate_create_schema m s = (s', Ok ())"
  shows "wf_state bc s'"
proof (cases "hm_get (st_schema_names s) (csc_name m)")
  case None
  let ?e = "Schema \<lparr>se_meta = user_meta ET_Schema (st_oid_counter s) (bd_oid DATABASE_DEFAULT) (csc_name m) False\<rparr>"
  from ok None obtain r u where
    ins: "insert_entry_step (st_oid_counter s) ?e (s\<lparr>st_oid_counter := st_oid_counter s + 1\<rparr>) = (r, Ok u)"
    and s': "s' = put_schema_name (csc_name m) (st_oid_counter s) r"
    by (auto simp: mutate_create_schema_def next_oid_def)
  have "wf_state bc (put_name (entry_key ?e) (st_oid_counter s) r)"
    by (rule wf_create_entry [OF b wf c ins]) (use None in \<open>simp_all add: entry_simps lookup_iffs\<close>)
  then show ?thesis by (simp add: s' entry_simps)
qed (use wf ok in \<open>auto simp: mutate_create_schema_def split: if_splits\<close>)

lemma wf_state_put_name_again:
  assumes wf: "wf_state bc s" and k: "lookup s k = Some i" "valid_key k"
  shows "wf_state bc (put_name k i s)"
proof (rule wf_state_same [OF wf])
  show "lookup (put_name k i s) = lookup s" using k by (auto simp: sidx.laws)
qed (use wf_state_maps [OF wf] in \<open>simp_all add: sidx.laws state_simps\<close>)

lemma wf_insert_existing:
  assumes b: "builtin_ok bc" and wf: "wf_state bc s" and L: "lookup s (entry_key e) = Some i"
    and ins: "insert_entry_step i e s = (r, Ok u)" and e: "user_entry_ok ((ents s)(i \<mapsto> e)) i e"
  shows "wf_state bc r"
proof -
  from insert_entry_step_eq_Ok [OF ins] wf_state_entry [OF wf L] obtain old where
    r: "r = put_entry i e s" and old: "ents s i = Some old" "\<not> ent_builtin old" by blast
  show ?thesis
    by (rule wf_state_replace [OF b wf wf_state_user [OF b wf old] L e])
      (use wf_state_maps [OF wf] in \<open>simp_all add: r state_simps\<close>)
qed

lemma wf_create_credentials:
  assumes b: "builtin_ok bc" and wf: "wf_state bc s" and c: "st_oid_counter s + 1 \<noteq> 0"
    and ok: "mutate_create_credentials m s = (s', Ok ())"
  shows "wf_state bc s'"
proof -
  let ?e = "\<lambda>i. Credentials \<lparr>ce_meta = user_meta ET_Credentials i DATABASE_PARENT_ID (cc_name m) False,
    ce_options = cc_options m, ce_comment = cc_comment m\<rparr>"
  show ?thesis
  proof (cases "hm_get (st_credentials_names s) (cc_name m)")
    case None
    from ok None obtain r u where
      ins: "insert_entry_step (st_oid_counter s) (?e (st_oid_counter s)) (s\<lparr>st_oid_counter := st_oid_counter s + 1\<rparr>) = (r, Ok u)"
      and s': "s' = put_credentials_name (cc_name m) (st_oid_counter s) r"
      by (auto simp: mutate_create_credentials_def next_oid_def)
    have "wf_state bc (put_name (entry_key (?e (st_oid_counter s))) (st_oid_counter s) r)"
      by (rule wf_create_entry [OF b wf c ins]) (use None in \<open>simp_all add: entry_simps lookup_iffs\<close>)
    then show ?thesis by (simp add: s' entry_simps)
  next
    case (Some i)
    from ok Some obtain r u where ins: "insert_entry_step i (?e i) s = (r, Ok u)"
      and s': "s' = put_credentials_name (cc_name m) i r"
      by (auto simp: mutate_create_credentials_def split: bool.splits if_splits)
    have L: "lookup s (entry_key (?e i)) = Some i" using Some by (simp add: entry_simps lookup_iffs)
    have "wf_state bc r"
      by (rule wf_insert_existing [OF b wf L ins]) (simp add: entry_simps)
    moreover have "lookup r (entry_key (?e i)) = Some i"
      using insert_entry_step_eq_Ok [OF ins] L by (simp add: state_simps)
    ultimately have "wf_state bc (put_name (entry_key (?e i)) i r)"
      by (rule wf_state_put_name_again) (simp add: entry_simps)
    then show ?thesis by (simp add: s' entry_simps)
  qed
qed

lemma wf_create_function:
  assumes b: "builtin_ok bc" and wf: "wf_state bc s" and c: "st_oid_counter s + 1 \<noteq> 0"
    and ok: "mutate_create_function m s = (s', Ok ())"
  shows "wf_state bc s'"
proof -
  from ok obtain sid where sid: "hm_get (st_schema_names s) DEFAULT_SCHEMA = Some sid"
    and new: "function_index (st_schema_objects s) (sid, cf_name m) = None"
    by (auto simp: mutate_create_function_def get_schema_id_def split: option.splits)
  let ?e = "Function \<lparr>fe_meta = user_meta ET_Function (st_oid_counter s) sid (cf_name m) True,
    fe_func_type = cf_function_type m, fe_signature = Some (cf_signature m), fe_user_defined = True\<rparr>"
  from ok sid new obtain r u where
    ins: "insert_entry_step (st_oid_counter s) ?e (s\<lparr>st_oid_counter := st_oid_counter s + 1\<rparr>) = (r, Ok u)"
    and s': "s' = put_function_name sid (cf_name m) (st_oid_counter s) r"
    by (auto simp: mutate_create_function_def get_schema_id_def next_oid_def)
  from sid obtain x where x: "ents s sid = Some (Schema x)"
    using wf_state_schema [OF wf, of _ DEFAULT_SCHEMA sid] unfolding lookup_iffs by blast
  moreover have "ents s (st_oid_counter s) = None"
    using wf unfolding wf_state_def by (blast intro: wf_core_fresh b)
  ultimately have "wf_state bc (put_name (entry_key ?e) (st_oid_counter s) r)"
    by (intro wf_create_entry [OF b wf c ins]) (use new in \<open>auto simp: entry_simps lookup_iffs\<close>)
  then show ?thesis by (simp add: s' entry_simps)
qed

lemma maps_ok_table_ops [state_simps]:
  "maps_ok s \<Longrightarrow> maps_ok (put_table_name sid n i s)"
  "maps_ok s \<Longrightarrow> maps_ok (del_table_name sid n s)"
  using maps_ok_ops(3) [of s "(NS_Table, sid, n)" i] maps_ok_ops(4) [of s "(NS_Table, sid, n)"] by simp_all

lemma or_default_put_default: "or_default sid (put_objects sid (or_default sid s) s) = or_default sid s"
  by (simp add: or_default_def put_objects_def)

lemma wf_state_put_default: "wf_state bc s \<Longrightarrow> wf_state bc (put_objects sid (or_default sid s) s)"
  by (rule wf_state_same) (auto simp: state_simps dest: wf_state_maps)

lemma wf_try_insert:
  assumes b: "builtin_ok bc" and wf: "wf_state bc s"
    and ok: "try_insert_table_namespace e sid i policy s = (s', Ok ())"
    and ns: "namespace_of (catalog_entry_type e) = NS_Table" "ent_parent e = sid"
    and e: "user_entry_ok ((ents s)(i \<mapsto> e)) i e"
    and i: "lookup s (entry_key e) = Some i \<or>
      lookup s (entry_key e) = None \<and> FIRST_AVAILABLE_ID \<le> i \<and> ents s i = None \<and> i < st_oid_counter s"
  shows "wf_state bc s'"
proof -
  let ?s = "put_objects sid (or_default sid s) s"
  note wf' = wf_state_put_default [OF wf, of sid]
  have key: "entry_key e = (NS_Table, sid, ent_name e)" using ns by (simp add: entry_key_def)
  have has: "hm_contains_key (sob_tables (or_default sid s)) (ent_name e) \<longleftrightarrow> lookup s (entry_key e) \<noteq> None"
    by (simp add: lookup_iffs key)
  consider (same) "s' = ?s"
    | (replace) u where "lookup s (entry_key e) \<noteq> None" "insert_entry_step i e ?s = (s', Ok u)"
    | (new) u where "lookup s (entry_key e) = None" "insert_entry_step i e (put_name (entry_key e) i ?s) = (s', Ok u)"
    using ok unfolding try_insert_table_namespace_def Let_def has key put_name.simps
    by (auto split: create_policy.splits if_splits)
  then show ?thesis
  proof cases
    case same
    then show ?thesis using wf' by simp
  next
    case replace
    with i have "lookup ?s (entry_key e) = Some i" by (auto simp: state_simps)
    then show ?thesis
      by (rule wf_insert_existing [OF b wf' _ replace(2)]) (use e in \<open>simp add: state_simps\<close>)
  next
    case new
    have s': "s' = put_entry i e (put_name (entry_key e) i ?s)"
      using insert_entry_step_eq_Ok [OF new(2)] by simp
    from i new(1) have "FIRST_AVAILABLE_ID \<le> i" "ents s i = None" "i < st_oid_counter s" by auto
    then show ?thesis
      by (intro wf_state_insert [OF b wf', of i e])
        (use e new(1) wf_state_maps [OF wf] key in \<open>simp_all add: s' state_simps sidx.laws\<close>)
  qed
qed

lemma wf_state_get_or_next_oid:
  assumes b: "builtin_ok bc" and wf: "wf_state bc s" and c: "st_oid_counter s + 1 \<noteq> 0"
    and get: "get_or_next_oid sid n s = (s', i)"
  shows "wf_state bc s'"
    "lookup s' (NS_Table, sid, n) = Some i \<or>
      lookup s' (NS_Table, sid, n) = None \<and> FIRST_AVAILABLE_ID \<le> i \<and> ents s' i = None \<and> i < st_oid_counter s'"
    "ents s' = ents s" "lookup s' = lookup s"
proof -
  have "wf_state bc s' \<and> ents s' = ents s \<and> lookup s' = lookup s \<and>
     (lookup s (NS_Table, sid, n) = Some i \<or>
      lookup s (NS_Table, sid, n) = None \<and> FIRST_AVAILABLE_ID \<le> i \<and> ents s' i = None \<and> i < st_oid_counter s')"
  proof (cases "lookup s (NS_Table, sid, n)")
    case None
    with get have "next_oid s = (s', i)" by (simp add: get_or_next_oid_def lookup_iffs)
    from wf_state_next_oid [OF b wf c this] None show ?thesis by blast
  next
    case (Some j)
    with get have "s' = s" "j = i" by (simp_all add: get_or_next_oid_def lookup_iffs)
    with wf Some show ?thesis by simp
  qed
  then show "wf_state bc s'" "ents s' = ents s" "lookup s' = lookup s"
    "lookup s' (NS_Table, sid, n) = Some i \<or>
      lookup s' (NS_Table, sid, n) = None \<and> FIRST_AVAILABLE_ID \<le> i \<and> ents s' i = None \<and> i < st_oid_counter s'"
    by (simp_all, metis)
qed

lemma wf_create_in_schema:
  assumes b: "builtin_ok bc" and wf: "wf_state bc s" and c: "st_oid_counter s + 1 \<noteq> 0"
    and sid: "lookup s (NS_Schema, p, schema) = Some sid"
    and get: "get_or_next_oid sid n s = (s1, i)"
    and ok: "try_insert_table_namespace e sid i policy s1 = (s', Ok ())"
    and e: "namespace_of (catalog_entry_type e) = NS_Table" "get_meta e = user_meta (catalog_entry_type e) i sid n ext"
  shows "wf_state bc s'"
proof -
  note st = wf_state_get_or_next_oid [OF b wf c get]
  from wf_state_schema [OF wf sid] obtain x where x: "ents s sid = Some (Schema x)" by blast
  have "i \<noteq> sid"
  proof
    assume "i = sid"
    with st(2,3) x have "lookup s1 (NS_Table, sid, n) = Some sid" by auto
    from wf_state_entry [OF st(1) this] x st(3) show False by (auto simp: entry_key_def)
  qed
  with x e have "user_entry_ok ((ents s1)(i \<mapsto> e)) i e"
    by (cases e) (auto simp: entry_simps st(3))
  then show ?thesis
    by (intro wf_try_insert [OF b st(1) ok e(1)])
      (use st(2) e in \<open>simp_all add: entry_key_def user_meta_def\<close>)
qed

lemma get_schema_id_eq_Ok [simp]:
  "get_schema_id n s = Ok sid \<longleftrightarrow> lookup s (NS_Schema, bd_oid DATABASE_DEFAULT, n) = Some sid"
  by (auto simp: get_schema_id_def lookup_iffs split: option.splits)

lemma wf_create_view:
  assumes b: "builtin_ok bc" and wf: "wf_state bc s" and c: "st_oid_counter s + 1 \<noteq> 0"
    and ok: "mutate_create_view m s = (s', Ok ())"
  shows "wf_state bc s'"
proof -
  from ok obtain sid where sid: "lookup s (NS_Schema, bd_oid DATABASE_DEFAULT, cv_schema m) = Some sid"
    by (auto simp: mutate_create_view_def)
  obtain s1 i where get: "get_or_next_oid sid (cv_name m) s = (s1, i)" by fastforce
  let ?e = "View \<lparr>ve_meta = user_meta ET_View i sid (cv_name m) False, ve_sql = cv_sql m, ve_columns = cv_columns m\<rparr>"
  from ok sid get obtain policy where "try_insert_table_namespace ?e sid i policy s1 = (s', Ok ())"
    by (auto simp: mutate_create_view_def)
  then show ?thesis
    by (rule wf_create_in_schema [OF b wf c sid get]) simp_all
qed

lemma wf_create_table:
  assumes b: "builtin_ok bc" and wf: "wf_state bc s" and c: "st_oid_counter s + 1 \<noteq> 0"
    and ok: "mutate_create_table m s = (s', Ok ())"
  shows "wf_state bc s'"
proof -
  from ok obtain sid where sid: "lookup s (NS_Schema, bd_oid DATABASE_DEFAULT, ct_schema m) = Some sid"
    by (auto simp: mutate_create_table_def)
  obtain s1 i where get: "get_or_next_oid sid (ct_name m) s = (s1, i)" by fastforce
  let ?e = "Table \<lparr>te_meta = user_meta ET_Table i sid (ct_name m) False, te_options = TO_Internal (ct_options m),
    te_tunnel_id = None, te_access_mode = ReadWrite, te_columns = None\<rparr>"
  from ok sid get obtain policy where "try_insert_table_namespace ?e sid i policy s1 = (s', Ok ())"
    by (auto simp: mutate_create_table_def)
  then show ?thesis
    by (rule wf_create_in_schema [OF b wf c sid get]) simp_all
qed

lemma wf_create_external_table:
  assumes b: "builtin_ok bc" and wf: "wf_state bc s" and c: "st_oid_counter s + 1 \<noteq> 0"
    and ok: "mutate_create_external_table m s = (s', Ok ())"
  shows "wf_state bc s'"
proof -
  from ok obtain sid tid where sid: "lookup s (NS_Schema, bd_oid DATABASE_DEFAULT, cet_schema m) = Some sid"
    and tid: "get_tunnel_id (validate_table_tunnel_support
      (table_options_v0_as_str (cet_options m))) (cet_tunnel m) s = Ok tid"
    by (auto simp: mutate_create_external_table_def)
  obtain s1 i where get: "get_or_next_oid sid (cet_name m) s = (s1, i)" by fastforce
  let ?e = "Table \<lparr>te_meta = user_meta ET_Table i sid (cet_name m) True, te_options = cet_options m,
    te_tunnel_id = tid, te_access_mode = ReadOnly, te_columns = cet_columns m\<rparr>"
  from ok sid tid get obtain policy where "try_insert_table_namespace ?e sid i policy s1 = (s', Ok ())"
    by (auto simp: mutate_create_external_table_def)
  then show ?thesis
    by (rule wf_create_in_schema [OF b wf c sid get]) simp_all
qed

subsection \<open>Alters\<close>

lemma parent_ok_cong:
  "catalog_entry_type e' = catalog_entry_type e \<Longrightarrow> ent_parent e' = ent_parent e \<Longrightarrow> parent_ok E e' = parent_ok E e"
  by (simp add: parent_ok_def split: entry_type.split)

lemma wf_modify:
  assumes b: "builtin_ok bc" and wf: "wf_state bc s" and k: "lookup s k = Some i"
    and ok: "modify_entry i f s = (s', Ok ())"
    and f: "\<And>e e'. f e = Ok e' \<Longrightarrow> get_meta e' = get_meta e \<and> catalog_entry_type e' = catalog_entry_type e"
  shows "wf_state bc s'"
proof -
  from ok obtain e e' where e: "ents s i = Some e" "\<not> ent_builtin e" "f e = Ok e'" and s': "s' = put_entry i e' s"
    by auto
  from wf_state_entry [OF wf k] e(1) f [OF e(3)] have "entry_key e' = k" by (auto simp: entry_key_def)
  then have L: "lookup s (entry_key e') = Some i" using k by simp
  have user: "FIRST_AVAILABLE_ID \<le> i" by (rule wf_state_user [OF b wf e(1,2)])
  have core: "wf_core bc (st_oid_counter s) (ents s) (lookup s)" using wf by (simp add: wf_state_def)
  have "parent_ok ((ents s)(i \<mapsto> e')) e"
    using wf_core_id(4) [OF b core e(1)] e(1) f [OF e(3)]
    by (intro parent_ok_upd) (cases e; cases e'; auto)+
  then have "user_entry_ok ((ents s)(i \<mapsto> e')) i e'"
    using wf_coreD(3) [OF core e(1) user] f [OF e(3)] parent_ok_cong [of e' e] by (simp add: user_entry_ok_def)
  then show ?thesis
    by (intro wf_state_replace [OF b wf user L]) (use wf_state_maps [OF wf] in \<open>simp_all add: s' state_simps\<close>)
qed

lemma wf_set_table_access_mode:
  assumes b: "builtin_ok bc" and wf: "wf_state bc s"
    and ok: "mutate_set_table_access_mode schema n sid mode s = (s', Ok ())"
  shows "wf_state bc s'"
proof -
  from ok obtain i where i: "lookup s (NS_Table, sid, n) = Some i"
    and mod: "modify_entry i (\<lambda>ent. case ent of Table t \<Rightarrow> Ok (Table (t\<lparr>te_access_mode := mode\<rparr>))
      | _ \<Rightarrow> Panic ''unexpected entry type'') s = (s', Ok ())"
    unfolding mutate_set_table_access_mode_def lookup_iffs by (auto split: option.splits)
  show ?thesis
    by (rule wf_modify [OF b wf i mod]) (auto split: catalog_entry.splits)
qed

lemma wf_rename_table:
  assumes b: "builtin_ok bc" and wf: "wf_state bc s"
    and ok: "mutate_rename_table schema n sid new_name s = (s', Ok ())"
  shows "wf_state bc s'"
proof -
  from ok obtain i where i: "lookup s (NS_Table, sid, n) = Some i"
    unfolding mutate_rename_table_def lookup_iffs by (auto split: option.splits if_splits)
  let ?s1 = "del_entry i (del_table_name sid n s)"
  from wf_state_entry [OF wf i] obtain e where e: "ents s i = Some e" "entry_key e = (NS_Table, sid, n)" by blast
  let ?e = "map_meta (\<lambda>m. m\<lparr>meta_name := new_name\<rparr>) e"
  from ok i e have ins: "try_insert_table_namespace ?e sid i Create ?s1 = (s', Ok ())" and nb: "\<not> ent_builtin e"
    unfolding mutate_rename_table_def lookup_iffs
    by (auto simp: state_simps entry_key_def split: option.splits if_splits catalog_entry.splits)
  have user: "FIRST_AVAILABLE_ID \<le> i" by (rule wf_state_user [OF b wf e(1) nb])
  have core: "wf_core bc (st_oid_counter s) (ents s) (lookup s)" using wf by (simp add: wf_state_def)
  have wf1: "wf_state bc ?s1"
    by (rule wf_state_delete [OF b wf i user])
      (use wf_state_maps [OF wf] in \<open>simp_all add: state_simps\<close>)
  from ins have "lookup ?s1 (NS_Table, sid, ent_name ?e) = None"
    unfolding try_insert_table_namespace_def Let_def hm_contains_key_iff lookup_iffs
    by (simp split: if_splits)
  with e(2) have new: "lookup ?s1 (entry_key ?e) = None" by (simp add: entry_key_def)
  have par: "parent_ok (ents s) e" and ue: "user_entry_ok (ents s) i e"
    using wf_core_id(4) [OF b core e(1)] wf_coreD(3) [OF core e(1) user] by blast+
  then have "user_entry_ok ((ents ?s1)(i \<mapsto> ?e)) i ?e"
    using e by (cases e) (auto simp: entry_simps state_simps)
  then show ?thesis
    by (rule wf_try_insert [OF b wf1 ins, rotated 2])
      (use e new user wf_coreD(4) [OF core e(1) user] in \<open>auto simp: entry_key_def state_simps\<close>)
qed

lemma wf_alter_table:
  assumes "builtin_ok bc" "wf_state bc s" "mutate_alter_table m s = (s', Ok ())"
  shows "wf_state bc s'"
  using assms wf_rename_table [OF assms(1,2)] wf_set_table_access_mode [OF assms(1,2)]
  by (auto simp: mutate_alter_table_def split: option.splits alter_table_operation.splits)

lemma wf_alter_database:
  assumes b: "builtin_ok bc" and wf: "wf_state bc s" and ok: "mutate_alter_database m s = (s', Ok ())"
  shows "wf_state bc s'"
proof (cases "ad_operation m")
  case (RenameDatabase n)
  let ?k = "(NS_Database, DATABASE_PARENT_ID, ad_name m)"
  from ok RenameDatabase obtain i e where i: "lookup s ?k = Some i"
    and new: "lookup s (NS_Database, DATABASE_PARENT_ID, n) = None"
    and e: "ents s i = Some e" "\<not> ent_builtin e"
    and s': "s' = put_database_name n i (put_entry i (map_meta (\<lambda>m. m\<lparr>meta_name := n\<rparr>) e) (del_database_name (ad_name m) s))"
    unfolding mutate_alter_database_def by (auto simp: lookup_iffs state_simps split: if_splits option.splits)
  have user: "FIRST_AVAILABLE_ID \<le> i" by (rule wf_state_user [OF b wf e])
  have core: "wf_core bc (st_oid_counter s) (ents s) (lookup s)" using wf by (simp add: wf_state_def)
  from wf_state_kind(1) [OF wf i] e(1) obtain d where d: "e = Database d" by auto
  show ?thesis
    by (rule wf_state_rename [OF b wf i user, where e = "map_meta (\<lambda>m. m\<lparr>meta_name := n\<rparr>) e"])
      (use wf_coreD(3) [OF core e(1) user] d new wf_state_maps [OF wf] in
        \<open>simp_all add: s' entry_simps state_simps put_name_forms del_name_forms sidx.laws droppable_def
          del: put_name.simps del_name.simps\<close>)
next
  case (SetDatabaseAccessMode mode)
  from ok SetDatabaseAccessMode obtain i where i: "lookup s (NS_Database, DATABASE_PARENT_ID, ad_name m) = Some i"
    and mod: "modify_entry i (\<lambda>ent. case ent of Database db \<Rightarrow> Ok (Database (db\<lparr>de_access_mode := mode\<rparr>))
      | _ \<Rightarrow> Panic ''unexpected entry type'') s = (s', Ok ())"
    unfolding mutate_alter_database_def lookup_iffs by (auto split: option.splits)
  show ?thesis
    by (rule wf_modify [OF b wf i mod]) (auto split: catalog_entry.splits)
qed

lemma wf_alter_tunnel_rotate_keys:
  assumes b: "builtin_ok bc" and wf: "wf_state bc s" and ok: "mutate_alter_tunnel_rotate_keys m s = (s', Ok ())"
  shows "wf_state bc s'"
proof (cases "lookup s (NS_Tunnel, DATABASE_PARENT_ID, atr_name m)")
  case None
  with ok wf show ?thesis
    unfolding mutate_alter_tunnel_rotate_keys_def lookup_iffs by (auto split: if_splits)
next
  case (Some i)
  with ok have "modify_entry i (rotate_tunnel_keys (atr_new_ssh_key m)) s = (s', Ok ())"
    unfolding mutate_alter_tunnel_rotate_keys_def lookup_iffs by simp
  then show ?thesis
    by (rule wf_modify [OF b wf Some]) (auto simp: rotate_tunnel_keys_def split: catalog_entry.splits tunnel_options.splits)
qed

lemma wf_update_deployment_storage:
  "wf_state bc s \<Longrightarrow> mutate_update_deployment_storage m s = (s', Ok ()) \<Longrightarrow> wf_state bc s'"
  by (auto simp: mutate_update_deployment_storage_def wf_state_def maps_ok_def ents_def lookup_def)

subsection \<open>All mutations\<close>

lemma wf_mutate_one:
  assumes "builtin_ok bc" "wf_state bc s" "st_oid_counter s + 1 \<noteq> 0" "mutate_one m s = (s', Ok ())"
  shows "wf_state bc s'"
  using assms
  by (cases m)
    (auto intro: wf_drop_database wf_drop_tunnel wf_drop_credentials wf_drop_schema wf_drop_object
      wf_create_external_database wf_create_tunnel wf_create_credentials wf_create_schema wf_create_view
      wf_create_table wf_create_external_table wf_create_function wf_alter_table wf_alter_database
      wf_alter_tunnel_rotate_keys wf_update_deployment_storage)

text \<open>A mutation takes at most one oid.\<close>

lemma insert_entry_step_counter:
  "insert_entry_step i e s = (s', Ok r) \<Longrightarrow> st_oid_counter s' = st_oid_counter s"
  by (drule insert_entry_step_eq_Ok) (simp add: state_simps)

lemma try_insert_counter:
  "try_insert_table_namespace e sid i policy s = (s', Ok ()) \<Longrightarrow> st_oid_counter s' = st_oid_counter s"
  by (auto simp: try_insert_table_namespace_def Let_def state_simps
      dest!: insert_entry_step_counter split: create_policy.splits if_splits)

lemma get_or_next_oid_counter:
  "get_or_next_oid sid n s = (s', i) \<Longrightarrow> st_oid_counter s' = st_oid_counter s \<or> st_oid_counter s' = st_oid_counter s + 1"
  by (auto simp: get_or_next_oid_def next_oid_def split: option.splits)

lemma counter_name_ops [state_simps]:
  "st_oid_counter (put_database_name n i s) = st_oid_counter s" "st_oid_counter (del_database_name n s) = st_oid_counter s"
  "st_oid_counter (put_tunnel_name n i s) = st_oid_counter s" "st_oid_counter (del_tunnel_name n s) = st_oid_counter s"
  "st_oid_counter (put_credentials_name n i s) = st_oid_counter s" "st_oid_counter (del_credentials_name n s) = st_oid_counter s"
  "st_oid_counter (put_schema_name n i s) = st_oid_counter s" "st_oid_counter (del_schema_name n s) = st_oid_counter s"
  "st_oid_counter (put_function_name sid n i s) = st_oid_counter s"
  by (simp_all add: name_op_defs Let_def)

lemmas counter_dests = insert_entry_step_counter try_insert_counter get_or_next_oid_counter

lemma counter_creates:
  "mutate_create_external_database m1 s = (s', Ok ()) \<Longrightarrow> st_oid_counter s' = st_oid_counter s \<or> st_oid_counter s' = st_oid_counter s + 1"
  "mutate_create_tunnel m2 s = (s', Ok ()) \<Longrightarrow> st_oid_counter s' = st_oid_counter s \<or> st_oid_counter s' = st_oid_counter s + 1"
  "mutate_create_credentials m3 s = (s', Ok ()) \<Longrightarrow> st_oid_counter s' = st_oid_counter s \<or> st_oid_counter s' = st_oid_counter s + 1"
  "mutate_create_schema m4 s = (s', Ok ()) \<Longrightarrow> st_oid_counter s' = st_oid_counter s \<or> st_oid_counter s' = st_oid_counter s + 1"
  "mutate_create_function m5 s = (s', Ok ()) \<Longrightarrow> st_oid_counter s' = st_oid_counter s \<or> st_oid_counter s' = st_oid_counter s + 1"
  by (auto simp: mutate_create_external_database_def mutate_create_tunnel_def mutate_create_credentials_def
      mutate_create_schema_def mutate_create_function_def next_oid_def state_simps
      dest!: counter_dests split: option.splits if_splits bool.splits)

lemma counter_tables:
  "mutate_create_view m1 s = (s', Ok ()) \<Longrightarrow> st_oid_counter s' = st_oid_counter s \<or> st_oid_counter s' = st_oid_counter s + 1"
  "mutate_create_table m2 s = (s', Ok ()) \<Longrightarrow> st_oid_counter s' = st_oid_counter s \<or> st_oid_counter s' = st_oid_counter s + 1"
  "mutate_create_external_table m3 s = (s', Ok ()) \<Longrightarrow> st_oid_counter s' = st_oid_counter s \<or> st_oid_counter s' = st_oid_counter s + 1"
  using get_or_next_oid_counter [OF surjective_pairing]
  by (auto simp: mutate_create_view_def mutate_create_table_def mutate_create_external_table_def
      case_prod_unfold Let_def dest!: try_insert_counter) blast+

lemma counter_drops:
  "mutate_drop_database m1 s = (s', Ok ()) \<Longrightarrow> st_oid_counter s' = st_oid_counter s"
  "mutate_drop_tunnel m2 s = (s', Ok ()) \<Longrightarrow> st_oid_counter s' = st_oid_counter s"
  "mutate_drop_credentials m3 s = (s', Ok ()) \<Longrightarrow> st_oid_counter s' = st_oid_counter s"
  "mutate_drop_schema m4 s = (s', Ok ()) \<Longrightarrow> st_oid_counter s' = st_oid_counter s"
  "mutate_drop_object m5 s = (s', Ok ()) \<Longrightarrow> st_oid_counter s' = st_oid_counter s"
  by (auto simp: mutate_drop_database_def mutate_drop_tunnel_def mutate_drop_credentials_def
      mutate_drop_schema_def mutate_drop_object_def Let_def state_simps del_objects_simps
      split: option.splits if_splits dest!: remove_children_Ok)

lemma modify_entry_counter:
  "modify_entry i f s = (s', Ok u) \<Longrightarrow> st_oid_counter s' = st_oid_counter s"
  by (auto simp: state_simps)

lemma counter_rename_table:
  assumes "mutate_rename_table schema n sid new_name s = (s', Ok ())"
  shows "st_oid_counter s' = st_oid_counter s"
proof -
  from assms obtain i ent where "try_insert_table_namespace ent sid i
      Create (del_entry i (del_table_name sid n s)) = (s', Ok ())"
    unfolding mutate_rename_table_def
    by (simp split: if_split_asm option.split_asm) (elim exE conjE, auto split: catalog_entry.split_asm)
  then show ?thesis by (simp add: try_insert_counter state_simps)
qed

lemma counter_alters:
  "mutate_alter_table m1 s = (s', Ok ()) \<Longrightarrow> st_oid_counter s' = st_oid_counter s"
  "mutate_alter_database m2 s = (s', Ok ()) \<Longrightarrow> st_oid_counter s' = st_oid_counter s"
  "mutate_alter_tunnel_rotate_keys m3 s = (s', Ok ()) \<Longrightarrow> st_oid_counter s' = st_oid_counter s"
  "mutate_update_deployment_storage m4 s = (s', Ok ()) \<Longrightarrow> st_oid_counter s' = st_oid_counter s"
  by (auto simp: mutate_alter_table_def mutate_set_table_access_mode_def
      mutate_alter_database_def mutate_alter_tunnel_rotate_keys_def mutate_update_deployment_storage_def state_simps
      simp del: modify_entry_eq_Ok
      split: option.split_asm if_split_asm alter_table_operation.split_asm alter_database_operation.split_asm
      dest!: counter_rename_table modify_entry_counter)

lemma mutate_one_counter:
  "mutate_one m s = (s', Ok ()) \<Longrightarrow> st_oid_counter s' = st_oid_counter s \<or> st_oid_counter s' = st_oid_counter s + 1"
  by (cases m) (auto dest: counter_creates counter_tables counter_drops counter_alters)

lemma unat_counter_step:
  "c' = c \<or> c' = c + 1 \<Longrightarrow> unat (c :: oid) + 1 < 2 ^ 32 \<Longrightarrow> unat c' \<le> unat c + 1"
  by (auto simp: unat_word_ariths)

lemma counter_not_last: "unat (c :: oid) + 1 < 2 ^ 32 \<Longrightarrow> c + 1 \<noteq> 0"
proof
  assume lt: "unat c + 1 < 2 ^ 32" and "c + 1 = 0"
  then have "unat (c + 1) = 0" by simp
  then have "(unat c + 1) mod 2 ^ 32 = 0" by (simp add: unat_word_ariths)
  with lt show False by simp
qed

lemma wf_mutate_all:
  assumes "builtin_ok bc" "wf_state bc s" "unat (st_oid_counter s) + length ms < 2 ^ 32"
    "mutate_all ms s = (s', Ok ())"
  shows "wf_state bc s'"
  using assms(2-)
proof (induction ms arbitrary: s)
  case (Cons m ms)
  from Cons.prems(3) obtain s1 where s1: "mutate_one m s = (s1, Ok ())" "mutate_all ms s1 = (s', Ok ())" by auto
  from Cons.prems(2) have lt: "unat (st_oid_counter s) + 1 < 2 ^ 32" by simp
  have "wf_state bc s1"
    by (rule wf_mutate_one [OF assms(1) Cons.prems(1) counter_not_last [OF lt] s1(1)])
  moreover have "unat (st_oid_counter s1) + length ms < 2 ^ 32"
    using unat_counter_step [OF mutate_one_counter [OF s1(1)] lt] Cons.prems(2) by simp
  ultimately show ?case using s1(2) by (rule Cons.IH)
qed simp

end
