(* ===== verification/Metastore_Load.thy ===== *)
theory Metastore_Load
  imports Metastore_Preservation
begin

section \<open>Loading a persisted catalog\<close>

text \<open>
  \<open>State::from_persisted\<close> rebuilds the name maps from the user entries on top of the builtin
  catalog. The theory shows that loading what \<open>State::to_persisted\<close> wrote gives back the state,
  up to the representation of its hash maps, and that the initial catalog loads into a
  well-formed state.
\<close>

definition nm_lookup :: "name_maps \<Rightarrow> key \<rightharpoonup> oid" where
  "nm_lookup nm = key_index (hm_get (nm_database_names nm)) (hm_get (nm_tunnel_names nm))
     (hm_get (nm_credentials_names nm)) (hm_get (nm_schema_names nm))
     (table_index (nm_schema_objects nm)) (function_index (nm_schema_objects nm))"

definition nm_ok :: "name_maps \<Rightarrow> bool" where
  "nm_ok nm \<longleftrightarrow> hm_ok (nm_database_names nm) \<and> hm_ok (nm_tunnel_names nm) \<and>
     hm_ok (nm_credentials_names nm) \<and> hm_ok (nm_schema_names nm) \<and> schema_objects_ok (nm_schema_objects nm)"

text \<open>Two states are equivalent when every read gives the same: the representation of a hash map
  and empty namespaces of a schema are not observable by a lookup.\<close>

definition state_equiv :: "state \<Rightarrow> state \<Rightarrow> bool" where
  "state_equiv s s' \<longleftrightarrow> st_version s' = st_version s \<and> st_deployment s' = st_deployment s \<and>
     st_oid_counter s' = st_oid_counter s \<and> ents s' = ents s \<and> lookup s' = lookup s"

subsection \<open>One entry\<close>

lemma nm_objects:
  "table_index (nm_schema_objects nm) (sid, n) = hm_get (sob_tables (nm_or_default sid nm)) n"
  "function_index (nm_schema_objects nm) (sid, n) = hm_get (sob_functions (nm_or_default sid nm)) n"
  by (simp_all add: table_index_def function_index_def nm_or_default_def split: option.split)

lemma nm_ok_objects:
  "nm_ok nm \<Longrightarrow> hm_ok (sob_tables (nm_or_default sid nm)) \<and> hm_ok (sob_functions (nm_or_default sid nm))"
  by (auto simp: nm_ok_def nm_or_default_def dest: schema_objects_okD split: option.split)

lemma nm_put_table:
  fixes nm sid n i
  defines "objs \<equiv> nm_or_default sid nm"
  defines "so \<equiv> hm_insert sid (objs\<lparr>sob_tables := hm_insert n i (sob_tables objs)\<rparr>) (nm_schema_objects nm)"
  shows "table_index so = (table_index (nm_schema_objects nm))((sid, n) \<mapsto> i)"
    "function_index so = function_index (nm_schema_objects nm)"
  by (auto simp: so_def objs_def table_index_put_objects function_index_put_objects fun_eq_iff nm_objects [symmetric])

lemma nm_put_function:
  fixes nm sid n i
  defines "objs \<equiv> nm_or_default sid nm"
  defines "so \<equiv> hm_insert sid (objs\<lparr>sob_functions := hm_insert n i (sob_functions objs)\<rparr>) (nm_schema_objects nm)"
  shows "function_index so = (function_index (nm_schema_objects nm))((sid, n) \<mapsto> i)"
    "table_index so = table_index (nm_schema_objects nm)"
  by (auto simp: so_def objs_def table_index_put_objects function_index_put_objects fun_eq_iff nm_objects [symmetric])

lemma load_table_or_view_ok:
  assumes "nm_ok nm" "nm_lookup nm (NS_Table, meta_parent m, meta_name m) = None" "meta_parent m \<noteq> DATABASE_PARENT_ID"
  shows "\<exists>nm'. load_table_or_view i m nm = Ok nm' \<and> nm_ok nm' \<and>
     nm_lookup nm' = (nm_lookup nm)((NS_Table, meta_parent m, meta_name m) \<mapsto> i)"
proof -
  have none: "hm_get (sob_tables (nm_or_default (meta_parent m) nm)) (meta_name m) = None"
    using assms(2) by (simp add: nm_lookup_def nm_objects)
  show ?thesis
    using assms(1,3) none nm_ok_objects [OF assms(1)]
    by (auto simp: load_table_or_view_def Let_def nm_lookup_def nm_put_table key_index_updates nm_ok_def
        intro: schema_objects_ok_insert)
qed

lemma load_function_ok:
  assumes "nm_ok nm" "nm_lookup nm (NS_Function, meta_parent m, meta_name m) = None" "meta_parent m \<noteq> DATABASE_PARENT_ID"
  shows "\<exists>nm'. load_function i m nm = Ok nm' \<and> nm_ok nm' \<and>
     nm_lookup nm' = (nm_lookup nm)((NS_Function, meta_parent m, meta_name m) \<mapsto> i)"
proof -
  have none: "hm_get (sob_functions (nm_or_default (meta_parent m) nm)) (meta_name m) = None"
    using assms(2) by (simp add: nm_lookup_def nm_objects)
  show ?thesis
    using assms(1,3) none nm_ok_objects [OF assms(1)]
    by (auto simp: load_function_def Let_def nm_lookup_def nm_put_function key_index_updates nm_ok_def
        intro: schema_objects_ok_insert)
qed

definition parent_nonzero :: "catalog_entry \<Rightarrow> bool" where
  "parent_nonzero e \<longleftrightarrow>
     (case namespace_of (catalog_entry_type e) of
        NS_Table \<Rightarrow> ent_parent e \<noteq> DATABASE_PARENT_ID
      | NS_Function \<Rightarrow> ent_parent e \<noteq> DATABASE_PARENT_ID
      | NS_Schema \<Rightarrow> ent_parent e = bd_oid DATABASE_DEFAULT
      | _ \<Rightarrow> ent_parent e = DATABASE_PARENT_ID)"

lemma load_entry_ok:
  assumes "nm_ok nm" "nm_lookup nm (entry_key e) = None" "parent_nonzero e"
  shows "\<exists>nm'. load_entry (i, e) nm = Ok nm' \<and> nm_ok nm' \<and> nm_lookup nm' = (nm_lookup nm)(entry_key e \<mapsto> i)"
  using assms load_table_or_view_ok [OF assms(1), of "get_meta e" i] load_function_ok [OF assms(1), of "get_meta e" i]
  by (cases e)
    (auto simp: parent_nonzero_def entry_key_def nm_lookup_def key_index_updates nm_ok_def DATABASE_DEFAULT_def
      builtin_oids DATABASE_PARENT_ID_def)

subsection \<open>All entries\<close>

lemma load_entries_ok:
  assumes "nm_ok nm" "\<And>i e. (i, e) \<in> set xs \<Longrightarrow> parent_nonzero e"
    "\<And>i e. (i, e) \<in> set xs \<Longrightarrow> nm_lookup nm (entry_key e) = None"
    "distinct (map (\<lambda>(i, e). entry_key e) xs)"
  shows "\<exists>nm'. ofold load_entry xs nm = Ok nm' \<and> nm_ok nm' \<and>
     nm_lookup nm' = nm_lookup nm ++ map_of (map (\<lambda>(i, e). (entry_key e, i)) xs)"
  using assms
proof (induction xs arbitrary: nm)
  case (Cons p xs)
  obtain i e where p: "p = (i, e)" by (cases p)
  have e: "nm_lookup nm (entry_key e) = None" "parent_nonzero e"
    using Cons.prems(2,3) [of i e] p by simp_all
  from load_entry_ok [OF Cons.prems(1) e, of i] obtain nm1 where
    nm1: "load_entry (i, e) nm = Ok nm1" "nm_ok nm1" "nm_lookup nm1 = (nm_lookup nm)(entry_key e \<mapsto> i)" by blast
  have fresh: "nm_lookup nm1 (entry_key e') = None" if "(i', e') \<in> set xs" for i' e'
    using Cons.prems(3) [of i' e'] Cons.prems(4) that p nm1(3) by force
  obtain nm' where nm': "ofold load_entry xs nm1 = Ok nm'" "nm_ok nm'"
    "nm_lookup nm' = nm_lookup nm1 ++ map_of (map (\<lambda>(i, e). (entry_key e, i)) xs)"
    using Cons.IH [OF nm1(2)] Cons.prems(2,4) fresh by auto
  have "entry_key e \<notin> dom (map_of (map (\<lambda>(i, e). (entry_key e, i)) xs))"
    using Cons.prems(4) p by (auto simp: dom_map_of_conv_image_fst image_image case_prod_unfold)
  then have "nm_lookup nm' = nm_lookup nm ++ map_of (map (\<lambda>(i, e). (entry_key e, i)) (p # xs))"
    by (simp add: nm'(3) nm1(3) p map_add_upd_left)
  moreover have "ofold load_entry (p # xs) nm = Ok nm'" using nm'(1) nm1(1) p by simp
  ultimately show ?case using nm'(2) by blast
qed simp

lemma hm_get_filter:
  assumes "hm_ok m"
  shows "hm_get (filter P m) k = (case hm_get m k of Some v \<Rightarrow> if P (k, v) then Some v else None | None \<Rightarrow> None)"
  using assms
proof (induction m)
  case (Cons p m)
  obtain k' v where p: "p = (k', v)" by (cases p)
  from Cons.prems p have "hm_ok m" "k' \<notin> fst ` set m" by (simp_all add: hm_ok_def)
  then have "map_of m k' = None" "map_of (filter P m) k' = None" by (auto simp: map_of_eq_None_iff)
  with Cons.IH [OF \<open>hm_ok m\<close>] p show ?case by (simp add: hm_get_def)
qed simp

lemma hm_ok_filter: "hm_ok m \<Longrightarrow> hm_ok (filter P m)"
  by (simp add: hm_ok_def distinct_map_filter)

lemma wf_parent_nonzero:
  assumes b: "builtin_ok bc" and wf: "wf_core bc c E L" and e: "E i = Some e"
  shows "parent_nonzero e"
proof -
  have "E 0 = None"
  proof (rule ccontr)
    assume "E 0 \<noteq> None"
    moreover have "(0 :: oid) < FIRST_AVAILABLE_ID" by (simp add: builtin_oids)
    ultimately obtain x where "hm_get (bc_entries bc) 0 = Some x"
      using wf_coreD(2) [OF wf, of 0] by auto
    with builtin_okD(3) [OF b this] show False by simp
  qed
  with wf_core_id(4) [OF b wf e] show ?thesis
    by (cases e) (auto simp: parent_nonzero_def parent_ok_def DATABASE_PARENT_ID_def)
qed

lemma extended_entries:
  assumes b: "builtin_ok bc" and wf: "wf_state bc s"
  defines "user \<equiv> filter (\<lambda>(i, ent). \<not> ent_builtin ent) (st_entries s)"
  shows "hm_get (hm_extend user (bc_entries bc)) = ents s" "hm_ok (hm_extend user (bc_entries bc))"
proof -
  have bok: "hm_ok (bc_entries bc)" using b by (simp add: builtin_ok_def bc_wf_def)
  have sok: "hm_ok (st_entries s)" using wf by (simp add: wf_state_def maps_ok_def)
  have core: "wf_core bc (st_oid_counter s) (ents s) (lookup s)" using wf by (simp add: wf_state_def)
  show "hm_ok (hm_extend user (bc_entries bc))"
    by (simp add: user_def hm_ok_extend hm_ok_filter sok)
  show "hm_get (hm_extend user (bc_entries bc)) = ents s"
  proof
    fix i
    have user: "hm_get user i = (case ents s i of Some e \<Rightarrow> if \<not> ent_builtin e then Some e else None | None \<Rightarrow> None)"
      by (simp add: user_def hm_get_filter sok ents_def split: option.split)
    show "hm_get (hm_extend user (bc_entries bc)) i = ents s i"
    proof (cases "i < FIRST_AVAILABLE_ID")
      case True
      with wf_coreD(2) [OF core True] wf_core_builtin_iff [OF b core, of i] user show ?thesis
        by (auto simp: hm_get_extend [OF bok] map_add_def split: option.split)
    next
      case False
      then have "hm_get (bc_entries bc) i = None"
        using builtin_okD(1) [OF b, of i] by (cases "hm_get (bc_entries bc) i") auto
      with False wf_core_builtin_iff [OF b core, of i] user show ?thesis
        by (auto simp: hm_get_extend [OF bok] map_add_def split: option.split)
    qed
  qed
qed

definition builtin_maps :: "builtin_catalog \<Rightarrow> name_maps" where
  "builtin_maps bc = \<lparr>nm_database_names = hm_extend [] (bc_database_names bc), nm_tunnel_names = [],
     nm_credentials_names = [], nm_schema_names = hm_extend [] (bc_schema_names bc),
     nm_schema_objects = hm_extend [] (bc_schema_objects bc)\<rparr>"

lemma builtin_maps:
  assumes "builtin_ok bc"
  shows "nm_lookup (builtin_maps bc) = bc_lookup bc" "nm_ok (builtin_maps bc)"
proof -
  from assms have ok: "hm_ok (bc_database_names bc)" "hm_ok (bc_schema_names bc)"
    "schema_objects_ok (bc_schema_objects bc)" by (simp_all add: builtin_ok_def bc_wf_def)
  then have so: "hm_get (hm_extend [] (bc_schema_objects bc)) = hm_get (bc_schema_objects bc)"
    by (simp add: hm_get_extend schema_objects_ok_def)
  have "table_index (hm_extend [] (bc_schema_objects bc)) = table_index (bc_schema_objects bc)"
    "function_index (hm_extend [] (bc_schema_objects bc)) = function_index (bc_schema_objects bc)"
    by (auto simp: table_index_def function_index_def so fun_eq_iff)
  with ok show "nm_lookup (builtin_maps bc) = bc_lookup bc"
    by (simp add: nm_lookup_def builtin_maps_def bc_lookup_def hm_get_extend)
  show "nm_ok (builtin_maps bc)"
    using ok so by (auto simp: nm_ok_def builtin_maps_def hm_ok_extend schema_objects_ok_def)
qed

lemma builtin_lookup_below:
  assumes b: "builtin_ok bc" and "bc_lookup bc k = Some i"
  shows "i < FIRST_AVAILABLE_ID"
proof -
  from assms have "indexes (bc_lookup bc) (hm_get (bc_entries bc))" by (simp add: builtin_ok_def bc_wf_def)
  from indexesD [OF this assms(2)] builtin_okD(1) [OF b, of i] show ?thesis by blast
qed

lemma from_persisted_core:
  assumes b: "builtin_ok bc" and E: "hm_get (hm_extend es (bc_entries bc)) = E" "hm_ok (hm_extend es (bc_entries bc))"
    and core: "wf_core bc c E L" and user: "\<And>i e. (i, e) \<in> set es \<Longrightarrow> FIRST_AVAILABLE_ID \<le> i \<and> \<not> ent_builtin e"
    and p: "cs_entries (pc_state p) = es" "ex_oid_counter (pc_extra p) = c"
  shows "\<exists>s. from_persisted bc p = Ok s \<and> ents s = E \<and> lookup s = L \<and> st_oid_counter s = c \<and>
     st_version s = cs_version (pc_state p) \<and> st_deployment s = cs_deployment (pc_state p) \<and> maps_ok s"
proof -
  let ?xs = "filter (\<lambda>(i, ent). \<not> ent_builtin ent) (hm_extend es (bc_entries bc))"
  have xs: "(i, e) \<in> set ?xs \<longleftrightarrow> E i = Some e \<and> \<not> ent_builtin e" for i e
    using hm_get_eq_Some_iff [OF E(2), of i e] E(1) by auto
  have key: "L (entry_key e) = Some i" "FIRST_AVAILABLE_ID \<le> i" "parent_nonzero e" if "(i, e) \<in> set ?xs" for i e
    using that xs [of i e] indexes_complete [OF wf_coreD(5) [OF core], of i e]
      wf_core_builtin_iff [OF b core, of i e] wf_parent_nonzero [OF b core, of i e] by (auto simp: not_less)
  have fresh: "bc_lookup bc (entry_key e) = None" if "(i, e) \<in> set ?xs" for i e
  proof (rule ccontr)
    assume "bc_lookup bc (entry_key e) \<noteq> None"
    then obtain j where j: "bc_lookup bc (entry_key e) = Some j" by blast
    with builtin_lookup_below [OF b j] wf_coreD(6) [OF core, of j "entry_key e"] key [OF that] show False by simp
  qed
  have dist: "distinct (map (\<lambda>(i, e). entry_key e) ?xs)"
  proof -
    have "distinct (map fst (hm_extend es (bc_entries bc)))" using E(2) by (simp add: hm_ok_def)
    then have d: "distinct ?xs" "distinct (map fst ?xs)"
      by (auto simp: distinct_map_filter intro: distinct_filter dest: distinct_map [THEN iffD1])
    have "inj_on (\<lambda>(i, e). entry_key e) (set ?xs)"
    proof (rule inj_onI)
      fix p q assume pq: "p \<in> set ?xs" "q \<in> set ?xs" "(case p of (i, e) \<Rightarrow> entry_key e) = (case q of (i, e) \<Rightarrow> entry_key e)"
      obtain i e j e' where ij: "p = (i, e)" "q = (j, e')" by (cases p; cases q)
      with pq key(1) [of i e] key(1) [of j e'] have "i = j" by simp
      with ij pq(1,2) xs [of i e] xs [of j e'] show "p = q" by simp
    qed
    with d(1) show ?thesis by (simp only: distinct_map)
  qed
  from load_entries_ok [of "builtin_maps bc" ?xs] builtin_maps [OF b] key(3) fresh dist obtain nm where
    nm: "ofold load_entry ?xs (builtin_maps bc) = Ok nm" "nm_ok nm"
    "nm_lookup nm = bc_lookup bc ++ map_of (map (\<lambda>(i, e). (entry_key e, i)) ?xs)" by auto
  have look: "nm_lookup nm = L"
  proof
    fix k
    show "nm_lookup nm k = L k"
    proof (cases "map_of (map (\<lambda>(i, e). (entry_key e, i)) ?xs) k")
      case (Some i)
      then obtain e where "(i, e) \<in> set ?xs" "k = entry_key e" by (auto dest!: map_of_SomeD)
      with key(1) [of i e] Some nm(3) show ?thesis by (simp add: map_add_def)
    next
      case None
      have "L k = bc_lookup bc k"
      proof (cases "L k")
        case None
        with builtin_lookup_below [OF b, of k] wf_coreD(6) [OF core, of _ k] show ?thesis
          by (cases "bc_lookup bc k") auto
      next
        case (Some j)
        from indexesD [OF wf_coreD(5) [OF core] Some] obtain e where e: "E j = Some e" "entry_key e = k" by blast
        with \<open>map_of _ k = None\<close> xs [of j e] have "ent_builtin e"
          by (auto simp: map_of_eq_None_iff image_iff)
        then have "j < FIRST_AVAILABLE_ID" using wf_core_builtin_iff [OF b core e(1)] by simp
        with Some wf_coreD(6) [OF core this, of k] show ?thesis by simp
      qed
      with None nm(3) show ?thesis by (simp add: map_add_def)
    qed
  qed
  have "find (\<lambda>(i, ent). i < FIRST_AVAILABLE_ID \<or> ent_builtin ent) es = None"
    using user by (fastforce simp: find_None_iff)
  with nm p show ?thesis
    using look E by (auto simp: from_persisted_def Let_def builtin_maps_def [symmetric] nm_lookup_def lookup_def
        ents_def maps_ok_def nm_ok_def)
qed

lemma wf_no_temp:
  assumes "builtin_ok bc" "wf_state bc s"
  shows "\<not> (\<exists>(i, ent) \<in> set (st_entries s). ent_is_temp ent)"
proof -
  have ok: "hm_ok (st_entries s)" and core: "wf_core bc (st_oid_counter s) (ents s) (lookup s)"
    using assms(2) by (simp_all add: wf_state_def maps_ok_def)
  show ?thesis
    using wf_core_id(2) [OF assms(1) core] by (auto simp: ents_def hm_get_eq_Some_iff [OF ok])
qed

lemma persist_load:
  assumes b: "builtin_ok bc" and wf: "wf_state bc s"
  shows "\<exists>p s'. to_persisted s = Ok p \<and> from_persisted bc p = Ok s' \<and> state_equiv s s' \<and> wf_state bc s'"
proof -
  let ?es = "filter (\<lambda>(i, ent). \<not> ent_builtin ent) (st_entries s)"
  let ?p = "\<lparr>pc_state = \<lparr>cs_version = st_version s, cs_entries = ?es, cs_deployment = st_deployment s,
     cs_catalog_version = CURRENT_CATALOG_VERSION\<rparr>, pc_extra = \<lparr>ex_oid_counter = st_oid_counter s\<rparr>\<rparr>"
  have core: "wf_core bc (st_oid_counter s) (ents s) (lookup s)" and ok: "hm_ok (st_entries s)"
    using wf by (simp_all add: wf_state_def maps_ok_def)
  have user: "FIRST_AVAILABLE_ID \<le> i \<and> \<not> ent_builtin e" if "(i, e) \<in> set ?es" for i e
    using that wf_state_user [OF b wf, of i e] hm_get_eq_Some_iff [OF ok, of i e] by (auto simp: ents_def)
  from from_persisted_core [OF b extended_entries [OF b wf] core user, of ?p]
  obtain s' where s': "from_persisted bc ?p = Ok s'" "ents s' = ents s" "lookup s' = lookup s"
    "st_oid_counter s' = st_oid_counter s" "st_version s' = st_version s" "st_deployment s' = st_deployment s" "maps_ok s'"
    by auto
  have "to_persisted s = Ok ?p"
    using wf_no_temp [OF b wf] by (simp add: to_persisted_def)
  with s' core show ?thesis
    by (auto simp: state_equiv_def wf_state_def)
qed

subsection \<open>The initial catalog\<close>

definition initial_catalog :: persisted_catalog where
  "initial_catalog =
     \<lparr>pc_state = \<lparr>cs_version = 0, cs_entries = [], cs_deployment = \<lparr>dm_storage_size = 0\<rparr>,
        cs_catalog_version = CURRENT_CATALOG_VERSION\<rparr>,
      pc_extra = \<lparr>ex_oid_counter = FIRST_AVAILABLE_ID\<rparr>\<rparr>"

lemma wf_core_builtin:
  assumes b: "builtin_ok bc"
  shows "wf_core bc FIRST_AVAILABLE_ID (hm_get (bc_entries bc)) (bc_lookup bc)"
proof (rule wf_coreI)
  show "indexes (bc_lookup bc) (hm_get (bc_entries bc))" using b by (simp add: builtin_ok_def bc_wf_def)
  show "user_entry_ok (hm_get (bc_entries bc)) i e \<and> i < FIRST_AVAILABLE_ID"
    if "hm_get (bc_entries bc) i = Some e" "FIRST_AVAILABLE_ID \<le> i" for i e
    using builtin_okD(1) [OF b that(1)] that(2) by simp
qed simp_all

lemma initial_catalog_loads:
  assumes b: "builtin_ok bc"
  shows "\<exists>s. from_persisted bc initial_catalog = Ok s \<and> wf_state bc s \<and> st_oid_counter s = FIRST_AVAILABLE_ID"
proof -
  have ok: "hm_ok (bc_entries bc)" using b by (simp add: builtin_ok_def bc_wf_def)
  then have "hm_get (hm_extend [] (bc_entries bc)) = hm_get (bc_entries bc)" "hm_ok (hm_extend [] (bc_entries bc))"
    by (simp_all add: hm_get_extend hm_ok_extend)
  from from_persisted_core [OF b this wf_core_builtin [OF b], of initial_catalog] wf_core_builtin [OF b]
  show ?thesis by (auto simp: initial_catalog_def wf_state_def)
qed

end
