(* ===== verification/Object_Store.thy ===== *)
theory Object_Store
  imports Storage_Proto
begin

section \<open>The object store\<close>

text \<open>
  Paths of storage objects (\<open>crates/metastore/src/storage/mod.rs\<close>) and the interface of the
  \<open>object_store\<close> crate that the storage code calls. The store is a parameter: a record of
  operations on an abstract state \<open>'s\<close>, which may fail in ways of their own.

  \<open>store_ok\<close> states the documented behaviour through the contents of a state, a partial map from
  paths to bytes: a successful read returns the object, \<open>NotFound\<close> is reported for a missing
  object only, writes are atomic for a single object, and a rename moves an object. An operation
  that fails may or may not have had its effect, and a failed rename may have copied without
  deleting. \<open>store_reliable\<close> adds that no operation fails without a reason.
\<close>

type_synonym object_path = string

record 's object_store =
  os_get :: "object_path \<Rightarrow> 's \<Rightarrow> (object_store_error, bytes) outcome"
  os_head :: "object_path \<Rightarrow> 's \<Rightarrow> (object_store_error, unit) outcome"
  os_put :: "object_path \<Rightarrow> bytes \<Rightarrow> 's \<Rightarrow> 's \<times> (object_store_error, unit) outcome"
  os_rename :: "object_path \<Rightarrow> object_path \<Rightarrow> 's \<Rightarrow> 's \<times> (object_store_error, unit) outcome"
  os_rename_if_not_exists ::
    "object_path \<Rightarrow> object_path \<Rightarrow> 's \<Rightarrow> 's \<times> (object_store_error, unit) outcome"

type_synonym 's contents = "'s \<Rightarrow> object_path \<rightharpoonup> bytes"

subsection \<open>Paths\<close>

text \<open>A random UUID is drawn for each temporary path; it is the argument \<open>r\<close>.\<close>

definition tmp_path :: "externs \<Rightarrow> string \<Rightarrow> uuid \<Rightarrow> uuid \<Rightarrow> uuid \<Rightarrow> object_path" where
  "tmp_path X object_name db_id process_id r =
     ''databases/'' @ x_uuid_display X db_id @ ''/tmp/'' @ x_uuid_display X process_id @ ''/'' @
     object_name @ ''/'' @ x_uuid_display X r"

definition visible_path :: "externs \<Rightarrow> string \<Rightarrow> uuid \<Rightarrow> object_path" where
  "visible_path X object_name db_id =
     ''databases/'' @ x_uuid_display X db_id @ ''/visible/'' @ object_name"

definition versioned_object_name :: "string \<Rightarrow> u64 \<Rightarrow> string" where
  "versioned_object_name name version = name @ ''.'' @ dec_of_nat (unat version)"

definition LEASE_INFORMATION_OBJECT :: string where
  "LEASE_INFORMATION_OBJECT = ''lease''"

definition CATALOG_METADATA :: string where
  "CATALOG_METADATA = ''metadata''"

definition PERSISTENT_CATALOG_OBJECT :: "u64 \<Rightarrow> string" where
  "PERSISTENT_CATALOG_OBJECT version = versioned_object_name ''catalog'' version"

subsection \<open>Laws of the store\<close>

text \<open>What the state may be after a put and after a rename that report failure.\<close>

definition put_effect :: "object_path \<Rightarrow> bytes \<Rightarrow> (object_path \<rightharpoonup> bytes) \<Rightarrow> (object_path \<rightharpoonup> bytes) set" where
  "put_effect p b c = {c, c(p \<mapsto> b)}"

definition rename_effect ::
  "object_path \<Rightarrow> object_path \<Rightarrow> (object_path \<rightharpoonup> bytes) \<Rightarrow> (object_path \<rightharpoonup> bytes) set" where
  "rename_effect p q c =
     (case c p of None \<Rightarrow> {c} | Some b \<Rightarrow> {c, c(q \<mapsto> b), (c(q \<mapsto> b))(p := None)})"

definition store_ok :: "'s object_store \<Rightarrow> 's contents \<Rightarrow> bool" where
  "store_ok os c =
     ((\<forall>p s b. os_get os p s = Ok b \<longrightarrow> c s p = Some b) \<and>
      (\<forall>p s. \<not> is_panic (os_get os p s) \<and> \<not> is_panic (os_head os p s)) \<and>
      (\<forall>p s. os_head os p s = Ok () \<longrightarrow> c s p \<noteq> None) \<and>
      (\<forall>p s. os_head os p s = Err OS_NotFound \<longrightarrow> c s p = None) \<and>
      (\<forall>p b s s' r. os_put os p b s = (s', r) \<longrightarrow>
        \<not> is_panic r \<and> (is_ok r \<longrightarrow> c s' = (c s)(p \<mapsto> b)) \<and> c s' \<in> put_effect p b (c s)) \<and>
      (\<forall>p q s s' r. p \<noteq> q \<longrightarrow> os_rename os p q s = (s', r) \<longrightarrow>
        \<not> is_panic r \<and>
        (is_ok r \<longrightarrow> (\<exists>b. c s p = Some b \<and> c s' = (c s)(q \<mapsto> b, p := None))) \<and>
        c s' \<in> rename_effect p q (c s)) \<and>
      (\<forall>p q s s' r. p \<noteq> q \<longrightarrow> os_rename_if_not_exists os p q s = (s', r) \<longrightarrow>
        \<not> is_panic r \<and>
        (is_ok r \<longrightarrow> c s q = None \<and> (\<exists>b. c s p = Some b \<and> c s' = (c s)(q \<mapsto> b, p := None))) \<and>
        (r = Err OS_AlreadyExists \<longrightarrow> c s q \<noteq> None) \<and>
        (c s q = None \<longrightarrow> c s' \<in> rename_effect p q (c s)) \<and>
        (c s q \<noteq> None \<longrightarrow> c s' = c s)))"

definition store_reliable :: "'s object_store \<Rightarrow> 's contents \<Rightarrow> bool" where
  "store_reliable os c =
     (store_ok os c \<and>
      (\<forall>p s b. c s p = Some b \<longrightarrow> os_get os p s = Ok b \<and> os_head os p s = Ok ()) \<and>
      (\<forall>p s. c s p = None \<longrightarrow> os_get os p s = Err OS_NotFound \<and> os_head os p s = Err OS_NotFound) \<and>
      (\<forall>p b s. is_ok (snd (os_put os p b s))) \<and>
      (\<forall>p q s. p \<noteq> q \<longrightarrow> c s p \<noteq> None \<longrightarrow> is_ok (snd (os_rename os p q s))) \<and>
      (\<forall>p q s. p \<noteq> q \<longrightarrow> c s p \<noteq> None \<longrightarrow>
        snd (os_rename_if_not_exists os p q s) =
          (if c s q = None then Ok () else Err OS_AlreadyExists)))"

subsection \<open>Steps on the store\<close>

definition store_err :: "'s \<times> (object_store_error, 'a) outcome \<Rightarrow> 's \<times> 'a storage_result" where
  "store_err r = (fst r, omap_err SE_ObjectStore (snd r))"

lemma store_err_Ok [simp]: "store_err r = (s', Ok y) \<longleftrightarrow> r = (s', Ok y)"
  by (cases r; cases "snd r") (auto simp: store_err_def)

lemma fst_store_err [simp]: "fst (store_err r) = fst r"
  by (simp add: store_err_def)

text \<open>An invariant of a sequence of calls, whatever they return.\<close>

lemma sbind_inv:
  assumes "P (fst r)" and "\<And>x s. r = (s, Ok x) \<Longrightarrow> P (fst (f x s))"
  shows "P (fst (sbind r f))"
  using assms by (cases r; cases "snd r") auto

subsection \<open>Rules for the laws\<close>

lemma get_Ok: "store_ok os c \<Longrightarrow> os_get os p s = Ok b \<Longrightarrow> c s p = Some b"
  by (simp add: store_ok_def)

lemma get_not_panic: "store_ok os c \<Longrightarrow> \<not> is_panic (os_get os p s)"
  by (simp add: store_ok_def)

lemma head_Ok: "store_ok os c \<Longrightarrow> os_head os p s = Ok () \<Longrightarrow> c s p \<noteq> None"
  by (simp add: store_ok_def)

lemma head_NotFound: "store_ok os c \<Longrightarrow> os_head os p s = Err OS_NotFound \<Longrightarrow> c s p = None"
  by (simp add: store_ok_def)

lemma head_not_panic: "store_ok os c \<Longrightarrow> \<not> is_panic (os_head os p s)"
  by (simp add: store_ok_def)

lemma put_Ok: "store_ok os c \<Longrightarrow> os_put os p b s = (s', Ok u) \<Longrightarrow> c s' = (c s)(p \<mapsto> b)"
  unfolding store_ok_def by (metis is_ok.simps(1))

lemma put_frame:
  assumes "store_ok os c" and "q \<noteq> p"
  shows "c (fst (os_put os p b s)) q = c s q"
proof -
  have "c (fst (os_put os p b s)) \<in> put_effect p b (c s)"
    using assms(1) unfolding store_ok_def by (metis prod.collapse)
  with assms(2) show ?thesis by (auto simp: put_effect_def)
qed

lemma put_not_panic: "store_ok os c \<Longrightarrow> \<not> is_panic (snd (os_put os p b s))"
  unfolding store_ok_def by (metis prod.collapse)

lemma rename_Ok:
  assumes "store_ok os c" and "p \<noteq> q" and "os_rename os p q s = (s', Ok u)"
  obtains b where "c s p = Some b" and "c s' = (c s)(q \<mapsto> b, p := None)"
  using assms unfolding store_ok_def by (metis is_ok.simps(1))

lemma rename_effect:
  assumes "store_ok os c" and "p \<noteq> q"
  shows "c (fst (os_rename os p q s)) \<in> rename_effect p q (c s)"
  using assms unfolding store_ok_def by (metis prod.collapse)

lemma rename_frame:
  assumes "store_ok os c" and "p \<noteq> q" and "x \<noteq> p" and "x \<noteq> q"
  shows "c (fst (os_rename os p q s)) x = c s x"
  using rename_effect [OF assms(1,2), of s] assms(3,4)
  by (auto simp: rename_effect_def split: option.splits)

lemma rename_target:
  assumes "store_ok os c" and "p \<noteq> q"
  shows "c (fst (os_rename os p q s)) q \<in> {c s q, c s p} \<and>
    (c s p = None \<longrightarrow> c (fst (os_rename os p q s)) q = c s q)"
  using rename_effect [OF assms, of s] assms(2)
  by (auto simp: rename_effect_def split: option.splits)

lemma rename_not_panic: "store_ok os c \<Longrightarrow> p \<noteq> q \<Longrightarrow> \<not> is_panic (snd (os_rename os p q s))"
  unfolding store_ok_def by (metis prod.collapse)

subsection \<open>Distinct paths\<close>

lemma tmp_not_visible [simp]:
  "tmp_path X n db pid r \<noteq> visible_path X m db" "visible_path X m db \<noteq> tmp_path X n db pid r"
  by (auto simp: tmp_path_def visible_path_def)

lemma visible_path_inj [simp]: "visible_path X m db = visible_path X n db \<longleftrightarrow> m = n"
  by (simp add: visible_path_def)

lemma object_names_distinct [simp]:
  "LEASE_INFORMATION_OBJECT \<noteq> CATALOG_METADATA" "CATALOG_METADATA \<noteq> LEASE_INFORMATION_OBJECT"
  "LEASE_INFORMATION_OBJECT \<noteq> PERSISTENT_CATALOG_OBJECT v"
  "PERSISTENT_CATALOG_OBJECT v \<noteq> LEASE_INFORMATION_OBJECT"
  "CATALOG_METADATA \<noteq> PERSISTENT_CATALOG_OBJECT v"
  "PERSISTENT_CATALOG_OBJECT v \<noteq> CATALOG_METADATA"
  by (simp_all add: LEASE_INFORMATION_OBJECT_def CATALOG_METADATA_def PERSISTENT_CATALOG_OBJECT_def
      versioned_object_name_def)

lemma catalog_object_inj [simp]:
  "PERSISTENT_CATALOG_OBJECT v = PERSISTENT_CATALOG_OBJECT w \<longleftrightarrow> v = w"
  by (simp add: PERSISTENT_CATALOG_OBJECT_def versioned_object_name_def word_unat_eq_iff)

end
