(* ===== verification/Lease.thy ===== *)
theory Lease
  imports Object_Store
begin

section \<open>Leases\<close>

text \<open>
  Object storage based locking, \<open>crates/metastore/src/storage/lease.rs\<close>. The functions take the
  store \<open>os\<close>, the external functions \<open>X\<close>, the current time \<open>now\<close> where the code calls
  \<open>SystemTime::now()\<close> and the random UUIDs \<open>rs\<close> of temporary paths, one for each try of a write.
  Times are integers, in nanoseconds.

  A \<open>RemoteLease\<close> is the generation its background task holds, whether the lease is marked valid,
  and whether the task has ended; \<open>renew_tick\<close> is one turn of the task's loop on its timer.
\<close>

definition LEASE_DURATION :: system_time where
  "LEASE_DURATION = 30 * 1000000000"

definition LEASE_RENEW_INTERVAL :: system_time where
  "LEASE_RENEW_INTERVAL = 10 * 1000000000"

record lease_renewer =
  lr_db_id :: uuid
  lr_process_id :: uuid
  lr_visible_path :: object_path

record remote_lease =
  rl_renewer :: lease_renewer
  rl_generation :: u64
  rl_valid :: bool
  rl_exited :: bool

subsection \<open>Reading and writing the lease object\<close>

definition read_lease ::
  "'s object_store \<Rightarrow> externs \<Rightarrow> lease_renewer \<Rightarrow> u64 option \<Rightarrow> 's \<Rightarrow> lease_information storage_result" where
  "read_lease os X rn current_generation s =
     obind (omap_err SE_ObjectStore (os_get os (lr_visible_path rn) s)) (\<lambda>bs.
     obind (x_decode_lease X bs) (\<lambda>proto.
     obind (omap_err SE_ProtoConv (lease_information_try_from_proto X proto)) (\<lambda>lease.
     case current_generation of
       None \<Rightarrow> Ok lease
     | Some g \<Rightarrow>
         if li_generation lease \<noteq> g
         then Err (LeaseGenerationMismatch g (li_generation lease) (li_held_by lease))
         else Ok lease)))"

definition try_write_lease ::
  "'s object_store \<Rightarrow> externs \<Rightarrow> lease_renewer \<Rightarrow> uuid \<Rightarrow> lease_information \<Rightarrow> 's \<Rightarrow>
   's \<times> unit storage_result" where
  "try_write_lease os X rn r lease s =
     sbind (s, x_encode_lease X (lease_information_into_proto X lease)) (\<lambda>bs s.
     let tmp = tmp_path X LEASE_INFORMATION_OBJECT (lr_db_id rn) (lr_process_id rn) r in
     sbind (store_err (os_put os tmp bs s)) (\<lambda>_ s.
     store_err (os_rename os tmp (lr_visible_path rn) s)))"

fun str_contains :: "string \<Rightarrow> string \<Rightarrow> bool" where
  "str_contains [] p = (p = [])"
| "str_contains (c # s) p = (take (length p) (c # s) = p \<or> str_contains s p)"

fun rate_limited :: "storage_error \<Rightarrow> bool" where
  "rate_limited (SE_ObjectStore (OS_Generic store source)) = (store = ''GCS'' \<and> str_contains source ''429'')"
| "rate_limited _ = False"

text \<open>The loop \<open>for num_try in 1..=5\<close>, by the number of tries that are left.\<close>

fun write_lease_tries ::
  "'s object_store \<Rightarrow> externs \<Rightarrow> lease_renewer \<Rightarrow> (nat \<Rightarrow> uuid) \<Rightarrow> lease_information \<Rightarrow> nat \<Rightarrow> 's \<Rightarrow>
   's \<times> unit storage_result" where
  "write_lease_tries os X rn rs lease 0 s = (s, Err LeaseWriteError)"
| "write_lease_tries os X rn rs lease (Suc k) s =
     (case try_write_lease os X rn (rs k) lease s of
        (s, Err err) \<Rightarrow>
          if rate_limited err then write_lease_tries os X rn rs lease k s else (s, Err err)
      | (s, Ok u) \<Rightarrow> (s, Ok ())
      | (s, Panic msg) \<Rightarrow> (s, Panic msg))"

definition write_lease ::
  "'s object_store \<Rightarrow> externs \<Rightarrow> lease_renewer \<Rightarrow> (nat \<Rightarrow> uuid) \<Rightarrow> lease_information \<Rightarrow> 's \<Rightarrow>
   's \<times> unit storage_result" where
  "write_lease os X rn rs lease s = write_lease_tries os X rn rs lease 5 s"

subsection \<open>Acquire, renew and drop\<close>

definition locked_by :: "uuid \<Rightarrow> u64 \<Rightarrow> system_time \<Rightarrow> lease_information" where
  "locked_by process_id generation expires_at =
     \<lparr>li_state = Locked, li_generation = generation, li_expires_at = Some expires_at,
      li_held_by = Some process_id\<rparr>"

definition unlocked :: "u64 \<Rightarrow> lease_information" where
  "unlocked generation =
     \<lparr>li_state = Unlocked, li_generation = generation, li_expires_at = None, li_held_by = None\<rparr>"

text \<open>Arithmetic on \<open>SystemTime\<close> panics when the result cannot be represented.\<close>

definition time_add :: "system_time \<Rightarrow> int \<Rightarrow> system_time storage_result" where
  "time_add t d =
     (if time_ok (t + d) then Ok (t + d) else Panic ''overflow when adding duration to instant'')"

definition time_sub :: "system_time \<Rightarrow> int \<Rightarrow> system_time storage_result" where
  "time_sub t d =
     (if time_ok (t - d) then Ok (t - d) else Panic ''overflow when subtracting duration from instant'')"

definition write_next ::
  "'s object_store \<Rightarrow> externs \<Rightarrow> lease_renewer \<Rightarrow> system_time \<Rightarrow> (nat \<Rightarrow> uuid) \<Rightarrow> lease_information \<Rightarrow> 's \<Rightarrow>
   's \<times> u64 storage_result" where
  "write_next os X rn now rs lease s =
     (let generation = li_generation lease + 1 in
      sbind (s, time_add now LEASE_DURATION) (\<lambda>expires_at s.
      sbind (write_lease os X rn rs (locked_by (lr_process_id rn) generation expires_at) s) (\<lambda>_ s.
      (s, Ok generation))))"

definition acquire_lease ::
  "'s object_store \<Rightarrow> externs \<Rightarrow> lease_renewer \<Rightarrow> system_time \<Rightarrow> (nat \<Rightarrow> uuid) \<Rightarrow> 's \<Rightarrow>
   's \<times> u64 storage_result" where
  "acquire_lease os X rn now rs s =
     sbind (s, read_lease os X rn None s) (\<lambda>lease s.
     if li_state lease = Locked then
       (case li_held_by lease of
          None \<Rightarrow> (s, Err (MissingLeaseField (lr_db_id rn) ''held_by''))
        | Some held_by \<Rightarrow>
       (case li_expires_at lease of
          None \<Rightarrow> (s, Err (MissingLeaseField (lr_db_id rn) ''expires_at''))
        | Some expires_at \<Rightarrow>
            if expires_at > now \<and> held_by \<noteq> lr_process_id rn
            then (s, Err (LeaseHeldByOtherProcess (lr_db_id rn) held_by (lr_process_id rn)))
            else
              sbind (s, time_sub expires_at LEASE_DURATION) (\<lambda>t s.
              sbind (s, time_add t (LEASE_RENEW_INTERVAL div 2)) (\<lambda>t s.
              if t > now then (s, Ok (li_generation lease))
              else write_next os X rn now rs lease s))))
     else write_next os X rn now rs lease s)"

definition renew_lease ::
  "'s object_store \<Rightarrow> externs \<Rightarrow> lease_renewer \<Rightarrow> system_time \<Rightarrow> (nat \<Rightarrow> uuid) \<Rightarrow> u64 \<Rightarrow> 's \<Rightarrow>
   's \<times> u64 storage_result" where
  "renew_lease os X rn now rs current_generation s =
     sbind (s, read_lease os X rn (Some current_generation) s) (\<lambda>lease s.
     case li_expires_at lease of
       None \<Rightarrow> (s, Err (MissingLeaseField (lr_db_id rn) ''expires_at''))
     | Some expires_at \<Rightarrow>
         if now > expires_at then (s, Err (LeaseExpired (lr_db_id rn) now expires_at))
         else write_next os X rn now rs lease s)"

definition renewer_drop_lease ::
  "'s object_store \<Rightarrow> externs \<Rightarrow> lease_renewer \<Rightarrow> (nat \<Rightarrow> uuid) \<Rightarrow> u64 \<Rightarrow> 's \<Rightarrow> 's \<times> unit storage_result" where
  "renewer_drop_lease os X rn rs current_generation s =
     sbind (s, read_lease os X rn (Some current_generation) s) (\<lambda>lease s.
     write_lease os X rn rs (unlocked (li_generation lease + 1)) s)"

subsection \<open>The leaser and its leases\<close>

definition leaser_initialize ::
  "'s object_store \<Rightarrow> externs \<Rightarrow> uuid \<Rightarrow> uuid \<Rightarrow> uuid \<Rightarrow> 's \<Rightarrow> 's \<times> unit storage_result" where
  "leaser_initialize os X process_id r db_id s =
     sbind (s, x_encode_lease X (lease_information_into_proto X (unlocked 0))) (\<lambda>bs s.
     let tmp = tmp_path X LEASE_INFORMATION_OBJECT db_id process_id r in
     sbind (store_err (os_put os tmp bs s)) (\<lambda>_ s.
     case os_rename_if_not_exists os tmp (visible_path X LEASE_INFORMATION_OBJECT db_id) s of
       (s, Ok u) \<Rightarrow> (s, Ok ())
     | (s, Err OS_AlreadyExists) \<Rightarrow> (s, Ok ())
     | (s, Err e) \<Rightarrow> (s, Err (SE_ObjectStore e))
     | (s, Panic msg) \<Rightarrow> (s, Panic msg)))"

definition renewer_of :: "externs \<Rightarrow> uuid \<Rightarrow> uuid \<Rightarrow> lease_renewer" where
  "renewer_of X process_id db_id =
     \<lparr>lr_db_id = db_id, lr_process_id = process_id,
      lr_visible_path = visible_path X LEASE_INFORMATION_OBJECT db_id\<rparr>"

definition acquire ::
  "'s object_store \<Rightarrow> externs \<Rightarrow> uuid \<Rightarrow> system_time \<Rightarrow> (nat \<Rightarrow> uuid) \<Rightarrow> uuid \<Rightarrow> 's \<Rightarrow>
   's \<times> remote_lease storage_result" where
  "acquire os X process_id now rs db_id s =
     (let rn = renewer_of X process_id db_id in
      sbind (acquire_lease os X rn now rs s) (\<lambda>start_generation s.
      (s, Ok \<lparr>rl_renewer = rn, rl_generation = start_generation, rl_valid = True, rl_exited = False\<rparr>)))"

definition is_valid :: "remote_lease \<Rightarrow> bool" where
  "is_valid lease = rl_valid lease"

definition renew_tick ::
  "'s object_store \<Rightarrow> externs \<Rightarrow> system_time \<Rightarrow> (nat \<Rightarrow> uuid) \<Rightarrow> remote_lease \<Rightarrow> 's \<Rightarrow> 's \<times> remote_lease" where
  "renew_tick os X now rs lease s =
     (if rl_exited lease then (s, lease)
      else case renew_lease os X (rl_renewer lease) now rs (rl_generation lease) s of
        (s, Ok new_generation) \<Rightarrow> (s, lease\<lparr>rl_generation := new_generation\<rparr>)
      | (s, Err e) \<Rightarrow> (s, lease\<lparr>rl_valid := False, rl_exited := True\<rparr>)
      | (s, Panic msg) \<Rightarrow> (s, lease\<lparr>rl_exited := True\<rparr>))"

definition drop_lease ::
  "'s object_store \<Rightarrow> externs \<Rightarrow> (nat \<Rightarrow> uuid) \<Rightarrow> remote_lease \<Rightarrow> 's \<Rightarrow> 's \<times> unit storage_result" where
  "drop_lease os X rs lease s =
     (if \<not> is_valid lease then (s, Err UnableToDropLeaseInInvalidState)
      else if rl_exited lease then (s, Err LeaseRenewerExited)
      else renewer_drop_lease os X (rl_renewer lease) rs (rl_generation lease) s)"

subsection \<open>What the operations do to the stored lease\<close>

definition stored_lease :: "externs \<Rightarrow> 's contents \<Rightarrow> uuid \<Rightarrow> 's \<Rightarrow> lease_information option" where
  "stored_lease X c db s =
     (case c s (visible_path X LEASE_INFORMATION_OBJECT db) of
        None \<Rightarrow> None
      | Some bs \<Rightarrow>
          (case obind (x_decode_lease X bs)
             (\<lambda>p. omap_err SE_ProtoConv (lease_information_try_from_proto X p)) of
             Ok lease \<Rightarrow> Some lease
           | _ \<Rightarrow> None))"

lemma renewer_of_simps [simp]:
  "lr_db_id (renewer_of X pid db) = db"
  "lr_process_id (renewer_of X pid db) = pid"
  "lr_visible_path (renewer_of X pid db) = visible_path X LEASE_INFORMATION_OBJECT db"
  by (simp_all add: renewer_of_def)

lemma lease_bytes:
  assumes "externs_ok X" and "wire_lease lease"
  obtains bs where "x_encode_lease X (lease_information_into_proto X lease) = Ok bs"
    and "obind (x_decode_lease X bs) (\<lambda>p. omap_err SE_ProtoConv (lease_information_try_from_proto X p)) = Ok lease"
proof -
  obtain bs where "x_encode_lease X (lease_information_into_proto X lease) = Ok bs"
    "x_decode_lease X bs = Ok (lease_information_into_proto X lease)"
    using assms(1) unfolding externs_ok_def by blast
  moreover have "lease_information_try_from_proto X (lease_information_into_proto X lease) = Ok lease"
    using lease_codec.decodes assms by blast
  ultimately show ?thesis using that by simp
qed

lemma read_lease_Ok:
  assumes "store_ok os c" and "read_lease os X (renewer_of X pid db) g s = Ok lease"
  shows "stored_lease X c db s = Some lease" and "g = Some h \<Longrightarrow> li_generation lease = h"
  using assms by (auto simp: read_lease_def stored_lease_def dest!: get_Ok split: option.splits if_splits)

text \<open>The effect of a write that may fail: the lease is as before or the new one, and the new one if
  the write reports success. Objects other than the lease and its temporary objects stay as they are.\<close>

definition lease_object :: "externs \<Rightarrow> uuid \<Rightarrow> uuid \<Rightarrow> object_path \<Rightarrow> bool" where
  "lease_object X db pid q =
     (q = visible_path X LEASE_INFORMATION_OBJECT db \<or>
      (\<exists>r. q = tmp_path X LEASE_INFORMATION_OBJECT db pid r))"

definition lease_written ::
  "externs \<Rightarrow> 's contents \<Rightarrow> uuid \<Rightarrow> uuid \<Rightarrow> lease_information \<Rightarrow> 's \<Rightarrow> 's \<times> 'a storage_result \<Rightarrow>
   bool" where
  "lease_written X c db pid lease s r =
     ((stored_lease X c db (fst r) = stored_lease X c db s \<or> stored_lease X c db (fst r) = Some lease) \<and>
      (is_ok (snd r) \<longrightarrow> stored_lease X c db (fst r) = Some lease) \<and>
      (\<forall>q. \<not> lease_object X db pid q \<longrightarrow> c (fst r) q = c s q))"

lemma stored_lease_cong:
  "c s' (visible_path X LEASE_INFORMATION_OBJECT db) = c s (visible_path X LEASE_INFORMATION_OBJECT db) \<Longrightarrow>
   stored_lease X c db s' = stored_lease X c db s"
  by (simp add: stored_lease_def)

lemma try_write_lease_written:
  assumes os: "store_ok os c" and X: "externs_ok X" and lease: "wire_lease lease"
  shows "lease_written X c db pid lease s (try_write_lease os X (renewer_of X pid db) r lease s)"
proof -
  let ?tmp = "tmp_path X LEASE_INFORMATION_OBJECT db pid r"
  let ?vis = "visible_path X LEASE_INFORMATION_OBJECT db"
  obtain bs where enc: "x_encode_lease X (lease_information_into_proto X lease) = Ok bs"
    and dec: "obind (x_decode_lease X bs) (\<lambda>p. omap_err SE_ProtoConv (lease_information_try_from_proto X p)) = Ok lease"
    using lease_bytes [OF X lease] .
  obtain s1 r1 where put: "os_put os ?tmp bs s = (s1, r1)" by fastforce
  have put_frame: "c s1 q = c s q" if "q \<noteq> ?tmp" for q
    using put_frame [OF os that, of bs s] put by simp
  show ?thesis
  proof (cases r1)
    case (Ok u)
    obtain s2 r2 where ren: "os_rename os ?tmp ?vis s1 = (s2, r2)" by fastforce
    have tmp: "c s1 ?tmp = Some bs" using put_Ok [OF os] put Ok by simp
    have frame: "c s2 q = c s1 q" if "q \<noteq> ?tmp" "q \<noteq> ?vis" for q
      using rename_frame [OF os, of ?tmp ?vis q s1] ren that by simp
    have target: "c s2 ?vis = c s1 ?vis \<or> c s2 ?vis = Some bs"
      using rename_target [OF os, of ?tmp ?vis s1] ren tmp by auto
    have moved: "c s2 ?vis = Some bs" if "is_ok r2"
      using that ren tmp by (auto simp: is_ok_iff elim!: rename_Ok [OF os, rotated])
    have "\<not> is_panic r2" using rename_not_panic [OF os, of ?tmp ?vis s1] ren by simp
    moreover have "try_write_lease os X (renewer_of X pid db) r lease s = (s2, omap_err SE_ObjectStore r2)"
      using enc put ren Ok by (simp add: try_write_lease_def Let_def store_err_def)
    ultimately show ?thesis
      using frame target moved put_frame dec stored_lease_cong [of c s2 X db s]
      by (cases r2) (auto simp: lease_written_def lease_object_def stored_lease_def)
  next
    case (Err e)
    then have "try_write_lease os X (renewer_of X pid db) r lease s = (s1, Err (SE_ObjectStore e))"
      using enc put by (simp add: try_write_lease_def Let_def store_err_def)
    then show ?thesis using put_frame stored_lease_cong [of c s1 X db s]
      by (auto simp: lease_written_def lease_object_def)
  next
    case (Panic m)
    then show ?thesis using put_not_panic [OF os, of ?tmp bs s] put by simp
  qed
qed

lemma lease_written_trans:
  assumes "lease_written X c db pid lease s (s1, Err e)" and "lease_written X c db pid lease s1 r"
  shows "lease_written X c db pid lease s r"
  using assms unfolding lease_written_def by auto

lemma write_lease_tries_written:
  assumes "store_ok os c" and "externs_ok X" and "wire_lease lease"
  shows "lease_written X c db pid lease s (write_lease_tries os X (renewer_of X pid db) rs lease k s)"
proof (induction k arbitrary: s)
  case 0
  then show ?case by (simp add: lease_written_def)
next
  case (Suc k)
  obtain s1 r1 where t: "try_write_lease os X (renewer_of X pid db) (rs k) lease s = (s1, r1)" by fastforce
  have w: "lease_written X c db pid lease s (s1, r1)"
    using try_write_lease_written [OF assms, of db pid s "rs k"] t by simp
  show ?case
  proof (cases r1)
    case (Err e)
    with w t Suc show ?thesis by (auto intro: lease_written_trans)
  qed (use w t in \<open>auto simp: lease_written_def\<close>)
qed

lemmas write_lease_written = write_lease_tries_written [where k = 5, folded write_lease_def]

subsection \<open>The operations\<close>

definition can_acquire :: "uuid \<Rightarrow> system_time \<Rightarrow> lease_information \<Rightarrow> bool" where
  "can_acquire pid now lease =
     (li_state lease = Unlocked \<or>
      (\<exists>e h. li_expires_at lease = Some e \<and> li_held_by lease = Some h \<and> (e \<le> now \<or> h = pid)))"

lemma wire_locked_by [simp]: "wire_lease (locked_by pid g e) \<longleftrightarrow> length pid = 16 \<and> time_ok e"
  by (simp add: wire_lease_def locked_by_def)

lemma wire_unlocked [simp]: "wire_lease (unlocked g)"
  by (simp add: wire_lease_def unlocked_def)

lemma locked_by_simps [simp]:
  "li_state (locked_by pid g e) = Locked" "li_generation (locked_by pid g e) = g"
  "li_expires_at (locked_by pid g e) = Some e" "li_held_by (locked_by pid g e) = Some pid"
  by (simp_all add: locked_by_def)

lemma unlocked_simps [simp]:
  "li_state (unlocked g) = Unlocked" "li_generation (unlocked g) = g"
  "li_expires_at (unlocked g) = None" "li_held_by (unlocked g) = None"
  by (simp_all add: unlocked_def)

lemma write_next_effect:
  assumes "store_ok os c" and "externs_ok X" and "length pid = 16"
    and "write_next os X (renewer_of X pid db) now rs lease s = (s', r)"
  shows "lease_written X c db pid (locked_by pid (li_generation lease + 1) (now + LEASE_DURATION)) s (s', r)"
    and "r = Ok g \<Longrightarrow> g = li_generation lease + 1"
proof -
  consider (ok) "time_ok (now + LEASE_DURATION)" | (overflow) "s' = s" "is_panic r"
    using assms(4) by (auto simp: write_next_def Let_def time_add_def split: if_splits)
  then have "lease_written X c db pid (locked_by pid (li_generation lease + 1) (now + LEASE_DURATION)) s (s', r) \<and>
    (\<forall>g. r = Ok g \<longrightarrow> g = li_generation lease + 1)"
  proof cases
    case ok
    obtain s1 r1 where w: "write_lease os X (renewer_of X pid db) rs
        (locked_by pid (li_generation lease + 1) (now + LEASE_DURATION)) s = (s1, r1)" by fastforce
    have "lease_written X c db pid (locked_by pid (li_generation lease + 1) (now + LEASE_DURATION)) s (s1, r1)"
      using write_lease_written [OF assms(1,2), of "locked_by pid (li_generation lease + 1) (now + LEASE_DURATION)"]
        assms(3) ok w by (metis wire_locked_by)
    with w ok assms(4) show ?thesis
      by (cases r1) (auto simp: write_next_def Let_def lease_written_def time_add_def)
  next
    case overflow
    then show ?thesis by (cases r) (auto simp: lease_written_def)
  qed
  then show "lease_written X c db pid (locked_by pid (li_generation lease + 1) (now + LEASE_DURATION)) s (s', r)"
    and "r = Ok g \<Longrightarrow> g = li_generation lease + 1" by blast+
qed

lemma acquire_lease_effect:
  assumes "store_ok os c" and "externs_ok X" and "length pid = 16"
    and acq: "acquire_lease os X (renewer_of X pid db) now rs s = (s', r)"
  shows "(s' = s \<or> (\<exists>lease. stored_lease X c db s = Some lease \<and> can_acquire pid now lease \<and>
      lease_written X c db pid (locked_by pid (li_generation lease + 1) (now + LEASE_DURATION)) s (s', r))) \<and>
    (\<forall>g. r = Ok g \<longrightarrow> (\<exists>lease. stored_lease X c db s' = Some lease \<and> li_state lease = Locked \<and>
      li_held_by lease = Some pid \<and> li_generation lease = g))"
proof (cases "read_lease os X (renewer_of X pid db) None s")
  case read: (Ok lease)
  note stored = read_lease_Ok(1) [OF assms(1) read]
  show ?thesis
  proof (cases "can_acquire pid now lease \<and> write_next os X (renewer_of X pid db) now rs lease s = (s', r)")
    case True
    note eff = write_next_effect [OF assms(1-3) conjunct2 [OF True]]
    have "stored_lease X c db s' = Some (locked_by pid (li_generation lease + 1) (now + LEASE_DURATION))"
      if "r = Ok g" for g using eff(1) that by (auto simp: lease_written_def)
    with stored True eff show ?thesis by auto
  next
    case False
    then have "s' = s" and "\<forall>g. r = Ok g \<longrightarrow> li_state lease = Locked \<and> li_held_by lease = Some pid \<and>
        li_generation lease = g"
      using acq read
      by (cases "li_state lease";
          auto simp: acquire_lease_def can_acquire_def time_add_def time_sub_def
            LEASE_DURATION_def LEASE_RENEW_INTERVAL_def
            split: if_splits option.splits)+
    with stored show ?thesis by auto
  qed
qed (use acq in \<open>auto simp: acquire_lease_def\<close>)

lemma renew_lease_effect:
  assumes "store_ok os c" and "externs_ok X" and "length pid = 16"
    and renew: "renew_lease os X (renewer_of X pid db) now rs g s = (s', r)"
  shows "(s' = s \<and> \<not> is_ok r) \<or> (\<exists>lease. stored_lease X c db s = Some lease \<and> li_generation lease = g \<and>
      lease_written X c db pid (locked_by pid (g + 1) (now + LEASE_DURATION)) s (s', r) \<and>
      (\<forall>h. r = Ok h \<longrightarrow> h = g + 1))"
proof (cases "read_lease os X (renewer_of X pid db) (Some g) s")
  case read: (Ok lease)
  note stored = read_lease_Ok [OF assms(1) read]
  show ?thesis
    using renew read stored write_next_effect [OF assms(1-3), of db now rs lease s s' r]
    by (auto simp: renew_lease_def split: option.splits if_splits)
qed (use renew in \<open>auto simp: renew_lease_def\<close>)

lemma renewer_drop_lease_effect:
  assumes "store_ok os c" and "externs_ok X"
    and drop: "renewer_drop_lease os X (renewer_of X pid db) rs g s = (s', r)"
  shows "(s' = s \<and> \<not> is_ok r) \<or> (\<exists>lease. stored_lease X c db s = Some lease \<and> li_generation lease = g \<and>
      lease_written X c db pid (unlocked (g + 1)) s (s', r))"
proof (cases "read_lease os X (renewer_of X pid db) (Some g) s")
  case read: (Ok lease)
  note stored = read_lease_Ok [OF assms(1) read]
  show ?thesis
    using drop read stored write_lease_written [OF assms(1,2), of "unlocked (g + 1)" db pid s rs]
    by (auto simp: renewer_drop_lease_def)
qed (use drop in \<open>auto simp: renewer_drop_lease_def\<close>)

end
