(* ===== verification/Storage.thy ===== *)
theory Storage
  imports Lease Builtins
begin

section \<open>Catalog storage\<close>

text \<open>
  Persistent storage of database catalogs, \<open>crates/metastore/src/storage/persist.rs\<close>. What a call
  takes from its surroundings is in the record \<open>io\<close>: the time at which it asks for the lease, the
  random UUIDs of its temporary paths, and for each point where it awaits the store the turns that
  the background task of its lease takes there. While a write is running, the state is the store
  together with that lease.
\<close>

record io =
  io_now :: system_time
  io_acquire_rs :: "nat \<Rightarrow> uuid"
  io_initialize_r :: uuid
  io_catalog_r :: uuid
  io_metadata_r :: uuid
  io_drop_rs :: "nat \<Rightarrow> uuid"
  io_ticks :: "nat \<Rightarrow> (system_time \<times> (nat \<Rightarrow> uuid)) list"

fun run_ticks ::
  "'s object_store \<Rightarrow> externs \<Rightarrow> (system_time \<times> (nat \<Rightarrow> uuid)) list \<Rightarrow> 's \<times> remote_lease \<Rightarrow>
   's \<times> remote_lease" where
  "run_ticks os X [] (s, lease) = (s, lease)"
| "run_ticks os X ((now, rs) # ts) (s, lease) = run_ticks os X ts (renew_tick os X now rs lease s)"

definition on_store ::
  "('s \<Rightarrow> 's \<times> (object_store_error, unit) outcome) \<Rightarrow> 's \<times> 'l \<Rightarrow> ('s \<times> 'l) \<times> unit storage_result" where
  "on_store f sl = (case store_err (f (fst sl)) of (s, r) \<Rightarrow> ((s, snd sl), r))"

subsection \<open>Reading\<close>

definition read_metadata ::
  "'s object_store \<Rightarrow> externs \<Rightarrow> uuid \<Rightarrow> 's \<Rightarrow> catalog_metadata storage_result" where
  "read_metadata os X db_id s =
     obind (omap_err SE_ObjectStore (os_get os (visible_path X CATALOG_METADATA db_id) s)) (\<lambda>bs.
     obind (x_decode_metadata X bs) (\<lambda>proto.
     omap_err SE_ProtoConv (catalog_metadata_try_from_proto X proto)))"

definition latest_version :: "'s object_store \<Rightarrow> externs \<Rightarrow> uuid \<Rightarrow> 's \<Rightarrow> u64 storage_result" where
  "latest_version os X db_id s =
     obind (read_metadata os X db_id s) (\<lambda>metadata. Ok (cm_latest_version metadata))"

definition read_catalog ::
  "'s object_store \<Rightarrow> externs \<Rightarrow> uuid \<Rightarrow> 's \<Rightarrow> persisted_catalog storage_result" where
  "read_catalog os X db_id s =
     obind (read_metadata os X db_id s) (\<lambda>metadata.
     obind (omap_err SE_ObjectStore (os_get os
       (visible_path X (PERSISTENT_CATALOG_OBJECT (cm_latest_version metadata)) db_id) s)) (\<lambda>bs.
     obind (x_decode_catalog X bs) (\<lambda>proto.
     omap_err SE_ProtoConv (persisted_catalog_try_from_proto X proto))))"

subsection \<open>Writing\<close>

text \<open>The body of \<open>write_catalog_inner\<close> in three parts: the check of the version, the writes to
  temporary paths, and the moves that make the new catalog visible.\<close>

definition await_store ::
  "'s object_store \<Rightarrow> externs \<Rightarrow> io \<Rightarrow> nat \<Rightarrow> 's \<times> remote_lease \<Rightarrow> 's \<times> remote_lease" where
  "await_store os X io k sl = run_ticks os X (io_ticks io k) sl"

definition move_objects ::
  "'s object_store \<Rightarrow> externs \<Rightarrow> io \<Rightarrow> uuid \<Rightarrow> object_path \<Rightarrow> object_path \<Rightarrow> string \<Rightarrow> 's \<times> remote_lease \<Rightarrow>
   ('s \<times> remote_lease) \<times> unit storage_result" where
  "move_objects os X io db_id tmp_catalog_path tmp_metadata_path catalog_obj sl =
     sbind (on_store (os_rename os tmp_catalog_path (visible_path X catalog_obj db_id))
       (await_store os X io 3 sl)) (\<lambda>_ sl.
     let sl = await_store os X io 4 sl in
     if \<not> is_valid (snd sl) then (sl, Err (LeaseNotValid db_id))
     else
       on_store (os_rename os tmp_metadata_path (visible_path X CATALOG_METADATA db_id))
         (await_store os X io 5 sl))"

definition write_objects ::
  "'s object_store \<Rightarrow> externs \<Rightarrow> uuid \<Rightarrow> io \<Rightarrow> uuid \<Rightarrow> persisted_catalog \<Rightarrow> 's \<times> remote_lease \<Rightarrow>
   ('s \<times> remote_lease) \<times> unit storage_result" where
  "write_objects os X process_id io db_id catalog sl =
     (let metadata = \<lparr>cm_latest_version = cs_version (pc_state catalog), cm_last_written_by = process_id\<rparr>;
          catalog_obj = PERSISTENT_CATALOG_OBJECT (cs_version (pc_state catalog));
          tmp_catalog_path = tmp_path X catalog_obj db_id process_id (io_catalog_r io);
          tmp_metadata_path = tmp_path X CATALOG_METADATA db_id process_id (io_metadata_r io) in
      sbind (sl, omap_err SE_ProtoConv (persisted_catalog_into_proto catalog)) (\<lambda>proto sl.
      sbind (sl, x_encode_catalog X proto) (\<lambda>bs sl.
      sbind (on_store (os_put os tmp_catalog_path bs) (await_store os X io 1 sl)) (\<lambda>_ sl.
      sbind (sl, x_encode_metadata X (catalog_metadata_into_proto metadata)) (\<lambda>bs sl.
      sbind (on_store (os_put os tmp_metadata_path bs) (await_store os X io 2 sl)) (\<lambda>_ sl.
      move_objects os X io db_id tmp_catalog_path tmp_metadata_path catalog_obj sl))))))"

definition write_catalog_inner ::
  "'s object_store \<Rightarrow> externs \<Rightarrow> uuid \<Rightarrow> io \<Rightarrow> uuid \<Rightarrow> u64 \<Rightarrow> persisted_catalog \<Rightarrow> 's \<times> remote_lease \<Rightarrow>
   ('s \<times> remote_lease) \<times> unit storage_result" where
  "write_catalog_inner os X process_id io db_id old_version catalog sl =
     (let sl = await_store os X io 0 sl in
      sbind (sl, read_metadata os X db_id (fst sl)) (\<lambda>metadata sl.
      if cm_latest_version metadata \<noteq> old_version
      then (sl, Err (AttemptedOutOfDataCatalogWrite (cm_latest_version metadata) old_version))
      else write_objects os X process_id io db_id catalog sl))"

definition write_catalog ::
  "'s object_store \<Rightarrow> externs \<Rightarrow> uuid \<Rightarrow> io \<Rightarrow> uuid \<Rightarrow> u64 \<Rightarrow> persisted_catalog \<Rightarrow> 's \<Rightarrow>
   's \<times> unit storage_result" where
  "write_catalog os X process_id io db_id old_version catalog s =
     sbind (acquire os X process_id (io_now io) (io_acquire_rs io) db_id s) (\<lambda>lease s.
     case write_catalog_inner os X process_id io db_id old_version catalog (s, lease) of
       ((s, lease), Err e) \<Rightarrow> (fst (drop_lease os X (io_drop_rs io) lease s), Err e)
     | ((s, lease), Ok u) \<Rightarrow> drop_lease os X (io_drop_rs io) lease s
     | ((s, lease), Panic msg) \<Rightarrow> (s, Panic msg))"

subsection \<open>Initialization\<close>

definition first_catalog :: persisted_catalog where
  "first_catalog =
     \<lparr>pc_state = \<lparr>cs_version = 0, cs_entries = [], cs_deployment = \<lparr>dm_storage_size = 0\<rparr>,
        cs_catalog_version = CURRENT_CATALOG_VERSION\<rparr>,
      pc_extra = \<lparr>ex_oid_counter = FIRST_AVAILABLE_ID\<rparr>\<rparr>"

definition initialize_new ::
  "'s object_store \<Rightarrow> externs \<Rightarrow> uuid \<Rightarrow> io \<Rightarrow> uuid \<Rightarrow> 's \<Rightarrow> 's \<times> unit storage_result" where
  "initialize_new os X process_id io db_id s =
     sbind (s, omap_err SE_ProtoConv (persisted_catalog_into_proto first_catalog)) (\<lambda>proto s.
     sbind (s, x_encode_catalog X proto) (\<lambda>bs s.
     sbind (store_err (os_put os (visible_path X (PERSISTENT_CATALOG_OBJECT 0) db_id) bs s)) (\<lambda>_ s.
     sbind (leaser_initialize os X process_id (io_initialize_r io) db_id s) (\<lambda>_ s.
     sbind (acquire os X process_id (io_now io) (io_acquire_rs io) db_id s) (\<lambda>lease s.
     sbind (s, x_encode_metadata X (catalog_metadata_into_proto
         \<lparr>cm_latest_version = 0, cm_last_written_by = process_id\<rparr>)) (\<lambda>bs s.
     case run_ticks os X (io_ticks io 0) (s, lease) of (s, lease) \<Rightarrow>
     sbind (store_err (os_put os (visible_path X CATALOG_METADATA db_id) bs s)) (\<lambda>_ s.
     case run_ticks os X (io_ticks io 1) (s, lease) of (s, lease) \<Rightarrow>
     drop_lease os X (io_drop_rs io) lease s)))))))"

definition initialize ::
  "'s object_store \<Rightarrow> externs \<Rightarrow> uuid \<Rightarrow> io \<Rightarrow> uuid \<Rightarrow> 's \<Rightarrow> 's \<times> unit storage_result" where
  "initialize os X process_id io db_id s =
     (case os_head os (visible_path X CATALOG_METADATA db_id) s of
        Ok u \<Rightarrow> (s, Ok ())
      | Err OS_NotFound \<Rightarrow> initialize_new os X process_id io db_id s
      | Err e \<Rightarrow> (s, Err (SE_ObjectStore e))
      | Panic msg \<Rightarrow> (s, Panic msg))"

end
