(* ===== verification/Storage_Atomicity.thy ===== *)
theory Storage_Atomicity
  imports Storage
begin

section \<open>A catalog write is atomic\<close>

text \<open>
  Whatever the store does to a write of a catalog (operations may fail, with or without their
  effect, and the lease may be lost on the way), a reader finds the old catalog or the new one.
\<close>

lemma sbind_wp:
  assumes "\<And>s x. r = (s, Ok x) \<Longrightarrow> Q (f x s)" and "\<And>s e. r = (s, Err e) \<Longrightarrow> Q (s, Err e)"
    and "\<And>s m. r = (s, Panic m) \<Longrightarrow> Q (s, Panic m)"
  shows "Q (sbind r f)"
  using assms by (cases r; cases "snd r") auto

subsection \<open>The background task only touches the lease\<close>

definition of_process :: "externs \<Rightarrow> uuid \<Rightarrow> uuid \<Rightarrow> remote_lease \<Rightarrow> bool" where
  "of_process X db pid lease = (rl_renewer lease = renewer_of X pid db \<and> length pid = 16)"

lemma renew_tick_frame:
  assumes "store_ok os c" and "externs_ok X" and "of_process X db pid lease"
    and tick: "renew_tick os X now rs lease s = (s', lease')"
  shows "of_process X db pid lease'" and "\<not> lease_object X db pid q \<Longrightarrow> c s' q = c s q"
proof -
  show "of_process X db pid lease'"
    using tick assms(3) by (auto simp: of_process_def renew_tick_def split: if_splits prod.splits outcome.splits)
  obtain s1 r where ren: "renew_lease os X (renewer_of X pid db) now rs (rl_generation lease) s = (s1, r)"
    by fastforce
  have "s' = s1 \<or> s' = s"
    using tick ren assms(3) by (cases r) (auto simp: renew_tick_def of_process_def split: if_splits)
  then show "\<not> lease_object X db pid q \<Longrightarrow> c s' q = c s q"
    using renew_lease_effect [OF assms(1,2) _ ren] assms(3)
    by (auto simp: of_process_def lease_written_def)
qed

lemma run_ticks_frame:
  assumes "store_ok os c" and "externs_ok X"
  shows "of_process X db pid (snd sl) \<Longrightarrow> of_process X db pid (snd (run_ticks os X ts sl)) \<and>
    (\<forall>q. \<not> lease_object X db pid q \<longrightarrow> c (fst (run_ticks os X ts sl)) q = c (fst sl) q)"
proof (induction ts arbitrary: sl)
  case (Cons a ts)
  obtain s lease now rs where sl: "sl = (s, lease)" "a = (now, rs)" by (cases sl; cases a)
  obtain s1 lease1 where t: "renew_tick os X now rs lease s = (s1, lease1)" by fastforce
  with sl Cons.prems have "of_process X db pid lease" by simp
  from renew_tick_frame [OF assms this t] Cons.IH [of "(s1, lease1)"] sl t show ?case by auto
qed (auto simp: split_pairs)

lemma await_frame:
  assumes "store_ok os c" and "externs_ok X" and "of_process X db pid (snd sl)"
  shows "of_process X db pid (snd (await_store os X io k sl))"
    and "\<not> lease_object X db pid q \<Longrightarrow> c (fst (await_store os X io k sl)) q = c (fst sl) q"
  using run_ticks_frame [OF assms] by (auto simp: await_store_def)

lemma not_lease_object [simp]:
  "lease_object X db pid (visible_path X n db) \<longleftrightarrow> n = LEASE_INFORMATION_OBJECT"
  "\<not> lease_object X db pid (tmp_path X (PERSISTENT_CATALOG_OBJECT v) db pid r)"
  "\<not> lease_object X db pid (tmp_path X CATALOG_METADATA db pid r)"
  by (auto simp: lease_object_def tmp_path_def visible_path_def LEASE_INFORMATION_OBJECT_def
      CATALOG_METADATA_def PERSISTENT_CATALOG_OBJECT_def versioned_object_name_def)

lemma tmp_objects_distinct [simp]:
  "tmp_path X (PERSISTENT_CATALOG_OBJECT v) db pid r \<noteq> tmp_path X CATALOG_METADATA db pid r'"
  "tmp_path X CATALOG_METADATA db pid r' \<noteq> tmp_path X (PERSISTENT_CATALOG_OBJECT v) db pid r"
  by (auto simp: tmp_path_def CATALOG_METADATA_def PERSISTENT_CATALOG_OBJECT_def versioned_object_name_def)

subsection \<open>The steps of a write\<close>

text \<open>Before the last rename, nothing has changed but the object of the new version, the lease and
  temporary objects.\<close>

definition unpublished ::
  "externs \<Rightarrow> 's contents \<Rightarrow> uuid \<Rightarrow> uuid \<Rightarrow> u64 \<Rightarrow> 's \<Rightarrow> 's \<times> remote_lease \<Rightarrow> bool" where
  "unpublished X c db pid v s sl =
     (of_process X db pid (snd sl) \<and>
      (\<forall>n. n \<noteq> LEASE_INFORMATION_OBJECT \<longrightarrow> n \<noteq> PERSISTENT_CATALOG_OBJECT v \<longrightarrow>
        c (fst sl) (visible_path X n db) = c s (visible_path X n db)))"

text \<open>At the end, either nothing was published and the call did not succeed, or the metadata is the
  object \<open>mb\<close> and the new version is the object \<open>cb\<close>.\<close>

definition published ::
  "externs \<Rightarrow> 's contents \<Rightarrow> uuid \<Rightarrow> uuid \<Rightarrow> u64 \<Rightarrow> 's \<Rightarrow> bytes \<Rightarrow> bytes \<Rightarrow>
   ('s \<times> remote_lease) \<times> unit storage_result \<Rightarrow> bool" where
  "published X c db pid v s cb mb r =
     (unpublished X c db pid v s (fst r) \<and> \<not> is_ok (snd r) \<or>
      of_process X db pid (snd (fst r)) \<and>
      c (fst (fst r)) (visible_path X CATALOG_METADATA db) = Some mb \<and>
      c (fst (fst r)) (visible_path X (PERSISTENT_CATALOG_OBJECT v) db) = Some cb \<and>
      (\<forall>n. n \<noteq> LEASE_INFORMATION_OBJECT \<longrightarrow> n \<noteq> PERSISTENT_CATALOG_OBJECT v \<longrightarrow> n \<noteq> CATALOG_METADATA \<longrightarrow>
        c (fst (fst r)) (visible_path X n db) = c s (visible_path X n db)))"

lemma publishedI1: "unpublished X c db pid v s sl \<Longrightarrow> \<not> is_ok r \<Longrightarrow> published X c db pid v s cb mb (sl, r)"
  by (simp add: published_def)

lemma unpublished_await:
  assumes "store_ok os c" and "externs_ok X" and "unpublished X c db pid v s sl"
  shows "unpublished X c db pid v s (await_store os X io k sl)"
proof -
  have "of_process X db pid (snd sl)" using assms(3) by (simp add: unpublished_def)
  from await_frame [OF assms(1,2) this] assms(3) show ?thesis by (simp add: unpublished_def)
qed

lemma on_store_cases:
  assumes "on_store f sl = (sl', r)"
  shows "fst sl' = fst (f (fst sl))" and "snd sl' = snd sl" and "is_ok r \<longleftrightarrow> is_ok (snd (f (fst sl)))"
    and "is_panic r \<longleftrightarrow> is_panic (snd (f (fst sl)))"
  using assms by (cases "snd (f (fst sl))"; auto simp: on_store_def store_err_def)+

lemma unpublished_put:
  assumes os: "store_ok os c" and un: "unpublished X c db pid v s sl"
    and put: "on_store (os_put os (tmp_path X n db pid r) bs) sl = (sl', res)"
  shows "unpublished X c db pid v s sl'" and "is_ok res \<Longrightarrow> c (fst sl') (tmp_path X n db pid r) = Some bs"
    and "q \<noteq> tmp_path X n db pid r \<Longrightarrow> c (fst sl') q = c (fst sl) q"
proof -
  note cs = on_store_cases [OF put]
  show frame: "q \<noteq> tmp_path X n db pid r \<Longrightarrow> c (fst sl') q = c (fst sl) q" for q
    using put_frame [OF os] cs(1) by simp
  show "unpublished X c db pid v s sl'" using un frame cs(2) by (simp add: unpublished_def)
  show "is_ok res \<Longrightarrow> c (fst sl') (tmp_path X n db pid r) = Some bs"
    using cs put_Ok [OF os] by (metis fun_upd_same is_ok_iff prod.collapse)
qed

lemma rename_metadata_published:
  assumes os: "store_ok os c" and un: "unpublished X c db pid v s sl"
    and tm: "c (fst sl) (tmp_path X CATALOG_METADATA db pid r) = Some mb"
    and vc: "c (fst sl) (visible_path X (PERSISTENT_CATALOG_OBJECT v) db) = Some cb"
    and ren: "on_store (os_rename os (tmp_path X CATALOG_METADATA db pid r)
      (visible_path X CATALOG_METADATA db)) sl = (sl', res)"
  shows "published X c db pid v s cb mb (sl', res)"
proof -
  let ?tm = "tmp_path X CATALOG_METADATA db pid r" and ?vm = "visible_path X CATALOG_METADATA db"
  note cs = on_store_cases [OF ren]
  have frame: "c (fst sl') q = c (fst sl) q" if "q \<noteq> ?tm" "q \<noteq> ?vm" for q
    using rename_frame [OF os, of ?tm ?vm q] that cs(1) by simp
  have target: "c (fst sl') ?vm = c (fst sl) ?vm \<or> c (fst sl') ?vm = Some mb"
    using rename_target [OF os, of ?tm ?vm "fst sl"] cs(1) tm by auto
  have moved: "c (fst sl') ?vm = Some mb" if "is_ok res"
    using that cs tm by (metis rename_Ok [OF os] fun_upd_apply is_ok_iff option.inject prod.collapse
        tmp_not_visible(1))
  show ?thesis
  proof (cases "c (fst sl') ?vm = Some mb")
    case True
    then show ?thesis using frame vc un cs(2) by (auto simp: published_def unpublished_def)
  next
    case False
    with target moved have "c (fst sl') ?vm = c (fst sl) ?vm" "\<not> is_ok res" by auto
    then show ?thesis
      using frame un cs(2) by (intro publishedI1) (auto simp: unpublished_def, metis frame visible_path_inj
          tmp_not_visible(2))
  qed
qed

lemma move_objects_published:
  assumes os: "store_ok os c" and X: "externs_ok X" and un: "unpublished X c db pid v s sl"
    and cb: "c (fst sl) (tmp_path X (PERSISTENT_CATALOG_OBJECT v) db pid r1) = Some cb"
    and mb: "c (fst sl) (tmp_path X CATALOG_METADATA db pid r2) = Some mb"
  shows "published X c db pid v s cb mb (move_objects os X io db
    (tmp_path X (PERSISTENT_CATALOG_OBJECT v) db pid r1) (tmp_path X CATALOG_METADATA db pid r2)
    (PERSISTENT_CATALOG_OBJECT v) sl)"
proof -
  let ?tc = "tmp_path X (PERSISTENT_CATALOG_OBJECT v) db pid r1"
  let ?tm = "tmp_path X CATALOG_METADATA db pid r2"
  let ?vc = "visible_path X (PERSISTENT_CATALOG_OBJECT v) db"
  let ?vm = "visible_path X CATALOG_METADATA db"
  have op: "of_process X db pid (snd sl)" using un by (simp add: unpublished_def)
  define sl1 where "sl1 = await_store os X io 3 sl"
  have sl1: "unpublished X c db pid v s sl1" "c (fst sl1) ?tc = Some cb" "c (fst sl1) ?tm = Some mb"
    using unpublished_await [OF os X un] await_frame(2) [OF os X op] cb mb by (simp_all add: sl1_def)
  obtain sl2 res where ren: "on_store (os_rename os ?tc ?vc) sl1 = (sl2, res)" by fastforce
  note cs = on_store_cases [OF ren]
  have frame: "c (fst sl2) q = c (fst sl1) q" if "q \<noteq> ?tc" "q \<noteq> ?vc" for q
    using rename_frame [OF os, of ?tc ?vc q] that cs(1) by simp
  have sl2: "unpublished X c db pid v s sl2" "c (fst sl2) ?tm = Some mb"
    using sl1 frame cs(2) by (simp_all add: unpublished_def)
  show ?thesis
  proof (cases res)
    case (Ok u)
    have vc: "c (fst sl2) ?vc = Some cb"
      using Ok cs sl1(2) by (metis rename_Ok [OF os] fun_upd_apply is_ok_iff option.inject prod.collapse
          tmp_not_visible(1))
    define sl3 where "sl3 = await_store os X io 4 sl2"
    have op2: "of_process X db pid (snd sl2)" using sl2 by (simp add: unpublished_def)
    have sl3: "unpublished X c db pid v s sl3" "c (fst sl3) ?tm = Some mb" "c (fst sl3) ?vc = Some cb"
      using unpublished_await [OF os X sl2(1)] await_frame(2) [OF os X op2] sl2(2) vc by (simp_all add: sl3_def)
    show ?thesis
    proof (cases "is_valid (snd sl3)")
      case False
      then show ?thesis
        using ren Ok sl3(1) by (simp add: move_objects_def Let_def sl1_def [symmetric] sl3_def publishedI1)
    next
      case True
      have op3: "of_process X db pid (snd sl3)" using sl3 by (simp add: unpublished_def)
      define sl4 where "sl4 = await_store os X io 5 sl3"
      have sl4: "unpublished X c db pid v s sl4" "c (fst sl4) ?tm = Some mb" "c (fst sl4) ?vc = Some cb"
        using unpublished_await [OF os X sl3(1)] await_frame(2) [OF os X op3] sl3(2,3) by (simp_all add: sl4_def)
      obtain sl5 res5 where ren5: "on_store (os_rename os ?tm ?vm) sl4 = (sl5, res5)" by fastforce
      have result: "move_objects os X io db ?tc ?tm (PERSISTENT_CATALOG_OBJECT v) sl = (sl5, res5)"
        using ren Ok True ren5 by (simp add: move_objects_def Let_def sl1_def [symmetric] sl3_def [symmetric]
            sl4_def [symmetric])
      show ?thesis unfolding result by (rule rename_metadata_published [OF os sl4 ren5])
    qed
  qed (use ren sl2(1) in \<open>simp_all add: move_objects_def sl1_def [symmetric] publishedI1\<close>)
qed

lemma write_objects_published:
  assumes os: "store_ok os c" and X: "externs_ok X"
    and un: "unpublished X c db pid (cs_version (pc_state catalog)) s sl"
  obtains "unpublished X c db pid (cs_version (pc_state catalog)) s
      (fst (write_objects os X pid io db catalog sl))"
    "\<not> is_ok (snd (write_objects os X pid io db catalog sl))"
  | proto cb mb where "persisted_catalog_into_proto catalog = Ok proto" "x_encode_catalog X proto = Ok cb"
    "x_encode_metadata X (catalog_metadata_into_proto
      \<lparr>cm_latest_version = cs_version (pc_state catalog), cm_last_written_by = pid\<rparr>) = Ok mb"
    "published X c db pid (cs_version (pc_state catalog)) s cb mb (write_objects os X pid io db catalog sl)"
proof -
  let ?v = "cs_version (pc_state catalog)"
  let ?md = "catalog_metadata_into_proto \<lparr>cm_latest_version = ?v, cm_last_written_by = pid\<rparr>"
  let ?tc = "tmp_path X (PERSISTENT_CATALOG_OBJECT ?v) db pid (io_catalog_r io)"
  let ?tm = "tmp_path X CATALOG_METADATA db pid (io_metadata_r io)"
  note defs = write_objects_def Let_def
  show thesis
  proof (cases "is_ok (obind (omap_err SE_ProtoConv (persisted_catalog_into_proto catalog)) (x_encode_catalog X))")
    case False
    then have "fst (write_objects os X pid io db catalog sl) = sl"
      "\<not> is_ok (snd (write_objects os X pid io db catalog sl))"
      by (cases "persisted_catalog_into_proto catalog";
          cases "x_encode_catalog X (case persisted_catalog_into_proto catalog of Ok p \<Rightarrow> p)"; simp add: defs)+
    with un that(1) show thesis by simp
  next
    case True
    then obtain proto cb where conv: "persisted_catalog_into_proto catalog = Ok proto"
      "x_encode_catalog X proto = Ok cb" by (auto simp: is_ok_iff)
    obtain mb where mb: "x_encode_metadata X ?md = Ok mb" using X unfolding externs_ok_def by blast
    obtain sl1 res1 where put1: "on_store (os_put os ?tc cb) (await_store os X io 1 sl) = (sl1, res1)" by fastforce
    note p1 = unpublished_put [OF os unpublished_await [OF os X un] put1]
    show thesis
    proof (cases res1)
      case Ok1: (Ok u)
      obtain sl2 res2 where put2: "on_store (os_put os ?tm mb) (await_store os X io 2 sl1) = (sl2, res2)"
        by fastforce
      note p2 = unpublished_put [OF os unpublished_await [OF os X p1(1)] put2]
      have op: "of_process X db pid (snd sl1)" using p1(1) by (simp add: unpublished_def)
      show thesis
      proof (cases res2)
        case Ok2: (Ok u)
        have "c (fst sl2) ?tc = Some cb" using p2(3) [of ?tc] await_frame(2) [OF os X op] p1(2) Ok1 by simp
        from move_objects_published [OF os X p2(1) this p2(2)] conv mb put1 put2 Ok1 Ok2 that(2)
        show thesis by (simp add: defs)
      qed (use conv mb put1 put2 Ok1 p2(1) that(1) in \<open>simp_all add: defs\<close>)
    qed (use conv mb put1 p1(1) that(1) in \<open>simp_all add: defs\<close>)
  qed
qed

subsection \<open>What a reader sees\<close>

definition stored_metadata :: "externs \<Rightarrow> 's contents \<Rightarrow> uuid \<Rightarrow> 's \<Rightarrow> catalog_metadata option" where
  "stored_metadata X c db s =
     (case c s (visible_path X CATALOG_METADATA db) of
        None \<Rightarrow> None
      | Some bs \<Rightarrow>
          (case obind (x_decode_metadata X bs)
             (\<lambda>p. omap_err SE_ProtoConv (catalog_metadata_try_from_proto X p)) of
             Ok m \<Rightarrow> Some m
           | _ \<Rightarrow> None))"

definition stored_catalog :: "externs \<Rightarrow> 's contents \<Rightarrow> uuid \<Rightarrow> u64 \<Rightarrow> 's \<Rightarrow> persisted_catalog option" where
  "stored_catalog X c db v s =
     (case c s (visible_path X (PERSISTENT_CATALOG_OBJECT v) db) of
        None \<Rightarrow> None
      | Some bs \<Rightarrow>
          (case obind (x_decode_catalog X bs)
             (\<lambda>p. omap_err SE_ProtoConv (persisted_catalog_try_from_proto X p)) of
             Ok m \<Rightarrow> Some m
           | _ \<Rightarrow> None))"

definition current_catalog :: "externs \<Rightarrow> 's contents \<Rightarrow> uuid \<Rightarrow> 's \<Rightarrow> persisted_catalog option" where
  "current_catalog X c db s =
     (case stored_metadata X c db s of
        None \<Rightarrow> None
      | Some m \<Rightarrow> stored_catalog X c db (cm_latest_version m) s)"

lemma read_metadata_Ok:
  "store_ok os c \<Longrightarrow> read_metadata os X db s = Ok m \<Longrightarrow> stored_metadata X c db s = Some m"
  by (auto simp: read_metadata_def stored_metadata_def dest!: get_Ok)

lemma read_catalog_Ok:
  assumes "store_ok os c" and "read_catalog os X db s = Ok cat"
  shows "current_catalog X c db s = Some cat"
proof -
  from assms(2) obtain m where m: "read_metadata os X db s = Ok m"
    by (auto simp: read_catalog_def)
  with assms read_metadata_Ok [OF assms(1) m] show ?thesis
    by (auto simp: read_catalog_def current_catalog_def stored_catalog_def dest!: get_Ok)
qed

text \<open>The objects of a catalog other than its lease.\<close>

definition same_objects :: "externs \<Rightarrow> 's contents \<Rightarrow> uuid \<Rightarrow> 's \<Rightarrow> 's \<Rightarrow> bool" where
  "same_objects X c db s s' =
     (\<forall>n. n \<noteq> LEASE_INFORMATION_OBJECT \<longrightarrow> c s' (visible_path X n db) = c s (visible_path X n db))"

lemma same_objects_refl [simp]: "same_objects X c db s s"
  by (simp add: same_objects_def)

lemma same_objects_trans: "same_objects X c db s s' \<Longrightarrow> same_objects X c db s' s'' \<Longrightarrow> same_objects X c db s s''"
  by (simp add: same_objects_def)

lemma same_objects_view:
  assumes "same_objects X c db s s'"
  shows "stored_metadata X c db s' = stored_metadata X c db s"
    and "stored_catalog X c db v s' = stored_catalog X c db v s"
    and "current_catalog X c db s' = current_catalog X c db s"
proof -
  show m: "stored_metadata X c db s' = stored_metadata X c db s"
    using assms by (simp add: same_objects_def stored_metadata_def)
  have cat: "stored_catalog X c db w s' = stored_catalog X c db w s" for w
    using assms by (simp add: same_objects_def stored_catalog_def)
  then show "stored_catalog X c db v s' = stored_catalog X c db v s" .
  show "current_catalog X c db s' = current_catalog X c db s"
    by (simp add: current_catalog_def m cat split: option.split)
qed

lemma lease_written_objects: "lease_written X c db pid lease s (s', r) \<Longrightarrow> same_objects X c db s s'"
  by (simp add: lease_written_def same_objects_def)

lemma acquire_objects:
  assumes "store_ok os c" and "externs_ok X" and "length pid = 16"
    and acq: "acquire os X pid now rs db s = (s', r)"
  shows "same_objects X c db s s'" and "r = Ok lease \<Longrightarrow> of_process X db pid lease"
proof -
  obtain s1 r1 where al: "acquire_lease os X (renewer_of X pid db) now rs s = (s1, r1)" by fastforce
  then have "s' = s1" and "r = Ok lease \<Longrightarrow> of_process X db pid lease"
    using acq assms(3) by (cases r1; auto simp: acquire_def Let_def of_process_def)+
  then show "same_objects X c db s s'" and "r = Ok lease \<Longrightarrow> of_process X db pid lease"
    using acquire_lease_effect [OF assms(1-3) al] lease_written_objects by auto
qed

lemma drop_lease_objects:
  assumes "store_ok os c" and "externs_ok X" and "of_process X db pid lease"
    and drop: "drop_lease os X rs lease s = (s', r)"
  shows "same_objects X c db s s'"
proof -
  have "s' = s \<or> renewer_drop_lease os X (renewer_of X pid db) rs (rl_generation lease) s = (s', r)"
    using drop assms(3) by (auto simp: drop_lease_def of_process_def split: if_splits)
  then show ?thesis
    using renewer_drop_lease_effect [OF assms(1,2)] lease_written_objects by fastforce
qed

lemma await_objects:
  assumes "store_ok os c" and "externs_ok X" and "of_process X db pid (snd sl)"
  shows "same_objects X c db (fst sl) (fst (await_store os X io k sl))"
  using await_frame [OF assms] by (simp add: same_objects_def)

subsection \<open>The whole write\<close>

text \<open>\<open>replaced\<close>: the catalog of version \<open>old_version\<close> was current and the written one is now.\<close>

definition replaced ::
  "externs \<Rightarrow> 's contents \<Rightarrow> uuid \<Rightarrow> uuid \<Rightarrow> u64 \<Rightarrow> persisted_catalog \<Rightarrow> 's \<Rightarrow> 's \<Rightarrow> bool" where
  "replaced X c db pid old_version catalog s s' =
     ((\<exists>m. stored_metadata X c db s = Some m \<and> cm_latest_version m = old_version) \<and>
      stored_metadata X c db s' =
        Some \<lparr>cm_latest_version = cs_version (pc_state catalog), cm_last_written_by = pid\<rparr> \<and>
      (\<exists>catalog'. current_catalog X c db s' = Some catalog' \<and> same_catalog catalog catalog'))"

lemma metadata_bytes:
  assumes "externs_ok X" and "length (cm_last_written_by m) = 16"
    and "x_encode_metadata X (catalog_metadata_into_proto m) = Ok mb"
  shows "obind (x_decode_metadata X mb) (\<lambda>p. omap_err SE_ProtoConv (catalog_metadata_try_from_proto X p)) = Ok m"
proof -
  have "x_decode_metadata X mb = Ok (catalog_metadata_into_proto m)"
    using assms(1,3) unfolding externs_ok_def by (metis outcome.inject(1))
  moreover have "catalog_metadata_try_from_proto X (catalog_metadata_into_proto m) = Ok m"
    using metadata_codec.decodes assms(1,2) by blast
  ultimately show ?thesis by simp
qed

lemma published_replaced:
  assumes X: "externs_ok X" and wire: "wire_state (x_union_new X) (pc_state catalog)"
    and conv: "persisted_catalog_into_proto catalog = Ok proto" "x_encode_catalog X proto = Ok cb"
    and mb: "x_encode_metadata X (catalog_metadata_into_proto
      \<lparr>cm_latest_version = cs_version (pc_state catalog), cm_last_written_by = pid\<rparr>) = Ok mb"
    and pid: "length pid = 16" and m: "stored_metadata X c db s = Some m"
    and objs: "c s' (visible_path X CATALOG_METADATA db) = Some mb"
      "c s' (visible_path X (PERSISTENT_CATALOG_OBJECT (cs_version (pc_state catalog))) db) = Some cb"
  shows "replaced X c db pid (cm_latest_version m) catalog s s'"
proof -
  have "stored_metadata X c db s' =
      Some \<lparr>cm_latest_version = cs_version (pc_state catalog), cm_last_written_by = pid\<rparr>"
    using metadata_bytes [OF X _ mb] pid objs(1) by (auto simp: stored_metadata_def)
  moreover obtain catalog' where "obind (x_decode_catalog X cb)
      (\<lambda>p. omap_err SE_ProtoConv (persisted_catalog_try_from_proto X p)) = Ok catalog'"
    "same_catalog catalog catalog'"
    using catalog_bytes_roundtrip [OF X wire] conv by auto
  ultimately show ?thesis
    using m objs(2) by (auto simp: replaced_def current_catalog_def stored_catalog_def)
qed

definition same_view :: "externs \<Rightarrow> 's contents \<Rightarrow> uuid \<Rightarrow> 's \<Rightarrow> 's \<Rightarrow> bool" where
  "same_view X c db s s' =
     (stored_metadata X c db s' = stored_metadata X c db s \<and>
      current_catalog X c db s' = current_catalog X c db s)"

lemma same_objects_same_view: "same_objects X c db s s' \<Longrightarrow> same_view X c db s s'"
  by (simp add: same_view_def same_objects_view)

lemma same_view_trans: "same_view X c db s s' \<Longrightarrow> same_view X c db s' s'' \<Longrightarrow> same_view X c db s s''"
  by (simp add: same_view_def)

lemma replaced_after: "same_view X c db s s' \<Longrightarrow> replaced X c db pid old cat s' s'' \<Longrightarrow> replaced X c db pid old cat s s''"
  by (simp add: replaced_def same_view_def)

lemma replaced_before: "replaced X c db pid old cat s s' \<Longrightarrow> same_view X c db s' s'' \<Longrightarrow> replaced X c db pid old cat s s''"
  by (simp add: replaced_def same_view_def)

lemma unpublished_view:
  assumes "unpublished X c db pid v s sl" and "stored_metadata X c db s = Some m" and "cm_latest_version m \<noteq> v"
  shows "same_view X c db s (fst sl)"
  using assms by (auto simp: unpublished_def same_view_def stored_metadata_def stored_catalog_def
      current_catalog_def)

lemma write_catalog_inner_outcome:
  assumes os: "store_ok os c" and X: "externs_ok X" and wire: "wire_state (x_union_new X) (pc_state catalog)"
    and v: "cs_version (pc_state catalog) \<noteq> old_version" and op: "of_process X db pid (snd sl)"
    and inner: "write_catalog_inner os X pid io db old_version catalog sl = (sl', r)"
  shows "of_process X db pid (snd sl') \<and>
    (same_view X c db (fst sl) (fst sl') \<and> \<not> is_ok r \<or> replaced X c db pid old_version catalog (fst sl) (fst sl'))"
proof -
  define sl1 where "sl1 = await_store os X io 0 sl"
  have op1: "of_process X db pid (snd sl1)" and view1: "same_view X c db (fst sl) (fst sl1)"
    using await_frame(1) [OF os X op] same_objects_same_view [OF await_objects [OF os X op]]
    by (simp_all add: sl1_def)
  show ?thesis
  proof (cases "\<exists>m. read_metadata os X db (fst sl1) = Ok m \<and> cm_latest_version m = old_version")
    case False
    then have "sl' = sl1 \<and> \<not> is_ok r"
      using inner by (cases "read_metadata os X db (fst sl1)")
        (auto simp: write_catalog_inner_def Let_def sl1_def [symmetric])
    with op1 view1 show ?thesis by simp
  next
    case True
    then obtain m where m: "read_metadata os X db (fst sl1) = Ok m" "cm_latest_version m = old_version" by blast
    note stored = read_metadata_Ok [OF os m(1)]
    have w: "write_objects os X pid io db catalog sl1 = (sl', r)"
      using inner m by (simp add: write_catalog_inner_def Let_def sl1_def [symmetric])
    have un: "unpublished X c db pid (cs_version (pc_state catalog)) (fst sl1) sl1"
      using op1 by (simp add: unpublished_def)
    from write_objects_published [OF os X un, of io]
    have "of_process X db pid (snd sl') \<and>
      (same_view X c db (fst sl1) (fst sl') \<and> \<not> is_ok r \<or> replaced X c db pid old_version catalog (fst sl1) (fst sl'))"
    proof cases
      case 1
      then show ?thesis
        using w unpublished_view [OF _ stored] m(2) v by (auto simp: unpublished_def)
    next
      case (2 proto cb mb)
      have pid: "length pid = 16" using op1 by (simp add: of_process_def)
      show ?thesis
        using 2(4) w unpublished_view [OF _ stored] m(2) v
          published_replaced [OF X wire 2(1-3) pid stored, of "fst sl'"]
        by (auto simp: published_def unpublished_def)
    qed
    with view1 show ?thesis by (auto intro: same_view_trans replaced_after)
  qed
qed

lemma write_catalog_outcome:
  assumes os: "store_ok os c" and X: "externs_ok X" and wire: "wire_state (x_union_new X) (pc_state catalog)"
    and v: "cs_version (pc_state catalog) \<noteq> old_version" and pid: "length pid = 16"
    and w: "write_catalog os X pid io db old_version catalog s = (s', r)"
  shows "same_view X c db s s' \<and> \<not> is_ok r \<or> replaced X c db pid old_version catalog s s'"
proof -
  obtain s1 r1 where acq: "acquire os X pid (io_now io) (io_acquire_rs io) db s = (s1, r1)" by fastforce
  note objs = acquire_objects [OF os X pid acq]
  show ?thesis
  proof (cases r1)
    case (Ok lease)
    obtain s2 lease2 r2 where
      inner: "write_catalog_inner os X pid io db old_version catalog (s1, lease) = ((s2, lease2), r2)"
      by (metis prod.collapse)
    note out = write_catalog_inner_outcome [OF os X wire v _ inner]
    have out: "of_process X db pid lease2"
      "same_view X c db s1 s2 \<and> \<not> is_ok r2 \<or> replaced X c db pid old_version catalog s1 s2"
      using out objs(2) [OF Ok] by auto
    obtain s3 r3 where drop: "drop_lease os X (io_drop_rs io) lease2 s2 = (s3, r3)" by fastforce
    note same3 = same_objects_same_view [OF drop_lease_objects [OF os X out(1) drop]]
    have "s' = s3 \<and> (is_ok r \<longrightarrow> is_ok r2) \<or> s' = s2 \<and> \<not> is_ok r"
      using w acq Ok inner drop by (cases r2) (auto simp: write_catalog_def)
    with out(2) same3 same_objects_same_view [OF objs(1)] show ?thesis
      by (auto intro: same_view_trans replaced_after replaced_before)
  qed (use w acq same_objects_same_view [OF objs(1)] in \<open>auto simp: write_catalog_def\<close>)
qed

end
