(* ===== verification/Storage_Progress.thy ===== *)
theory Storage_Progress
  imports Storage_Atomicity
begin

section \<open>Progress of storage operations\<close>

text \<open>
  On a store that does not fail by itself: a write against the current version succeeds when the
  lease is free and the background task runs before the lease expires; a write against another
  version is refused; initialization leaves a catalog that can be read.
\<close>

lemma reliable_ok: "store_reliable os c \<Longrightarrow> store_ok os c"
  by (simp add: store_reliable_def)

lemma reliable_get: "store_reliable os c \<Longrightarrow> c s p = Some b \<Longrightarrow> os_get os p s = Ok b"
  by (simp add: store_reliable_def)

lemma reliable_put:
  assumes "store_reliable os c"
  obtains s' where "os_put os p b s = (s', Ok ())" and "c s' = (c s)(p \<mapsto> b)"
proof -
  have "is_ok (snd (os_put os p b s))" using assms by (simp add: store_reliable_def)
  then obtain s' u where put: "os_put os p b s = (s', Ok u)"
    by (cases "os_put os p b s") (auto simp: is_ok_iff)
  with put_Ok [OF reliable_ok [OF assms] put] that show ?thesis by simp
qed

lemma reliable_rename:
  assumes "store_reliable os c" and "p \<noteq> q" and "c s p = Some b"
  obtains s' where "os_rename os p q s = (s', Ok ())" and "c s' = (c s)(q \<mapsto> b, p := None)"
proof -
  have "is_ok (snd (os_rename os p q s))" using assms by (simp add: store_reliable_def)
  then obtain s' u where r: "os_rename os p q s = (s', Ok u)"
    by (cases "os_rename os p q s") (auto simp: is_ok_iff)
  then obtain b' where "c s p = Some b'" "c s' = (c s)(q \<mapsto> b', p := None)"
    by (rule rename_Ok [OF reliable_ok [OF assms(1)] assms(2)])
  with assms(3) that r show ?thesis by simp
qed

subsection \<open>The lease\<close>

lemma reliable_read_lease:
  assumes "store_reliable os c" and "stored_lease X c db s = Some lease"
    and "g = None \<or> g = Some (li_generation lease)"
  shows "read_lease os X (renewer_of X pid db) g s = Ok lease"
  using assms(2,3) reliable_get [OF assms(1)]
  by (auto simp: stored_lease_def read_lease_def split: option.splits outcome.splits)

lemma reliable_write_lease:
  assumes os: "store_reliable os c" and X: "externs_ok X" and lease: "wire_lease lease"
  obtains s' where "write_lease os X (renewer_of X pid db) rs lease s = (s', Ok ())"
    and "stored_lease X c db s' = Some lease" and "\<And>q. \<not> lease_object X db pid q \<Longrightarrow> c s' q = c s q"
proof -
  let ?tmp = "tmp_path X LEASE_INFORMATION_OBJECT db pid (rs 4)"
  obtain bs where enc: "x_encode_lease X (lease_information_into_proto X lease) = Ok bs"
    using lease_bytes [OF X lease] by blast
  obtain s1 where put: "os_put os ?tmp bs s = (s1, Ok ())" "c s1 = (c s)(?tmp \<mapsto> bs)"
    using reliable_put [OF os] by blast
  obtain s2 where "os_rename os ?tmp (visible_path X LEASE_INFORMATION_OBJECT db) s1 = (s2, Ok ())"
    using reliable_rename [OF os, of ?tmp "visible_path X LEASE_INFORMATION_OBJECT db" s1 bs] put(2) by auto
  then have "write_lease os X (renewer_of X pid db) rs lease s = (s2, Ok ())"
    using enc put(1) by (simp add: write_lease_def numeral_eq_Suc try_write_lease_def Let_def store_err_def)
  with write_lease_written [OF reliable_ok [OF os] X lease, of db pid s rs] that show ?thesis
    by (auto simp: lease_written_def)
qed

text \<open>A lease that is held until the time \<open>e\<close> at least.\<close>

definition live :: "externs \<Rightarrow> 's contents \<Rightarrow> uuid \<Rightarrow> uuid \<Rightarrow> system_time \<Rightarrow> 's \<times> remote_lease \<Rightarrow> bool" where
  "live X c db pid e sl =
     (of_process X db pid (snd sl) \<and> rl_valid (snd sl) \<and> \<not> rl_exited (snd sl) \<and>
      (\<exists>lease t. stored_lease X c db (fst sl) = Some lease \<and> li_generation lease = rl_generation (snd sl) \<and>
         li_expires_at lease = Some t \<and> e \<le> t))"

lemma acquire_free:
  assumes os: "store_reliable os c" and X: "externs_ok X" and pid: "length pid = 16"
    and time: "time_ok (now + LEASE_DURATION)"
    and free: "stored_lease X c db s = Some lease" "li_state lease = Unlocked"
  obtains s' l where "acquire os X pid now rs db s = (s', Ok l)"
    and "live X c db pid (now + LEASE_DURATION) (s', l)"
    and "\<And>q. \<not> lease_object X db pid q \<Longrightarrow> c s' q = c s q"
proof -
  have "wire_lease (locked_by pid (li_generation lease + 1) (now + LEASE_DURATION))" using pid time by simp
  from reliable_write_lease [OF os X this, of pid db rs s] obtain s' where
    "write_lease os X (renewer_of X pid db) rs (locked_by pid (li_generation lease + 1) (now + LEASE_DURATION)) s = (s', Ok ())"
    and st: "stored_lease X c db s' = Some (locked_by pid (li_generation lease + 1) (now + LEASE_DURATION))"
    and frame: "\<And>q. \<not> lease_object X db pid q \<Longrightarrow> c s' q = c s q" by blast
  then have "acquire os X pid now rs db s = (s', Ok \<lparr>rl_renewer = renewer_of X pid db,
      rl_generation = li_generation lease + 1, rl_valid = True, rl_exited = False\<rparr>)"
    using reliable_read_lease [OF os free(1), of None pid] free(2) time
    by (simp add: acquire_def acquire_lease_def write_next_def time_add_def Let_def)
  then show ?thesis by (rule that) (use st pid frame in \<open>auto simp: live_def of_process_def\<close>)
qed

lemma live_tick:
  assumes os: "store_reliable os c" and X: "externs_ok X" and live: "live X c db pid e (s, l)"
    and now: "e - LEASE_DURATION \<le> now" "now \<le> e" "time_ok (now + LEASE_DURATION)"
  shows "live X c db pid e (renew_tick os X now rs l s)"
proof -
  from live obtain lease t where l: "rl_renewer l = renewer_of X pid db" "length pid = 16" "rl_valid l"
    "\<not> rl_exited l" "stored_lease X c db s = Some lease" "li_generation lease = rl_generation l"
    "li_expires_at lease = Some t" "e \<le> t" by (auto simp: live_def of_process_def)
  have "wire_lease (locked_by pid (li_generation lease + 1) (now + LEASE_DURATION))" using l now by simp
  from reliable_write_lease [OF os X this, of pid db rs s] obtain s' where
    "write_lease os X (renewer_of X pid db) rs (locked_by pid (li_generation lease + 1) (now + LEASE_DURATION)) s = (s', Ok ())"
    and "stored_lease X c db s' = Some (locked_by pid (li_generation lease + 1) (now + LEASE_DURATION))" by blast
  then show ?thesis
    using l now reliable_read_lease [OF os l(5), of "Some (rl_generation l)" pid]
    by (auto simp: renew_tick_def renew_lease_def write_next_def time_add_def Let_def live_def of_process_def)
qed

definition ticks_between :: "io \<Rightarrow> system_time \<Rightarrow> bool" where
  "ticks_between io e =
     (time_ok e \<and> (\<forall>k. \<forall>(t, rs) \<in> set (io_ticks io k).
        e - LEASE_DURATION \<le> t \<and> t \<le> e \<and> time_ok (t + LEASE_DURATION)))"

lemma live_ticks:
  assumes os: "store_reliable os c" and X: "externs_ok X"
  shows "live X c db pid e sl \<Longrightarrow> \<forall>(t, rs) \<in> set ts. e - LEASE_DURATION \<le> t \<and> t \<le> e \<and> time_ok (t + LEASE_DURATION) \<Longrightarrow>
    live X c db pid e (run_ticks os X ts sl)"
proof (induction ts arbitrary: sl)
  case (Cons a ts)
  obtain s l now rs where sl: "sl = (s, l)" "a = (now, rs)" by (cases sl; cases a)
  have "live X c db pid e (renew_tick os X now rs l s)"
    using live_tick [OF os X] Cons.prems sl by auto
  with Cons sl show ?case by (cases "renew_tick os X now rs l s") auto
qed (auto simp: split_pairs)

lemma live_await:
  "store_reliable os c \<Longrightarrow> externs_ok X \<Longrightarrow> ticks_between io e \<Longrightarrow> live X c db pid e sl \<Longrightarrow>
   live X c db pid e (await_store os X io k sl)"
  unfolding await_store_def ticks_between_def by (intro live_ticks) auto

lemma live_frame:
  "live X c db pid e (s, l) \<Longrightarrow>
   c s' (visible_path X LEASE_INFORMATION_OBJECT db) = c s (visible_path X LEASE_INFORMATION_OBJECT db) \<Longrightarrow>
   live X c db pid e (s', l)"
  using stored_lease_cong [of c s' X db s] by (auto simp: live_def)

lemma live_drop:
  assumes os: "store_reliable os c" and X: "externs_ok X" and live: "live X c db pid e (s, l)"
  obtains s' where "drop_lease os X rs l s = (s', Ok ())"
    and "stored_lease X c db s' = Some (unlocked (rl_generation l + 1))"
    and "\<And>q. \<not> lease_object X db pid q \<Longrightarrow> c s' q = c s q"
proof -
  from live obtain lease where l: "rl_renewer l = renewer_of X pid db" "rl_valid l" "\<not> rl_exited l"
    "stored_lease X c db s = Some lease" "li_generation lease = rl_generation l"
    by (auto simp: live_def of_process_def)
  from reliable_write_lease [OF os X wire_unlocked, of pid db rs "rl_generation l + 1" s] obtain s' where
    "write_lease os X (renewer_of X pid db) rs (unlocked (rl_generation l + 1)) s = (s', Ok ())"
    "stored_lease X c db s' = Some (unlocked (rl_generation l + 1))"
    "\<And>q. \<not> lease_object X db pid q \<Longrightarrow> c s' q = c s q" by blast
  with that l reliable_read_lease [OF os l(4), of "Some (rl_generation l)" pid] show ?thesis
    by (simp add: drop_lease_def is_valid_def renewer_drop_lease_def)
qed

subsection \<open>Writes\<close>

text \<open>The encoder accepts the message of the catalog.\<close>

definition catalog_encodes :: "externs \<Rightarrow> persisted_catalog \<Rightarrow> bool" where
  "catalog_encodes X catalog =
     (case persisted_catalog_into_proto catalog of Ok p \<Rightarrow> is_ok (x_encode_catalog X p) | _ \<Rightarrow> False)"

lemma live_put:
  assumes os: "store_reliable os c" and live: "live X c db pid e sl"
  obtains sl' where "on_store (os_put os (tmp_path X n db pid r) bs) sl = (sl', Ok ())"
    and "live X c db pid e sl'" and "c (fst sl') = (c (fst sl))(tmp_path X n db pid r \<mapsto> bs)"
proof -
  obtain s' where s': "os_put os (tmp_path X n db pid r) bs (fst sl) = (s', Ok ())"
    "c s' = (c (fst sl))(tmp_path X n db pid r \<mapsto> bs)" using reliable_put [OF os] by blast
  show ?thesis
  proof (rule that)
    show "on_store (os_put os (tmp_path X n db pid r) bs) sl = ((s', snd sl), Ok ())"
      using s'(1) by (simp add: on_store_def store_err_def)
    show "live X c db pid e (s', snd sl)" using live_frame [of X c db pid e "fst sl" "snd sl" s'] live s'(2) by simp
  qed (use s'(2) in simp)
qed

lemma live_rename:
  assumes os: "store_reliable os c" and live: "live X c db pid e sl" and n: "n \<noteq> LEASE_INFORMATION_OBJECT"
    and b: "c (fst sl) (tmp_path X m db pid r) = Some b"
  obtains sl' where "on_store (os_rename os (tmp_path X m db pid r) (visible_path X n db)) sl = (sl', Ok ())"
    and "live X c db pid e sl'"
    and "c (fst sl') = (c (fst sl))(visible_path X n db \<mapsto> b, tmp_path X m db pid r := None)"
proof -
  obtain s' where s': "os_rename os (tmp_path X m db pid r) (visible_path X n db) (fst sl) = (s', Ok ())"
    "c s' = (c (fst sl))(visible_path X n db \<mapsto> b, tmp_path X m db pid r := None)"
    using reliable_rename [OF os _ b, of "visible_path X n db"] by auto
  show ?thesis
  proof (rule that)
    show "on_store (os_rename os (tmp_path X m db pid r) (visible_path X n db)) sl = ((s', snd sl), Ok ())"
      using s'(1) by (simp add: on_store_def store_err_def)
    show "live X c db pid e (s', snd sl)"
      using live_frame [of X c db pid e "fst sl" "snd sl" s'] live s'(2) n by simp
  qed (use s'(2) in simp)
qed

lemma live_await_frame:
  assumes "store_reliable os c" and "externs_ok X" and "live X c db pid e sl" and "\<not> lease_object X db pid q"
  shows "c (fst (await_store os X io k sl)) q = c (fst sl) q"
  using await_frame(2) [OF reliable_ok [OF assms(1)] assms(2) _ assms(4)] assms(3) by (simp add: live_def)

lemma move_objects_Ok:
  assumes os: "store_reliable os c" and X: "externs_ok X" and io: "ticks_between io e"
    and live: "live X c db pid e sl"
    and cb: "c (fst sl) (tmp_path X (PERSISTENT_CATALOG_OBJECT v) db pid r1) = Some cb"
    and mb: "c (fst sl) (tmp_path X CATALOG_METADATA db pid r2) = Some mb"
  obtains sl' where "move_objects os X io db (tmp_path X (PERSISTENT_CATALOG_OBJECT v) db pid r1)
      (tmp_path X CATALOG_METADATA db pid r2) (PERSISTENT_CATALOG_OBJECT v) sl = (sl', Ok ())"
    and "live X c db pid e sl'"
proof -
  note await = live_await [OF os X io] and frame = live_await_frame [OF os X]
  let ?sl0 = "await_store os X io 3 sl"
  have "c (fst ?sl0) (tmp_path X (PERSISTENT_CATALOG_OBJECT v) db pid r1) = Some cb"
    and mb0: "c (fst ?sl0) (tmp_path X CATALOG_METADATA db pid r2) = Some mb"
    using frame [OF live] cb mb by simp_all
  then obtain sl1 where sl1: "on_store (os_rename os (tmp_path X (PERSISTENT_CATALOG_OBJECT v) db pid r1)
      (visible_path X (PERSISTENT_CATALOG_OBJECT v) db)) ?sl0 = (sl1, Ok ())" "live X c db pid e sl1"
    "c (fst sl1) = (c (fst ?sl0))(visible_path X (PERSISTENT_CATALOG_OBJECT v) db \<mapsto> cb,
      tmp_path X (PERSISTENT_CATALOG_OBJECT v) db pid r1 := None)"
    using live_rename [OF os await [OF live] object_names_distinct(4)] by metis
  have mb1: "c (fst sl1) (tmp_path X CATALOG_METADATA db pid r2) = Some mb" using sl1(3) mb0 by simp
  let ?sl2 = "await_store os X io 4 sl1"
  let ?sl3 = "await_store os X io 5 ?sl2"
  have live3: "live X c db pid e ?sl3" and valid: "is_valid (snd ?sl2)"
    using await [OF await [OF sl1(2)]] await [OF sl1(2), of 4] by (auto simp: live_def is_valid_def)
  have "c (fst ?sl3) (tmp_path X CATALOG_METADATA db pid r2) = Some mb"
    using frame [OF await [OF sl1(2)]] frame [OF sl1(2)] mb1 by simp
  then obtain sl4 where
    "on_store (os_rename os (tmp_path X CATALOG_METADATA db pid r2) (visible_path X CATALOG_METADATA db)) ?sl3 =
      (sl4, Ok ())" "live X c db pid e sl4"
    using live_rename [OF os live3 object_names_distinct(2)] by metis
  with that sl1(1) valid show ?thesis by (simp add: move_objects_def Let_def)
qed

lemma write_objects_Ok:
  assumes os: "store_reliable os c" and X: "externs_ok X" and io: "ticks_between io e"
    and wire: "wire_state (x_union_new X) (pc_state catalog)" and enc: "catalog_encodes X catalog"
    and live: "live X c db pid e sl"
  obtains sl' where "write_objects os X pid io db catalog sl = (sl', Ok ())" and "live X c db pid e sl'"
proof -
  let ?v = "cs_version (pc_state catalog)"
  let ?md = "catalog_metadata_into_proto \<lparr>cm_latest_version = ?v, cm_last_written_by = pid\<rparr>"
  note await = live_await [OF os X io] and frame = live_await_frame [OF os X]
  obtain proto cb where conv: "persisted_catalog_into_proto catalog = Ok proto" "x_encode_catalog X proto = Ok cb"
    using catalog_bytes_roundtrip [OF X wire] enc by (auto simp: catalog_encodes_def is_ok_iff)
  obtain mb where mb: "x_encode_metadata X ?md = Ok mb" using X unfolding externs_ok_def by blast
  obtain sl1 where sl1: "on_store (os_put os (tmp_path X (PERSISTENT_CATALOG_OBJECT ?v) db pid (io_catalog_r io)) cb)
      (await_store os X io 1 sl) = (sl1, Ok ())" "live X c db pid e sl1"
    "c (fst sl1) (tmp_path X (PERSISTENT_CATALOG_OBJECT ?v) db pid (io_catalog_r io)) = Some cb"
    using live_put [OF os await [OF live]] by (metis fun_upd_same)
  obtain sl2 where sl2: "on_store (os_put os (tmp_path X CATALOG_METADATA db pid (io_metadata_r io)) mb)
      (await_store os X io 2 sl1) = (sl2, Ok ())" "live X c db pid e sl2"
    "c (fst sl2) = (c (fst (await_store os X io 2 sl1)))(tmp_path X CATALOG_METADATA db pid (io_metadata_r io) \<mapsto> mb)"
    using live_put [OF os await [OF sl1(2)]] by blast
  have "c (fst sl2) (tmp_path X (PERSISTENT_CATALOG_OBJECT ?v) db pid (io_catalog_r io)) = Some cb"
    using sl2(3) frame [OF sl1(2)] sl1(3) by simp
  from move_objects_Ok [OF os X io sl2(2) this, of "io_metadata_r io" mb] sl2(3) obtain sl3 where
    "move_objects os X io db (tmp_path X (PERSISTENT_CATALOG_OBJECT ?v) db pid (io_catalog_r io))
      (tmp_path X CATALOG_METADATA db pid (io_metadata_r io)) (PERSISTENT_CATALOG_OBJECT ?v) sl2 = (sl3, Ok ())"
    "live X c db pid e sl3" by auto
  with that conv mb sl1(1) sl2(1) show ?thesis by (simp add: write_objects_def Let_def)
qed

lemma reliable_read_metadata:
  "store_reliable os c \<Longrightarrow> stored_metadata X c db s = Some m \<Longrightarrow> read_metadata os X db s = Ok m"
  using reliable_get [of os c]
  by (auto simp: stored_metadata_def read_metadata_def split: option.splits outcome.splits)

text \<open>What a write returns on a store that does not fail, with the lease free before and after.\<close>

lemma write_catalog_reliable:
  assumes os: "store_reliable os c" and X: "externs_ok X"
    and wire: "wire_state (x_union_new X) (pc_state catalog)" and enc: "catalog_encodes X catalog"
    and pid: "length pid = 16"
    and free: "stored_lease X c db s = Some lease" "li_state lease = Unlocked"
    and m: "stored_metadata X c db s = Some m"
    and io: "ticks_between io (io_now io + LEASE_DURATION)"
  obtains s' g where "write_catalog os X pid io db old_version catalog s =
      (s', if cm_latest_version m = old_version then Ok ()
           else Err (AttemptedOutOfDataCatalogWrite (cm_latest_version m) old_version))"
    and "stored_lease X c db s' = Some (unlocked g)"
    and "cm_latest_version m \<noteq> old_version \<Longrightarrow> same_objects X c db s s'"
proof -
  let ?e = "io_now io + LEASE_DURATION"
  have time: "time_ok ?e" using io by (simp add: ticks_between_def)
  obtain s1 l where acq: "acquire os X pid (io_now io) (io_acquire_rs io) db s = (s1, Ok l)"
    and live1: "live X c db pid ?e (s1, l)" and f1: "\<And>q. \<not> lease_object X db pid q \<Longrightarrow> c s1 q = c s q"
    using acquire_free [OF os X pid time free] by metis
  obtain s2 l2 where aw: "await_store os X io 0 (s1, l) = (s2, l2)" by fastforce
  have live2: "live X c db pid ?e (s2, l2)" using live_await [OF os X io live1, of 0] aw by simp
  have "c s2 (visible_path X CATALOG_METADATA db) = c s (visible_path X CATALOG_METADATA db)"
    using live_await_frame [OF os X live1, of "visible_path X CATALOG_METADATA db" io 0] aw f1 by simp
  then have "stored_metadata X c db s2 = Some m" using m by (simp add: stored_metadata_def)
  note read = reliable_read_metadata [OF os this]
  obtain s3 l3 r where inner: "write_catalog_inner os X pid io db old_version catalog (s1, l) = ((s3, l3), r)"
    and r: "r = (if cm_latest_version m = old_version then Ok ()
           else Err (AttemptedOutOfDataCatalogWrite (cm_latest_version m) old_version))"
    and live3: "live X c db pid ?e (s3, l3)" and s3: "cm_latest_version m \<noteq> old_version \<Longrightarrow> s3 = s2"
  proof (cases "cm_latest_version m = old_version")
    case True
    obtain sl' where "write_objects os X pid io db catalog (s2, l2) = (sl', Ok ())" "live X c db pid ?e sl'"
      using write_objects_Ok [OF os X io wire enc live2] .
    with that [of "fst sl'" "snd sl'"] True read aw show ?thesis
      by (simp add: write_catalog_inner_def Let_def)
  next
    case False
    with that [of s2 l2] read aw live2 show ?thesis by (simp add: write_catalog_inner_def Let_def)
  qed
  obtain s4 where s4: "drop_lease os X (io_drop_rs io) l3 s3 = (s4, Ok ())"
    "stored_lease X c db s4 = Some (unlocked (rl_generation l3 + 1))"
    "\<And>q. \<not> lease_object X db pid q \<Longrightarrow> c s4 q = c s3 q"
    using live_drop [OF os X live3] by metis
  have "same_objects X c db s s4" if "cm_latest_version m \<noteq> old_version"
    using s4(3) f1 live_await_frame [OF os X live1, of _ io 0] aw s3 [OF that] by (simp add: same_objects_def)
  with acq inner r s4(1,2) that show ?thesis by (auto simp: write_catalog_def)
qed

subsection \<open>Initialization\<close>

lemma reliable_initialize_lease:
  assumes os: "store_reliable os c" and X: "externs_ok X"
    and absent: "c s (visible_path X LEASE_INFORMATION_OBJECT db) = None"
  obtains s' where "leaser_initialize os X pid r db s = (s', Ok ())"
    and "stored_lease X c db s' = Some (unlocked 0)" and "\<And>q. \<not> lease_object X db pid q \<Longrightarrow> c s' q = c s q"
proof -
  let ?tmp = "tmp_path X LEASE_INFORMATION_OBJECT db pid r" and ?v = "visible_path X LEASE_INFORMATION_OBJECT db"
  obtain bs where enc: "x_encode_lease X (lease_information_into_proto X (unlocked 0)) = Ok bs"
    and dec: "obind (x_decode_lease X bs) (\<lambda>p. omap_err SE_ProtoConv (lease_information_try_from_proto X p)) = Ok (unlocked 0)"
    using lease_bytes [OF X wire_unlocked] by blast
  obtain s1 where put: "os_put os ?tmp bs s = (s1, Ok ())" "c s1 = (c s)(?tmp \<mapsto> bs)"
    using reliable_put [OF os] by blast
  then have "c s1 ?tmp = Some bs" "c s1 ?v = None" using absent by simp_all
  then have "snd (os_rename_if_not_exists os ?tmp ?v s1) = Ok ()"
    using os by (simp add: store_reliable_def)
  then obtain s2 where mv: "os_rename_if_not_exists os ?tmp ?v s1 = (s2, Ok ())" by (metis prod.collapse)
  then obtain b where "c s1 ?tmp = Some b" "c s2 = (c s1)(?v \<mapsto> b, ?tmp := None)"
    using reliable_ok [OF os] unfolding store_ok_def by (metis is_ok.simps(1) tmp_not_visible(1))
  then have c2: "c s2 = (c s1)(?v \<mapsto> bs, ?tmp := None)" using put(2) by simp
  show ?thesis
  proof (rule that)
    show "leaser_initialize os X pid r db s = (s2, Ok ())"
      using enc put(1) mv by (simp add: leaser_initialize_def Let_def store_err_def)
    show "stored_lease X c db s2 = Some (unlocked 0)" using c2 dec by (auto simp: stored_lease_def)
    show "c s2 q = c s q" if "\<not> lease_object X db pid q" for q
      using that c2 put(2) by (auto simp: lease_object_def)
  qed
qed

lemma wire_first_catalog: "union_new_spec un \<Longrightarrow> wire_state un (pc_state first_catalog)"
  by (simp add: first_catalog_def wire_state_def)

lemma same_first_catalog: "same_catalog first_catalog c' \<longleftrightarrow> c' = first_catalog"
  by (auto simp: same_catalog_def first_catalog_def same_entries_def intro!: persisted_catalog.equality
      catalog_state.equality)

lemma first_catalog_bytes:
  assumes "externs_ok X" and "catalog_encodes X first_catalog"
  obtains p b where "persisted_catalog_into_proto first_catalog = Ok p" and "x_encode_catalog X p = Ok b"
    and "obind (x_decode_catalog X b) (\<lambda>p. omap_err SE_ProtoConv (persisted_catalog_try_from_proto X p)) = Ok first_catalog"
proof -
  have "wire_state (x_union_new X) (pc_state first_catalog)"
    using assms by (intro wire_first_catalog) (simp add: externs_ok_def)
  from catalog_bytes_roundtrip [OF assms(1) this] obtain p where
    p: "persisted_catalog_into_proto first_catalog = Ok p"
    and dec: "\<And>b. x_encode_catalog X p = Ok b \<Longrightarrow>
      obind (x_decode_catalog X b) (\<lambda>p. omap_err SE_ProtoConv (persisted_catalog_try_from_proto X p)) = Ok first_catalog"
    unfolding same_first_catalog by blast
  obtain b where "x_encode_catalog X p = Ok b"
    using assms(2) p by (auto simp: catalog_encodes_def is_ok_iff)
  with p dec that show ?thesis by blast
qed


lemma initialize_fresh:
  assumes os: "store_reliable os c" and X: "externs_ok X" and first: "catalog_encodes X first_catalog"
    and pid: "length pid = 16"
    and absent: "c s (visible_path X CATALOG_METADATA db) = None"
      "c s (visible_path X LEASE_INFORMATION_OBJECT db) = None"
    and io: "ticks_between io (io_now io + LEASE_DURATION)"
  obtains s' g where "initialize os X pid io db s = (s', Ok ())"
    and "current_catalog X c db s' = Some first_catalog" and "stored_lease X c db s' = Some (unlocked g)"
    and "stored_metadata X c db s' = Some \<lparr>cm_latest_version = 0, cm_last_written_by = pid\<rparr>"
proof -
  let ?e = "io_now io + LEASE_DURATION"
  have time: "time_ok ?e" using io by (simp add: ticks_between_def)
  let ?md = "\<lparr>cm_latest_version = 0, cm_last_written_by = pid\<rparr>"
  let ?vc = "visible_path X (PERSISTENT_CATALOG_OBJECT 0) db" and ?vm = "visible_path X CATALOG_METADATA db"
  obtain p b where enc: "persisted_catalog_into_proto first_catalog = Ok p" "x_encode_catalog X p = Ok b"
    and dec: "obind (x_decode_catalog X b) (\<lambda>p. omap_err SE_ProtoConv (persisted_catalog_try_from_proto X p)) = Ok first_catalog"
    using first_catalog_bytes [OF X first] .
  obtain mb where mb: "x_encode_metadata X (catalog_metadata_into_proto ?md) = Ok mb"
    using X unfolding externs_ok_def by blast
  obtain s1 where s1: "os_put os ?vc b s = (s1, Ok ())" "c s1 = (c s)(?vc \<mapsto> b)" using reliable_put [OF os] by blast
  have "c s1 (visible_path X LEASE_INFORMATION_OBJECT db) = None" using s1(2) absent(2) by simp
  then obtain s2 where s2: "leaser_initialize os X pid (io_initialize_r io) db s1 = (s2, Ok ())"
    "stored_lease X c db s2 = Some (unlocked 0)" "\<And>q. \<not> lease_object X db pid q \<Longrightarrow> c s2 q = c s1 q"
    using reliable_initialize_lease [OF os X] by metis
  obtain s3 l where s3: "acquire os X pid (io_now io) (io_acquire_rs io) db s2 = (s3, Ok l)"
    "live X c db pid ?e (s3, l)" "\<And>q. \<not> lease_object X db pid q \<Longrightarrow> c s3 q = c s2 q"
    using acquire_free [OF os X pid time s2(2)] unlocked_simps by metis
  obtain s4 l4 where s4: "run_ticks os X (io_ticks io 0) (s3, l) = (s4, l4)" by fastforce
  have live4: "live X c db pid ?e (s4, l4)" using live_await [OF os X io s3(2), of 0] s4 by (simp add: await_store_def)
  have c4: "c s4 ?vc = Some b"
    using live_await_frame [OF os X s3(2), of ?vc io 0] s4 s3(3) s2(3) s1(2) by (simp add: await_store_def)
  obtain s5 where s5: "os_put os ?vm mb s4 = (s5, Ok ())" "c s5 = (c s4)(?vm \<mapsto> mb)" using reliable_put [OF os] by blast
  have live5: "live X c db pid ?e (s5, l4)" using live_frame [OF live4] s5(2) by simp
  obtain s6 l6 where s6: "run_ticks os X (io_ticks io 1) (s5, l4) = (s6, l6)" by fastforce
  have live6: "live X c db pid ?e (s6, l6)" using live_await [OF os X io live5, of 1] s6 by (simp add: await_store_def)
  have c6: "c s6 ?vc = Some b" "c s6 ?vm = Some mb"
    using live_await_frame [OF os X live5, of _ io 1] s6 s5(2) c4 by (simp_all add: await_store_def)
  obtain s7 where s7: "drop_lease os X (io_drop_rs io) l6 s6 = (s7, Ok ())"
    "stored_lease X c db s7 = Some (unlocked (rl_generation l6 + 1))"
    "\<And>q. \<not> lease_object X db pid q \<Longrightarrow> c s7 q = c s6 q"
    using live_drop [OF os X live6] by metis
  have c7: "c s7 ?vc = Some b" "c s7 ?vm = Some mb" using s7(3) c6 by simp_all
  show ?thesis
  proof (rule that)
    have "os_head os ?vm s = Err OS_NotFound" using os absent(1) by (simp add: store_reliable_def)
    then show "initialize os X pid io db s = (s7, Ok ())"
      using enc mb s1(1) s2(1) s3(1) s4 s5(1) s6 s7(1)
      by (simp add: initialize_def initialize_new_def store_err_def)
    show m: "stored_metadata X c db s7 = Some ?md"
      using c7(2) metadata_bytes [OF X _ mb] pid by (auto simp: stored_metadata_def)
    show "current_catalog X c db s7 = Some first_catalog"
      using m c7(1) dec by (auto simp: current_catalog_def stored_catalog_def)
  qed (fact s7(2))
qed

lemma reliable_read_catalog:
  assumes "store_reliable os c" and "current_catalog X c db s = Some cat"
  shows "read_catalog os X db s = Ok cat"
proof -
  obtain m where m: "stored_metadata X c db s = Some m" "stored_catalog X c db (cm_latest_version m) s = Some cat"
    using assms(2) by (auto simp: current_catalog_def split: option.splits)
  have "read_metadata os X db s = Ok m" using reliable_read_metadata assms(1) m(1) .
  with m(2) show ?thesis
    using reliable_get [OF assms(1)]
    by (auto simp: read_catalog_def stored_catalog_def split: option.splits outcome.splits)
qed

end
