(* ===== verification/Metastore_Safety.thy ===== *)
theory Metastore_Safety
  imports Metastore_Preservation
begin

section \<open>Mutations that fail\<close>

text \<open>
  What holds of the state a mutation leaves behind whatever its outcome: builtin entries are
  untouched, the version and the bound on the number of entries are kept; and
  which mutations can panic on a well-formed state.
\<close>

lemma and_then_inv:
  assumes "P (fst r)" "\<And>s x. r = (s, Ok x) \<Longrightarrow> P s \<Longrightarrow> P (fst (f s x))"
  shows "P (fst (and_then r f))"
  using assms by (cases "(r, f)" rule: and_then.cases) auto

subsection \<open>Builtin entries are never touched\<close>

definition keeps_builtin :: "state \<Rightarrow> state \<Rightarrow> bool" where
  "keeps_builtin s0 s \<longleftrightarrow>
     (\<forall>i e. ents s0 i = Some e \<longrightarrow> ent_builtin e \<longrightarrow> ents s i = Some e) \<and> st_version s = st_version s0 \<and>
     length (st_entries s) \<le> max (length (st_entries s0)) (MAX_DATABASE_OBJECTS + 1)"

lemma keeps_builtin_refl [simp]: "keeps_builtin s s"
  by (simp add: keeps_builtin_def)

lemma keeps_builtin_cong:
  "st_entries s' = st_entries s \<Longrightarrow> st_version s' = st_version s \<Longrightarrow> keeps_builtin s0 s' = keeps_builtin s0 s"
  by (simp add: keeps_builtin_def ents_def)

lemma keeps_builtin_names [simp]:
  "keeps_builtin s0 (put_database_name n i s) = keeps_builtin s0 s" "keeps_builtin s0 (del_database_name n s) = keeps_builtin s0 s"
  "keeps_builtin s0 (put_tunnel_name n i s) = keeps_builtin s0 s" "keeps_builtin s0 (del_tunnel_name n s) = keeps_builtin s0 s"
  "keeps_builtin s0 (put_credentials_name n i s) = keeps_builtin s0 s" "keeps_builtin s0 (del_credentials_name n s) = keeps_builtin s0 s"
  "keeps_builtin s0 (put_schema_name n i s) = keeps_builtin s0 s" "keeps_builtin s0 (del_schema_name n s) = keeps_builtin s0 s"
  "keeps_builtin s0 (put_table_name sid n i s) = keeps_builtin s0 s" "keeps_builtin s0 (del_table_name sid n s) = keeps_builtin s0 s"
  "keeps_builtin s0 (put_function_name sid n i s) = keeps_builtin s0 s"
  "keeps_builtin s0 (put_objects sid objs s) = keeps_builtin s0 s" "keeps_builtin s0 (del_objects sid s) = keeps_builtin s0 s"
  "keeps_builtin s0 (s\<lparr>st_oid_counter := c\<rparr>) = keeps_builtin s0 s"
  by (rule keeps_builtin_cong; simp add: name_op_defs Let_def del_objects_def)+

lemma length_hm_insert: "length (hm_insert k v m) = (if hm_get m k = None then Suc (length m) else length m)"
proof -
  have "length (AList.update k v m) = (if map_of m k = None then Suc (length m) else length m)"
    by (induction m) auto
  then show ?thesis by (simp add: hm_insert_def hm_get_def)
qed

lemma length_hm_remove: "length (hm_remove k m) \<le> length m"
  by (simp add: hm_remove_def AList.delete_eq)

lemma keeps_builtin_insert: "keeps_builtin s0 s \<Longrightarrow> keeps_builtin s0 (fst (insert_entry_step i e s))"
  by (auto simp: insert_entry_step_def db_entries_insert_def keeps_builtin_def ents_def hm_len_def length_hm_insert
      split: option.splits)

lemmas keeps_and_then = and_then_inv [where P = "keeps_builtin s0" for s0]

lemma keeps_builtin_entries:
  assumes "keeps_builtin s0 s" "st_version s' = st_version s" "length (st_entries s') \<le> length (st_entries s)"
    and "\<And>j e. ents s j = Some e \<Longrightarrow> ent_builtin e \<Longrightarrow> ents s' j = Some e"
  shows "keeps_builtin s0 s'"
proof -
  have "length (st_entries s') \<le> max (length (st_entries s0)) (MAX_DATABASE_OBJECTS + 1)"
    using assms(1,3) unfolding keeps_builtin_def by linarith
  then show ?thesis
    using assms(1,2,4) unfolding keeps_builtin_def by simp
qed

lemma keeps_builtin_del_entry:
  assumes "keeps_builtin s0 s" "\<And>e. ents s i = Some e \<Longrightarrow> \<not> ent_builtin e"
  shows "keeps_builtin s0 (del_entry i s)"
  using assms(1)
proof (rule keeps_builtin_entries)
  fix j e assume "ents s j = Some e" "ent_builtin e"
  with assms(2) show "ents (del_entry i s) j = Some e" by (cases "j = i") (auto simp: state_simps)
qed (simp_all add: del_entry_def length_hm_remove)

lemma keeps_builtin_put_entry:
  assumes "keeps_builtin s0 s" "ents s i = Some e" "\<not> ent_builtin e"
  shows "keeps_builtin s0 (put_entry i e' s)"
  using assms(1)
proof (rule keeps_builtin_entries)
  fix j x assume "ents s j = Some x" "ent_builtin x"
  with assms(2,3) show "ents (put_entry i e' s) j = Some x" by (cases "j = i") (auto simp: state_simps)
next
  show "length (st_entries (put_entry i e' s)) \<le> length (st_entries s)"
    using assms(2) by (simp add: put_entry_def length_hm_insert ents_def)
qed (simp add: put_entry_def)

lemma keeps_builtin_remove: "keeps_builtin s0 s \<Longrightarrow> keeps_builtin s0 (fst (remove_entry_step i s))"
  using keeps_builtin_del_entry [of s0 s i]
  by (auto simp: remove_entry_step_def db_entries_remove_def ents_def del_entry_def split: option.split)

lemma keeps_builtin_modify: "keeps_builtin s0 s \<Longrightarrow> keeps_builtin s0 (fst (modify_entry i f s))"
  unfolding modify_entry_def
  by (rule keeps_and_then)
    (auto simp: db_entries_get_mut_def ents_def [symmetric] split: option.splits if_splits
      intro!: keeps_and_then keeps_builtin_put_entry)

lemma keeps_builtin_children: "keeps_builtin s0 s \<Longrightarrow> keeps_builtin s0 (fst (remove_children oids s))"
  by (induction oids arbitrary: s) (auto intro!: keeps_and_then keeps_builtin_remove)

lemmas keeps_intros = keeps_and_then keeps_builtin_insert keeps_builtin_remove keeps_builtin_modify keeps_builtin_children

lemma keeps_builtin_try_insert:
  "keeps_builtin s0 s \<Longrightarrow> keeps_builtin s0 (fst (try_insert_table_namespace e sid i policy s))"
  by (auto simp: try_insert_table_namespace_def Let_def split: create_policy.split intro!: keeps_intros)

lemma keeps_builtin_get_or_next_oid:
  "keeps_builtin s0 (fst (get_or_next_oid sid n s)) = keeps_builtin s0 s"
  by (simp add: get_or_next_oid_def next_oid_def split: option.split)

lemma keeps_builtin_drops:
  "keeps_builtin s (fst (mutate_drop_database m1 s))" "keeps_builtin s (fst (mutate_drop_tunnel m2 s))"
  "keeps_builtin s (fst (mutate_drop_credentials m3 s))" "keeps_builtin s (fst (mutate_drop_schema m4 s))"
  "keeps_builtin s (fst (mutate_drop_object m5 s))"
  by (auto simp: mutate_drop_database_def mutate_drop_tunnel_def mutate_drop_credentials_def
      mutate_drop_schema_def mutate_drop_object_def Let_def split: option.split intro!: keeps_intros)

lemma keeps_builtin_creates:
  "keeps_builtin s (fst (mutate_create_external_database m1 s))" "keeps_builtin s (fst (mutate_create_tunnel m2 s))"
  "keeps_builtin s (fst (mutate_create_schema m4 s))" "keeps_builtin s (fst (mutate_create_function m5 s))"
  "keeps_builtin s (fst (mutate_create_credentials m3 s))"
  by (auto simp: mutate_create_external_database_def mutate_create_tunnel_def mutate_create_credentials_def
      mutate_create_schema_def mutate_create_function_def next_oid_def Let_def validate_name_step_def
      split: option.split bool.split intro!: keeps_intros)

lemma keeps_builtin_tables:
  "keeps_builtin s (fst (mutate_create_view m1 s))" "keeps_builtin s (fst (mutate_create_table m2 s))"
  "keeps_builtin s (fst (mutate_create_external_table m3 s))"
  by (auto simp: mutate_create_view_def mutate_create_table_def mutate_create_external_table_def case_prod_unfold
      Let_def validate_name_step_def keeps_builtin_get_or_next_oid intro!: keeps_intros keeps_builtin_try_insert)

lemma keeps_builtin_alters:
  "keeps_builtin s (fst (mutate_alter_table m1 s))" "keeps_builtin s (fst (mutate_alter_database m2 s))"
  "keeps_builtin s (fst (mutate_alter_tunnel_rotate_keys m3 s))"
  "keeps_builtin s (fst (mutate_update_deployment_storage m4 s))"
  by (auto simp: mutate_alter_table_def mutate_rename_table_def mutate_set_table_access_mode_def
      mutate_alter_database_def mutate_alter_tunnel_rotate_keys_def mutate_update_deployment_storage_def
      validate_name_step_def keeps_builtin_cong [of _ s]
      split: option.split alter_table_operation.split alter_database_operation.split catalog_entry.split
      intro!: keeps_intros keeps_builtin_try_insert)

lemma keeps_builtin_mutate_one: "keeps_builtin s (fst (mutate_one m s))"
  by (cases m) (simp_all add: keeps_builtin_drops keeps_builtin_creates keeps_builtin_tables keeps_builtin_alters)

lemma keeps_builtin_trans:
  assumes "keeps_builtin s s1" "keeps_builtin s1 s2"
  shows "keeps_builtin s s2"
proof -
  have "length (st_entries s2) \<le> max (length (st_entries s)) (MAX_DATABASE_OBJECTS + 1)"
    using assms unfolding keeps_builtin_def by linarith
  then show ?thesis using assms unfolding keeps_builtin_def by simp
qed

lemma keeps_builtin_mutate_all: "keeps_builtin s (fst (mutate_all ms s))"
proof (induction ms arbitrary: s)
  case (Cons m ms)
  show ?case
    unfolding mutate_all.simps
  proof (rule keeps_and_then)
    show "keeps_builtin s (fst (mutate_one m s))" by (rule keeps_builtin_mutate_one)
  next
    fix s1 :: state and x :: unit
    assume "keeps_builtin s s1"
    then show "keeps_builtin s (fst (mutate_all ms s1))"
      using Cons.IH by (rule keeps_builtin_trans)
  qed
qed simp

subsection \<open>Panics\<close>

lemma is_panic_and_then:
  "is_panic (snd (and_then r f)) \<longleftrightarrow>
     is_panic (snd r) \<or> (\<exists>s x. r = (s, Ok x) \<and> is_panic (snd (f s x)))"
  by (cases "(r, f)" rule: and_then.cases) auto

lemma is_panic_omap_err [simp]: "is_panic (omap_err g r) = is_panic r"
  by (cases r) auto

lemma no_panic_validate [simp]: "\<not> is_panic (snd (validate_name_step n s))"
  by (simp add: validate_name_step_def)

lemma no_panic_insert [simp]: "\<not> is_panic (snd (insert_entry_step i e s))"
  by (auto simp: insert_entry_step_def db_entries_insert_def split: option.split)

lemma is_panic_remove: "is_panic (snd (remove_entry_step i s)) \<longleftrightarrow> ents s i = None"
  by (auto simp: remove_entry_step_def db_entries_remove_def ents_def split: option.split)

lemma is_panic_modify:
  "is_panic (snd (modify_entry i f s)) \<longleftrightarrow>
     (case ents s i of None \<Rightarrow> True | Some e \<Rightarrow> \<not> ent_builtin e \<and> is_panic (f e))"
  by (auto simp: modify_entry_def db_entries_get_mut_def ents_def is_panic_and_then split: option.split)

lemma no_panic_try_insert [simp]: "\<not> is_panic (snd (try_insert_table_namespace e sid i policy s))"
  by (auto simp: try_insert_table_namespace_def Let_def is_panic_and_then split: create_policy.split)

lemma no_panic_policy [simp]: "\<not> is_panic (create_policy_new a b)"
  by (cases a; cases b) auto

lemma no_panic_schema_id [simp]: "\<not> is_panic (get_schema_id n s)"
  by (simp add: get_schema_id_def split: option.split)

lemma no_panic_tunnel_id:
  assumes "wf_state bc s" "\<And>t. \<not> is_panic (check t)"
  shows "\<not> is_panic (get_tunnel_id check tunnel s)"
proof (cases tunnel)
  case None
  then show ?thesis by (simp add: get_tunnel_id_def get_tunnel_entry_def)
next
  case (Some t)
  show ?thesis
  proof (cases "lookup s (NS_Tunnel, DATABASE_PARENT_ID, t)")
    case None
    with Some show ?thesis by (simp add: get_tunnel_id_def get_tunnel_entry_def lookup_iffs)
  next
    case (Some i)
    from wf_state_kind(2) [OF assms(1) Some] obtain x where "hm_get (st_entries s) i = Some (Tunnel x)"
      by (auto simp: ents_def)
    with Some \<open>tunnel = _\<close> assms(2) show ?thesis
      by (auto simp: get_tunnel_id_def get_tunnel_entry_def lookup_iffs db_entries_get_def is_panic_obind)
  qed
qed

lemma no_panic_creates:
  assumes "wf_state bc s"
  shows "\<not> is_panic (snd (mutate_create_external_database m1 s))" "\<not> is_panic (snd (mutate_create_tunnel m2 s))"
    "\<not> is_panic (snd (mutate_create_credentials m3 s))" "\<not> is_panic (snd (mutate_create_schema m4 s))"
    "\<not> is_panic (snd (mutate_create_function m5 s))" "\<not> is_panic (snd (mutate_create_view m6 s))"
    "\<not> is_panic (snd (mutate_create_table m7 s))" "\<not> is_panic (snd (mutate_create_external_table m8 s))"
  using no_panic_tunnel_id [OF assms]
  by (auto simp: mutate_create_external_database_def mutate_create_tunnel_def mutate_create_credentials_def
      mutate_create_schema_def mutate_create_function_def mutate_create_view_def mutate_create_table_def
      mutate_create_external_table_def is_panic_and_then next_oid_def case_prod_unfold Let_def
      split: option.splits bool.splits)

lemma remove_children_no_panic:
  "distinct oids \<Longrightarrow> \<forall>i \<in> set oids. ents s i \<noteq> None \<Longrightarrow> \<not> is_panic (snd (remove_children oids s))"
proof (induction oids arbitrary: s)
  case (Cons i oids)
  have "\<not> is_panic (snd (remove_children oids (del_entry i s)))"
    by (rule Cons.IH) (use Cons.prems in \<open>auto simp: state_simps\<close>)
  with Cons.prems show ?case by (auto simp: is_panic_and_then is_panic_remove)
qed simp

lemma remove_children_ents:
  "j \<notin> set oids \<Longrightarrow> remove_children oids s = (s', Ok ()) \<Longrightarrow> ents s' j = ents s j"
  by (drule remove_children_Ok) (simp add: without_def)

lemma distinct_values_if_inj:
  assumes "hm_ok m" "\<And>k k' i. hm_get m k = Some i \<Longrightarrow> hm_get m k' = Some i \<Longrightarrow> k = k'"
  shows "distinct (hm_values m)"
proof -
  have d: "distinct m" using assms(1) by (auto simp: hm_ok_def dest: distinct_map [THEN iffD1])
  have "inj_on snd (set m)"
  proof (rule inj_onI)
    fix p q assume pq: "p \<in> set m" "q \<in> set m" "snd p = snd q"
    obtain k i k' where "p = (k, i)" "q = (k', i)" using pq(3) by (cases p; cases q) auto
    with pq(1,2) assms(2) [of k i k'] show "p = q"
      by (simp add: hm_get_eq_Some_iff [OF assms(1)])
  qed
  with d show ?thesis by (simp add: hm_values_def distinct_map)
qed

lemma distinct_iter_oids:
  assumes wf: "wf_state bc s" and objs: "hm_get (st_schema_objects s) sid = Some objs"
  shows "distinct (iter_oids objs)"
proof -
  have ix: "indexes (lookup s) (ents s)" and so: "hm_ok (sob_tables objs)" "hm_ok (sob_functions objs)"
    using wf objs by (auto simp: wf_state_def maps_ok_def dest: wf_coreD(5) schema_objects_okD)
  have T: "hm_get (sob_tables objs) n = lookup s (NS_Table, sid, n)"
    "hm_get (sob_functions objs) n = lookup s (NS_Function, sid, n)" for n
    by (simp_all add: lookup_def table_index_def function_index_def objs)
  have "distinct (hm_values (sob_tables objs))" "distinct (hm_values (sob_functions objs))"
    using indexes_inj [OF ix] by (auto intro!: distinct_values_if_inj simp: so T)
  moreover have "set (hm_values (sob_tables objs)) \<inter> set (hm_values (sob_functions objs)) = {}"
  proof (rule ccontr)
    assume "set (hm_values (sob_tables objs)) \<inter> set (hm_values (sob_functions objs)) \<noteq> {}"
    then obtain i n n' where "(n, i) \<in> set (sob_tables objs)" "(n', i) \<in> set (sob_functions objs)"
      by (auto simp: hm_values_def)
    then have "lookup s (NS_Table, sid, n) = Some i" "lookup s (NS_Function, sid, n') = Some i"
      by (simp_all add: T [symmetric] hm_get_eq_Some_iff so)
    from indexes_inj [OF ix this] show False by simp
  qed
  ultimately show ?thesis by (simp add: iter_oids_def)
qed

lemma lookup_exists: "wf_state bc s \<Longrightarrow> lookup s k = Some i \<Longrightarrow> ents s i \<noteq> None"
  using wf_state_entry by fastforce

lemma no_panic_drop_schema:
  assumes wf: "wf_state bc s"
  shows "\<not> is_panic (snd (mutate_drop_schema m s))"
proof (cases "lookup s (NS_Schema, bd_oid DATABASE_DEFAULT, ds_name m)")
  case None
  then show ?thesis by (simp add: mutate_drop_schema_def lookup_iffs)
next
  case (Some sid)
  let ?s = "del_schema_name (ds_name m) s"
  have sid: "ents s sid \<noteq> None" by (rule lookup_exists [OF wf Some])
  from wf_state_schema [OF wf Some] obtain x where x: "ents s sid = Some (Schema x)" by blast
  have so: "st_schema_objects ?s = st_schema_objects s" by (simp add: del_schema_name_def)
  show ?thesis
  proof (cases "hm_get (st_schema_objects s) sid")
    case None
    with Some sid show ?thesis
      by (simp add: mutate_drop_schema_def lookup_iffs is_panic_and_then is_panic_remove so state_simps)
  next
    case objs: (Some objs)
    have I: "set (iter_oids objs) = {i. \<exists>k \<in> schema_keys sid. lookup s k = Some i}"
      by (rule iter_oids_lookup [OF wf_state_maps [OF wf] objs])
    then have ex: "\<forall>i \<in> set (iter_oids objs). ents s i \<noteq> None" using lookup_exists [OF wf] by blast
    have nsid: "sid \<notin> set (iter_oids objs)"
      using I x wf_state_entry [OF wf] by (fastforce simp: schema_keys_def entry_key_def)
    have "\<not> is_panic (snd (remove_children (iter_oids objs) (del_objects sid ?s)))"
      by (rule remove_children_no_panic)
        (use distinct_iter_oids [OF wf objs] ex in \<open>auto simp: del_objects_simps state_simps\<close>)
    moreover have "ents s1 sid \<noteq> None" if "remove_children (iter_oids objs) (del_objects sid ?s) = (s1, Ok ())" for s1
      using remove_children_ents [OF nsid that] sid by (simp add: del_objects_simps state_simps)
    ultimately show ?thesis
      using Some objs sid
      by (auto simp: mutate_drop_schema_def lookup_iffs so is_panic_and_then is_panic_remove
          del_objects_simps state_simps Let_def split: if_splits)
  qed
qed

lemma no_panic_drops:
  assumes wf: "wf_state bc s"
  shows "\<not> is_panic (snd (mutate_drop_database m1 s))" "\<not> is_panic (snd (mutate_drop_tunnel m2 s))"
    "\<not> is_panic (snd (mutate_drop_credentials m3 s))" "\<not> is_panic (snd (mutate_drop_object m4 s))"
proof -
  note ex = lookup_exists [OF wf]
  show "\<not> is_panic (snd (mutate_drop_database m1 s))" "\<not> is_panic (snd (mutate_drop_tunnel m2 s))"
    "\<not> is_panic (snd (mutate_drop_credentials m3 s))"
    by (auto simp: mutate_drop_database_def mutate_drop_tunnel_def mutate_drop_credentials_def lookup_iffs
        is_panic_and_then is_panic_remove state_simps dest: ex split: option.split)
  have "ents s i \<noteq> None" if "hm_get (st_schema_objects s) sid = Some objs" "hm_get (sob_tables objs) n = Some i"
    for sid objs n i
    using ex [of "(NS_Table, sid, n)" i] that by (simp add: lookup_iffs(5) [symmetric] or_default_Some)
  then show "\<not> is_panic (snd (mutate_drop_object m4 s))"
    by (auto simp: mutate_drop_object_def is_panic_and_then is_panic_remove state_simps split: option.split)
qed

lemma no_panic_rename_table:
  assumes wf: "wf_state bc s"
  shows "\<not> is_panic (snd (mutate_rename_table schema n sid new_name s))"
proof (cases "lookup s (NS_Table, sid, n)")
  case None
  then show ?thesis by (auto simp: mutate_rename_table_def lookup_iffs is_panic_and_then)
next
  case (Some i)
  from wf_state_kind(3) [OF wf Some] Some show ?thesis
    by (auto simp: mutate_rename_table_def lookup_iffs is_panic_and_then is_panic_remove state_simps)
qed

definition alters_view_access :: "mutation \<Rightarrow> state \<Rightarrow> bool" where
  "alters_view_access m s \<longleftrightarrow>
     (\<exists>a mode sid i v. m = AlterTable a \<and> at_operation a = SetTableAccessMode mode \<and>
        lookup s (NS_Schema, bd_oid DATABASE_DEFAULT, at_schema a) = Some sid \<and>
        lookup s (NS_Table, sid, at_name a) = Some i \<and> ents s i = Some (View v) \<and> \<not> meta_builtin (ve_meta v))"

lemma is_panic_alter_table:
  assumes wf: "wf_state bc s"
  shows "is_panic (snd (mutate_alter_table a s)) \<longleftrightarrow> alters_view_access (AlterTable a) s"
proof (cases "at_operation a")
  case (RenameTable n)
  then show ?thesis
    using no_panic_rename_table [OF wf]
    by (auto simp: mutate_alter_table_def alters_view_access_def split: option.split)
next
  case (SetTableAccessMode mode)
  have panic: "is_panic (snd (mutate_set_table_access_mode schema n sid mode s)) \<longleftrightarrow>
      (\<exists>i v. lookup s (NS_Table, sid, n) = Some i \<and> ents s i = Some (View v) \<and> \<not> meta_builtin (ve_meta v))"
    for schema n sid
  proof (cases "lookup s (NS_Table, sid, n)")
    case None
    then show ?thesis by (simp add: mutate_set_table_access_mode_def lookup_iffs)
  next
    case (Some i)
    from wf_state_kind(3) [OF wf Some] Some show ?thesis
      by (auto simp: mutate_set_table_access_mode_def lookup_iffs is_panic_modify)
  qed
  have "lookup s (NS_Table, sid, n) = None" if "hm_get (st_schema_objects s) sid = None" for sid n
    using that by (simp add: lookup_def table_index_def)
  then show ?thesis
    using SetTableAccessMode
    by (auto simp: mutate_alter_table_def alters_view_access_def lookup_iffs panic split: option.split)
qed

lemma no_panic_alters:
  assumes wf: "wf_state bc s"
  shows "\<not> is_panic (snd (mutate_alter_database m1 s))" "\<not> is_panic (snd (mutate_alter_tunnel_rotate_keys m2 s))"
    "\<not> is_panic (snd (mutate_update_deployment_storage m3 s))"
proof -
  show "\<not> is_panic (snd (mutate_alter_database m1 s))"
  proof (cases "lookup s (NS_Database, DATABASE_PARENT_ID, ad_name m1)")
    case None
    then show ?thesis
      by (auto simp: mutate_alter_database_def lookup_iffs is_panic_and_then split: alter_database_operation.split)
  next
    case (Some i)
    from wf_state_kind(1) [OF wf Some] Some show ?thesis
      by (auto simp: mutate_alter_database_def lookup_iffs is_panic_and_then is_panic_modify state_simps
          split: alter_database_operation.split)
  qed
  show "\<not> is_panic (snd (mutate_alter_tunnel_rotate_keys m2 s))"
  proof (cases "lookup s (NS_Tunnel, DATABASE_PARENT_ID, atr_name m2)")
    case None
    then show ?thesis by (simp add: mutate_alter_tunnel_rotate_keys_def lookup_iffs)
  next
    case (Some i)
    from wf_state_kind(2) [OF wf Some] Some show ?thesis
      by (auto simp: mutate_alter_tunnel_rotate_keys_def lookup_iffs is_panic_modify rotate_tunnel_keys_def
          split: tunnel_options.splits)
  qed
qed (simp add: mutate_update_deployment_storage_def)

lemma is_panic_mutate_one:
  assumes "wf_state bc s"
  shows "is_panic (snd (mutate_one m s)) \<longleftrightarrow> alters_view_access m s"
  using no_panic_creates [OF assms] no_panic_drops [OF assms] no_panic_drop_schema [OF assms]
    no_panic_alters [OF assms] is_panic_alter_table [OF assms]
  by (cases m) (simp_all add: alters_view_access_def)

end
