(* ===== verification/Metastore_Entries.thy ===== *)
theory Metastore_Entries
  imports Metastore_Safety Service_Proto
begin

section \<open>Invariants of single entries\<close>

text \<open>
  A property of catalog entries that the entries made by a mutation have, and that the writes to an
  entry keep, holds of every entry a sequence of mutations leaves behind. The interface \<open>entry_property\<close> states what is
  needed of the property; it is used for the entries that the protobuf messages carry faithfully.
\<close>

definition all_entries :: "(catalog_entry \<Rightarrow> bool) \<Rightarrow> state \<Rightarrow> bool" where
  "all_entries P s = (\<forall>i e. ents s i = Some e \<longrightarrow> P e)"

lemma all_entriesD: "all_entries P s \<Longrightarrow> ents s i = Some e \<Longrightarrow> P e"
  by (auto simp: all_entries_def)

lemma all_entries_cong: "st_entries s' = st_entries s \<Longrightarrow> all_entries P s' = all_entries P s"
  by (simp add: all_entries_def ents_def)

lemma all_entries_names [simp]:
  "all_entries P (put_database_name n i s) = all_entries P s" "all_entries P (del_database_name n s) = all_entries P s"
  "all_entries P (put_tunnel_name n i s) = all_entries P s" "all_entries P (del_tunnel_name n s) = all_entries P s"
  "all_entries P (put_credentials_name n i s) = all_entries P s" "all_entries P (del_credentials_name n s) = all_entries P s"
  "all_entries P (put_schema_name n i s) = all_entries P s" "all_entries P (del_schema_name n s) = all_entries P s"
  "all_entries P (put_table_name sid n i s) = all_entries P s" "all_entries P (del_table_name sid n s) = all_entries P s"
  "all_entries P (put_function_name sid n i s) = all_entries P s"
  "all_entries P (put_objects sid objs s) = all_entries P s" "all_entries P (del_objects sid s) = all_entries P s"
  "all_entries P (s\<lparr>st_oid_counter := c\<rparr>) = all_entries P s" "all_entries P (s\<lparr>st_version := v\<rparr>) = all_entries P s"
  "all_entries P (s\<lparr>st_deployment := d\<rparr>) = all_entries P s"
  by (rule all_entries_cong; simp add: name_op_defs Let_def del_objects_def)+

lemma all_entries_insert: "all_entries P s \<Longrightarrow> P e \<Longrightarrow> all_entries P (fst (insert_entry_step i e s))"
  by (auto simp: insert_entry_step_def db_entries_insert_def all_entries_def ents_def hm_get_insert
      split: option.splits if_splits)

lemma all_entries_remove: "all_entries P s \<Longrightarrow> all_entries P (fst (remove_entry_step i s))"
  by (auto simp: remove_entry_step_def db_entries_remove_def all_entries_def ents_def hm_get_remove
      split: option.splits if_splits)

lemma all_entries_modify:
  assumes "all_entries P s" and "\<And>e e'. P e \<Longrightarrow> f e = Ok e' \<Longrightarrow> P e'"
  shows "all_entries P (fst (modify_entry i f s))"
proof -
  have "all_entries P (fst (and_then (s, f e) (\<lambda>s ent'. (put_entry i ent' s, Ok ()))))" if "ents s i = Some e" for e
    using assms that by (cases "f e") (auto simp: all_entries_def ents_def put_entry_def hm_get_insert split: if_splits)
  with assms(1) show ?thesis
    by (auto simp: modify_entry_def db_entries_get_mut_def ents_def split: option.splits if_splits)
qed

lemma all_entries_children: "all_entries P s \<Longrightarrow> all_entries P (fst (remove_children oids s))"
  by (induction oids arbitrary: s) (auto intro!: and_then_inv [where P = "all_entries P"] all_entries_remove)

lemma all_entries_try_insert:
  "all_entries P s \<Longrightarrow> P e \<Longrightarrow> all_entries P (fst (try_insert_table_namespace e sid i policy s))"
  by (auto simp: try_insert_table_namespace_def Let_def split: create_policy.split
      intro!: and_then_inv [where P = "all_entries P"] all_entries_insert)

lemma all_entries_oid: "all_entries P (fst (get_or_next_oid sid n s)) = all_entries P s"
  by (simp add: get_or_next_oid_def next_oid_def split: option.split)

lemmas all_entries_intros =
  and_then_inv [where P = "all_entries P" for P] all_entries_insert all_entries_remove all_entries_children
  all_entries_try_insert all_entries_modify

lemma all_entries_drops:
  assumes "all_entries P s"
  shows "all_entries P (fst (mutate_drop_database m1 s))" "all_entries P (fst (mutate_drop_tunnel m2 s))"
  "all_entries P (fst (mutate_drop_credentials m3 s))" "all_entries P (fst (mutate_drop_schema m4 s))"
  "all_entries P (fst (mutate_drop_object m5 s))" "all_entries P (fst (mutate_update_deployment_storage m6 s))"
  using assms
  by (auto simp: mutate_drop_database_def mutate_drop_tunnel_def mutate_drop_credentials_def
      mutate_drop_schema_def mutate_drop_object_def mutate_update_deployment_storage_def Let_def
      split: option.split intro!: all_entries_intros)

subsection \<open>The interface\<close>

locale entry_property =
  fixes P :: "catalog_entry \<Rightarrow> bool" and Q :: "mutation \<Rightarrow> bool"
  assumes renamed: "P e \<Longrightarrow> P (map_meta (\<lambda>m. m\<lparr>meta_name := n\<rparr>) e)"
    and table_mode: "P (Table t) \<Longrightarrow> P (Table (t\<lparr>te_access_mode := a\<rparr>))"
    and database_mode: "P (Database d) \<Longrightarrow> P (Database (d\<lparr>de_access_mode := a\<rparr>))"
    and rotated: "P (Tunnel tu) \<Longrightarrow> P (Tunnel (tu\<lparr>tu_options := TuO_Ssh (opts\<lparr>tus_ssh_key := k\<rparr>)\<rparr>))"
    and new_database: "Q (CreateExternalDatabase m1) \<Longrightarrow> P (Database \<lparr>de_meta = user_meta ET_Database i DATABASE_PARENT_ID (ced_name m1) True,
      de_options = ced_options m1, de_tunnel_id = tid, de_access_mode = ReadOnly\<rparr>)"
    and new_tunnel: "Q (CreateTunnel m2) \<Longrightarrow> P (Tunnel \<lparr>tu_meta = user_meta ET_Tunnel i DATABASE_PARENT_ID (ctu_name m2) False,
      tu_options = ctu_options m2\<rparr>)"
    and new_credentials: "Q (CreateCredentials m3) \<Longrightarrow>
      P (Credentials \<lparr>ce_meta = user_meta ET_Credentials i DATABASE_PARENT_ID (cc_name m3) False,
        ce_options = cc_options m3, ce_comment = cc_comment m3\<rparr>)"
    and new_schema: "Q (CreateSchema m4) \<Longrightarrow>
      P (Schema \<lparr>se_meta = user_meta ET_Schema i (bd_oid DATABASE_DEFAULT) (csc_name m4) False\<rparr>)"
    and new_view: "Q (CreateView m5) \<Longrightarrow> P (View \<lparr>ve_meta = user_meta ET_View i sid (cv_name m5) False,
      ve_sql = cv_sql m5, ve_columns = cv_columns m5\<rparr>)"
    and new_table: "Q (CreateTable m6) \<Longrightarrow> P (Table \<lparr>te_meta = user_meta ET_Table i sid (ct_name m6) False,
      te_options = TO_Internal (ct_options m6), te_tunnel_id = None, te_access_mode = ReadWrite, te_columns = None\<rparr>)"
    and new_external_table: "Q (CreateExternalTable m7) \<Longrightarrow>
      P (Table \<lparr>te_meta = user_meta ET_Table i sid (cet_name m7) True, te_options = cet_options m7,
        te_tunnel_id = tid, te_access_mode = ReadOnly, te_columns = cet_columns m7\<rparr>)"
    and new_function: "Q (CreateFunction m8) \<Longrightarrow> P (Function \<lparr>fe_meta = user_meta ET_Function i sid (cf_name m8) True,
      fe_func_type = cf_function_type m8, fe_signature = Some (cf_signature m8), fe_user_defined = True\<rparr>)"
begin

lemma rotate: "P e \<Longrightarrow> rotate_tunnel_keys k e = Ok e' \<Longrightarrow> P e'"
  by (auto simp: rotate_tunnel_keys_def rotated split: catalog_entry.splits tunnel_options.splits)

lemma creates:
  assumes "all_entries P s"
  shows "Q (CreateExternalDatabase m1) \<Longrightarrow> all_entries P (fst (mutate_create_external_database m1 s))"
    "Q (CreateTunnel m2) \<Longrightarrow> all_entries P (fst (mutate_create_tunnel m2 s))"
    "Q (CreateSchema m4) \<Longrightarrow> all_entries P (fst (mutate_create_schema m4 s))"
    "Q (CreateFunction m8) \<Longrightarrow> all_entries P (fst (mutate_create_function m8 s))"
    "Q (CreateCredentials m3) \<Longrightarrow> all_entries P (fst (mutate_create_credentials m3 s))"
  using assms
  by (auto simp: mutate_create_external_database_def mutate_create_tunnel_def mutate_create_credentials_def
      mutate_create_schema_def mutate_create_function_def next_oid_def Let_def validate_name_step_def
      split: option.split bool.split
      intro!: all_entries_intros new_database new_tunnel new_schema new_function new_credentials)

lemma tables:
  assumes "all_entries P s"
  shows "Q (CreateView m5) \<Longrightarrow> all_entries P (fst (mutate_create_view m5 s))"
    "Q (CreateTable m6) \<Longrightarrow> all_entries P (fst (mutate_create_table m6 s))"
    "Q (CreateExternalTable m7) \<Longrightarrow> all_entries P (fst (mutate_create_external_table m7 s))"
  using assms
  by (auto simp: mutate_create_view_def mutate_create_table_def mutate_create_external_table_def case_prod_unfold
      Let_def validate_name_step_def all_entries_oid intro!: all_entries_intros new_view new_table new_external_table)

lemma rename_table:
  assumes s: "all_entries P s"
  shows "all_entries P (fst (mutate_rename_table schema name sid new_name s))"
proof -
  have ins: "all_entries P (fst (try_insert_table_namespace (map_meta (\<lambda>m. m\<lparr>meta_name := new_name\<rparr>) e) sid i Create s1))"
    if "ents (del_table_name sid name s) i = Some e" "all_entries P s1" for i s1 e
  proof -
    have "P e" using all_entriesD [OF _ that(1)] s by simp
    then show ?thesis using that(2) by (intro all_entries_try_insert renamed)
  qed
  show ?thesis
    by (auto simp: mutate_rename_table_def validate_name_step_def s simp del: map_meta.simps
        split: option.split catalog_entry.split
        intro!: and_then_inv [where P = "all_entries P"] all_entries_remove) (erule (1) ins)+
qed

lemma alters:
  assumes "all_entries P s"
  shows "all_entries P (fst (mutate_alter_table m1 s))" "all_entries P (fst (mutate_alter_database m2 s))"
    "all_entries P (fst (mutate_alter_tunnel_rotate_keys m3 s))"
  using assms
  by (auto simp: mutate_alter_table_def mutate_set_table_access_mode_def mutate_alter_database_def
      mutate_alter_tunnel_rotate_keys_def validate_name_step_def
      split: option.split alter_table_operation.split alter_database_operation.split catalog_entry.splits
      intro!: and_then_inv [where P = "all_entries P"] all_entries_modify rename_table
      intro: table_mode database_mode rotate renamed)

lemma one: "Q m \<Longrightarrow> all_entries P s \<Longrightarrow> all_entries P (fst (mutate_one m s))"
  by (cases m) (simp_all add: all_entries_drops creates tables alters)

lemma all: "list_all Q ms \<Longrightarrow> all_entries P s \<Longrightarrow> all_entries P (fst (mutate_all ms s))"
proof (induction ms arbitrary: s)
  case (Cons m ms)
  then show ?case by (auto intro!: and_then_inv [where P = "all_entries P"] one)
qed simp

lemma mutations: "list_all Q ms \<Longrightarrow> all_entries P s \<Longrightarrow> all_entries P (fst (mutate ms s))"
  by (simp add: mutate_def all)

end

subsection \<open>Entries that messages carry\<close>

interpretation wire_entries: entry_property "wire_entry un" "wire_mutation un" for un
proof
  fix e n assume "wire_entry un e"
  then show "wire_entry un (map_meta (\<lambda>m. m\<lparr>meta_name := n\<rparr>) e)"
    by (cases e) (auto simp: wire_table_def wire_function_def)
qed (auto simp: wire_table_def wire_table_options_def wire_external_table_def)

text \<open>Entries of a catalog are never temporary: those a session makes live elsewhere.\<close>

interpretation permanent_entries: entry_property "\<lambda>e. \<not> ent_is_temp e" "\<lambda>m. True"
proof
  fix e n assume "\<not> ent_is_temp e"
  then show "\<not> ent_is_temp (map_meta (\<lambda>m. m\<lparr>meta_name := n\<rparr>) e)" by (cases e) auto
qed (auto simp: user_meta_def)

end
