(* ===== verification/Database_Catalog.thy ===== *)
theory Database_Catalog
  imports Metastore_Load Storage_Progress Metastore_Entries
begin

section \<open>The catalog of a database\<close>

text \<open>
  \<open>DatabaseCatalog\<close> of \<open>crates/metastore/src/database.rs\<close>: the state that a metastore process caches
  for a database, in front of the storage. The fields \<open>process_id\<close> and \<open>store\<close> of \<open>Storage\<close> are in the
  record \<open>storage\<close>, together with the external functions; the builtin catalog is the argument \<open>bc\<close>.

  Where a call awaits, other tasks of the process and other processes may run. The argument \<open>w\<close> is
  what they do to the store and to the cached catalog there, by the number of the await.
\<close>

record 's storage =
  sg_store :: "'s object_store"
  sg_externs :: externs
  sg_process_id :: uuid

record database_catalog =
  dc_db_id :: uuid
  dc_cached :: state
  dc_require_full_load :: bool

type_synonym 's interference = "nat \<Rightarrow> 's \<times> database_catalog \<Rightarrow> 's \<times> database_catalog"

definition storage_err :: "'s \<times> 'a storage_result \<Rightarrow> 's \<times> 'a metastore_result" where
  "storage_err r = (fst r, omap_err ME_Storage (snd r))"

definition serializable_state :: "state \<Rightarrow> catalog_state" where
  "serializable_state st =
     \<lparr>cs_version = st_version st, cs_entries = st_entries st, cs_deployment = st_deployment st,
      cs_catalog_version = CURRENT_CATALOG_VERSION\<rparr>"

definition open_catalog ::
  "builtin_catalog \<Rightarrow> 's storage \<Rightarrow> io \<Rightarrow> uuid \<Rightarrow> 's \<Rightarrow> 's \<times> database_catalog metastore_result" where
  "open_catalog bc sg io db_id s =
     sbind (storage_err (initialize (sg_store sg) (sg_externs sg) (sg_process_id sg) io db_id s)) (\<lambda>_ s.
     sbind (storage_err (s, read_catalog (sg_store sg) (sg_externs sg) db_id s)) (\<lambda>persisted s.
     sbind (s, from_persisted bc persisted) (\<lambda>st s.
     (s, Ok \<lparr>dc_db_id = db_id, dc_cached = st, dc_require_full_load = False\<rparr>))))"

definition load_latest ::
  "builtin_catalog \<Rightarrow> 's storage \<Rightarrow> 's interference \<Rightarrow> 's \<times> database_catalog \<Rightarrow>
   ('s \<times> database_catalog) \<times> unit metastore_result" where
  "load_latest bc sg w sd =
     (let current_version = st_version (dc_cached (snd sd));
          db_id = dc_db_id (snd sd);
          sd = w 0 sd in
      sbind (storage_err (sd, latest_version (sg_store sg) (sg_externs sg) db_id (fst sd))) (\<lambda>latest sd.
      if current_version = latest \<and> \<not> dc_require_full_load (snd sd) then (sd, Ok ())
      else
        (let sd = w 1 sd in
         sbind (storage_err (sd, read_catalog (sg_store sg) (sg_externs sg) db_id (fst sd))) (\<lambda>persisted sd.
         sbind (sd, from_persisted bc persisted) (\<lambda>st sd.
         let sd = w 2 sd in
         if st_version (dc_cached (snd sd)) \<noteq> current_version then (sd, Ok ())
         else ((fst sd, (snd sd)\<lparr>dc_cached := st, dc_require_full_load := False\<rparr>), Ok ()))))))"

definition get_state ::
  "builtin_catalog \<Rightarrow> 's storage \<Rightarrow> 's interference \<Rightarrow> 's \<times> database_catalog \<Rightarrow>
   ('s \<times> database_catalog) \<times> catalog_state metastore_result" where
  "get_state bc sg w sd =
     sbind (load_latest bc sg w sd) (\<lambda>_ sd.
     let sd = w 3 sd in (sd, Ok (serializable_state (dc_cached (snd sd)))))"

definition try_mutate ::
  "builtin_catalog \<Rightarrow> 's storage \<Rightarrow> 's interference \<Rightarrow> u64 \<Rightarrow> mutation list \<Rightarrow> 's \<times> database_catalog \<Rightarrow>
   ('s \<times> database_catalog) \<times> catalog_state metastore_result" where
  "try_mutate bc sg w version mutations sd =
     sbind (load_latest bc sg w sd) (\<lambda>_ sd.
     case w 3 sd of (s, dc) \<Rightarrow>
     if st_version (dc_cached dc) \<noteq> version
     then ((s, dc), Err (VersionMismatch version (st_version (dc_cached dc))))
     else case mutate mutations (dc_cached dc) of
       (st, Err e) \<Rightarrow> ((s, dc\<lparr>dc_cached := st, dc_require_full_load := True\<rparr>), Err e)
     | (st, Ok u) \<Rightarrow> ((s, dc\<lparr>dc_cached := st\<rparr>), Ok (serializable_state st))
     | (st, Panic msg) \<Rightarrow> ((s, dc\<lparr>dc_cached := st\<rparr>), Panic msg))"

text \<open>The lock on the cached state is held until the catalog is written.\<close>

definition commit ::
  "builtin_catalog \<Rightarrow> 's storage \<Rightarrow> io \<Rightarrow> u64 \<Rightarrow> catalog_state \<Rightarrow> 's \<times> database_catalog \<Rightarrow>
   ('s \<times> database_catalog) \<times> catalog_state metastore_result" where
  "commit bc sg io version state_to_commit sd =
     (case sd of (s, dc) \<Rightarrow>
      sbind (sd, from_catalog_state_and_counter bc state_to_commit (st_oid_counter (dc_cached dc))) (\<lambda>st sd.
      sbind (sd, to_persisted st) (\<lambda>persist sd.
      case storage_err (write_catalog (sg_store sg) (sg_externs sg) (sg_process_id sg) io (dc_db_id dc)
        version persist s) of
        (s, Ok u) \<Rightarrow> ((s, dc\<lparr>dc_require_full_load := True\<rparr>), Ok (serializable_state st))
      | (s, Err e) \<Rightarrow> ((s, dc), Err e)
      | (s, Panic msg) \<Rightarrow> ((s, dc), Panic msg))))"

subsection \<open>Persisted forms of a state\<close>

text \<open>\<open>persists st p\<close>: the persisted catalog of \<open>st\<close> is \<open>p\<close>, up to the order of its entries.\<close>

definition persists :: "state \<Rightarrow> persisted_catalog \<Rightarrow> bool" where
  "persists st p = (\<exists>q. to_persisted st = Ok q \<and> same_catalog q p)"

lemma same_entries_get: "hm_ok m \<Longrightarrow> same_entries m m' \<Longrightarrow> hm_get m' = hm_get m"
proof
  fix k assume "hm_ok m" "same_entries m m'"
  then show "hm_get m' k = hm_get m k"
    using hm_get_eq_Some_iff [of m k] hm_get_eq_Some_iff [of m' k] unfolding same_entries_def
    by (metis not_Some_eq)
qed

lemma same_entries_iff: "hm_ok m \<Longrightarrow> hm_ok m' \<Longrightarrow> same_entries m m' \<longleftrightarrow> hm_get m = hm_get m'"
proof
  assume "hm_ok m" "hm_ok m'" "hm_get m = hm_get m'"
  then have "(k, v) \<in> set m \<longleftrightarrow> (k, v) \<in> set m'" for k v
    using hm_get_eq_Some_iff [of m k v] hm_get_eq_Some_iff [of m' k v] by simp
  then show "same_entries m m'" using \<open>hm_ok m'\<close> by (auto simp: same_entries_def)
qed (simp add: same_entries_get)

lemma same_catalog_refl: "hm_ok (cs_entries (pc_state p)) \<Longrightarrow> same_catalog p p"
  by (simp add: same_catalog_def same_entries_def)

lemma same_catalog_trans: "same_catalog p q \<Longrightarrow> same_catalog q r \<Longrightarrow> same_catalog p r"
  by (simp add: same_catalog_def same_entries_def)

abbreviation user_entries :: "state \<Rightarrow> (oid, catalog_entry) hashmap" where
  "user_entries st \<equiv> filter (\<lambda>(i, ent). \<not> ent_builtin ent) (st_entries st)"

lemma to_persisted_wf:
  assumes "builtin_ok bc" and "wf_state bc st"
  shows "to_persisted st = Ok \<lparr>pc_state = (serializable_state st)\<lparr>cs_entries := user_entries st\<rparr>,
    pc_extra = \<lparr>ex_oid_counter = st_oid_counter st\<rparr>\<rparr>"
  using wf_no_temp [OF assms] by (simp add: to_persisted_def serializable_state_def)

lemma hm_ok_user_entries: "wf_state bc st \<Longrightarrow> hm_ok (user_entries st)"
  by (simp add: wf_state_def maps_ok_def hm_ok_filter)

lemma persists_load:
  assumes b: "builtin_ok bc" and wf: "wf_state bc st" and p: "persists st p"
  shows "\<exists>st'. from_persisted bc p = Ok st' \<and> state_equiv st st' \<and> wf_state bc st'"
proof -
  let ?es = "cs_entries (pc_state p)"
  have core: "wf_core bc (st_oid_counter st) (ents st) (lookup st)" and ok: "hm_ok (st_entries st)"
    using wf by (simp_all add: wf_state_def maps_ok_def)
  from p to_persisted_wf [OF b wf] have q: "same_entries (user_entries st) ?es"
    "ex_oid_counter (pc_extra p) = st_oid_counter st" "(pc_state p)\<lparr>cs_entries := []\<rparr> = (serializable_state st)\<lparr>cs_entries := []\<rparr>"
    by (auto simp: persists_def same_catalog_def dest: sym)
  have bok: "hm_ok (bc_entries bc)" using b by (simp add: builtin_ok_def bc_wf_def)
  have E: "hm_get (hm_extend ?es (bc_entries bc)) = ents st" "hm_ok (hm_extend ?es (bc_entries bc))"
    using extended_entries [OF b wf] same_entries_get [OF hm_ok_user_entries [OF wf] q(1)] q(1) bok
    by (simp_all add: hm_get_extend hm_ok_extend same_entries_def)
  have user: "FIRST_AVAILABLE_ID \<le> i \<and> \<not> ent_builtin e" if "(i, e) \<in> set ?es" for i e
    using that q(1) wf_state_user [OF b wf, of i e] hm_get_eq_Some_iff [OF ok, of i e]
    by (auto simp: ents_def same_entries_def)
  have "cs_version (pc_state p) = st_version st \<and> cs_deployment (pc_state p) = st_deployment st"
    using q(3) by (auto simp: serializable_state_def dest: arg_cong [of _ _ cs_version] arg_cong [of _ _ cs_deployment])
  with from_persisted_core [OF b E core user refl q(2)] core show ?thesis
    by (auto simp: state_equiv_def wf_state_def)
qed

lemma equiv_persists:
  assumes b: "builtin_ok bc" and wf: "wf_state bc st" "wf_state bc st'" and eq: "state_equiv st st'"
    and p: "to_persisted st' = Ok p"
  shows "persists st p"
proof -
  have "hm_get (user_entries st) = hm_get (user_entries st')"
    using eq wf by (auto simp: hm_get_filter state_equiv_def ents_def wf_state_def maps_ok_def)
  then have "same_entries (user_entries st) (user_entries st')"
    using same_entries_iff hm_ok_user_entries wf by blast
  then show ?thesis
    using p eq to_persisted_wf [OF b wf(1)] to_persisted_wf [OF b wf(2)]
    by (auto simp: persists_def same_catalog_def serializable_state_def state_equiv_def)
qed

lemma persists_same: "persists st p \<Longrightarrow> same_catalog p q \<Longrightarrow> persists st q"
  unfolding persists_def by (meson same_catalog_trans)

text \<open>The counter of a persisted catalog does not matter for the rest of the state.\<close>

definition with_counter :: "oid \<Rightarrow> persisted_catalog \<Rightarrow> persisted_catalog" where
  "with_counter k p = p\<lparr>pc_extra := \<lparr>ex_oid_counter = k\<rparr>\<rparr>"

lemma from_persisted_with_counter:
  assumes "from_persisted bc p = Ok st"
  shows "from_persisted bc (with_counter k p) = Ok (st\<lparr>st_oid_counter := k\<rparr>)"
  using assms by (auto simp: from_persisted_def with_counter_def Let_def split: option.splits)

lemma with_counter_simps [simp]:
  "pc_state (with_counter k p) = pc_state p" "ex_oid_counter (pc_extra (with_counter k p)) = k"
  by (simp_all add: with_counter_def)

lemma with_counter_same: "ex_oid_counter (pc_extra p) = k \<Longrightarrow> with_counter k p = p"
  by (auto simp: with_counter_def intro!: persisted_catalog.equality extra_state.equality)

lemma from_serializable:
  assumes b: "builtin_ok bc" and wf: "wf_state bc st"
  shows "\<exists>st' p. from_catalog_state_and_counter bc (serializable_state st) k = Ok (st'\<lparr>st_oid_counter := k\<rparr>) \<and>
    state_equiv st st' \<and> wf_state bc st' \<and> persists st p \<and>
    to_persisted (st'\<lparr>st_oid_counter := k\<rparr>) = Ok (with_counter k p)"
proof -
  let ?p = "\<lparr>pc_state = (serializable_state st)\<lparr>cs_entries := user_entries st\<rparr>,
    pc_extra = \<lparr>ex_oid_counter = st_oid_counter st\<rparr>\<rparr>"
  have "persists st ?p"
    using to_persisted_wf [OF b wf] same_catalog_refl [of ?p] hm_ok_user_entries [OF wf] by (simp add: persists_def)
  from persists_load [OF b wf this] obtain st' where st': "from_persisted bc ?p = Ok st'" "state_equiv st st'"
    "wf_state bc st'" by blast
  have "filter (\<lambda>(i, ent). \<not> ent_is_temp ent \<and> \<not> ent_builtin ent) (st_entries st) = user_entries st"
    using wf_no_temp [OF b wf] by (intro filter_cong) auto
  then have "from_catalog_state_and_counter bc (serializable_state st) k = Ok (st'\<lparr>st_oid_counter := k\<rparr>)"
    using from_persisted_with_counter [OF st'(1), of k] wf_no_temp [OF b wf]
    by (simp add: from_catalog_state_and_counter_def serializable_state_def with_counter_def)
  moreover obtain p where p: "to_persisted st' = Ok p" using to_persisted_wf [OF b st'(3)] by blast
  then have "to_persisted (st'\<lparr>st_oid_counter := k\<rparr>) = Ok (with_counter k p)"
    by (auto simp: to_persisted_def with_counter_def split: if_splits)
  ultimately show ?thesis using st' equiv_persists [OF b wf st'(3,2) p] by blast
qed

subsection \<open>Commits and reloads\<close>

text \<open>A reader finds the state \<open>st\<close> in the store.\<close>

definition stored_state :: "builtin_catalog \<Rightarrow> externs \<Rightarrow> 's contents \<Rightarrow> uuid \<Rightarrow> 's \<Rightarrow> state \<Rightarrow> bool" where
  "stored_state bc X c db s st =
     (\<exists>m p. stored_metadata X c db s = Some m \<and> cm_latest_version m = st_version st \<and>
        current_catalog X c db s = Some p \<and> persists st p \<and> wf_state bc st)"

definition wire_users :: "union_new \<Rightarrow> state \<Rightarrow> bool" where
  "wire_users un st = (\<forall>i e. ents st i = Some e \<longrightarrow> \<not> ent_builtin e \<longrightarrow> wire_entry un e)"

lemma wire_users_state:
  assumes b: "builtin_ok bc" and wf: "wf_state bc st" and un: "wire_users un st" and p: "persists st p"
  shows "wire_state un (pc_state p)"
proof -
  have ok: "hm_ok (st_entries st)" using wf by (simp add: wf_state_def maps_ok_def)
  from p to_persisted_wf [OF b wf] have "same_entries (user_entries st) (cs_entries (pc_state p))"
    by (auto simp: persists_def same_catalog_def)
  then have q: "hm_ok (cs_entries (pc_state p))" "set (cs_entries (pc_state p)) = set (user_entries st)"
    by (auto simp: same_entries_def)
  have "wire_entry un e" if "(i, e) \<in> set (cs_entries (pc_state p))" for i e
    using that un hm_get_eq_Some_iff [OF ok, of i e] unfolding q(2) by (auto simp: wire_users_def ents_def)
  with q(1) show ?thesis by (auto simp: wire_state_def list_all_iff)
qed

lemma persists_version: "builtin_ok bc \<Longrightarrow> wf_state bc st \<Longrightarrow> persists st p \<Longrightarrow> cs_version (pc_state p) = st_version st"
  using to_persisted_wf [of bc st]
  by (auto simp: persists_def same_catalog_def serializable_state_def dest: arg_cong [of _ _ cs_version])

lemma persists_counter:
  "builtin_ok bc \<Longrightarrow> wf_state bc st \<Longrightarrow> persists st p \<Longrightarrow> ex_oid_counter (pc_extra p) = st_oid_counter st"
  using to_persisted_wf [of bc st] by (auto simp: persists_def same_catalog_def dest: sym)

lemma commit_outcome:
  assumes os: "store_ok (sg_store sg) c" and X: "externs_ok (sg_externs sg)" and pid: "length (sg_process_id sg) = 16"
    and b: "builtin_ok bc" and wf: "wf_state bc st" and un: "wire_users (x_union_new (sg_externs sg)) st"
    and v: "st_version st \<noteq> version"
    and commit: "commit bc sg io version (serializable_state st) (s, dc) = ((s', dc'), r)"
  shows "(same_view (sg_externs sg) c (dc_db_id dc) s s' \<and> dc' = dc \<and> \<not> is_ok r) \<or>
    (\<exists>m p q. stored_metadata (sg_externs sg) c (dc_db_id dc) s' = Some m \<and> cm_latest_version m = st_version st \<and>
       current_catalog (sg_externs sg) c (dc_db_id dc) s' = Some q \<and> persists st p \<and>
       same_catalog (with_counter (st_oid_counter (dc_cached dc)) p) q \<and>
       dc' = (if is_ok r then dc\<lparr>dc_require_full_load := True\<rparr> else dc))"
proof -
  let ?k = "st_oid_counter (dc_cached dc)"
  obtain st' p where st': "from_catalog_state_and_counter bc (serializable_state st) ?k = Ok st'"
    "persists st p" "to_persisted st' = Ok (with_counter ?k p)"
    using from_serializable [OF b wf] by blast
  obtain r1 where w: "write_catalog (sg_store sg) (sg_externs sg) (sg_process_id sg) io (dc_db_id dc) version
      (with_counter ?k p) s = (s', r1)"
    and r: "if is_ok r1 then r = Ok (serializable_state st') \<and> dc' = dc\<lparr>dc_require_full_load := True\<rparr>
      else dc' = dc \<and> \<not> is_ok r"
    using commit st'(1,3)
    by (cases "write_catalog (sg_store sg) (sg_externs sg) (sg_process_id sg) io (dc_db_id dc) version (with_counter ?k p) s";
        cases "snd (write_catalog (sg_store sg) (sg_externs sg) (sg_process_id sg) io (dc_db_id dc) version (with_counter ?k p) s)")
      (auto simp: commit_def storage_err_def)
  have "same_view (sg_externs sg) c (dc_db_id dc) s s' \<and> \<not> is_ok r1 \<or>
      replaced (sg_externs sg) c (dc_db_id dc) (sg_process_id sg) version (with_counter ?k p) s s'"
    using wire_users_state [OF b wf un st'(2)] persists_version [OF b wf st'(2)] v
    by (intro write_catalog_outcome [OF os X _ _ pid w]) simp_all
  then show ?thesis
  proof
    assume "same_view (sg_externs sg) c (dc_db_id dc) s s' \<and> \<not> is_ok r1"
    with r show ?thesis by auto
  next
    assume "replaced (sg_externs sg) c (dc_db_id dc) (sg_process_id sg) version (with_counter ?k p) s s'"
    with r st'(2) persists_version [OF b wf st'(2)] show ?thesis by (auto simp: replaced_def split: if_splits)
  qed
qed

text \<open>When the counters agree, the committed state is the stored one.\<close>

lemma commit_stores:
  assumes "store_ok (sg_store sg) c" and "externs_ok (sg_externs sg)" and "length (sg_process_id sg) = 16"
    and b: "builtin_ok bc" and wf: "wf_state bc st" and "wire_users (x_union_new (sg_externs sg)) st"
    and "st_version st \<noteq> version"
    and "commit bc sg io version (serializable_state st) (s, dc) = ((s', dc'), r)"
    and counter: "st_oid_counter (dc_cached dc) = st_oid_counter st"
  shows "(same_view (sg_externs sg) c (dc_db_id dc) s s' \<and> dc' = dc \<and> \<not> is_ok r) \<or>
    (stored_state bc (sg_externs sg) c (dc_db_id dc) s' st \<and>
     dc' = (if is_ok r then dc\<lparr>dc_require_full_load := True\<rparr> else dc))"
proof -
  have same: "persists st q" if "persists st p" "same_catalog (with_counter (st_oid_counter (dc_cached dc)) p) q" for p q
    using persists_same [OF that(1), of q] that persists_counter [OF b wf that(1)] counter with_counter_same by simp
  from commit_outcome [OF assms(1-8)] show ?thesis
  proof
    assume "\<exists>m p q. stored_metadata (sg_externs sg) c (dc_db_id dc) s' = Some m \<and> cm_latest_version m = st_version st \<and>
       current_catalog (sg_externs sg) c (dc_db_id dc) s' = Some q \<and> persists st p \<and>
       same_catalog (with_counter (st_oid_counter (dc_cached dc)) p) q \<and>
       dc' = (if is_ok r then dc\<lparr>dc_require_full_load := True\<rparr> else dc)"
    then show ?thesis using same wf by (auto simp: stored_state_def)
  qed blast
qed

text \<open>A call during which nobody else runs.\<close>

definition alone :: "'s interference" where
  "alone k sd = sd"

lemma load_latest_reload:
  assumes os: "store_reliable (sg_store sg) c" and b: "builtin_ok bc"
    and st: "stored_state bc (sg_externs sg) c (dc_db_id dc) s st"
    and stale: "dc_require_full_load dc \<or> st_version st \<noteq> st_version (dc_cached dc)"
  obtains st' where "load_latest bc sg alone (s, dc) =
      ((s, dc\<lparr>dc_cached := st', dc_require_full_load := False\<rparr>), Ok ())"
    and "state_equiv st st'" and "wf_state bc st'"
proof -
  from st obtain m p where p: "current_catalog (sg_externs sg) c (dc_db_id dc) s = Some p" "persists st p" "wf_state bc st"
    and m: "stored_metadata (sg_externs sg) c (dc_db_id dc) s = Some m" and v: "cm_latest_version m = st_version st"
    by (auto simp: stored_state_def)
  from persists_load [OF b p(3,2)] obtain st' where st': "from_persisted bc p = Ok st'" "state_equiv st st'"
    "wf_state bc st'" by blast
  have "load_latest bc sg alone (s, dc) = ((s, dc\<lparr>dc_cached := st', dc_require_full_load := False\<rparr>), Ok ())"
    using stale reliable_read_catalog [OF os p(1)] reliable_read_metadata [OF os m] st'(1) v
    by (auto simp: load_latest_def alone_def latest_version_def storage_err_def Let_def)
  with st'(2,3) that show ?thesis by blast
qed

text \<open>
  The cached state is either the stored one or the next call will replace it: \<open>st\<close> is what is in the
  store. Without interference, a reload leaves the store alone and makes the cached state the stored one.
\<close>

definition cache_ok ::
  "builtin_catalog \<Rightarrow> 's storage \<Rightarrow> 's contents \<Rightarrow> 's \<times> database_catalog \<Rightarrow> state \<Rightarrow> bool" where
  "cache_ok bc sg c sd st =
     (stored_state bc (sg_externs sg) c (dc_db_id (snd sd)) (fst sd) st \<and>
      (dc_require_full_load (snd sd) \<or> st_version (dc_cached (snd sd)) \<noteq> st_version st \<or>
       state_equiv st (dc_cached (snd sd)) \<and> wf_state bc (dc_cached (snd sd))))"

lemma load_latest_alone:
  assumes os: "store_ok (sg_store sg) c" and b: "builtin_ok bc"
    and st: "cache_ok bc sg c (s, dc) st"
    and load: "load_latest bc sg alone (s, dc) = ((s', dc'), Ok ())"
  shows "s' = s \<and> dc_db_id dc' = dc_db_id dc \<and> \<not> dc_require_full_load dc' \<and>
    state_equiv st (dc_cached dc') \<and> wf_state bc (dc_cached dc')"
proof -
  from st obtain m p where p: "current_catalog (sg_externs sg) c (dc_db_id dc) s = Some p" "persists st p" "wf_state bc st"
    and m: "stored_metadata (sg_externs sg) c (dc_db_id dc) s = Some m" and v: "cm_latest_version m = st_version st"
    by (auto simp: cache_ok_def stored_state_def)
  obtain st' where st': "from_persisted bc p = Ok st'" "state_equiv st st'" "wf_state bc st'"
    using persists_load [OF b p(3,2)] by blast
  have q: "q = p" if "read_catalog (sg_store sg) (sg_externs sg) (dc_db_id dc) s = Ok q" for q
    using read_catalog_Ok [OF os that] p(1) by simp
  have l: "x = st_version st" if "latest_version (sg_store sg) (sg_externs sg) (dc_db_id dc) s = Ok x" for x
    using that read_metadata_Ok [OF os, of "sg_externs sg" "dc_db_id dc" s] m v by (auto simp: latest_version_def)
  show ?thesis
    using load st st' q l
    by (auto simp: load_latest_def alone_def storage_err_def Let_def sbind_def cache_ok_def
        split: outcome.splits if_splits)
qed

lemma load_latest_alone_err:
  assumes "load_latest bc sg alone (s, dc) = ((s', dc'), r)" and "\<not> is_ok r"
  shows "s' = s \<and> dc' = dc"
  using assms
  by (auto simp: load_latest_def alone_def storage_err_def Let_def sbind_def
      split: outcome.splits if_splits)

lemma try_mutate_alone:
  assumes os: "store_ok (sg_store sg) c" and b: "builtin_ok bc"
    and st: "cache_ok bc sg c (s, dc) st"
    and mut: "try_mutate bc sg alone version ms (s, dc) = ((s', dc'), Ok cs)"
  obtains st0 where "s' = s" and "dc_db_id dc' = dc_db_id dc" and "cs = serializable_state (dc_cached dc')"
    and "mutate ms st0 = (dc_cached dc', Ok ())" and "st_version st0 = version"
    and "state_equiv st st0" and "wf_state bc st0" and "\<not> dc_require_full_load dc'"
proof -
  obtain sd1 where l: "load_latest bc sg alone (s, dc) = (sd1, Ok ())"
    using mut by (auto simp: try_mutate_def sbind_Ok)
  obtain s1 dc1 where sd1: "sd1 = (s1, dc1)" by fastforce
  note load = load_latest_alone [OF os b st l [unfolded sd1]]
  obtain st1 r where m: "mutate ms (dc_cached dc1) = (st1, r)" by fastforce
  have run: "s' = s1 \<and> dc' = dc1\<lparr>dc_cached := st1\<rparr> \<and> cs = serializable_state st1 \<and> r = Ok () \<and>
      st_version (dc_cached dc1) = version"
    using mut l sd1 m by (cases r) (auto simp: try_mutate_def alone_def split: if_splits)
  show ?thesis
    by (rule that [of "dc_cached dc1"]) (use run load m in auto)
qed

text \<open>A call that failed changed nothing, or the cached state will be replaced.\<close>

lemma mutate_version_any: "st_version (fst (mutate ms st)) = st_version st + 1"
  using keeps_builtin_mutate_all [of "st\<lparr>st_version := st_version st + 1\<rparr>" ms]
  by (simp add: mutate_def keeps_builtin_def)

lemma try_mutate_cache_ok:
  assumes os: "store_ok (sg_store sg) c" and b: "builtin_ok bc"
    and st: "cache_ok bc sg c (s, dc) st"
    and mut: "try_mutate bc sg alone version ms (s, dc) = ((s', dc'), r)"
  shows "s' = s \<and> dc_db_id dc' = dc_db_id dc \<and> cache_ok bc sg c (s', dc') st"
proof -
  obtain s1 dc1 u where l: "load_latest bc sg alone (s, dc) = ((s1, dc1), u)"
    by (metis prod.exhaust)
  show ?thesis
  proof (cases "is_ok u")
    case False
    with l mut load_latest_alone_err [OF l] st show ?thesis by (cases u) (auto simp: try_mutate_def)
  next
    case True
    then have u: "u = Ok ()" by (cases u) auto
    note load = load_latest_alone [OF os b st l [unfolded u]]
    obtain st1 x where m: "mutate ms (dc_cached dc1) = (st1, x)" by fastforce
    have "st_version st1 = st_version st + 1"
      using mutate_version_any [of ms "dc_cached dc1"] m load by (simp add: state_equiv_def)
    with mut l u m load st show ?thesis
      by (cases x) (auto simp: try_mutate_def alone_def cache_ok_def split: if_splits)
  qed
qed

subsection \<open>Transactions\<close>

lemma wf_mutate:
  assumes "builtin_ok bc" "wf_state bc s" "unat (st_oid_counter s) + length ms < 2 ^ 32" "mutate ms s = (s', Ok ())"
  shows "wf_state bc s'"
proof -
  have "wf_state bc (s\<lparr>st_version := st_version s + 1\<rparr>)"
    using assms(2) by (rule wf_state_same) (use assms(2) in \<open>simp_all add: ents_def lookup_def wf_state_def maps_ok_def\<close>)
  then show ?thesis
    by (rule wf_mutate_all [OF assms(1)]) (use assms(3,4) in \<open>simp_all add: mutate_def\<close>)
qed

lemma mutate_all_counter:
  "mutate_all ms s = (s', Ok ()) \<Longrightarrow> unat (st_oid_counter s) + length ms < 2 ^ 32 \<Longrightarrow>
   unat (st_oid_counter s') \<le> unat (st_oid_counter s) + length ms"
proof (induction ms arbitrary: s)
  case (Cons m ms)
  from Cons.prems(1) obtain s1 where s1: "mutate_one m s = (s1, Ok ())" "mutate_all ms s1 = (s', Ok ())" by auto
  have "unat (st_oid_counter s1) \<le> unat (st_oid_counter s) + 1"
    using unat_counter_step [OF mutate_one_counter [OF s1(1)]] Cons.prems(2) by simp
  with Cons.IH [OF s1(2)] Cons.prems(2) show ?case by simp
qed simp

lemma mutate_counter:
  "mutate ms s = (s', Ok ()) \<Longrightarrow> unat (st_oid_counter s) + length ms < 2 ^ 32 \<Longrightarrow>
   unat (st_oid_counter s') \<le> unat (st_oid_counter s) + length ms"
  using mutate_all_counter [of ms "s\<lparr>st_version := st_version s + 1\<rparr>" s'] by (simp add: mutate_def)

text \<open>
  The abstract view of a database is its state \<open>st\<close> alone. A transaction is a list of mutations based
  on a version: it has a place in the history of the database only if that is the version of the
  database, and it then takes the database to the mutated state.
\<close>

definition applies :: "builtin_catalog \<Rightarrow> u64 \<Rightarrow> mutation list \<Rightarrow> state \<Rightarrow> state \<Rightarrow> bool" where
  "applies bc version ms st st' =
     (st_version st = version \<and> (\<exists>st0. state_equiv st st0 \<and> wf_state bc st0 \<and> mutate ms st0 = (st', Ok ())))"

text \<open>What a metastore does for a transaction when nobody else runs.\<close>

definition transact ::
  "builtin_catalog \<Rightarrow> 's storage \<Rightarrow> io \<Rightarrow> u64 \<Rightarrow> mutation list \<Rightarrow> 's \<times> database_catalog \<Rightarrow>
   ('s \<times> database_catalog) \<times> catalog_state metastore_result" where
  "transact bc sg io version ms sd =
     sbind (try_mutate bc sg alone version ms sd) (\<lambda>st sd. commit bc sg io version st sd)"

lemma stored_state_same_view:
  "same_view X c db s s' \<Longrightarrow> stored_state bc X c db s' st = stored_state bc X c db s st"
  by (simp add: stored_state_def same_view_def)

lemma wire_users_all: "all_entries (wire_entry un) st \<Longrightarrow> wire_users un st"
  by (auto simp: all_entries_def wire_users_def)

lemma applies_facts:
  assumes "builtin_ok bc" and "applies bc version ms st st'" and "unat (st_oid_counter st) + length ms < 2 ^ 32"
  shows "wf_state bc st'" and "st_version st' = version + 1"
    and "unat (st_oid_counter st') \<le> unat (st_oid_counter st) + length ms"
    and "list_all (wire_mutation un) ms \<Longrightarrow> all_entries (wire_entry un) st \<Longrightarrow> all_entries (wire_entry un) st'"
proof -
  from assms(2) obtain st0 where st0: "state_equiv st st0" "wf_state bc st0" "mutate ms st0 = (st', Ok ())"
    "st_version st = version"
    by (auto simp: applies_def)
  then show "wf_state bc st'" "unat (st_oid_counter st') \<le> unat (st_oid_counter st) + length ms"
    using wf_mutate [OF assms(1) st0(2) _ st0(3)] mutate_counter [OF st0(3)] assms(3) by (auto simp: state_equiv_def)
  show "st_version st' = version + 1"
    using mutate_version_any [of ms st0] st0 by (simp add: state_equiv_def)
  show "all_entries (wire_entry un) st'" if "list_all (wire_mutation un) ms" "all_entries (wire_entry un) st"
    using wire_entries.mutations [OF that(1), of st0] that(2) st0 by (simp add: all_entries_def state_equiv_def)
qed

lemma commit_refines:
  assumes os: "store_ok (sg_store sg) c" and X: "externs_ok (sg_externs sg)" and pid: "length (sg_process_id sg) = 16"
    and b: "builtin_ok bc" and cache: "cache_ok bc sg c (s, dc) st" and app: "applies bc version ms st (dc_cached dc)"
    and wire: "all_entries (wire_entry (x_union_new (sg_externs sg))) st" "list_all (wire_mutation (x_union_new (sg_externs sg))) ms"
    and room: "unat (st_oid_counter st) + length ms < 2 ^ 32"
    and com: "commit bc sg io version (serializable_state (dc_cached dc)) (s, dc) = ((s', dc'), r)"
  shows "\<exists>st'. cache_ok bc sg c (s', dc') st' \<and> dc_db_id dc' = dc_db_id dc \<and> (st' = st \<and> \<not> is_ok r \<or> st' = dc_cached dc)"
proof -
  note facts = applies_facts [OF b app room]
  from commit_stores [OF os X pid b facts(1) wire_users_all [OF facts(4) [OF wire(2,1)]] _ com refl] facts(2)
  have "same_view (sg_externs sg) c (dc_db_id dc) s s' \<and> dc' = dc \<and> \<not> is_ok r \<or>
    stored_state bc (sg_externs sg) c (dc_db_id dc) s' (dc_cached dc) \<and>
    dc' = (if is_ok r then dc\<lparr>dc_require_full_load := True\<rparr> else dc)" by simp
  then show ?thesis
  proof
    assume "same_view (sg_externs sg) c (dc_db_id dc) s s' \<and> dc' = dc \<and> \<not> is_ok r"
    with cache show ?thesis by (intro exI [of _ st]) (auto simp: cache_ok_def stored_state_same_view)
  next
    assume "stored_state bc (sg_externs sg) c (dc_db_id dc) s' (dc_cached dc) \<and>
      dc' = (if is_ok r then dc\<lparr>dc_require_full_load := True\<rparr> else dc)"
    with facts(1) show ?thesis
      by (intro exI [of _ "dc_cached dc"]) (auto simp: cache_ok_def state_equiv_def)
  qed
qed

lemma try_mutate_applies:
  assumes "store_ok (sg_store sg) c" and "builtin_ok bc" and "cache_ok bc sg c (s, dc) st"
    and "try_mutate bc sg alone version ms (s, dc) = ((s', dc'), Ok cs)"
  shows "cs = serializable_state (dc_cached dc')" and "applies bc version ms st (dc_cached dc')"
  by (rule try_mutate_alone [OF assms]; auto simp: applies_def state_equiv_def)+

lemma transact_refines:
  assumes os: "store_ok (sg_store sg) c" and X: "externs_ok (sg_externs sg)" and pid: "length (sg_process_id sg) = 16"
    and b: "builtin_ok bc" and cache: "cache_ok bc sg c (s, dc) st"
    and wire: "all_entries (wire_entry (x_union_new (sg_externs sg))) st" "list_all (wire_mutation (x_union_new (sg_externs sg))) ms"
    and room: "unat (st_oid_counter st) + length ms < 2 ^ 32"
    and run: "transact bc sg io version ms (s, dc) = ((s', dc'), r)"
  shows "\<exists>st'. cache_ok bc sg c (s', dc') st' \<and> dc_db_id dc' = dc_db_id dc \<and>
    (st' = st \<and> \<not> is_ok r \<or> applies bc version ms st st')"
proof -
  obtain s1 dc1 u where t: "try_mutate bc sg alone version ms (s, dc) = ((s1, dc1), u)" by (metis prod.exhaust)
  note ok = try_mutate_cache_ok [OF os b cache t]
  show ?thesis
  proof (cases u)
    case (Ok cs)
    note app = try_mutate_applies [OF os b cache t [unfolded Ok]]
    have "commit bc sg io version (serializable_state (dc_cached dc1)) (s1, dc1) = ((s', dc'), r)"
      using run t Ok app(1) by (simp add: transact_def)
    from commit_refines [OF os X pid b _ app(2) wire room this] ok app(2) show ?thesis by auto
  qed (use run t ok in \<open>auto simp: transact_def\<close>)
qed

end
