(* ===== verification/Metastore_Service.thy ===== *)
theory Metastore_Service
  imports Database_Catalog Service_Proto
begin

section \<open>The metastore service\<close>

text \<open>
  The gRPC service of \<open>crates/metastore/src/srv.rs\<close>, with the hint to clients that
  \<open>crates/metastore/src/errors.rs\<close> and \<open>crates/protogen/src/metastore/strategy.rs\<close> put on an error.

  The state of the service is the object store and the catalogs that the process knows. A status is
  the error it was made from, if it comes from the service, and its metadata.
\<close>

subsection \<open>Errors\<close>

definition to_metadata_value :: "resolve_error_strategy \<Rightarrow> bytes" where
  "to_metadata_value strategy = (case strategy of UnknownStrategy \<Rightarrow> [48] | FetchCatalogAndRetry \<Rightarrow> [49])"

definition strategy_from_bytes :: "bytes \<Rightarrow> resolve_error_strategy" where
  "strategy_from_bytes bs =
     (if length bs = 1
      then if bs ! 0 = 48 then UnknownStrategy else if bs ! 0 = 49 then FetchCatalogAndRetry else UnknownStrategy
      else UnknownStrategy)"

record status =
  sta_error :: "metastore_error option"
  sta_strategy :: "bytes option"

definition status_of :: "metastore_error \<Rightarrow> status" where
  "status_of e =
     \<lparr>sta_error = Some e,
      sta_strategy = Some (to_metadata_value
        (case e of VersionMismatch have need \<Rightarrow> FetchCatalogAndRetry | _ \<Rightarrow> UnknownStrategy))\<rparr>"

text \<open>A conversion error becomes a status without metadata.\<close>

definition status_of_conv :: "proto_conv_error \<Rightarrow> status" where
  "status_of_conv e = \<lparr>sta_error = Some (ME_ProtoConv e), sta_strategy = None\<rparr>"

subsection \<open>Messages\<close>

record fetch_catalog_request =
  fcr_db_id :: bytes

record fetch_catalog_response =
  fcp_catalog :: "p_catalog_state option"

record mutate_request =
  mrq_db_id :: bytes
  mrq_catalog_version :: u64
  mrq_mutations :: "p_mutation list"

record mutate_response =
  mrp_status :: i32
  mrp_catalog :: "p_catalog_state option"

record commit_request =
  crq_db_id :: bytes
  crq_catalog_version :: u64
  crq_catalog :: "p_catalog_state option"

record commit_response =
  crp_status :: i32
  crp_catalog :: "p_catalog_state option"

definition APPLIED :: i32 where
  "APPLIED = 1"

subsection \<open>The service\<close>

type_synonym 's service = "'s \<times> (uuid, database_catalog) hashmap"

definition get_or_load_catalog ::
  "builtin_catalog \<Rightarrow> 's storage \<Rightarrow> io \<Rightarrow> uuid \<Rightarrow> 's service \<Rightarrow> 's service \<times> database_catalog metastore_result" where
  "get_or_load_catalog bc sg io db_id sv =
     (case hm_get (snd sv) db_id of
        Some catalog \<Rightarrow> (sv, Ok catalog)
      | None \<Rightarrow>
          (case open_catalog bc sg io db_id (fst sv) of
             (s, Ok catalog) \<Rightarrow> ((s, hm_insert db_id catalog (snd sv)), Ok catalog)
           | (s, Err e) \<Rightarrow> ((s, snd sv), Err e)
           | (s, Panic msg) \<Rightarrow> ((s, snd sv), Panic msg)))"

text \<open>A call on the catalog of a database, which the service shares with other requests.\<close>

definition on_catalog ::
  "uuid \<Rightarrow> ('s \<times> database_catalog \<Rightarrow> ('s \<times> database_catalog) \<times> 'a metastore_result) \<Rightarrow> database_catalog \<Rightarrow>
   's service \<Rightarrow> 's service \<times> 'a metastore_result" where
  "on_catalog db_id f catalog sv =
     (case f (fst sv, catalog) of ((s, catalog), r) \<Rightarrow> ((s, hm_insert db_id catalog (snd sv)), r))"

definition service_err :: "'t \<times> 'a metastore_result \<Rightarrow> 't \<times> (status, 'a) outcome" where
  "service_err r = (fst r, omap_err status_of (snd r))"

definition parse_db_id :: "externs \<Rightarrow> bytes \<Rightarrow> uuid metastore_result" where
  "parse_db_id X bs =
     (case x_uuid_from_slice X bs of Ok db \<Rightarrow> Ok db | Err e \<Rightarrow> Err (InvalidDatabaseId bs) | Panic msg \<Rightarrow> Panic msg)"

definition fetch_catalog ::
  "builtin_catalog \<Rightarrow> 's storage \<Rightarrow> io \<Rightarrow> 's interference \<Rightarrow> fetch_catalog_request \<Rightarrow> 's service \<Rightarrow>
   's service \<times> (status, fetch_catalog_response) outcome" where
  "fetch_catalog bc sg io w req sv =
     sbind (service_err (sv, parse_db_id (sg_externs sg) (fcr_db_id req))) (\<lambda>db_id sv.
     sbind (service_err (get_or_load_catalog bc sg io db_id sv)) (\<lambda>catalog sv.
     sbind (service_err (on_catalog db_id (get_state bc sg w) catalog sv)) (\<lambda>state sv.
     sbind (service_err (sv, omap_err ME_ProtoConv (catalog_state_into_proto state))) (\<lambda>p sv.
     (sv, Ok \<lparr>fcp_catalog = Some p\<rparr>)))))"

definition mutate_catalog ::
  "builtin_catalog \<Rightarrow> 's storage \<Rightarrow> io \<Rightarrow> 's interference \<Rightarrow> mutate_request \<Rightarrow> 's service \<Rightarrow>
   's service \<times> (status, mutate_response) outcome" where
  "mutate_catalog bc sg io w req sv =
     sbind (service_err (sv, parse_db_id (sg_externs sg) (mrq_db_id req))) (\<lambda>db_id sv.
     sbind (service_err (get_or_load_catalog bc sg io db_id sv)) (\<lambda>catalog sv.
     sbind (service_err (sv, traverse (\<lambda>m. omap_err ME_ProtoConv (mutation_try_from_proto (x_union_new (sg_externs sg)) m))
       (mrq_mutations req))) (\<lambda>mutations sv.
     sbind (service_err (on_catalog db_id (try_mutate bc sg w (mrq_catalog_version req) mutations) catalog sv)) (\<lambda>updated sv.
     sbind (service_err (sv, omap_err ME_ProtoConv (catalog_state_into_proto updated))) (\<lambda>p sv.
     (sv, Ok \<lparr>mrp_status = APPLIED, mrp_catalog = Some p\<rparr>))))))"

definition commit_catalog ::
  "builtin_catalog \<Rightarrow> 's storage \<Rightarrow> io \<Rightarrow> io \<Rightarrow> commit_request \<Rightarrow> 's service \<Rightarrow>
   's service \<times> (status, commit_response) outcome" where
  "commit_catalog bc sg io io' req sv =
     sbind (service_err (sv, parse_db_id (sg_externs sg) (crq_db_id req))) (\<lambda>db_id sv.
     sbind (service_err (sv, case crq_catalog req of None \<Rightarrow> Err MissingCatalog | Some state \<Rightarrow> Ok state)) (\<lambda>state sv.
     sbind (service_err (get_or_load_catalog bc sg io db_id sv)) (\<lambda>catalog sv.
     sbind (sv, omap_err status_of_conv (catalog_state_try_from_proto (x_union_new (sg_externs sg)) state)) (\<lambda>state sv.
     sbind (service_err (on_catalog db_id (commit bc sg io' (crq_catalog_version req) state) catalog sv)) (\<lambda>updated sv.
     sbind (service_err (sv, omap_err ME_ProtoConv (catalog_state_into_proto updated))) (\<lambda>p sv.
     (sv, Ok \<lparr>crp_status = APPLIED, crp_catalog = Some p\<rparr>)))))))"

end
