(* ===== verification/Metastore_Client.thy ===== *)
theory Metastore_Client
  imports Metastore_Service
begin

section \<open>The client side of the metastore\<close>

text \<open>
  The worker that each database has on the client side (\<open>crates/metastore/src/client.rs\<close>), the handle
  through which sessions reach it (\<open>crates/catalog/src/client.rs\<close>) and the mutator on top
  (\<open>crates/catalog/src/mutator.rs\<close>).

  The gRPC client is generated code: the record \<open>metastore_client\<close> holds its three calls, on a state
  of the remote side. A worker that panicked is gone: the value \<open>None\<close>. \<open>display\<close> is the text of a
  status, which \<open>tonic\<close> derives from the error.
\<close>

record 'm metastore_client =
  mc_fetch_catalog :: "fetch_catalog_request \<Rightarrow> 'm \<Rightarrow> 'm \<times> (status, fetch_catalog_response) outcome"
  mc_mutate_catalog :: "mutate_request \<Rightarrow> 'm \<Rightarrow> 'm \<times> (status, mutate_response) outcome"
  mc_commit_catalog :: "commit_request \<Rightarrow> 'm \<Rightarrow> 'm \<times> (status, commit_response) outcome"

record client_env =
  ce_union_new :: union_new
  ce_display :: "status \<Rightarrow> string"
  ce_display_conv :: "proto_conv_error \<Rightarrow> string"

definition catalog_error_new :: "string \<Rightarrow> catalog_error" where
  "catalog_error_new msg = \<lparr>cerr_msg = msg, cerr_strategy = None\<rparr>"

definition catalog_error_of_status :: "client_env \<Rightarrow> status \<Rightarrow> catalog_error" where
  "catalog_error_of_status ce value =
     \<lparr>cerr_msg = ce_display ce value,
      cerr_strategy = Some
        (case sta_strategy value of Some bs \<Rightarrow> strategy_from_bytes bs | None \<Rightarrow> UnknownStrategy)\<rparr>"

subsection \<open>The worker\<close>

record worker =
  wk_db_id :: uuid
  wk_version_hint :: u64
  wk_cached_state :: catalog_state

datatype client_request =
    Ping
  | GetCachedState
  | Commit u64 catalog_state
  | ExecMutations u64 "mutation list"
  | RefreshCachedState

datatype reply =
    Done
  | CatalogReply "catalog_state catalog_result"

fun tag :: "client_request \<Rightarrow> string" where
  "tag Ping = ''ping''"
| "tag (Commit version state) = ''commit''"
| "tag GetCachedState = ''get_cached_state''"
| "tag (ExecMutations version mutations) = ''exec_mutations''"
| "tag RefreshCachedState = ''refresh_cached_state''"

definition set_cached_state :: "catalog_state \<Rightarrow> worker \<Rightarrow> worker" where
  "set_cached_state state wk = wk\<lparr>wk_cached_state := state, wk_version_hint := cs_version state\<rparr>"

definition worker_init ::
  "client_env \<Rightarrow> 'm metastore_client \<Rightarrow> uuid \<Rightarrow> 'm \<Rightarrow> 'm \<times> worker metastore_result" where
  "worker_init ce mc db_id m =
     (case mc_fetch_catalog mc \<lparr>fcr_db_id = db_id\<rparr> m of
        (m, Ok resp) \<Rightarrow>
          (case fcp_catalog resp of
             None \<Rightarrow> (m, Err ME_Catalog)
           | Some c \<Rightarrow>
               (case catalog_state_try_from_proto (ce_union_new ce) c of
                  Ok catalog \<Rightarrow>
                    (m, Ok \<lparr>wk_db_id = db_id, wk_version_hint = cs_version catalog, wk_cached_state = catalog\<rparr>)
                | Err e \<Rightarrow> (m, Err (ME_ProtoConv e))
                | Panic msg \<Rightarrow> (m, Panic msg)))
      | (m, Err status) \<Rightarrow> (m, Panic ''called unwrap on an Err value'')
      | (m, Panic msg) \<Rightarrow> (m, Panic msg))"

definition fetch :: "client_env \<Rightarrow> 'm metastore_client \<Rightarrow> 'm \<times> worker \<Rightarrow> ('m \<times> worker) \<times> (catalog_error, unit) outcome" where
  "fetch ce mc mw =
     (case mw of (m, wk) \<Rightarrow>
      case mc_fetch_catalog mc \<lparr>fcr_db_id = wk_db_id wk\<rparr> m of
        (m, Ok resp) \<Rightarrow>
          (case fcp_catalog resp of
             None \<Rightarrow> ((m, wk), Ok ())
           | Some c \<Rightarrow>
               (case catalog_state_try_from_proto (ce_union_new ce) c of
                  Ok catalog \<Rightarrow> ((m, set_cached_state catalog wk), Ok ())
                | Err e \<Rightarrow> ((m, wk), Ok ())
                | Panic msg \<Rightarrow> ((m, wk), Panic msg)))
      | (m, Err status) \<Rightarrow> ((m, wk), Ok ())
      | (m, Panic msg) \<Rightarrow> ((m, wk), Panic msg))"

text \<open>A commit. \<open>listening\<close> tells whether the other end of the response channel still exists.\<close>

definition handle_commit ::
  "client_env \<Rightarrow> 'm metastore_client \<Rightarrow> bool \<Rightarrow> u64 \<Rightarrow> catalog_state \<Rightarrow> 'm \<times> worker \<Rightarrow>
   ('m \<times> worker) \<times> (catalog_error, reply) outcome" where
  "handle_commit ce mc listening current_catalog_version state mw =
     (case mw of (m, wk) \<Rightarrow>
      if cs_version state \<le> current_catalog_version then
        (if listening
         then (mw, Ok (CatalogReply (Err (catalog_error_new
           (''cannot commit outdated state: state version: '' @ dec_of_nat (unat (cs_version state)) @
            '', current catalog version: '' @ dec_of_nat (unat current_catalog_version))))))
         else (mw, Panic ''called unwrap on an Err value''))
      else
        (case catalog_state_into_proto state of
           Ok p \<Rightarrow>
             (case mc_commit_catalog mc \<lparr>crq_db_id = wk_db_id wk, crq_catalog_version = current_catalog_version,
                crq_catalog = Some p\<rparr> m of
                (m, Ok resp) \<Rightarrow>
                  (case crp_catalog resp of
                     None \<Rightarrow> ((m, wk), Panic ''called unwrap on a None value'')
                   | Some c \<Rightarrow>
                       (case catalog_state_try_from_proto (ce_union_new ce) c of
                          Ok state \<Rightarrow> ((m, set_cached_state state wk), Ok (CatalogReply (Ok state)))
                        | Err e \<Rightarrow> ((m, wk), Panic ''called unwrap on an Err value'')
                        | Panic msg \<Rightarrow> ((m, wk), Panic msg)))
              | (m, Err status) \<Rightarrow> ((m, wk), Panic ''called unwrap on an Err value'')
              | (m, Panic msg) \<Rightarrow> ((m, wk), Panic msg))
         | Err e \<Rightarrow> (mw, Panic ''called unwrap on an Err value'')
         | Panic msg \<Rightarrow> (mw, Panic msg)))"

definition handle_exec_mutations ::
  "client_env \<Rightarrow> 'm metastore_client \<Rightarrow> u64 \<Rightarrow> mutation list \<Rightarrow> 'm \<times> worker \<Rightarrow>
   ('m \<times> worker) \<times> (catalog_error, reply) outcome" where
  "handle_exec_mutations ce mc version mutations mw =
     (case mw of (m, wk) \<Rightarrow>
      case traverse mutation_into_proto mutations of
        Err e \<Rightarrow> (mw, Ok (CatalogReply (Err (catalog_error_new (ce_display_conv ce e)))))
      | Panic msg \<Rightarrow> (mw, Panic msg)
      | Ok mutations \<Rightarrow>
          (case mc_mutate_catalog mc \<lparr>mrq_db_id = wk_db_id wk, mrq_catalog_version = version,
             mrq_mutations = mutations\<rparr> m of
             (m, Err status) \<Rightarrow> ((m, wk), Ok (CatalogReply (Err (catalog_error_of_status ce status))))
           | (m, Panic msg) \<Rightarrow> ((m, wk), Panic msg)
           | (m, Ok resp) \<Rightarrow>
               (case mrp_catalog resp of
                  None \<Rightarrow> ((m, wk), Panic ''missing catalog state'')
                | Some c \<Rightarrow>
                    (case catalog_state_try_from_proto (ce_union_new ce) c of
                       Ok state \<Rightarrow> ((m, wk), Ok (CatalogReply (Ok state)))
                     | Err e \<Rightarrow> ((m, wk), Panic ''called unwrap on an Err value'')
                     | Panic msg \<Rightarrow> ((m, wk), Panic msg)))))"

fun handle_request ::
  "client_env \<Rightarrow> 'm metastore_client \<Rightarrow> bool \<Rightarrow> client_request \<Rightarrow> 'm \<times> worker \<Rightarrow>
   ('m \<times> worker) \<times> (catalog_error, reply) outcome" where
  "handle_request ce mc listening Ping mw = (mw, Ok Done)"
| "handle_request ce mc listening (Commit version state) mw = handle_commit ce mc listening version state mw"
| "handle_request ce mc listening GetCachedState mw = (mw, Ok (CatalogReply (Ok (wk_cached_state (snd mw)))))"
| "handle_request ce mc listening (ExecMutations version mutations) mw =
     handle_exec_mutations ce mc version mutations mw"
| "handle_request ce mc listening RefreshCachedState mw = sbind (fetch ce mc mw) (\<lambda>_ mw. (mw, Ok Done))"

subsection \<open>The loop of the worker\<close>

text \<open>An event is a tick of the interval, with the number of references to the version hint, or a
  request.\<close>

datatype worker_event =
    IntervalTick nat
  | Incoming bool client_request

datatype run_status =
    Waiting nat
  | Exited
  | Died string

definition session_count_for_db :: "nat \<Rightarrow> nat" where
  "session_count_for_db strong_count = strong_count - 2"

fun worker_run ::
  "client_env \<Rightarrow> 'm metastore_client \<Rightarrow> nat \<Rightarrow> worker_event list \<Rightarrow> nat \<Rightarrow> 'm \<times> worker \<Rightarrow>
   ('m \<times> worker) \<times> run_status" where
  "worker_run ce mc max_ticks [] num_ticks mw = (mw, Waiting num_ticks)"
| "worker_run ce mc max_ticks (IntervalTick strong_count # es) num_ticks mw =
     (case fetch ce mc mw of
        (mw, Panic msg) \<Rightarrow> (mw, Died msg)
      | (mw, _) \<Rightarrow>
          if session_count_for_db strong_count = 0
          then if Suc num_ticks \<ge> max_ticks then (mw, Exited)
               else worker_run ce mc max_ticks es (Suc num_ticks) mw
          else worker_run ce mc max_ticks es 0 mw)"
| "worker_run ce mc max_ticks (Incoming listening req # es) num_ticks mw =
     (case handle_request ce mc listening req mw of
        (mw, Panic msg) \<Rightarrow> (mw, Died msg)
      | (mw, _) \<Rightarrow> worker_run ce mc max_ticks es 0 mw)"

subsection \<open>Handles\<close>

text \<open>The remote side and the worker of one database. \<open>full\<close> tells for a request whether the channel to
  the worker has no room.\<close>

record 'm client =
  cl_remote :: 'm
  cl_worker :: "worker option"

definition send ::
  "client_env \<Rightarrow> 'm metastore_client \<Rightarrow> (client_request \<Rightarrow> bool) \<Rightarrow> client_request \<Rightarrow> 'm client \<Rightarrow>
   'm client \<times> reply catalog_result" where
  "send ce mc full req cl =
     (case cl_worker cl of
        None \<Rightarrow> (cl, Err (catalog_error_new (''request channel closed: '' @ tag req)))
      | Some wk \<Rightarrow>
          if full req then (cl, Err (catalog_error_new (''response channel overloaded: '' @ tag req)))
          else case handle_request ce mc True req (cl_remote cl, wk) of
            ((m, wk), Ok r) \<Rightarrow> (\<lparr>cl_remote = m, cl_worker = Some wk\<rparr>, Ok r)
          | ((m, wk), Err e) \<Rightarrow> (\<lparr>cl_remote = m, cl_worker = Some wk\<rparr>, Err e)
          | ((m, wk), Panic msg) \<Rightarrow>
              (\<lparr>cl_remote = m, cl_worker = None\<rparr>,
               Err (catalog_error_new (''response channel closed: '' @ tag req))))"

fun flatten :: "reply \<Rightarrow> catalog_state catalog_result" where
  "flatten (CatalogReply r) = r"
| "flatten Done = Panic ''reply of another request''"

definition ping ::
  "client_env \<Rightarrow> 'm metastore_client \<Rightarrow> (client_request \<Rightarrow> bool) \<Rightarrow> 'm client \<Rightarrow> 'm client \<times> unit catalog_result" where
  "ping ce mc full cl = sbind (send ce mc full Ping cl) (\<lambda>_ cl. (cl, Ok ()))"

definition refresh_cached_state ::
  "client_env \<Rightarrow> 'm metastore_client \<Rightarrow> (client_request \<Rightarrow> bool) \<Rightarrow> 'm client \<Rightarrow> 'm client \<times> unit catalog_result" where
  "refresh_cached_state ce mc full cl = sbind (send ce mc full RefreshCachedState cl) (\<lambda>_ cl. (cl, Ok ()))"

definition get_cached_state ::
  "client_env \<Rightarrow> 'm metastore_client \<Rightarrow> (client_request \<Rightarrow> bool) \<Rightarrow> 'm client \<Rightarrow>
   'm client \<times> catalog_state catalog_result" where
  "get_cached_state ce mc full cl = sbind (send ce mc full GetCachedState cl) (\<lambda>r cl. (cl, flatten r))"

definition client_commit_state ::
  "client_env \<Rightarrow> 'm metastore_client \<Rightarrow> (client_request \<Rightarrow> bool) \<Rightarrow> u64 \<Rightarrow> catalog_state \<Rightarrow> 'm client \<Rightarrow>
   'm client \<times> catalog_state catalog_result" where
  "client_commit_state ce mc full version state cl =
     sbind (send ce mc full (Commit version state) cl) (\<lambda>r cl. (cl, flatten r))"

definition client_try_mutate ::
  "client_env \<Rightarrow> 'm metastore_client \<Rightarrow> (client_request \<Rightarrow> bool) \<Rightarrow> u64 \<Rightarrow> mutation list \<Rightarrow> 'm client \<Rightarrow>
   'm client \<times> catalog_state catalog_result" where
  "client_try_mutate ce mc full current_version mutations cl =
     sbind (send ce mc full (ExecMutations current_version mutations) cl) (\<lambda>r cl. (cl, flatten r))"

definition try_mutate_and_commit ::
  "client_env \<Rightarrow> 'm metastore_client \<Rightarrow> (client_request \<Rightarrow> bool) \<Rightarrow> u64 \<Rightarrow> mutation list \<Rightarrow> 'm client \<Rightarrow>
   'm client \<times> catalog_state catalog_result" where
  "try_mutate_and_commit ce mc full current_version mutations cl =
     sbind (sbind (send ce mc full (ExecMutations current_version mutations) cl) (\<lambda>r cl. (cl, flatten r))) (\<lambda>state cl.
     client_commit_state ce mc full current_version state cl)"

subsection \<open>The mutator\<close>

text \<open>A mutator without a client is the value \<open>None\<close>.\<close>

definition on_client ::
  "('m client \<Rightarrow> 'm client \<times> 'a catalog_result) \<Rightarrow> 'm client option \<Rightarrow> 'm client option \<times> 'a catalog_result" where
  "on_client f client =
     (case client of
        None \<Rightarrow> (None, Err (catalog_error_new ''metastore client not configured''))
      | Some cl \<Rightarrow> (case f cl of (cl, r) \<Rightarrow> (Some cl, r)))"

definition commit_state ::
  "client_env \<Rightarrow> 'm metastore_client \<Rightarrow> (client_request \<Rightarrow> bool) \<Rightarrow> u64 \<Rightarrow> catalog_state \<Rightarrow> 'm client option \<Rightarrow>
   'm client option \<times> catalog_state catalog_result" where
  "commit_state ce mc full current_catalog_version state =
     on_client (client_commit_state ce mc full current_catalog_version state)"

definition retry_mutate ::
  "client_env \<Rightarrow> 'm metastore_client \<Rightarrow> (client_request \<Rightarrow> bool) \<Rightarrow> mutation list \<Rightarrow> 'm client \<Rightarrow>
   'm client \<times> catalog_state catalog_result" where
  "retry_mutate ce mc full mutations cl =
     sbind (refresh_cached_state ce mc full cl) (\<lambda>_ cl.
     sbind (get_cached_state ce mc full cl) (\<lambda>state cl.
     client_try_mutate ce mc full (cs_version state) mutations cl))"

definition mutator_mutate ::
  "client_env \<Rightarrow> 'm metastore_client \<Rightarrow> (client_request \<Rightarrow> bool) \<Rightarrow> u64 \<Rightarrow> mutation list \<Rightarrow> 'm client option \<Rightarrow>
   'm client option \<times> catalog_state catalog_result" where
  "mutator_mutate ce mc full catalog_version mutations =
     on_client (\<lambda>cl.
       case client_try_mutate ce mc full catalog_version mutations cl of
         (cl, Ok state) \<Rightarrow> (cl, Ok state)
       | (cl, Err e) \<Rightarrow>
           if cerr_strategy e = Some FetchCatalogAndRetry then retry_mutate ce mc full mutations cl
           else (cl, Err e)
       | (cl, Panic msg) \<Rightarrow> (cl, Panic msg))"

definition mutate_and_commit ::
  "client_env \<Rightarrow> 'm metastore_client \<Rightarrow> (client_request \<Rightarrow> bool) \<Rightarrow> u64 \<Rightarrow> mutation list \<Rightarrow> 'm client option \<Rightarrow>
   'm client option \<times> catalog_state catalog_result" where
  "mutate_and_commit ce mc full catalog_version mutations client =
     sbind (mutator_mutate ce mc full catalog_version mutations client) (\<lambda>state client.
     commit_state ce mc full catalog_version state client)"

subsection \<open>The version hint\<close>

definition hint_ok :: "worker \<Rightarrow> bool" where
  "hint_ok wk = (wk_version_hint wk = cs_version (wk_cached_state wk))"

lemma hint_ok_set [simp]: "hint_ok (set_cached_state state wk)"
  by (simp add: hint_ok_def set_cached_state_def)

lemma hint_ok_fetch: "hint_ok (snd mw) \<Longrightarrow> hint_ok (snd (fst (fetch ce mc mw)))"
  by (auto simp: fetch_def split: prod.splits outcome.splits option.splits)

lemma hint_ok_commit: "hint_ok (snd mw) \<Longrightarrow> hint_ok (snd (fst (handle_commit ce mc listening version state mw)))"
  by (auto simp: handle_commit_def split: prod.splits outcome.splits option.splits)

lemma hint_ok_exec: "hint_ok (snd mw) \<Longrightarrow> hint_ok (snd (fst (handle_exec_mutations ce mc version ms mw)))"
  by (auto simp: handle_exec_mutations_def split: prod.splits outcome.splits option.splits)

lemma hint_ok_request: "hint_ok (snd mw) \<Longrightarrow> hint_ok (snd (fst (handle_request ce mc listening req mw)))"
  using hint_ok_fetch [of mw ce mc]
  by (cases req) (auto simp: hint_ok_commit hint_ok_exec sbind_def split: prod.splits outcome.splits)

lemma hint_ok_run: "hint_ok (snd mw) \<Longrightarrow> hint_ok (snd (fst (worker_run ce mc max_ticks es n mw)))"
proof (induction es arbitrary: n mw)
  case (Cons e es)
  show ?case
  proof (cases e)
    case (IntervalTick n)
    then show ?thesis using Cons hint_ok_fetch [OF Cons.prems, of ce mc] by (auto split: prod.splits outcome.splits)
  next
    case (Incoming listening req)
    then show ?thesis using Cons hint_ok_request [OF Cons.prems, of ce mc listening req]
      by (auto split: prod.splits outcome.splits)
  qed
qed simp

lemma hint_ok_init: "worker_init ce mc db_id m = (m', Ok wk) \<Longrightarrow> hint_ok wk"
  by (auto simp: worker_init_def hint_ok_def split: prod.splits outcome.splits option.splits)

subsection \<open>When the worker stops\<close>

fun idle_tick :: "worker_event \<Rightarrow> bool" where
  "idle_tick (IntervalTick strong_count) = (session_count_for_db strong_count = 0)"
| "idle_tick (Incoming listening req) = False"

text \<open>It stops by itself only after a run of idle ticks, \<open>n\<close> of which came before.\<close>

lemma worker_exits_idle:
  assumes "snd (worker_run ce mc max_ticks es n mw) = Exited" and "n < max_ticks"
  shows "\<exists>pre idle post. es = pre @ idle @ post \<and> list_all idle_tick idle \<and>
    (length idle = max_ticks \<or> pre = [] \<and> length idle + n = max_ticks)"
  using assms
proof (induction es arbitrary: n mw)
  case (Cons e es)
  obtain mw' where "(\<exists>n'. snd (worker_run ce mc max_ticks es n' mw') = Exited \<and>
       (if idle_tick e then n' = Suc n \<and> Suc n < max_ticks else n' = 0)) \<or> idle_tick e \<and> Suc n = max_ticks"
    using Cons.prems by (cases e) (auto split: prod.splits outcome.splits if_splits)
  then consider (stop) "idle_tick e" "Suc n = max_ticks"
    | (idle) "idle_tick e" "Suc n < max_ticks" "snd (worker_run ce mc max_ticks es (Suc n) mw') = Exited"
    | (busy) "\<not> idle_tick e" "snd (worker_run ce mc max_ticks es 0 mw') = Exited"
    by (auto split: if_splits)
  then show ?case
  proof cases
    case stop
    then show ?thesis by (intro exI [of _ "[]"] exI [of _ "[e]"] exI [of _ es]) auto
  next
    case idle
    from Cons.IH [OF idle(3,2)] obtain pre ts post where
      "es = pre @ ts @ post" "list_all idle_tick ts" "length ts = max_ticks \<or> pre = [] \<and> length ts + Suc n = max_ticks"
      by blast
    then show ?thesis using idle(1)
      by (cases "length ts = max_ticks")
        (force intro: exI [of _ "e # pre"], intro exI [of _ "[]"] exI [of _ "e # ts"] exI [of _ post], auto)
  next
    case busy
    have "0 < max_ticks" using Cons.prems(2) by simp
    from Cons.IH [OF busy(2) this] obtain pre ts post where
      "es = pre @ ts @ post" "list_all idle_tick ts" "length ts = max_ticks" by fastforce
    then show ?thesis by (intro exI [of _ "e # pre"] exI [of _ ts] exI [of _ post]) auto
  qed
qed simp

lemma worker_idle_exits:
  assumes fetch: "\<And>mw. \<not> is_panic (snd (fetch ce mc mw))" and "n + k = max_ticks" and "0 < k"
  shows "list_all idle_tick es \<Longrightarrow> length es = k \<Longrightarrow> snd (worker_run ce mc max_ticks (es @ rest) n mw) = Exited"
  using assms(2,3)
proof (induction es arbitrary: n k mw)
  case (Cons e es)
  obtain strong where e: "e = IntervalTick strong" "session_count_for_db strong = 0"
    using Cons.prems(1) by (cases e) auto
  obtain mw' r where f: "fetch ce mc mw = (mw', r)" "\<not> is_panic r" using fetch [of mw] by (cases "fetch ce mc mw") auto
  have "snd (worker_run ce mc max_ticks (es @ rest) (Suc n) mw') = Exited" if "Suc n < max_ticks"
    using Cons.IH [of "k - 1" "Suc n" mw'] Cons.prems that by auto
  with e f Cons.prems show ?case by (cases r) (auto simp: not_le)
qed simp

end
