(* ===== verification/Lease_System.thy ===== *)
theory Lease_System
  imports Lease
begin

section \<open>Processes that compete for a lease\<close>

text \<open>
  Any number of processes acquire, renew and drop the lease of one database, in any order, on a
  store whose writes may fail. A step is one complete operation of theory \<open>Lease\<close>, a crash of a
  process that forgets its lease, or time passing. Handles are numbered; each is a \<open>RemoteLease\<close>
  with its background task.

  The race that the comment in \<open>try_write_lease\<close> describes, a rename that overwrites a lease acquired
  between its read and its write, needs a finer interleaving than these steps.
\<close>

record 's lease_system =
  sys_store :: 's
  sys_now :: system_time
  sys_handles :: "nat \<rightharpoonup> remote_lease"

inductive lease_step ::
  "'s object_store \<Rightarrow> externs \<Rightarrow> uuid \<Rightarrow> 's lease_system \<Rightarrow> 's lease_system \<Rightarrow> bool"
  for os X db where
  acquire_ok:
    "length pid = 16 \<Longrightarrow> sys_handles \<sigma> i = None \<Longrightarrow>
     acquire os X pid (sys_now \<sigma>) rs db (sys_store \<sigma>) = (s', Ok lease) \<Longrightarrow>
     lease_step os X db \<sigma> (\<sigma>\<lparr>sys_store := s', sys_handles := (sys_handles \<sigma>)(i \<mapsto> lease)\<rparr>)"
| acquire_err:
    "length pid = 16 \<Longrightarrow> acquire os X pid (sys_now \<sigma>) rs db (sys_store \<sigma>) = (s', Err e) \<Longrightarrow>
     lease_step os X db \<sigma> (\<sigma>\<lparr>sys_store := s'\<rparr>)"
| tick:
    "sys_handles \<sigma> i = Some lease \<Longrightarrow> renew_tick os X (sys_now \<sigma>) rs lease (sys_store \<sigma>) = (s', lease') \<Longrightarrow>
     lease_step os X db \<sigma> (\<sigma>\<lparr>sys_store := s', sys_handles := (sys_handles \<sigma>)(i \<mapsto> lease')\<rparr>)"
| release:
    "sys_handles \<sigma> i = Some lease \<Longrightarrow> drop_lease os X rs lease (sys_store \<sigma>) = (s', r) \<Longrightarrow>
     lease_step os X db \<sigma> (\<sigma>\<lparr>sys_store := s', sys_handles := (sys_handles \<sigma>)(i := None)\<rparr>)"
| crash:
    "lease_step os X db \<sigma> (\<sigma>\<lparr>sys_handles := (sys_handles \<sigma>)(i := None)\<rparr>)"
| passes:
    "sys_now \<sigma> \<le> now' \<Longrightarrow> lease_step os X db \<sigma> (\<sigma>\<lparr>sys_now := now'\<rparr>)"

text \<open>The handle \<open>i\<close> is of process \<open>pid\<close>, and its generation is the stored one.\<close>

definition holds :: "externs \<Rightarrow> 's contents \<Rightarrow> uuid \<Rightarrow> 's lease_system \<Rightarrow> nat \<Rightarrow> uuid \<Rightarrow> bool" where
  "holds X c db \<sigma> i pid =
     (\<exists>lease stored. sys_handles \<sigma> i = Some lease \<and> lr_process_id (rl_renewer lease) = pid \<and>
        stored_lease X c db (sys_store \<sigma>) = Some stored \<and> rl_generation lease = li_generation stored)"

subsection \<open>The invariant\<close>

text \<open>The stored generation has moved \<open>k\<close> times from \<open>g0\<close>, each handle has the value after some \<open>j \<le> k\<close>
  moves, and a handle at the last of them is of the process that the stored lease names.\<close>

definition handle_ok ::
  "externs \<Rightarrow> uuid \<Rightarrow> u64 \<Rightarrow> lease_information \<Rightarrow> nat \<Rightarrow> remote_lease \<Rightarrow> bool" where
  "handle_ok X db g0 stored k lease =
     (\<exists>pid j. rl_renewer lease = renewer_of X pid db \<and> length pid = 16 \<and> j \<le> k \<and>
        rl_generation lease = g0 + of_nat j \<and>
        (j = k \<longrightarrow> li_state stored = Locked \<and> li_held_by stored = Some pid))"

definition lease_inv ::
  "externs \<Rightarrow> 's contents \<Rightarrow> uuid \<Rightarrow> u64 \<Rightarrow> nat \<Rightarrow> 's lease_system \<Rightarrow> bool" where
  "lease_inv X c db g0 n \<sigma> =
     (\<exists>stored k. stored_lease X c db (sys_store \<sigma>) = Some stored \<and> k \<le> n \<and>
        li_generation stored = g0 + of_nat k \<and>
        (\<forall>i lease. sys_handles \<sigma> i = Some lease \<longrightarrow> handle_ok X db g0 stored k lease))"

lemma lease_invI:
  assumes "stored_lease X c db (sys_store \<sigma>) = Some stored" and "k \<le> n"
    and "li_generation stored = g0 + of_nat k"
    and "\<And>i lease. sys_handles \<sigma> i = Some lease \<Longrightarrow> handle_ok X db g0 stored k lease"
  shows "lease_inv X c db g0 n \<sigma>"
  using assms unfolding lease_inv_def by blast

lemma handle_ok_older: "handle_ok X db g0 stored k lease \<Longrightarrow> handle_ok X db g0 stored' (Suc k) lease"
  unfolding handle_ok_def by (metis Suc_n_not_le_n le_SucI)

lemma handle_ok_same:
  "rl_renewer lease' = rl_renewer lease \<Longrightarrow> rl_generation lease' = rl_generation lease \<Longrightarrow>
   handle_ok X db g0 stored k lease \<Longrightarrow> handle_ok X db g0 stored k lease'"
  by (simp add: handle_ok_def)

lemma handle_ok_owner:
  "length pid = 16 \<Longrightarrow> li_state stored = Locked \<Longrightarrow> li_held_by stored = Some pid \<Longrightarrow>
   rl_renewer lease = renewer_of X pid db \<Longrightarrow> rl_generation lease = g0 + of_nat k \<Longrightarrow>
   handle_ok X db g0 stored k lease"
  unfolding handle_ok_def by blast

text \<open>A write of the next generation keeps the invariant, whether or not it took effect.\<close>

lemma lease_inv_written:
  assumes inv: "lease_inv X c db g0 n \<sigma>" and stored: "stored_lease X c db (sys_store \<sigma>) = Some stored"
    and written: "lease_written X c db pid new (sys_store \<sigma>) (s', r)"
    and new: "li_generation new = li_generation stored + 1"
    and handles: "\<And>j lease. h j = Some lease \<Longrightarrow>
      sys_handles \<sigma> j = Some lease \<or>
      (\<exists>old. sys_handles \<sigma> j = Some old \<and> rl_renewer lease = rl_renewer old \<and>
         rl_generation lease = rl_generation old) \<or>
      (is_ok r \<and> rl_generation lease = li_generation new \<and> li_state new = Locked \<and>
       (\<exists>pid. li_held_by new = Some pid \<and> length pid = 16 \<and> rl_renewer lease = renewer_of X pid db))"
  shows "lease_inv X c db g0 (Suc n) (\<sigma>\<lparr>sys_store := s', sys_handles := h\<rparr>)"
proof -
  from inv stored obtain k where k: "k \<le> n" "li_generation stored = g0 + of_nat k"
    and ok: "\<And>i lease. sys_handles \<sigma> i = Some lease \<Longrightarrow> handle_ok X db g0 stored k lease"
    unfolding lease_inv_def by auto
  consider (old) "stored_lease X c db s' = Some stored" "\<not> is_ok r"
    | (new) "stored_lease X c db s' = Some new"
    using written stored by (auto simp: lease_written_def)
  then show ?thesis
  proof cases
    case old
    have "handle_ok X db g0 stored k lease" if "h i = Some lease" for i lease
      using handles [OF that] ok old(2) handle_ok_same by blast
    with old k show ?thesis by (intro lease_invI [of _ _ _ _ stored k]) auto
  next
    case new
    have gen: "li_generation new = g0 + of_nat (Suc k)"
      using assms(4) k(2) by (simp add: algebra_simps)
    have "handle_ok X db g0 new (Suc k) lease" if "h i = Some lease" for i lease
      using handles [OF that] ok handle_ok_same handle_ok_older handle_ok_owner gen by metis
    with new k gen show ?thesis by (intro lease_invI [of _ _ _ _ new "Suc k"]) auto
  qed
qed

text \<open>Steps that leave the store alone.\<close>

lemma lease_inv_idle:
  assumes inv: "lease_inv X c db g0 n \<sigma>"
    and handles: "\<And>j lease. h j = Some lease \<Longrightarrow>
      \<exists>old. sys_handles \<sigma> j = Some old \<and> rl_renewer lease = rl_renewer old \<and>
        rl_generation lease = rl_generation old"
  shows "lease_inv X c db g0 (Suc n) (\<sigma>\<lparr>sys_handles := h\<rparr>)"
proof -
  from inv obtain stored k where "stored_lease X c db (sys_store \<sigma>) = Some stored" "k \<le> n"
    "li_generation stored = g0 + of_nat k"
    and ok: "\<And>i lease. sys_handles \<sigma> i = Some lease \<Longrightarrow> handle_ok X db g0 stored k lease"
    unfolding lease_inv_def by auto
  moreover have "handle_ok X db g0 stored k lease" if "h i = Some lease" for i lease
    using handles [OF that] ok handle_ok_same by blast
  ultimately show ?thesis by (intro lease_invI [of _ _ _ _ stored k]) auto
qed

lemma lease_inv_acquire:
  assumes os: "store_ok os c" and X: "externs_ok X" and inv: "lease_inv X c db g0 n \<sigma>"
    and pid: "length pid = 16"
    and acq: "acquire os X pid now rs db (sys_store \<sigma>) = (s', r)"
    and h: "h = sys_handles \<sigma> \<or> (\<exists>i lease. r = Ok lease \<and> h = (sys_handles \<sigma>)(i \<mapsto> lease))"
  shows "lease_inv X c db g0 (Suc n) (\<sigma>\<lparr>sys_store := s', sys_handles := h\<rparr>)"
proof -
  obtain r' where al: "acquire_lease os X (renewer_of X pid db) now rs (sys_store \<sigma>) = (s', r')"
    and r: "r = (case r' of Ok g \<Rightarrow> Ok \<lparr>rl_renewer = renewer_of X pid db, rl_generation = g,
        rl_valid = True, rl_exited = False\<rparr> | Err e \<Rightarrow> Err e | Panic m \<Rightarrow> Panic m)"
    using acq by (cases "acquire_lease os X (renewer_of X pid db) now rs (sys_store \<sigma>)";
        cases "snd (acquire_lease os X (renewer_of X pid db) now rs (sys_store \<sigma>))")
      (auto simp: acquire_def Let_def)
  note eff = acquire_lease_effect [OF os X pid al]
  from eff consider (idle) "s' = sys_store \<sigma>"
    | (wrote) lease where "stored_lease X c db (sys_store \<sigma>) = Some lease"
        "lease_written X c db pid (locked_by pid (li_generation lease + 1) (now + LEASE_DURATION)) (sys_store \<sigma>) (s', r')"
    by blast
  then show ?thesis
  proof cases
    case idle
    from inv obtain stored k where st: "stored_lease X c db (sys_store \<sigma>) = Some stored" "k \<le> n"
      "li_generation stored = g0 + of_nat k"
      and ok: "\<And>i lease. sys_handles \<sigma> i = Some lease \<Longrightarrow> handle_ok X db g0 stored k lease"
      unfolding lease_inv_def by auto
    have "handle_ok X db g0 stored k lease" if "r = Ok lease" for lease
      using that r eff idle st pid by (auto split: outcome.splits intro: handle_ok_owner)
    with h ok have "handle_ok X db g0 stored k lease" if "h i = Some lease" for i lease
      using that by (auto split: if_splits)
    with st idle show ?thesis by (intro lease_invI [of _ _ _ _ stored k]) auto
  next
    case wrote
    have "rl_renewer lease' = renewer_of X pid db \<and> rl_generation lease' = li_generation lease + 1 \<and> is_ok r'"
      if "r = Ok lease'" for lease'
      using that r wrote eff by (auto split: outcome.splits simp: lease_written_def)
    with h show ?thesis
      by (intro lease_inv_written [OF inv wrote]) (auto split: if_splits simp: pid)
  qed
qed

lemma lease_inv_tick:
  assumes os: "store_ok os c" and X: "externs_ok X" and inv: "lease_inv X c db g0 n \<sigma>"
    and i: "sys_handles \<sigma> i = Some lease"
    and tick: "renew_tick os X now rs lease (sys_store \<sigma>) = (s', lease')"
  shows "lease_inv X c db g0 (Suc n) (\<sigma>\<lparr>sys_store := s', sys_handles := (sys_handles \<sigma>)(i \<mapsto> lease')\<rparr>)"
proof -
  from inv i obtain pid where pid: "rl_renewer lease = renewer_of X pid db" "length pid = 16"
    unfolding lease_inv_def handle_ok_def by blast
  have same: "rl_renewer lease' = rl_renewer lease"
    using tick by (auto simp: renew_tick_def split: if_splits prod.splits outcome.splits)
  obtain s1 r where ren: "renew_lease os X (renewer_of X pid db) now rs (rl_generation lease) (sys_store \<sigma>) = (s1, r)"
    by fastforce
  have run: "s' = s1 \<and> rl_generation lease' = (case r of Ok g \<Rightarrow> g | _ \<Rightarrow> rl_generation lease)"
    if "\<not> rl_exited lease"
    using tick ren pid(1) that by (cases r) (auto simp: renew_tick_def)
  have stay: "s' = sys_store \<sigma> \<and> lease' = lease" if "rl_exited lease"
    using tick that by (simp add: renew_tick_def)
  from renew_lease_effect [OF os X pid(2) ren]
  consider (idle) "s' = sys_store \<sigma>" "rl_generation lease' = rl_generation lease"
    | (wrote) stored where "stored_lease X c db (sys_store \<sigma>) = Some stored"
        "lease_written X c db pid (locked_by pid (li_generation stored + 1) (now + LEASE_DURATION)) (sys_store \<sigma>) (s', r)"
        "rl_generation lease' = rl_generation lease \<or> is_ok r \<and> rl_generation lease' = li_generation stored + 1"
  proof (elim disjE exE conjE)
    assume "s1 = sys_store \<sigma>" "\<not> is_ok r"
    then show ?thesis using run stay that(1) by (cases "rl_exited lease"; cases r) auto
  next
    fix stored
    assume "stored_lease X c db (sys_store \<sigma>) = Some stored" "li_generation stored = rl_generation lease"
      "lease_written X c db pid (locked_by pid (rl_generation lease + 1) (now + LEASE_DURATION)) (sys_store \<sigma>) (s1, r)"
      "\<forall>h. r = Ok h \<longrightarrow> h = rl_generation lease + 1"
    then show ?thesis using run stay that(1) that(2) [of stored] by (cases "rl_exited lease"; cases r) auto
  qed
  then show ?thesis
  proof cases
    case idle
    have "lease_inv X c db g0 (Suc n) (\<sigma>\<lparr>sys_handles := (sys_handles \<sigma>)(i \<mapsto> lease')\<rparr>)"
      using i idle same by (intro lease_inv_idle [OF inv]) (auto split: if_splits)
    with idle show ?thesis by simp
  next
    case wrote
    show ?thesis using i same pid wrote(3)
      by (intro lease_inv_written [OF inv wrote(1,2)]) (auto split: if_splits)
  qed
qed

lemma lease_inv_release:
  assumes os: "store_ok os c" and X: "externs_ok X" and inv: "lease_inv X c db g0 n \<sigma>"
    and i: "sys_handles \<sigma> i = Some lease" and drop: "drop_lease os X rs lease (sys_store \<sigma>) = (s', r)"
  shows "lease_inv X c db g0 (Suc n) (\<sigma>\<lparr>sys_store := s', sys_handles := (sys_handles \<sigma>)(i := None)\<rparr>)"
proof -
  from inv i obtain pid where pid: "rl_renewer lease = renewer_of X pid db"
    unfolding lease_inv_def handle_ok_def by blast
  consider (idle) "s' = sys_store \<sigma>"
    | (wrote) stored where "stored_lease X c db (sys_store \<sigma>) = Some stored"
        "lease_written X c db pid (unlocked (li_generation stored + 1)) (sys_store \<sigma>) (s', r)"
    using drop pid renewer_drop_lease_effect [OF os X, of pid db rs "rl_generation lease" "sys_store \<sigma>" s' r]
    by (auto simp: drop_lease_def split: if_splits)
  then show ?thesis
  proof cases
    case idle
    have "lease_inv X c db g0 (Suc n) (\<sigma>\<lparr>sys_handles := (sys_handles \<sigma>)(i := None)\<rparr>)"
      by (intro lease_inv_idle [OF inv]) (auto split: if_splits)
    with idle show ?thesis by simp
  next
    case wrote
    show ?thesis by (intro lease_inv_written [OF inv wrote]) (auto split: if_splits)
  qed
qed

lemma lease_inv_step:
  assumes "store_ok os c" and "externs_ok X" and inv: "lease_inv X c db g0 n \<sigma>"
    and step: "lease_step os X db \<sigma> \<sigma>'"
  shows "lease_inv X c db g0 (Suc n) \<sigma>'"
  using step
proof cases
  case (acquire_ok pid i rs s' lease)
  show ?thesis unfolding acquire_ok(1)
    by (rule lease_inv_acquire [OF assms(1,2) inv acquire_ok(2,4)]) auto
next
  case (acquire_err pid rs s' e)
  then show ?thesis using lease_inv_acquire [OF assms(1,2) inv acquire_err(2,3), of "sys_handles \<sigma>"] by simp
next
  case (tick i lease rs s' lease')
  then show ?thesis using lease_inv_tick [OF assms(1,2) inv] by blast
next
  case (release i lease rs s' r)
  then show ?thesis using lease_inv_release [OF assms(1,2) inv] by blast
next
  case (crash i)
  have "lease_inv X c db g0 (Suc n) (\<sigma>\<lparr>sys_handles := (sys_handles \<sigma>)(i := None)\<rparr>)"
    by (intro lease_inv_idle [OF inv]) (auto split: if_splits)
  with crash show ?thesis by simp
next
  case (passes now')
  have "lease_inv X c db g0 (Suc n) (\<sigma>\<lparr>sys_handles := sys_handles \<sigma>\<rparr>)"
    by (intro lease_inv_idle [OF inv]) auto
  with passes show ?thesis by (simp add: lease_inv_def)
qed

lemma lease_inv_run:
  assumes "store_ok os c" and "externs_ok X"
  shows "(lease_step os X db ^^ n) \<sigma>0 \<sigma> \<Longrightarrow> lease_inv X c db g0 0 \<sigma>0 \<Longrightarrow> lease_inv X c db g0 n \<sigma>"
proof (induction n arbitrary: \<sigma>)
  case (Suc n)
  then obtain \<sigma>1 where "(lease_step os X db ^^ n) \<sigma>0 \<sigma>1" "lease_step os X db \<sigma>1 \<sigma>" by auto
  with Suc lease_inv_step [OF assms] show ?case by blast
qed simp

subsection \<open>Mutual exclusion\<close>

lemma holds_owner:
  assumes inv: "lease_inv X c db g0 n \<sigma>" and n: "n < 2 ^ 64" and holds: "holds X c db \<sigma> i pid"
  shows "\<exists>stored. stored_lease X c db (sys_store \<sigma>) = Some stored \<and> li_state stored = Locked \<and>
    li_held_by stored = Some pid"
proof -
  from inv obtain stored k where st: "stored_lease X c db (sys_store \<sigma>) = Some stored" "k \<le> n"
    "li_generation stored = g0 + of_nat k"
    and ok: "\<And>i lease. sys_handles \<sigma> i = Some lease \<Longrightarrow> handle_ok X db g0 stored k lease"
    unfolding lease_inv_def by auto
  from holds st obtain lease where l: "sys_handles \<sigma> i = Some lease" "lr_process_id (rl_renewer lease) = pid"
    "rl_generation lease = li_generation stored" by (auto simp: holds_def)
  from ok [OF l(1)] obtain q j where j: "rl_renewer lease = renewer_of X q db" "j \<le> k"
    "rl_generation lease = g0 + of_nat j" "j = k \<longrightarrow> li_state stored = Locked \<and> li_held_by stored = Some q"
    unfolding handle_ok_def by blast
  have "(of_nat j :: u64) = of_nat k" using l(3) j(3) st(3) by simp
  moreover have "j < 2 ^ 64" "k < 2 ^ 64" using n st(2) j(2) by auto
  ultimately have "j = k" by (simp add: word_of_nat_eq_iff take_bit_nat_eq_self)
  with j l st show ?thesis by auto
qed

end
