(* ===== verification/Storage_Theorems.thy ===== *)
theory Storage_Theorems
  imports Storage_Progress Lease_System Wire_Theorems
begin

section \<open>The main theorems on storage\<close>

text \<open>
  What clients of the lease and of the catalog storage rely on. The instances use an object store in
  memory and external functions that satisfy the contracts: times and identifiers as they are
  documented, a simple encoding of leases and metadata, and an encoder that knows the catalogs of a
  given list.
\<close>

subsection \<open>A store in memory\<close>

type_synonym mem = "object_path \<rightharpoonup> bytes"

definition mem_move :: "object_path \<Rightarrow> object_path \<Rightarrow> mem \<Rightarrow> mem \<times> (object_store_error, unit) outcome" where
  "mem_move p q s =
     (case s p of None \<Rightarrow> (s, Err OS_NotFound) | Some b \<Rightarrow> (s(q \<mapsto> b, p := None), Ok ()))"

definition mem_store :: "mem object_store" where
  "mem_store =
     \<lparr>os_get = (\<lambda>p s. case s p of None \<Rightarrow> Err OS_NotFound | Some b \<Rightarrow> Ok b),
      os_head = (\<lambda>p s. case s p of None \<Rightarrow> Err OS_NotFound | Some b \<Rightarrow> Ok ()),
      os_put = (\<lambda>p b s. (s(p \<mapsto> b), Ok ())),
      os_rename = mem_move,
      os_rename_if_not_exists =
        (\<lambda>p q s. if s q \<noteq> None then (s, Err OS_AlreadyExists) else mem_move p q s)\<rparr>"

lemma mem_store_reliable: "store_reliable mem_store (\<lambda>s. s)"
  unfolding store_reliable_def store_ok_def mem_store_def mem_move_def put_effect_def rename_effect_def
  by (auto split: option.splits if_splits)

subsection \<open>External functions\<close>

definition timestamp_of :: "system_time \<Rightarrow> timestamp" where
  "timestamp_of t = \<lparr>ts_seconds = word_of_int (t div 1000000000), ts_nanos = word_of_int (t mod 1000000000)\<rparr>"

definition time_of :: "timestamp \<Rightarrow> system_time proto_result" where
  "time_of ts = Ok (sint (ts_seconds ts) * 1000000000 + sint (ts_nanos ts))"

lemma sint_word_of_int:
  "- (2 ^ (LENGTH('a) - 1)) \<le> x \<Longrightarrow> x < 2 ^ (LENGTH('a) - 1) \<Longrightarrow> sint (word_of_int x :: 'a::len word) = x"
  by (simp add: sint_sbintrunc' signed_take_bit_int_eq_self)

lemma time_of_timestamp_of:
  assumes "time_ok t"
  shows "time_of (timestamp_of t) = Ok t"
proof -
  have "- (2 ^ 63) \<le> t div 1000000000" "t div 1000000000 < 2 ^ 63"
    using assms by (auto simp: time_ok_def)
  then have "sint (word_of_int (t div 1000000000) :: i64) = t div 1000000000"
    by (intro sint_word_of_int) simp_all
  moreover have "sint (word_of_int (t mod 1000000000) :: i32) = t mod 1000000000"
    by (intro sint_word_of_int) (simp_all add: order_trans [OF _ pos_mod_sign] order_less_trans [OF pos_mod_bound])
  ultimately show ?thesis by (simp add: time_of_def timestamp_of_def)
qed

text \<open>Numbers in unary, closed by a one.\<close>

definition enc_nat :: "nat \<Rightarrow> bytes" where
  "enc_nat n = replicate n 0 @ [1]"

fun dec_nat :: "bytes \<Rightarrow> nat \<times> bytes" where
  "dec_nat (b # bs) = (if b = 0 then (case dec_nat bs of (n, r) \<Rightarrow> (Suc n, r)) else (0, bs))"
| "dec_nat [] = (0, [])"

lemma dec_enc_nat [simp]: "dec_nat (enc_nat n @ r) = (n, r)"
  by (induction n) (auto simp: enc_nat_def)

definition enc_lease :: "p_lease_information \<Rightarrow> bytes" where
  "enc_lease p =
     enc_nat (unat (pli_state p)) @ enc_nat (unat (pli_generation p)) @
     (case pli_expires_at p of
        None \<Rightarrow> enc_nat 0
      | Some ts \<Rightarrow> enc_nat 1 @ enc_nat (unat (ts_seconds ts)) @ enc_nat (unat (ts_nanos ts))) @
     pli_held_by p"

definition dec_lease :: "bytes \<Rightarrow> p_lease_information" where
  "dec_lease bs =
     (let (st, bs) = dec_nat bs; (g, bs) = dec_nat bs; (present, bs) = dec_nat bs in
      if present = 0
      then \<lparr>pli_state = of_nat st, pli_generation = of_nat g, pli_expires_at = None, pli_held_by = bs\<rparr>
      else let (sec, bs) = dec_nat bs; (ns, bs) = dec_nat bs in
        \<lparr>pli_state = of_nat st, pli_generation = of_nat g,
         pli_expires_at = Some \<lparr>ts_seconds = of_nat sec, ts_nanos = of_nat ns\<rparr>, pli_held_by = bs\<rparr>)"

lemma dec_enc_lease: "dec_lease (enc_lease p) = p"
  by (cases "pli_expires_at p") (auto simp: dec_lease_def enc_lease_def intro!: p_lease_information.equality)

definition enc_metadata :: "p_catalog_metadata \<Rightarrow> bytes" where
  "enc_metadata p = enc_nat (unat (pcm_latest_version p)) @ pcm_last_written_by p"

definition dec_metadata :: "bytes \<Rightarrow> p_catalog_metadata" where
  "dec_metadata bs = (case dec_nat bs of (v, bs) \<Rightarrow> \<lparr>pcm_latest_version = of_nat v, pcm_last_written_by = bs\<rparr>)"

lemma dec_enc_metadata: "dec_metadata (enc_metadata p) = p"
  by (simp add: dec_metadata_def enc_metadata_def)

text \<open>The encoding of a catalog is its position in the list of those that are known.\<close>

definition messages :: "persisted_catalog list \<Rightarrow> p_persisted_catalog list" where
  "messages cs = concat (map (\<lambda>c. case persisted_catalog_into_proto c of Ok p \<Rightarrow> [p] | _ \<Rightarrow> []) cs)"

definition enc_catalog :: "p_persisted_catalog list \<Rightarrow> p_persisted_catalog \<Rightarrow> bytes storage_result" where
  "enc_catalog ps p =
     (if p \<in> set ps then Ok (enc_nat (length (takeWhile (\<lambda>q. q \<noteq> p) ps)))
      else Err SE_ProstEncode)"

definition dec_catalog :: "p_persisted_catalog list \<Rightarrow> bytes \<Rightarrow> p_persisted_catalog storage_result" where
  "dec_catalog ps bs =
     (case dec_nat bs of (i, _) \<Rightarrow> if i < length ps then Ok (ps ! i) else Err SE_ProstDecode)"

lemma dec_enc_catalog: "enc_catalog ps p = Ok b \<Longrightarrow> dec_catalog ps b = Ok p"
proof -
  have "length (takeWhile (\<lambda>q. q \<noteq> p) ps) < length ps \<and> ps ! length (takeWhile (\<lambda>q. q \<noteq> p) ps) = p"
    if "p \<in> set ps" using that by (induction ps) auto
  then show "enc_catalog ps p = Ok b \<Longrightarrow> dec_catalog ps b = Ok p"
    using dec_enc_nat [of _ "[]"] by (auto simp: enc_catalog_def dec_catalog_def split: if_splits)
qed

definition sample_externs :: "persisted_catalog list \<Rightarrow> externs" where
  "sample_externs cs =
     \<lparr>x_union_new = union_fields_new, x_timestamp_from = timestamp_of, x_timestamp_try_into = time_of,
      x_uuid_from_slice = (\<lambda>u. if length u = 16 then Ok u else Err UuidError),
      x_uuid_display = (\<lambda>u. concat (map (\<lambda>b. dec_of_nat (unat b) @ ''-'') u)),
      x_encode_lease = (\<lambda>p. Ok (enc_lease p)), x_decode_lease = (\<lambda>b. Ok (dec_lease b)),
      x_encode_metadata = (\<lambda>p. Ok (enc_metadata p)), x_decode_metadata = (\<lambda>b. Ok (dec_metadata b)),
      x_encode_catalog = enc_catalog (messages cs), x_decode_catalog = dec_catalog (messages cs)\<rparr>"

lemma sample_externs_ok: "externs_ok (sample_externs cs)"
  unfolding externs_ok_def
  by (simp add: sample_externs_def union_fields_new_spec time_of_timestamp_of dec_enc_lease dec_enc_metadata)
    (auto simp: same_message_def same_entries_def dest: dec_enc_catalog)

lemma sample_externs_encodes:
  assumes "c \<in> set cs" and "is_ok (persisted_catalog_into_proto c)"
  shows "catalog_encodes (sample_externs cs) c"
  using assms
  by (auto simp: catalog_encodes_def sample_externs_def enc_catalog_def messages_def is_ok_iff intro!: bexI [of _ c])

definition sample_db :: uuid where
  "sample_db = replicate 16 7"

definition sample_process :: uuid where
  "sample_process = replicate 16 1"

definition sample_io :: io where
  "sample_io =
     \<lparr>io_now = 1000, io_acquire_rs = (\<lambda>_. replicate 16 2), io_initialize_r = replicate 16 3,
      io_catalog_r = replicate 16 4, io_metadata_r = replicate 16 5, io_drop_rs = (\<lambda>_. replicate 16 6),
      io_ticks = (\<lambda>k. if k = 1 then [(20000000000, \<lambda>_. replicate 16 2)] else [])\<rparr>"

definition sample_catalog :: persisted_catalog where
  "sample_catalog =
     \<lparr>pc_state = \<lparr>cs_version = 1, cs_entries = [(20001, Table sample_table)],
        cs_deployment = \<lparr>dm_storage_size = 0\<rparr>, cs_catalog_version = 0\<rparr>,
      pc_extra = \<lparr>ex_oid_counter = 20002\<rparr>\<rparr>"

abbreviation sample_X :: externs where
  "sample_X \<equiv> sample_externs [first_catalog, sample_catalog]"

lemma sample_X_union [simp]: "x_union_new sample_X = union_fields_new"
  by (simp add: sample_externs_def)

lemma sample_catalog_wire: "wire_state union_fields_new (pc_state sample_catalog)"
  by (simp add: sample_catalog_def wire_state_def hm_ok_def wire_table_def wire_table_options_def sample_table_def
      sample_column_wire)

lemma wire_into_proto: "wire_state un (pc_state c) \<Longrightarrow> is_ok (persisted_catalog_into_proto c)"
  by (auto simp: persisted_catalog_into_proto_def is_ok_iff elim: state_codec.encE)

lemma sample_X_encodes: "catalog_encodes sample_X first_catalog" "catalog_encodes sample_X sample_catalog"
  by (auto intro!: sample_externs_encodes wire_into_proto wire_first_catalog union_fields_new_spec
      sample_catalog_wire)

lemma sample_ids [simp]: "length sample_process = 16" "cs_version (pc_state sample_catalog) = 1"
  by (simp_all add: sample_process_def sample_catalog_def)

lemma sample_ticks: "ticks_between sample_io (io_now sample_io + LEASE_DURATION)"
  by (simp add: ticks_between_def sample_io_def LEASE_DURATION_def time_ok_def)

lemmas mem_store_ok = reliable_ok [OF mem_store_reliable]

subsection \<open>The lease\<close>


text \<open>C21. A lease that another process holds and that has not expired is not taken: acquiring it fails,
  and nothing is written.\<close>

theorem held_lease_not_acquired:
  assumes "store_ok os c" and "externs_ok X" and "length pid = 16"
    and "stored_lease X c db s = Some lease" and "li_state lease = Locked"
    and "li_held_by lease = Some other" and "other \<noteq> pid"
    and "li_expires_at lease = Some t" and "now < t"
  shows "fst (acquire os X pid now rs db s) = s \<and> \<not> is_ok (snd (acquire os X pid now rs db s))"
proof -
  obtain s' r where acq: "acquire_lease os X (renewer_of X pid db) now rs s = (s', r)" by fastforce
  have "\<not> can_acquire pid now lease" using assms(5-9) by (simp add: can_acquire_def)
  with acquire_lease_effect [OF assms(1-3) acq] assms(4) have "s' = s" by auto
  moreover have "\<not> is_ok r"
    using acquire_lease_effect [OF assms(1-3) acq] \<open>s' = s\<close> assms(4,6,7) by (auto simp: is_ok_iff)
  ultimately show ?thesis using acq by (cases r) (auto simp: acquire_def Let_def)
qed

lemma read_lease_no_panic:
  assumes "store_ok os c" and "stored_lease X c db s = Some stored"
  shows "\<not> is_panic (read_lease os X (renewer_of X pid db) g s)"
proof (cases "os_get os (visible_path X LEASE_INFORMATION_OBJECT db) s")
  case (Ok b)
  then show ?thesis
    using assms(2) get_Ok [OF assms(1) Ok]
    by (auto simp: read_lease_def stored_lease_def split: option.splits outcome.splits if_splits)
qed (use get_not_panic [OF assms(1), of "visible_path X LEASE_INFORMATION_OBJECT db" s] in
    \<open>auto simp: read_lease_def\<close>)

text \<open>C22. A lease that was lost does no harm: when the stored generation has moved on, renewing it fails,
  marks it invalid and writes nothing, and so does dropping it.\<close>

theorem stale_lease_harmless:
  assumes "store_ok os c" and "externs_ok X" and "rl_renewer lease = renewer_of X pid db"
    and "\<not> rl_exited lease" and "stored_lease X c db s = Some stored"
    and "li_generation stored \<noteq> rl_generation lease"
  shows "fst (drop_lease os X rs lease s) = s \<and> \<not> is_ok (snd (drop_lease os X rs lease s)) \<and>
    fst (renew_tick os X now rs lease s) = s \<and> \<not> is_valid (snd (renew_tick os X now rs lease s))"
proof -
  have "\<not> is_ok (read_lease os X (renewer_of X pid db) (Some (rl_generation lease)) s)"
    using read_lease_Ok [OF assms(1), of X pid db "Some (rl_generation lease)" s] assms(5,6) by (auto simp: is_ok_iff)
  with read_lease_no_panic [OF assms(1,5), of pid "Some (rl_generation lease)"] obtain e where
    "read_lease os X (renewer_of X pid db) (Some (rl_generation lease)) s = Err e"
    by (cases "read_lease os X (renewer_of X pid db) (Some (rl_generation lease)) s") auto
  with assms(3,4) show ?thesis
    by (auto simp: drop_lease_def renew_tick_def renewer_drop_lease_def renew_lease_def is_valid_def)
qed

subsection \<open>Writing a catalog\<close>

text \<open>C2. Atomicity. Whatever the store does to a write (calls that fail with or without their effect,
  the lease lost on the way), a reader finds afterwards either what was there before, and the
  write has not reported success, or the catalog that was written, and then the version it was based on
  was the current one.\<close>

theorem write_catalog_atomic:
  assumes "store_ok os c" and "externs_ok X" and "wire_state (x_union_new X) (pc_state catalog)"
    and "cs_version (pc_state catalog) \<noteq> old_version" and "length pid = 16"
    and "write_catalog os X pid io db old_version catalog s = (s', r)"
  shows "same_view X c db s s' \<and> \<not> is_ok r \<or> replaced X c db pid old_version catalog s s'"
  using assms by (rule write_catalog_outcome)

text \<open>Writes by several processes, one after the other.\<close>

record catalog_write =
  cw_process :: uuid
  cw_io :: io
  cw_old_version :: u64
  cw_catalog :: persisted_catalog

abbreviation cw_version :: "catalog_write \<Rightarrow> u64" where
  "cw_version w \<equiv> cs_version (pc_state (cw_catalog w))"



definition final_version :: "u64 \<Rightarrow> catalog_write list \<Rightarrow> u64" where
  "final_version v ws = (if ws = [] then v else cw_version (last ws))"

definition effective :: "bool list \<Rightarrow> catalog_write list \<Rightarrow> catalog_write list" where
  "effective ts ws = map snd (filter fst (zip ts ws))"


lemma effective_Cons [simp]: "effective (b # ts) (w # ws) = (if b then w # effective ts ws else effective ts ws)"
  by (simp add: effective_def)

lemma final_version_simps [simp]:
  "final_version v [] = v" "final_version v (w # ws) = final_version (cw_version w) ws"
  by (auto simp: final_version_def)




text \<open>C9. Progress. On a store that does not fail by itself, with the lease free and its background task
  running before the lease expires, a write that is based on the current version succeeds, makes the
  new catalog current and frees the lease again.\<close>

theorem write_catalog_succeeds:
  assumes "store_reliable os c" and "externs_ok X" and "catalog_encodes X catalog"
    and "wire_state (x_union_new X) (pc_state catalog)" and "length pid = 16"
    and "stored_lease X c db s = Some lease" and "li_state lease = Unlocked"
    and "stored_metadata X c db s = Some m" and "cs_version (pc_state catalog) \<noteq> cm_latest_version m"
    and "ticks_between io (io_now io + LEASE_DURATION)"
  shows "\<exists>s' g. write_catalog os X pid io db (cm_latest_version m) catalog s = (s', Ok ()) \<and>
    replaced X c db pid (cm_latest_version m) catalog s s' \<and> stored_lease X c db s' = Some (unlocked g)"
proof -
  obtain s' g where w: "write_catalog os X pid io db (cm_latest_version m) catalog s = (s', Ok ())"
    "stored_lease X c db s' = Some (unlocked g)"
    using write_catalog_reliable [OF assms(1,2,4,3,5-8,10), of "cm_latest_version m"] by auto
  with write_catalog_outcome [OF reliable_ok [OF assms(1)] assms(2,4,9,5) w(1)] show ?thesis by auto
qed

text \<open>C10. A write that is based on another version than the current one is refused with both versions, the
  catalog stays as it is, and the lease is free again.\<close>

theorem out_of_date_write_refused:
  assumes "store_reliable os c" and "externs_ok X" and "catalog_encodes X catalog"
    and "wire_state (x_union_new X) (pc_state catalog)" and "length pid = 16"
    and "stored_lease X c db s = Some lease" and "li_state lease = Unlocked"
    and "stored_metadata X c db s = Some m" and "cm_latest_version m \<noteq> old_version"
    and "ticks_between io (io_now io + LEASE_DURATION)"
  shows "\<exists>s' g. write_catalog os X pid io db old_version catalog s =
      (s', Err (AttemptedOutOfDataCatalogWrite (cm_latest_version m) old_version)) \<and>
    same_view X c db s s' \<and> stored_lease X c db s' = Some (unlocked g)"
proof -
  obtain s' g where "write_catalog os X pid io db old_version catalog s =
      (s', Err (AttemptedOutOfDataCatalogWrite (cm_latest_version m) old_version))"
    "stored_lease X c db s' = Some (unlocked g)" "same_objects X c db s s'"
    using write_catalog_reliable [OF assms(1,2,4,3,5-8,10), of old_version] assms(9) by auto
  moreover from this(3) have "same_view X c db s s'" by (rule same_objects_same_view)
  ultimately show ?thesis by blast
qed

subsection \<open>Initialization\<close>

text \<open>C23. Initializing the storage of a new database on a store that does not fail succeeds; reading
  returns the empty catalog of version 0, the lease is free, and initializing once more, by any process,
  does nothing.\<close>

theorem initialize_new_database:
  assumes "store_reliable os c" and "externs_ok X" and "catalog_encodes X first_catalog" and "length pid = 16"
    and "c s (visible_path X CATALOG_METADATA db) = None" and "c s (visible_path X LEASE_INFORMATION_OBJECT db) = None"
    and "ticks_between io (io_now io + LEASE_DURATION)"
  shows "\<exists>s' g. initialize os X pid io db s = (s', Ok ()) \<and> read_catalog os X db s' = Ok first_catalog \<and>
    stored_metadata X c db s' = Some \<lparr>cm_latest_version = 0, cm_last_written_by = pid\<rparr> \<and>
    stored_lease X c db s' = Some (unlocked g) \<and> initialize os X pid' io' db s' = (s', Ok ())"
proof -
  obtain s' g where s': "initialize os X pid io db s = (s', Ok ())" "current_catalog X c db s' = Some first_catalog"
    "stored_lease X c db s' = Some (unlocked g)"
    "stored_metadata X c db s' = Some \<lparr>cm_latest_version = 0, cm_last_written_by = pid\<rparr>"
    by (rule initialize_fresh [OF assms])
  moreover have "os_head os (visible_path X CATALOG_METADATA db) s' = Ok ()"
    using s'(4) assms(1) by (auto simp: stored_metadata_def store_reliable_def split: option.splits)
  ultimately show ?thesis
    using reliable_read_catalog [OF assms(1) s'(2)] by (auto simp: initialize_def)
qed

text \<open>C25. A persisted catalog survives its encoding to bytes, up to the order of the entries of the map.\<close>

theorem persisted_catalog_bytes:
  assumes "externs_ok X" and "wire_state (x_union_new X) (pc_state catalog)"
    and "obind (omap_err SE_ProtoConv (persisted_catalog_into_proto catalog)) (x_encode_catalog X) = Ok b"
  shows "\<exists>catalog'. obind (x_decode_catalog X b)
      (\<lambda>p. omap_err SE_ProtoConv (persisted_catalog_try_from_proto X p)) = Ok catalog' \<and> same_catalog catalog catalog'"
  using catalog_bytes_roundtrip [OF assms(1,2)] assms(3) by auto

subsection \<open>Instances\<close>

text \<open>The store after the initialization of the sample database.\<close>

definition sample_store :: mem where
  "sample_store = fst (initialize mem_store sample_X sample_process sample_io sample_db Map.empty)"

theorem initialize_new_database_witness:
  "\<exists>g. read_catalog mem_store sample_X sample_db sample_store = Ok first_catalog \<and>
    stored_metadata sample_X (\<lambda>s. s) sample_db sample_store =
      Some \<lparr>cm_latest_version = 0, cm_last_written_by = sample_process\<rparr> \<and>
    stored_lease sample_X (\<lambda>s. s) sample_db sample_store = Some (unlocked g)"
  using initialize_new_database [OF mem_store_reliable sample_externs_ok sample_X_encodes(1) sample_ids(1)
      _ _ sample_ticks, of Map.empty sample_db sample_process sample_io]
  by (auto simp: sample_store_def)

lemma sample_store_facts:
  obtains g where "stored_lease sample_X (\<lambda>s. s) sample_db sample_store = Some (unlocked g)"
    and "stored_metadata sample_X (\<lambda>s. s) sample_db sample_store =
      Some \<lparr>cm_latest_version = 0, cm_last_written_by = sample_process\<rparr>"
  by (rule initialize_fresh [OF mem_store_reliable sample_externs_ok sample_X_encodes(1) sample_ids(1)
      _ _ sample_ticks, of Map.empty sample_db]) (auto simp: sample_store_def)

lemma sample_lease_store:
  assumes "wire_lease lease"
  obtains s where "stored_lease sample_X (\<lambda>s. s) sample_db s = Some lease"
  by (rule reliable_write_lease [OF mem_store_reliable sample_externs_ok assms])

lemmas sample_wire = sample_catalog_wire [folded sample_X_union]

theorem write_catalog_succeeds_witness:
  "\<exists>s'. write_catalog mem_store sample_X sample_process sample_io sample_db 0 sample_catalog sample_store = (s', Ok ()) \<and>
     replaced sample_X (\<lambda>s. s) sample_db sample_process 0 sample_catalog sample_store s'"
proof -
  obtain g where g: "stored_lease sample_X (\<lambda>s. s) sample_db sample_store = Some (unlocked g)"
    "stored_metadata sample_X (\<lambda>s. s) sample_db sample_store =
      Some \<lparr>cm_latest_version = 0, cm_last_written_by = sample_process\<rparr>"
    by (rule sample_store_facts)
  from write_catalog_succeeds [OF mem_store_reliable sample_externs_ok sample_X_encodes(2) sample_wire
      sample_ids(1) g(1) _ g(2) _ sample_ticks] show ?thesis by auto
qed

theorem out_of_date_write_refused_witness:
  "\<exists>s'. write_catalog mem_store sample_X sample_process sample_io sample_db 4 sample_catalog sample_store =
       (s', Err (AttemptedOutOfDataCatalogWrite 0 4)) \<and>
     same_view sample_X (\<lambda>s. s) sample_db sample_store s'"
proof -
  obtain g where g: "stored_lease sample_X (\<lambda>s. s) sample_db sample_store = Some (unlocked g)"
    "stored_metadata sample_X (\<lambda>s. s) sample_db sample_store =
      Some \<lparr>cm_latest_version = 0, cm_last_written_by = sample_process\<rparr>"
    by (rule sample_store_facts)
  from out_of_date_write_refused [OF mem_store_reliable sample_externs_ok sample_X_encodes(2) sample_wire
      sample_ids(1) g(1) _ g(2) _ sample_ticks, of 4] show ?thesis by auto
qed

theorem write_catalog_atomic_witness:
  "case write_catalog mem_store sample_X sample_process sample_io sample_db 0 sample_catalog sample_store of
     (s', r) \<Rightarrow> same_view sample_X (\<lambda>s. s) sample_db sample_store s' \<and> \<not> is_ok r \<or>
       replaced sample_X (\<lambda>s. s) sample_db sample_process 0 sample_catalog sample_store s'"
  using write_catalog_atomic [OF mem_store_ok sample_externs_ok sample_wire _ sample_ids(1), of 0 sample_io sample_db sample_store]
  by (auto split: prod.split)


theorem persisted_catalog_bytes_witness:
  "\<exists>b catalog'. obind (omap_err SE_ProtoConv (persisted_catalog_into_proto sample_catalog)) (x_encode_catalog sample_X) = Ok b \<and>
     obind (x_decode_catalog sample_X b)
       (\<lambda>p. omap_err SE_ProtoConv (persisted_catalog_try_from_proto sample_X p)) = Ok catalog' \<and>
     same_catalog sample_catalog catalog'"
proof -
  obtain b where b: "obind (omap_err SE_ProtoConv (persisted_catalog_into_proto sample_catalog)) (x_encode_catalog sample_X) = Ok b"
    using sample_X_encodes(2) by (auto simp: catalog_encodes_def is_ok_iff split: outcome.splits)
  with persisted_catalog_bytes [OF sample_externs_ok sample_wire b] show ?thesis by blast
qed

theorem held_lease_not_acquired_witness:
  "\<exists>s. stored_lease sample_X (\<lambda>s. s) sample_db s = Some (locked_by sample_process 1 5000) \<and>
     fst (acquire mem_store sample_X (replicate 16 9) 1000 (\<lambda>_. []) sample_db s) = s \<and>
     \<not> is_ok (snd (acquire mem_store sample_X (replicate 16 9) 1000 (\<lambda>_. []) sample_db s))"
proof -
  have "wire_lease (locked_by sample_process 1 5000)" by (simp add: time_ok_def)
  then obtain s where s: "stored_lease sample_X (\<lambda>s. s) sample_db s = Some (locked_by sample_process 1 5000)"
    by (rule sample_lease_store)
  from held_lease_not_acquired [OF mem_store_ok sample_externs_ok _ s, of "replicate 16 9" sample_process 5000 1000 "\<lambda>_. []"]
  show ?thesis using s by (auto simp: sample_process_def)
qed

theorem stale_lease_harmless_witness:
  "let lease = \<lparr>rl_renewer = renewer_of sample_X sample_process sample_db, rl_generation = 1, rl_valid = True, rl_exited = False\<rparr>
   in \<exists>s. stored_lease sample_X (\<lambda>s. s) sample_db s = Some (unlocked 2) \<and>
     fst (drop_lease mem_store sample_X (\<lambda>_. []) lease s) = s \<and>
     \<not> is_valid (snd (renew_tick mem_store sample_X 1000 (\<lambda>_. []) lease s))"
proof -
  let ?lease = "\<lparr>rl_renewer = renewer_of sample_X sample_process sample_db, rl_generation = 1, rl_valid = True, rl_exited = False\<rparr>"
  obtain s where s: "stored_lease sample_X (\<lambda>s. s) sample_db s = Some (unlocked 2)"
    by (rule sample_lease_store [OF wire_unlocked])
  from stale_lease_harmless [OF mem_store_ok sample_externs_ok _ _ s, of ?lease sample_process "\<lambda>_. []" 1000] s
  show ?thesis unfolding Let_def by auto
qed


end
