(* ===== verification/Metastore_Theorems.thy ===== *)
theory Metastore_Theorems
  imports Metastore_Safety Metastore_Load
begin

section \<open>The main theorems on the metastore state\<close>

text \<open>
  The properties of the metastore state that a client relies on, each with an instance on a
  concrete catalog. The concrete catalog holds the builtin database and the builtin schemas;
  the concrete state is what the metastore loads from the catalog of a fresh database.
\<close>

subsection \<open>A concrete state\<close>

definition sample_builtins :: builtin_catalog where
  "sample_builtins =
     (case obind (ofold add_builtin_database builtin_databases builtin_catalog_empty)
        (ofold add_builtin_schema builtin_schemas) of
        Ok bc \<Rightarrow> bc
      | _ \<Rightarrow> builtin_catalog_empty)"

definition loaded_state :: "builtin_catalog \<Rightarrow> state metastore_result \<Rightarrow> state" where
  "loaded_state bc r =
     (case r of
        Ok s \<Rightarrow> s
      | _ \<Rightarrow> \<lparr>st_version = 0, st_deployment = deployment_metadata_default, st_oid_counter = 0,
          st_entries = bc_entries bc, st_database_names = [], st_tunnel_names = [],
          st_credentials_names = [], st_schema_names = [], st_schema_objects = []\<rparr>)"

definition sample_state :: state where
  "sample_state = loaded_state sample_builtins (from_persisted sample_builtins initial_catalog)"

definition sample_schema :: mutation where
  "sample_schema = CreateSchema \<lparr>csc_name = ''s'', csc_if_not_exists = False\<rparr>"

definition sample_view :: mutation where
  "sample_view = CreateView \<lparr>cv_schema = ''s'', cv_name = ''v'', cv_sql = ''select 1'',
     cv_or_replace = False, cv_columns = []\<rparr>"

lemma sample_builtins_ok: "builtin_ok sample_builtins"
proof -
  from base_catalog_ok obtain bc where bc: "obind (ofold add_builtin_database builtin_databases builtin_catalog_empty)
       (ofold add_builtin_schema builtin_schemas) = Ok bc" "bc_wf bc" "schemas_known bc" "bc_oids_below 16390 bc"
    by blast
  have "bc_oids_below FIRST_AVAILABLE_ID bc"
    by (rule bc_oids_below_mono [OF bc(4)]) (simp add: builtin_oids)
  moreover have "sample_builtins = bc" unfolding sample_builtins_def bc(1) by simp
  ultimately show ?thesis using bc by (simp add: builtin_ok_def)
qed

lemma sample_state_wf: "wf_state sample_builtins sample_state" "unat (st_oid_counter sample_state) = 20000"
  using initial_catalog_loads [OF sample_builtins_ok]
  by (auto simp: sample_state_def loaded_state_def builtin_oids)

subsection \<open>The invariant\<close>

text \<open>C1. A list of mutations that succeeds leaves a well-formed state behind: the entries and the
  name maps still agree, builtin objects are unchanged, every user entry carries its own oid
  below the oid counter, and every parent exists. The oid counter must leave room for one oid per
  mutation.\<close>

theorem mutate_preserves_wf:
  assumes "builtin_ok bc" "wf_state bc s" "unat (st_oid_counter s) + length ms < 2 ^ 32"
    and "mutate ms s = (s', Ok ())"
  shows "wf_state bc s'"
proof -
  have "wf_state bc (s\<lparr>st_version := st_version s + 1\<rparr>)"
    using assms(2) by (rule wf_state_same) (use assms(2) in \<open>simp_all add: ents_def lookup_def wf_state_def maps_ok_def\<close>)
  then show ?thesis
    by (rule wf_mutate_all [OF assms(1)]) (use assms(3,4) in \<open>simp_all add: mutate_def\<close>)
qed

theorem mutate_preserves_wf_witness:
  "is_ok (snd (mutate [sample_schema, sample_view] sample_state)) \<and>
   wf_state sample_builtins (fst (mutate [sample_schema, sample_view] sample_state))"
proof -
  have ok: "is_ok (snd (mutate [sample_schema, sample_view] sample_state))" by code_simp
  then have "mutate [sample_schema, sample_view] sample_state =
      (fst (mutate [sample_schema, sample_view] sample_state), Ok ())"
    by (simp add: is_ok_iff prod_eq_iff)
  from mutate_preserves_wf [OF sample_builtins_ok sample_state_wf(1) _ this] ok sample_state_wf(2)
  show ?thesis by simp
qed

subsection \<open>Safety\<close>

text \<open>C8. On a well-formed state a mutation panics exactly when it sets the access mode of a view
  that a user created: the arm of \<open>AlterTable\<close> looks the name up among tables and views and
  declares every entry but a table unreachable. No other unwrap, expect, assertion or
  unreachable branch of \<open>mutate_one\<close> is ever hit.\<close>

theorem mutate_one_panics_iff:
  assumes "wf_state bc s"
  shows "is_panic (snd (mutate_one m s)) \<longleftrightarrow> alters_view_access m s"
  using assms by (rule is_panic_mutate_one)

theorem mutate_one_panics_iff_witness:
  "wf_state sample_builtins sample_state \<and>
   (is_panic (snd (mutate_one sample_schema sample_state)) \<longleftrightarrow> alters_view_access sample_schema sample_state)"
  using mutate_one_panics_iff [OF sample_state_wf(1)] sample_state_wf(1) by simp

text \<open>C20. Whatever a list of mutations does, also when it stops half way with an error or a panic,
  it leaves every builtin entry exactly as it was, and the catalog grows to at most 2049
  entries unless it was larger before.\<close>

theorem mutate_keeps_builtins:
  "(\<forall>i e. ents s i = Some e \<and> ent_builtin e \<longrightarrow> ents (fst (mutate ms s)) i = Some e) \<and>
   length (st_entries (fst (mutate ms s))) \<le> max (length (st_entries s)) (MAX_DATABASE_OBJECTS + 1)"
  using keeps_builtin_mutate_all [of "s\<lparr>st_version := st_version s + 1\<rparr>" ms]
  by (simp add: keeps_builtin_def mutate_def ents_def)

theorem mutate_keeps_builtins_witness:
  "ents sample_state 16386 \<noteq> None \<and>
   ents (fst (mutate [DropSchema \<lparr>ds_name = ''public'', ds_if_exists = False, ds_cascade = True\<rparr>] sample_state)) 16386
     = ents sample_state 16386"
proof -
  let ?ms = "[DropSchema \<lparr>ds_name = ''public'', ds_if_exists = False, ds_cascade = True\<rparr>]"
  have "hm_get (bc_entries sample_builtins) 16386 \<noteq> None" by code_simp
  moreover have "(16386 :: oid) < FIRST_AVAILABLE_ID" by (simp add: builtin_oids)
  moreover have core: "wf_core sample_builtins (st_oid_counter sample_state) (ents sample_state) (lookup sample_state)"
    using sample_state_wf(1) by (simp add: wf_state_def)
  ultimately obtain e where e: "ents sample_state 16386 = Some e" "ent_builtin e"
    using wf_coreD(2) [OF core] wf_core_builtin_iff [OF sample_builtins_ok core] by fastforce
  with mutate_keeps_builtins [of sample_state ?ms] show ?thesis by auto
qed

text \<open>C32. The version of the catalog goes up by one, modulo two to the power 64, for every list of
  mutations, the empty list and lists that fail included.\<close>

theorem mutate_version: "st_version (fst (mutate ms s)) = st_version s + 1"
  using keeps_builtin_mutate_all [of "s\<lparr>st_version := st_version s + 1\<rparr>" ms]
  by (simp add: keeps_builtin_def mutate_def)

subsection \<open>Persistence\<close>

text \<open>C7. Loading what was persisted gives the state back: \<open>to_persisted\<close> and \<open>from_persisted\<close>
  succeed on every well-formed state and the loaded state agrees with it in version, deployment
  metadata, oid counter, entries and every name lookup.\<close>

theorem persisted_roundtrip:
  assumes "builtin_ok bc" "wf_state bc s"
  shows "\<exists>p s'. to_persisted s = Ok p \<and> from_persisted bc p = Ok s' \<and> state_equiv s s' \<and> wf_state bc s'"
  using assms by (rule persist_load)

theorem persisted_roundtrip_witness:
  "\<exists>p s'. to_persisted sample_state = Ok p \<and> from_persisted sample_builtins p = Ok s' \<and>
     state_equiv sample_state s' \<and> wf_state sample_builtins s'"
  by (rule persisted_roundtrip [OF sample_builtins_ok sample_state_wf(1)])

text \<open>C24. The builtin catalog can be built, without a repeated oid and without a panic, whenever the
  function registry has at most 3484 names (aliases included); it is then well formed, all its
  oids lie below the first user oid, and the catalog of a fresh database loads on top of it into
  a well-formed state.\<close>

theorem builtin_catalog_new_ok:
  assumes "function_names table_funcs + function_names scalar_funcs + function_names scalar_udfs \<le> 3484"
  shows "\<exists>bc s. builtin_catalog_new table_funcs scalar_funcs scalar_udfs sql = Ok bc \<and> builtin_ok bc \<and>
     from_persisted bc initial_catalog = Ok s \<and> wf_state bc s"
  using builtin_catalog_new_succeeds [OF assms, of sql] initial_catalog_loads unfolding builtin_ok_def by blast

theorem builtin_catalog_new_ok_witness:
  "\<exists>bc s. builtin_catalog_new
       [\<lparr>bf_name = ''parquet_scan'', bf_aliases = [''read_parquet''], bf_function_type = TableReturning, bf_signature = None\<rparr>]
       [] [] (\<lambda>_. ''select 1'') = Ok bc \<and> builtin_ok bc \<and>
     from_persisted bc initial_catalog = Ok s \<and> wf_state bc s"
  by (rule builtin_catalog_new_ok) (simp add: function_names_def)

end
