(* ===== verification/Transactions.thy ===== *)
theory Transactions
  imports Database_Catalog Storage_Theorems Metastore_Theorems
begin

section \<open>Transactions on a database\<close>

text \<open>
  What the cached catalog of a metastore process and the storage below it make of transactions: lists
  of mutations that are applied to the cached state and then committed. Two groups of theorems describe
  interleavings in which the cached state and the stored one part.
\<close>

subsection \<open>Progress of a commit\<close>

text \<open>The catalog that a commit writes.\<close>

definition committed :: "builtin_catalog \<Rightarrow> catalog_state \<Rightarrow> oid \<Rightarrow> persisted_catalog" where
  "committed bc cs k =
     (case obind (from_catalog_state_and_counter bc cs k) to_persisted of Ok p \<Rightarrow> p | _ \<Rightarrow> first_catalog)"

lemma commit_reliable:
  assumes os: "store_reliable (sg_store sg) c" and X: "externs_ok (sg_externs sg)" and pid: "length (sg_process_id sg) = 16"
    and b: "builtin_ok bc" and wf: "wf_state bc st" and un: "wire_users (x_union_new (sg_externs sg)) st"
    and free: "stored_lease (sg_externs sg) c (dc_db_id dc) s = Some lease" "li_state lease = Unlocked"
    and m: "stored_metadata (sg_externs sg) c (dc_db_id dc) s = Some m" "cm_latest_version m = version"
    and io: "ticks_between io (io_now io + LEASE_DURATION)"
    and enc: "catalog_encodes (sg_externs sg) (committed bc (serializable_state st) (st_oid_counter (dc_cached dc)))"
  obtains s' cs g where "commit bc sg io version (serializable_state st) (s, dc) =
      ((s', dc\<lparr>dc_require_full_load := True\<rparr>), Ok cs)"
    and "stored_lease (sg_externs sg) c (dc_db_id dc) s' = Some (unlocked g)"
proof -
  let ?k = "st_oid_counter (dc_cached dc)"
  obtain st' p where st': "from_catalog_state_and_counter bc (serializable_state st) ?k = Ok st'"
    "persists st p" "to_persisted st' = Ok (with_counter ?k p)"
    using from_serializable [OF b wf] by blast
  have wire: "wire_state (x_union_new (sg_externs sg)) (pc_state (with_counter ?k p))"
    using wire_users_state [OF b wf un st'(2)] by simp
  have enc': "catalog_encodes (sg_externs sg) (with_counter ?k p)"
    using enc st'(1,3) by (simp add: committed_def)
  obtain s' g where "write_catalog (sg_store sg) (sg_externs sg) (sg_process_id sg) io (dc_db_id dc) version
      (with_counter ?k p) s = (s', Ok ())" "stored_lease (sg_externs sg) c (dc_db_id dc) s' = Some (unlocked g)"
    using write_catalog_reliable [OF os X wire enc' pid free m(1) io, of version] m(2) by auto
  with st'(1,3) that show ?thesis by (simp add: commit_def storage_err_def)
qed

text \<open>A state that is cached and not newer or older than the stored one is used as it is.\<close>

lemma load_latest_current:
  assumes os: "store_reliable (sg_store sg) c"
    and m: "stored_metadata (sg_externs sg) c (dc_db_id dc) s = Some m" "cm_latest_version m = st_version (dc_cached dc)"
    and current: "\<not> dc_require_full_load dc"
  shows "load_latest bc sg alone (s, dc) = ((s, dc), Ok ())"
  using reliable_read_metadata [OF os m(1)] m(2) current
  by (simp add: load_latest_def alone_def latest_version_def storage_err_def Let_def)

text \<open>A transaction on such a state. Nothing is said of the stored catalog but its version.\<close>

lemma transact_from_cache:
  assumes os: "store_reliable (sg_store sg) c" and X: "externs_ok (sg_externs sg)" and pid: "length (sg_process_id sg) = 16"
    and b: "builtin_ok bc" and wf: "wf_state bc (dc_cached dc)"
    and wire: "all_entries (wire_entry (x_union_new (sg_externs sg))) (dc_cached dc)"
      "list_all (wire_mutation (x_union_new (sg_externs sg))) ms"
    and room: "unat (st_oid_counter (dc_cached dc)) + length ms < 2 ^ 32"
    and free: "stored_lease (sg_externs sg) c (dc_db_id dc) s = Some lease" "li_state lease = Unlocked"
    and m: "stored_metadata (sg_externs sg) c (dc_db_id dc) s = Some m" "cm_latest_version m = st_version (dc_cached dc)"
    and current: "\<not> dc_require_full_load dc" and io: "ticks_between io (io_now io + LEASE_DURATION)"
    and ok: "mutate ms (dc_cached dc) = (st1, Ok ())"
    and enc: "catalog_encodes (sg_externs sg) (committed bc (serializable_state st1) (st_oid_counter st1))"
  obtains s' cs g where "transact bc sg io (st_version (dc_cached dc)) ms (s, dc) =
      ((s', dc\<lparr>dc_cached := st1, dc_require_full_load := True\<rparr>), Ok cs)"
    and "stored_state bc (sg_externs sg) c (dc_db_id dc) s' st1"
    and "stored_lease (sg_externs sg) c (dc_db_id dc) s' = Some (unlocked g)"
proof -
  let ?v = "st_version (dc_cached dc)" and ?dc = "dc\<lparr>dc_cached := st1\<rparr>"
  have "applies bc ?v ms (dc_cached dc) st1" using wf ok by (auto simp: applies_def state_equiv_def)
  note facts = applies_facts [OF b this room]
  have un: "wire_users (x_union_new (sg_externs sg)) st1"
    by (rule wire_users_all [OF facts(4) [OF wire(2,1)]])
  have t: "try_mutate bc sg alone ?v ms (s, dc) = ((s, ?dc), Ok (serializable_state st1))"
    using load_latest_current [OF os m current] ok by (simp add: try_mutate_def alone_def)
  obtain s' cs g where com: "commit bc sg io ?v (serializable_state st1) (s, ?dc) =
      ((s', ?dc\<lparr>dc_require_full_load := True\<rparr>), Ok cs)"
    "stored_lease (sg_externs sg) c (dc_db_id ?dc) s' = Some (unlocked g)"
    by (rule commit_reliable [OF os X pid b facts(1) un _ free(2) _ m(2) io, of ?dc s])
      (use free(1) m(1) enc in simp_all)
  have "stored_state bc (sg_externs sg) c (dc_db_id ?dc) s' st1"
    using commit_stores [OF reliable_ok [OF os] X pid b facts(1) un _ com(1)] facts(2) by simp
  with com t that show ?thesis by (simp add: transact_def)
qed

subsection \<open>Histories\<close>

record transaction =
  tx_io :: io
  tx_version :: u64
  tx_mutations :: "mutation list"

fun transact_all ::
  "builtin_catalog \<Rightarrow> 's storage \<Rightarrow> transaction list \<Rightarrow> 's \<times> database_catalog \<Rightarrow>
   ('s \<times> database_catalog) \<times> catalog_state metastore_result list" where
  "transact_all bc sg [] sd = (sd, [])"
| "transact_all bc sg (tx # txs) sd =
     (case transact bc sg (tx_io tx) (tx_version tx) (tx_mutations tx) sd of
        (sd, r) \<Rightarrow> (case transact_all bc sg txs sd of (sd, rs) \<Rightarrow> (sd, r # rs)))"

text \<open>The transactions that take effect, and the states they lead through.\<close>

inductive history :: "builtin_catalog \<Rightarrow> state \<Rightarrow> (bool \<times> transaction) list \<Rightarrow> state \<Rightarrow> bool" where
  history_none: "history bc st [] st"
| history_skip: "history bc st txs st' \<Longrightarrow> history bc st ((False, tx) # txs) st'"
| history_apply: "applies bc (tx_version tx) (tx_mutations tx) st st1 \<Longrightarrow> history bc st1 txs st' \<Longrightarrow>
    history bc st ((True, tx) # txs) st'"

lemma history_version:
  "history bc st txs st' \<Longrightarrow> st_version st' = st_version st + of_nat (length (filter fst txs))"
proof (induction rule: history.induct)
  case (history_apply bc tx st st1 txs st')
  then have "st_version st1 = st_version st + 1"
    using mutate_version_any by (auto simp: applies_def state_equiv_def) (metis fst_conv)
  with history_apply show ?case by simp
qed simp_all

definition oids_needed :: "transaction list \<Rightarrow> nat" where
  "oids_needed txs = sum_list (map (\<lambda>tx. length (tx_mutations tx)) txs)"

lemma transact_all_refines:
  assumes os: "store_ok (sg_store sg) c" and X: "externs_ok (sg_externs sg)" and pid: "length (sg_process_id sg) = 16"
    and b: "builtin_ok bc"
  shows "cache_ok bc sg c sd st \<Longrightarrow> all_entries (wire_entry (x_union_new (sg_externs sg))) st \<Longrightarrow>
    list_all (\<lambda>tx. list_all (wire_mutation (x_union_new (sg_externs sg))) (tx_mutations tx)) txs \<Longrightarrow>
    unat (st_oid_counter st) + oids_needed txs < 2 ^ 32 \<Longrightarrow> transact_all bc sg txs sd = (sd', rs) \<Longrightarrow>
    \<exists>ts st'. history bc st (zip ts txs) st' \<and> cache_ok bc sg c sd' st' \<and> length ts = length txs \<and>
      list_all2 (\<lambda>t r. is_ok r \<longrightarrow> t) ts rs"
proof (induction txs arbitrary: sd st rs)
  case Nil
  then show ?case by (intro exI [of _ "[]"] exI [of _ st]) (auto intro: history_none)
next
  case (Cons tx txs)
  let ?un = "x_union_new (sg_externs sg)" and ?ms = "tx_mutations tx"
  obtain s1 dc1 r where t: "transact bc sg (tx_io tx) (tx_version tx) ?ms sd = ((s1, dc1), r)" by (metis prod.exhaust)
  obtain rs1 where rest: "transact_all bc sg txs (s1, dc1) = (sd', rs1)" "rs = r # rs1"
    using Cons.prems(5) t by (auto split: prod.splits)
  obtain s dc where sd: "sd = (s, dc)" by fastforce
  have room: "unat (st_oid_counter st) + length ?ms + oids_needed txs < 2 ^ 32" and wire: "list_all (wire_mutation ?un) ?ms"
    using Cons.prems(3,4) by (auto simp: oids_needed_def)
  then have room1: "unat (st_oid_counter st) + length ?ms < 2 ^ 32" by simp
  obtain st1 where st1: "cache_ok bc sg c (s1, dc1) st1"
    "st1 = st \<and> \<not> is_ok r \<or> applies bc (tx_version tx) ?ms st st1"
    using transact_refines [OF os X pid b Cons.prems(1,2) [unfolded sd] wire room1 t [unfolded sd]] by blast
  then have "all_entries (wire_entry ?un) st1 \<and> unat (st_oid_counter st1) + oids_needed txs < 2 ^ 32"
    using applies_facts(3,4) [OF b _ room1] Cons.prems(2) wire room by fastforce
  from Cons.IH [OF st1(1) _ _ _ rest(1)] this Cons.prems(3) obtain ts st' where
    ts: "history bc st1 (zip ts txs) st'" "cache_ok bc sg c sd' st'" "length ts = length txs"
    "list_all2 (\<lambda>t r. is_ok r \<longrightarrow> t) ts rs1" by auto
  from st1(2) show ?case
  proof
    assume "st1 = st \<and> \<not> is_ok r"
    with ts rest(2) show ?thesis
      by (intro exI [of _ "False # ts"] exI [of _ st']) (auto intro: history_skip)
  next
    assume "applies bc (tx_version tx) ?ms st st1"
    with ts rest(2) show ?thesis
      by (intro exI [of _ "True # ts"] exI [of _ st']) (auto intro: history_apply)
  qed
qed

subsection \<open>A concrete database\<close>

text \<open>The store of a new database, where the encoder of catalogs knows \<open>cs\<close>.\<close>

abbreviation start_externs :: "persisted_catalog list \<Rightarrow> externs" where
  "start_externs cs \<equiv> sample_externs (first_catalog # cs)"

definition start_store :: "persisted_catalog list \<Rightarrow> mem" where
  "start_store cs = fst (initialize mem_store (start_externs cs) sample_process sample_io sample_db Map.empty)"

definition start_storage :: "persisted_catalog list \<Rightarrow> mem storage" where
  "start_storage cs = \<lparr>sg_store = mem_store, sg_externs = start_externs cs, sg_process_id = sample_process\<rparr>"

definition start_cache :: "state \<Rightarrow> database_catalog" where
  "start_cache st = \<lparr>dc_db_id = sample_db, dc_cached = st, dc_require_full_load = False\<rparr>"

lemma start_simps [simp]:
  "sg_store (start_storage cs) = mem_store" "sg_externs (start_storage cs) = start_externs cs"
  "sg_process_id (start_storage cs) = sample_process" "dc_db_id (start_cache st) = sample_db"
  "dc_cached (start_cache st) = st" "\<not> dc_require_full_load (start_cache st)"
  "x_union_new (sample_externs cs) = union_fields_new" "(start_cache st)\<lparr>dc_cached := st'\<rparr> = start_cache st'"
  by (simp_all add: start_storage_def start_cache_def sample_externs_def)

lemma start_store_facts:
  obtains g where "stored_lease (start_externs cs) (\<lambda>s. s) sample_db (start_store cs) = Some (unlocked g)"
    and "stored_metadata (start_externs cs) (\<lambda>s. s) sample_db (start_store cs) =
      Some \<lparr>cm_latest_version = 0, cm_last_written_by = sample_process\<rparr>"
    and "current_catalog (start_externs cs) (\<lambda>s. s) sample_db (start_store cs) = Some first_catalog"
proof -
  have enc: "catalog_encodes (start_externs cs) first_catalog"
    by (auto intro!: sample_externs_encodes wire_into_proto wire_first_catalog union_fields_new_spec)
  show ?thesis
    by (rule initialize_fresh [OF mem_store_reliable sample_externs_ok enc sample_ids(1) _ _ sample_ticks,
        of Map.empty sample_db]) (simp_all add: start_store_def that)
qed

lemma sample_state_entries: "all_entries (wire_entry un) sample_state"
proof -
  have "list_all (\<lambda>(i, e). case e of Table t \<Rightarrow> False | Function f \<Rightarrow> False | _ \<Rightarrow> True) (st_entries sample_state)"
    by code_simp
  moreover have "hm_ok (st_entries sample_state)" using sample_state_wf(1) by (simp add: wf_state_def maps_ok_def)
  ultimately show ?thesis
    by (auto simp: all_entries_def ents_def list_all_iff hm_get_eq_Some_iff split: catalog_entry.splits)
qed

lemma sample_state_facts: "to_persisted sample_state = Ok first_catalog" "st_version sample_state = 0"
  by code_simp+

lemma start_stored: "stored_state sample_builtins (start_externs cs) (\<lambda>s. s) sample_db (start_store cs) sample_state"
proof -
  have "persists sample_state first_catalog"
    using sample_state_facts(1) same_catalog_refl [of first_catalog]
    by (auto simp: persists_def first_catalog_def hm_ok_def)
  moreover obtain g where "stored_metadata (start_externs cs) (\<lambda>s. s) sample_db (start_store cs) =
      Some \<lparr>cm_latest_version = 0, cm_last_written_by = sample_process\<rparr>"
    "current_catalog (start_externs cs) (\<lambda>s. s) sample_db (start_store cs) = Some first_catalog"
    by (rule start_store_facts)
  ultimately show ?thesis using sample_state_wf(1) sample_state_facts(2) by (simp add: stored_state_def)
qed

lemma start_cache_ok:
  "cache_ok sample_builtins (start_storage cs) (\<lambda>s. s) (start_store cs, start_cache sample_state) sample_state"
  using start_stored [of cs] sample_state_wf(1) by (simp add: cache_ok_def state_equiv_def)

text \<open>The catalog of a schema that somebody creates on the sample state, and the commit that makes it
  current.\<close>

definition sample_after :: "mutation list \<Rightarrow> state" where
  "sample_after ms = fst (mutate ms sample_state)"

definition sample_committed :: "mutation list \<Rightarrow> persisted_catalog" where
  "sample_committed ms =
     committed sample_builtins (serializable_state (sample_after ms)) (st_oid_counter (sample_after ms))"

lemma committed_encodes:
  assumes b: "builtin_ok bc" and wf: "wf_state bc st" and un: "wire_users union_fields_new st"
    and "committed bc (serializable_state st) k \<in> set cs"
  shows "catalog_encodes (sample_externs cs) (committed bc (serializable_state st) k)"
proof (rule sample_externs_encodes [OF assms(4)])
  obtain st' p where st': "from_catalog_state_and_counter bc (serializable_state st) k = Ok st'"
    "persists st p" "to_persisted st' = Ok (with_counter k p)"
    using from_serializable [OF b wf] by blast
  then show "is_ok (persisted_catalog_into_proto (committed bc (serializable_state st) k))"
    using wire_into_proto [of union_fields_new "with_counter k p"] wire_users_state [OF b wf un st'(2)]
    by (simp add: committed_def)
qed

lemma sample_after_facts:
  assumes "list_all (wire_mutation union_fields_new) ms" "length ms < 1000" "is_ok (snd (mutate ms sample_state))"
  shows "mutate ms sample_state = (sample_after ms, Ok ())" and "wf_state sample_builtins (sample_after ms)"
    and "all_entries (wire_entry union_fields_new) (sample_after ms)" and "st_version (sample_after ms) = 1"
    and "unat (st_oid_counter (sample_after ms)) \<le> 20000 + length ms"
proof -
  show ok: "mutate ms sample_state = (sample_after ms, Ok ())"
    using assms(3) by (simp add: sample_after_def is_ok_iff prod_eq_iff)
  then have app: "applies sample_builtins 0 ms sample_state (sample_after ms)"
    using sample_state_wf(1) sample_state_facts(2) by (auto simp: applies_def state_equiv_def)
  have room: "unat (st_oid_counter sample_state) + length ms < 2 ^ 32" using assms(2) sample_state_wf(2) by simp
  note facts = applies_facts [OF sample_builtins_ok app room]
  show "wf_state sample_builtins (sample_after ms)" "all_entries (wire_entry union_fields_new) (sample_after ms)"
    "st_version (sample_after ms) = 1" "unat (st_oid_counter (sample_after ms)) \<le> 20000 + length ms"
    using facts(1-3) facts(4) [OF assms(1) sample_state_entries] sample_state_wf(2) by simp_all
qed

lemma sample_transact:
  assumes ms: "list_all (wire_mutation union_fields_new) ms" "length ms < 1000" "is_ok (snd (mutate ms sample_state))"
    and cs: "sample_committed ms \<in> set cs"
  obtains s' r g where "transact sample_builtins (start_storage cs) sample_io 0 ms (start_store cs, start_cache sample_state) =
      ((s', (start_cache (sample_after ms))\<lparr>dc_require_full_load := True\<rparr>), Ok r)"
    and "stored_state sample_builtins (start_externs cs) (\<lambda>s. s) sample_db s' (sample_after ms)"
    and "stored_lease (start_externs cs) (\<lambda>s. s) sample_db s' = Some (unlocked g)"
proof -
  note after = sample_after_facts [OF ms]
  have enc: "catalog_encodes (start_externs cs) (sample_committed ms)"
    unfolding sample_committed_def
    by (rule committed_encodes [OF sample_builtins_ok after(2) wire_users_all [OF after(3)]])
      (use cs in \<open>simp add: sample_committed_def\<close>)
  obtain g where g: "stored_lease (start_externs cs) (\<lambda>s. s) sample_db (start_store cs) = Some (unlocked g)"
    "stored_metadata (start_externs cs) (\<lambda>s. s) sample_db (start_store cs) =
      Some \<lparr>cm_latest_version = 0, cm_last_written_by = sample_process\<rparr>"
    by (rule start_store_facts)
  obtain s' r h where "transact sample_builtins (start_storage cs) sample_io 0 ms (start_store cs, start_cache sample_state) =
      ((s', (start_cache (sample_after ms))\<lparr>dc_require_full_load := True\<rparr>), Ok r)"
    "stored_state sample_builtins (start_externs cs) (\<lambda>s. s) sample_db s' (sample_after ms)"
    "stored_lease (start_externs cs) (\<lambda>s. s) sample_db s' = Some (unlocked h)"
    by (rule transact_from_cache [where sg = "start_storage cs" and c = "\<lambda>s. s" and bc = sample_builtins
          and dc = "start_cache sample_state" and ms = ms and s = "start_store cs" and lease = "unlocked g" and io = sample_io
          and m = "\<lparr>cm_latest_version = 0, cm_last_written_by = sample_process\<rparr>"])
      (use ms(1,2) g after(1) enc sample_state_wf sample_state_facts(2) sample_state_entries sample_builtins_ok
        mem_store_reliable sample_externs_ok sample_ticks in
        \<open>simp_all add: sample_committed_def\<close>)
  then show ?thesis by (rule that)
qed

subsection \<open>Refinement of the abstract database\<close>

text \<open>C5. A metastore process that runs transactions one after the other implements the database that is a
  state alone: whatever the store does (calls that fail, with or without effect), the transactions that take
  effect form a history in which each one is based on the version of the state it is applied to, every
  transaction that reports success takes effect, and the store holds the state the history leads to.
  The version has advanced by one for each of them.\<close>

theorem transactions_refine:
  assumes "store_ok (sg_store sg) c" and "externs_ok (sg_externs sg)" and "length (sg_process_id sg) = 16"
    and "builtin_ok bc" and "cache_ok bc sg c sd st"
    and "all_entries (wire_entry (x_union_new (sg_externs sg))) st"
    and "list_all (\<lambda>tx. list_all (wire_mutation (x_union_new (sg_externs sg))) (tx_mutations tx)) txs"
    and "unat (st_oid_counter st) + oids_needed txs < 2 ^ 32" and "transact_all bc sg txs sd = (sd', rs)"
  shows "\<exists>ts st'. history bc st (zip ts txs) st' \<and> cache_ok bc sg c sd' st' \<and>
    list_all2 (\<lambda>t r. is_ok r \<longrightarrow> t) ts rs \<and>
    st_version st' = st_version st + of_nat (length (filter (\<lambda>t. t) ts))"
proof -
  obtain ts st' where ts: "history bc st (zip ts txs) st'" "cache_ok bc sg c sd' st'" "length ts = length txs"
    "list_all2 (\<lambda>t r. is_ok r \<longrightarrow> t) ts rs"
    using transact_all_refines [OF assms(1-9)] by blast
  have "length (filter fst (zip ts txs)) = length (filter (\<lambda>t. t) ts)"
    using ts(3) by (induction rule: list_induct2) auto
  with ts history_version [OF ts(1)] show ?thesis by auto
qed

text \<open>C11. Progress. On a store that does not fail by itself, with the lease free and its background task
  running in time, a transaction that is based on the cached version and whose mutations succeed
  is committed: the store holds the mutated state and the lease is free again.\<close>

theorem transaction_commits:
  assumes "store_reliable (sg_store sg) c" and "externs_ok (sg_externs sg)" and "length (sg_process_id sg) = 16"
    and "builtin_ok bc" and "cache_ok bc sg c (s, dc) (dc_cached dc)" and "\<not> dc_require_full_load dc"
    and "all_entries (wire_entry (x_union_new (sg_externs sg))) (dc_cached dc)"
    and "list_all (wire_mutation (x_union_new (sg_externs sg))) ms"
    and "unat (st_oid_counter (dc_cached dc)) + length ms < 2 ^ 32"
    and "stored_lease (sg_externs sg) c (dc_db_id dc) s = Some (unlocked g)"
    and "ticks_between io (io_now io + LEASE_DURATION)"
    and "mutate ms (dc_cached dc) = (st1, Ok ())"
    and "catalog_encodes (sg_externs sg) (committed bc (serializable_state st1) (st_oid_counter st1))"
  shows "\<exists>s' dc' cs g'. transact bc sg io (st_version (dc_cached dc)) ms (s, dc) = ((s', dc'), Ok cs) \<and>
    stored_state bc (sg_externs sg) c (dc_db_id dc) s' st1 \<and>
    stored_lease (sg_externs sg) c (dc_db_id dc) s' = Some (unlocked g')"
proof -
  obtain m where m: "stored_metadata (sg_externs sg) c (dc_db_id dc) s = Some m" "cm_latest_version m = st_version (dc_cached dc)"
    "wf_state bc (dc_cached dc)"
    using assms(5) by (auto simp: cache_ok_def stored_state_def)
  have "li_state (unlocked g) = Unlocked" by (simp add: unlocked_def)
  from transact_from_cache [OF assms(1-4) m(3) assms(7-10) this m(1,2) assms(6,11-13)] show ?thesis by metis
qed

subsection \<open>Where the cached state and the stored one part\<close>

text \<open>C12. Mutations that were applied to the cached state and not committed are not forgotten when another
  process commits a state of the same version: the cached state still counts as the latest, it is
  what readers of this process see, and the next transaction based on it replaces the state the
  other process committed.\<close>

theorem uncommitted_state_replaces_committed:
  assumes "store_reliable (sg_store sg) c" and "externs_ok (sg_externs sg)" and "length (sg_process_id sg) = 16"
    and "builtin_ok bc" and "cache_ok bc sg c (s, dc) st"
    and "all_entries (wire_entry (x_union_new (sg_externs sg))) st"
    and "list_all (wire_mutation (x_union_new (sg_externs sg))) ms" "list_all (wire_mutation (x_union_new (sg_externs sg))) ms2"
    and "unat (st_oid_counter st) + length ms + length ms2 < 2 ^ 32"
    and uncommitted: "try_mutate bc sg alone v ms (s, dc) = ((s, dc1), Ok cs)"
    and other: "stored_state bc (sg_externs sg) c (dc_db_id dc) s2 st2" "st_version st2 = v + 1"
      "stored_lease (sg_externs sg) c (dc_db_id dc) s2 = Some (unlocked g)"
    and "ticks_between io (io_now io + LEASE_DURATION)"
    and "mutate ms2 (dc_cached dc1) = (st3, Ok ())"
    and "catalog_encodes (sg_externs sg) (committed bc (serializable_state st3) (st_oid_counter st3))"
  shows "get_state bc sg alone (s2, dc1) = ((s2, dc1), Ok cs) \<and>
    (\<exists>s3 dc3 cs3. transact bc sg io (v + 1) ms2 (s2, dc1) = ((s3, dc3), Ok cs3) \<and>
       stored_state bc (sg_externs sg) c (dc_db_id dc) s3 st3)"
proof -
  obtain st0 where st0: "dc_db_id dc1 = dc_db_id dc" "cs = serializable_state (dc_cached dc1)"
    "mutate ms st0 = (dc_cached dc1, Ok ())" "st_version st0 = v" "state_equiv st st0" "wf_state bc st0"
    "\<not> dc_require_full_load dc1"
    using try_mutate_alone [OF reliable_ok [OF assms(1)] assms(4,5) uncommitted] by blast
  then have app: "applies bc v ms st (dc_cached dc1)" by (auto simp: applies_def state_equiv_def)
  have "unat (st_oid_counter st) + length ms < 2 ^ 32" using assms(9) by simp
  note facts = applies_facts [OF assms(4) app this]
  obtain m where m: "stored_metadata (sg_externs sg) c (dc_db_id dc1) s2 = Some m" "cm_latest_version m = st_version (dc_cached dc1)"
    using other(1,2) st0(1) facts(2) by (auto simp: stored_state_def)
  have lease: "stored_lease (sg_externs sg) c (dc_db_id dc1) s2 = Some (unlocked g)" "li_state (unlocked g) = Unlocked"
    using other(3) st0(1) by (simp_all add: unlocked_def)
  have room: "unat (st_oid_counter (dc_cached dc1)) + length ms2 < 2 ^ 32" using facts(3) assms(9) by simp
  obtain s3 cs3 where "transact bc sg io (v + 1) ms2 (s2, dc1) =
      ((s3, dc1\<lparr>dc_cached := st3, dc_require_full_load := True\<rparr>), Ok cs3)"
    "stored_state bc (sg_externs sg) c (dc_db_id dc1) s3 st3"
    by (rule transact_from_cache [OF assms(1-4) facts(1) facts(4) [OF assms(7,6)] assms(8) room lease m st0(7) assms(14-16)])
      (simp add: facts(2))
  with st0(1,2) load_latest_current [OF assms(1) m st0(7)] show ?thesis
    by (auto simp: get_state_def alone_def)
qed

lemma commit_keeps_counter:
  assumes "store_ok (sg_store sg) c" and "externs_ok (sg_externs sg)" and "length (sg_process_id sg) = 16"
    and b: "builtin_ok bc" and wf: "wf_state bc st" and "wire_users (x_union_new (sg_externs sg)) st"
    and "st_version st \<noteq> version"
    and "commit bc sg io version (serializable_state st) (s, dc) = ((s', dc'), Ok cs)"
  obtains p st' where "current_catalog (sg_externs sg) c (dc_db_id dc) s' = Some p" and "from_persisted bc p = Ok st'"
    and "ents st' = ents st" and "st_oid_counter st' = st_oid_counter (dc_cached dc)"
proof -
  let ?k = "st_oid_counter (dc_cached dc)"
  from commit_outcome [OF assms] obtain p q where
    q: "current_catalog (sg_externs sg) c (dc_db_id dc) s' = Some q" "persists st p" "same_catalog (with_counter ?k p) q"
    by auto
  then have k: "ex_oid_counter (pc_extra q) = ?k" by (auto simp: same_catalog_def dest: sym)
  let ?q = "with_counter (st_oid_counter st) q"
  have "same_catalog p ?q"
    using q(3) persists_counter [OF b wf q(2)]
    by (auto simp: same_catalog_def with_counter_def intro!: extra_state.equality)
  then have "persists st ?q" by (rule persists_same [OF q(2)])
  from persists_load [OF b wf this] obtain st' where "from_persisted bc ?q = Ok st'" "state_equiv st st'" by blast
  moreover have "with_counter ?k ?q = q" using with_counter_same [OF k] by (simp add: with_counter_def)
  ultimately have "from_persisted bc q = Ok (st'\<lparr>st_oid_counter := ?k\<rparr>)" "ents (st'\<lparr>st_oid_counter := ?k\<rparr>) = ents st"
    using from_persisted_with_counter [of bc ?q st' ?k] by (auto simp: state_equiv_def state_simps)
  with q(1) that show ?thesis by simp
qed

text \<open>C13. When the cached state is reloaded between the mutations and their commit, the commit writes
  the new entries with the oid counter from before the mutations: the next oid that is handed out belongs
  to an entry that exists.\<close>

theorem reload_before_commit_reuses_oids:
  assumes "store_ok (sg_store sg) c" and "externs_ok (sg_externs sg)" and "length (sg_process_id sg) = 16"
    and "builtin_ok bc" and "cache_ok bc sg c (s, dc) st"
    and "all_entries (wire_entry (x_union_new (sg_externs sg))) st"
    and "list_all (wire_mutation (x_union_new (sg_externs sg))) ms"
    and "unat (st_oid_counter st) + length ms < 2 ^ 32"
    and mut: "try_mutate bc sg alone v ms (s, dc) = ((s1, dc1), Ok cs)"
    and reload: "get_state bc sg alone (s1, dc1) = ((s2, dc2), Ok cs2)"
    and com: "commit bc sg io v cs (s2, dc2) = ((s3, dc3), Ok cs3)"
    and new: "ents (dc_cached dc1) (st_oid_counter st) = Some e"
  shows "\<exists>p st3. current_catalog (sg_externs sg) c (dc_db_id dc) s3 = Some p \<and> from_persisted bc p = Ok st3 \<and>
    ents st3 = ents (dc_cached dc1) \<and> ents st3 (snd (next_oid st3)) = Some e \<and> \<not> wf_state bc st3"
proof -
  obtain st0 where st0: "dc_db_id dc1 = dc_db_id dc" "cs = serializable_state (dc_cached dc1)"
    "mutate ms st0 = (dc_cached dc1, Ok ())" "st_version st0 = v" "state_equiv st st0" "wf_state bc st0"
    using try_mutate_alone [OF assms(1,4,5) mut] by blast
  then have "applies bc v ms st (dc_cached dc1)" by (auto simp: applies_def state_equiv_def)
  note facts = applies_facts [OF assms(4) this assms(8)]
  have load: "load_latest bc sg alone (s1, dc1) = ((s2, dc2), Ok ())"
    using reload by (auto simp: get_state_def sbind_Ok alone_def)
  have "cache_ok bc sg c (s1, dc1) st" using try_mutate_cache_ok [OF assms(1,4,5) mut] by blast
  from load_latest_alone [OF assms(1,4) this load] have dc2: "dc_db_id dc2 = dc_db_id dc" "state_equiv st (dc_cached dc2)"
    using st0(1) by simp_all
  obtain p st3 where st3: "current_catalog (sg_externs sg) c (dc_db_id dc2) s3 = Some p" "from_persisted bc p = Ok st3"
    "ents st3 = ents (dc_cached dc1)" "st_oid_counter st3 = st_oid_counter (dc_cached dc2)"
    by (rule commit_keeps_counter [OF assms(1-4) facts(1) wire_users_all [OF facts(4) [OF assms(7,6)]] _
          com [unfolded st0(2)]]) (simp add: facts(2))
  then have e: "ents st3 (st_oid_counter st3) = Some e" using new dc2(2) by (simp add: state_equiv_def)
  then have "\<not> wf_state bc st3" using wf_core_fresh [of bc "st_oid_counter st3" "ents st3" "lookup st3"] assms(4)
    by (auto simp: wf_state_def)
  with st3 e dc2(1) show ?thesis by (auto simp: next_oid_def)
qed

subsection \<open>Instances\<close>

definition sample_tx :: transaction where
  "sample_tx = \<lparr>tx_io = sample_io, tx_version = 0, tx_mutations = [sample_schema]\<rparr>"

lemma sample_schema_wire: "list_all (wire_mutation un) [sample_schema]"
  by (simp add: sample_schema_def)

lemma sample_schema_ok: "is_ok (snd (mutate [sample_schema] sample_state))"
  by code_simp

lemma sample_try_mutate:
  assumes "is_ok (snd (mutate ms sample_state))"
  shows "try_mutate sample_builtins (start_storage cs) alone 0 ms (start_store cs, start_cache sample_state) =
    ((start_store cs, start_cache (sample_after ms)), Ok (serializable_state (sample_after ms)))"
proof -
  obtain g where m: "stored_metadata (start_externs cs) (\<lambda>s. s) sample_db (start_store cs) =
      Some \<lparr>cm_latest_version = 0, cm_last_written_by = sample_process\<rparr>"
    by (rule start_store_facts)
  have "load_latest sample_builtins (start_storage cs) alone (start_store cs, start_cache sample_state) =
      ((start_store cs, start_cache sample_state), Ok ())"
    by (rule load_latest_current [where c = "\<lambda>s. s" and m = "\<lparr>cm_latest_version = 0, cm_last_written_by = sample_process\<rparr>"])
      (use m sample_state_facts(2) mem_store_reliable in simp_all)
  moreover have "mutate ms sample_state = (sample_after ms, Ok ())"
    using assms by (simp add: sample_after_def is_ok_iff prod_eq_iff)
  ultimately show ?thesis using sample_state_facts(2) by (simp add: try_mutate_def alone_def)
qed

theorem transactions_refine_witness:
  "\<exists>ts st'. history sample_builtins sample_state (zip ts [sample_tx, sample_tx]) st' \<and>
     list_all2 (\<lambda>t r. is_ok r \<longrightarrow> t) ts (snd (transact_all sample_builtins (start_storage []) [sample_tx, sample_tx]
       (start_store [], start_cache sample_state))) \<and>
     st_version st' = of_nat (length (filter (\<lambda>t. t) ts))"
proof -
  have "list_all (\<lambda>tx. list_all (wire_mutation (x_union_new (sg_externs (start_storage [])))) (tx_mutations tx)) [sample_tx, sample_tx]"
    using sample_schema_wire by (simp add: sample_tx_def)
  moreover have "unat (st_oid_counter sample_state) + oids_needed [sample_tx, sample_tx] < 2 ^ 32"
    using sample_state_wf(2) by (simp add: oids_needed_def sample_tx_def)
  ultimately show ?thesis
    using transactions_refine [of "start_storage []" "\<lambda>s. s" sample_builtins "(start_store [], start_cache sample_state)" sample_state
        "[sample_tx, sample_tx]" _ _, OF _ _ _ sample_builtins_ok start_cache_ok sample_state_entries _ _ prod.collapse [symmetric]]
      mem_store_ok sample_externs_ok sample_state_facts(2) by (auto simp del: transact_all.simps)
qed

theorem transaction_commits_witness:
  "\<exists>s' dc' cs. transact sample_builtins (start_storage [sample_committed [sample_schema]]) sample_io 0 [sample_schema]
       (start_store [sample_committed [sample_schema]], start_cache sample_state) = ((s', dc'), Ok cs) \<and>
     stored_state sample_builtins (start_externs [sample_committed [sample_schema]]) (\<lambda>s. s) sample_db s'
       (sample_after [sample_schema])"
proof -
  let ?cs = "[sample_committed [sample_schema]]"
  obtain g where g: "stored_lease (start_externs ?cs) (\<lambda>s. s) sample_db (start_store ?cs) = Some (unlocked g)"
    by (rule start_store_facts)
  note after = sample_after_facts [OF sample_schema_wire _ sample_schema_ok]
  have enc: "catalog_encodes (start_externs ?cs) (sample_committed [sample_schema])"
    unfolding sample_committed_def
    by (rule committed_encodes [OF sample_builtins_ok after(2) wire_users_all [OF after(3)]]) simp_all
  from transaction_commits [of "start_storage ?cs" "\<lambda>s. s" sample_builtins "start_store ?cs" "start_cache sample_state"
      "[sample_schema]" g sample_io "sample_after [sample_schema]"]
  show ?thesis
    using mem_store_reliable sample_externs_ok sample_builtins_ok start_cache_ok [of ?cs] sample_state_entries
      sample_schema_wire sample_state_wf(2) g sample_ticks after(1) enc sample_state_facts(2)
    by (auto simp: sample_committed_def)
qed

text \<open>One process creates a schema \<open>s\<close> and does not commit; another one commits a schema \<open>t\<close>; the first one
  goes on with a view. The schema \<open>t\<close> is gone.\<close>

definition other_schema :: mutation where
  "other_schema = CreateSchema \<lparr>csc_name = ''t'', csc_if_not_exists = False\<rparr>"

definition sample_lost :: state where
  "sample_lost = fst (mutate [sample_view] (sample_after [sample_schema]))"

definition lost_catalogs :: "persisted_catalog list" where
  "lost_catalogs = [sample_committed [other_schema],
     committed sample_builtins (serializable_state sample_lost) (st_oid_counter sample_lost)]"

lemma sample_lost_ok: "is_ok (snd (mutate [sample_view] (sample_after [sample_schema])))"
  by code_simp

lemma other_schema_ok: "is_ok (snd (mutate [other_schema] sample_state))"
  by code_simp

lemma sample_lost_names:
  "hm_get (st_schema_names (sample_after [other_schema])) ''t'' = Some 20000"
  "hm_get (st_schema_names sample_lost) ''t'' = None"
  by code_simp+

lemma sample_lost_facts:
  "mutate [sample_view] (sample_after [sample_schema]) = (sample_lost, Ok ())"
  "catalog_encodes (start_externs lost_catalogs)
     (committed sample_builtins (serializable_state sample_lost) (st_oid_counter sample_lost))"
proof -
  note after = sample_after_facts [OF sample_schema_wire _ sample_schema_ok, simplified]
  show ok: "mutate [sample_view] (sample_after [sample_schema]) = (sample_lost, Ok ())"
    using sample_lost_ok by (simp add: sample_lost_def is_ok_iff prod_eq_iff)
  then have app: "applies sample_builtins 1 [sample_view] (sample_after [sample_schema]) sample_lost"
    using after(2,4) by (auto simp: applies_def state_equiv_def)
  have room: "unat (st_oid_counter (sample_after [sample_schema])) + length [sample_view] < 2 ^ 32"
    using after(5) by simp
  note facts = applies_facts [OF sample_builtins_ok app room]
  have "list_all (wire_mutation union_fields_new) [sample_view]" by (simp add: sample_view_def)
  from committed_encodes [OF sample_builtins_ok facts(1) wire_users_all [OF facts(4) [OF this after(3)]]]
  show "catalog_encodes (start_externs lost_catalogs)
     (committed sample_builtins (serializable_state sample_lost) (st_oid_counter sample_lost))"
    by (simp add: lost_catalogs_def)
qed

theorem uncommitted_state_replaces_committed_witness:
  "\<exists>s2 s3 cs3 dc3.
     stored_state sample_builtins (start_externs lost_catalogs) (\<lambda>s. s) sample_db s2 (sample_after [other_schema]) \<and>
     hm_get (st_schema_names (sample_after [other_schema])) ''t'' = Some 20000 \<and>
     transact sample_builtins (start_storage lost_catalogs) sample_io 1 [sample_view]
       (s2, start_cache (sample_after [sample_schema])) = ((s3, dc3), Ok cs3) \<and>
     stored_state sample_builtins (start_externs lost_catalogs) (\<lambda>s. s) sample_db s3 sample_lost \<and>
     hm_get (st_schema_names sample_lost) ''t'' = None"
proof -
  have wire: "list_all (wire_mutation union_fields_new) [other_schema]" "list_all (wire_mutation union_fields_new) [sample_view]"
    by (simp_all add: other_schema_def sample_view_def)
  obtain s2 r g where s2: "stored_state sample_builtins (start_externs lost_catalogs) (\<lambda>s. s) sample_db s2 (sample_after [other_schema])"
    "stored_lease (start_externs lost_catalogs) (\<lambda>s. s) sample_db s2 = Some (unlocked g)"
    by (rule sample_transact [OF wire(1) _ other_schema_ok, of lost_catalogs]) (simp_all add: lost_catalogs_def)
  note after = sample_after_facts [OF sample_schema_wire _ sample_schema_ok, simplified]
    sample_after_facts [OF wire(1) _ other_schema_ok, simplified]
  from uncommitted_state_replaces_committed [of "start_storage lost_catalogs" "\<lambda>s. s" sample_builtins "start_store lost_catalogs"
      "start_cache sample_state" sample_state "[sample_schema]" "[sample_view]" 0 "start_cache (sample_after [sample_schema])"
      "serializable_state (sample_after [sample_schema])" s2 "sample_after [other_schema]" g sample_io sample_lost]
  show ?thesis
    using mem_store_reliable sample_externs_ok sample_builtins_ok start_cache_ok sample_state_entries wire(2)
      sample_schema_wire sample_state_wf(2) s2 sample_ticks after sample_lost_facts
      sample_try_mutate [OF sample_schema_ok, of lost_catalogs] sample_lost_names by auto
qed

text \<open>The catalog that is written when the cached state was reloaded before the commit.\<close>

definition reload_catalogs :: "persisted_catalog list" where
  "reload_catalogs = [committed sample_builtins (serializable_state (sample_after [sample_schema])) 20000]"

lemma sample_new_entry: "\<exists>e. ents (sample_after [sample_schema]) 20000 = Some e"
proof -
  have "ents (sample_after [sample_schema]) 20000 \<noteq> None" unfolding ents_def by code_simp
  then show ?thesis by simp
qed

lemma sample_counter: "st_oid_counter sample_state = 20000"
  by code_simp

lemma sample_reload:
  obtains st' where "get_state sample_builtins (start_storage reload_catalogs) alone
      (start_store reload_catalogs, start_cache (sample_after [sample_schema])) =
      ((start_store reload_catalogs, start_cache st'), Ok (serializable_state st'))"
    and "st_oid_counter st' = 20000"
proof -
  let ?dc = "start_cache (sample_after [sample_schema])"
  note after = sample_after_facts [OF sample_schema_wire _ sample_schema_ok, simplified]
  obtain st' where st': "load_latest sample_builtins (start_storage reload_catalogs) alone (start_store reload_catalogs, ?dc) =
      ((start_store reload_catalogs, ?dc\<lparr>dc_cached := st', dc_require_full_load := False\<rparr>), Ok ())"
    "state_equiv sample_state st'"
    by (rule load_latest_reload [where sg = "start_storage reload_catalogs" and c = "\<lambda>s. s" and dc = ?dc
          and s = "start_store reload_catalogs" and st = sample_state and bc = sample_builtins])
      (use mem_store_reliable sample_builtins_ok start_stored after(4) sample_state_facts(2) in simp_all)
  moreover have "?dc\<lparr>dc_cached := st', dc_require_full_load := False\<rparr> = start_cache st'" by (simp add: start_cache_def)
  ultimately show ?thesis
    by (intro that [of st']) (auto simp: get_state_def alone_def state_equiv_def sample_counter)
qed

theorem reload_before_commit_reuses_oids_witness:
  "\<exists>s2 dc2 cs2 s3 dc3 cs3 p st3.
     get_state sample_builtins (start_storage reload_catalogs) alone
       (start_store reload_catalogs, start_cache (sample_after [sample_schema])) = ((s2, dc2), Ok cs2) \<and>
     commit sample_builtins (start_storage reload_catalogs) sample_io 0 (serializable_state (sample_after [sample_schema]))
       (s2, dc2) = ((s3, dc3), Ok cs3) \<and>
     current_catalog (start_externs reload_catalogs) (\<lambda>s. s) sample_db s3 = Some p \<and>
     from_persisted sample_builtins p = Ok st3 \<and> ents st3 (snd (next_oid st3)) \<noteq> None \<and> \<not> wf_state sample_builtins st3"
proof -
  let ?sg = "start_storage reload_catalogs" and ?s = "start_store reload_catalogs" and ?st1 = "sample_after [sample_schema]"
  note after = sample_after_facts [OF sample_schema_wire _ sample_schema_ok, simplified]
  obtain st' where st': "get_state sample_builtins ?sg alone (?s, start_cache ?st1) = ((?s, start_cache st'), Ok (serializable_state st'))"
    "st_oid_counter st' = 20000"
    by (rule sample_reload)
  obtain g where g: "stored_lease (start_externs reload_catalogs) (\<lambda>s. s) sample_db ?s = Some (unlocked g)"
    "stored_metadata (start_externs reload_catalogs) (\<lambda>s. s) sample_db ?s =
      Some \<lparr>cm_latest_version = 0, cm_last_written_by = sample_process\<rparr>"
    by (rule start_store_facts)
  have enc: "catalog_encodes (start_externs reload_catalogs) (committed sample_builtins (serializable_state ?st1) 20000)"
    by (rule committed_encodes [OF sample_builtins_ok after(2) wire_users_all [OF after(3)]]) (simp add: reload_catalogs_def)
  obtain s3 cs3 where com: "commit sample_builtins ?sg sample_io 0 (serializable_state ?st1) (?s, start_cache st') =
      ((s3, (start_cache st')\<lparr>dc_require_full_load := True\<rparr>), Ok cs3)"
    by (rule commit_reliable [where sg = ?sg and c = "\<lambda>s. s" and bc = sample_builtins and st = ?st1 and dc = "start_cache st'"
          and s = ?s and lease = "unlocked g" and m = "\<lparr>cm_latest_version = 0, cm_last_written_by = sample_process\<rparr>"
          and version = 0 and io = sample_io])
      (use mem_store_reliable sample_externs_ok sample_builtins_ok after wire_users_all [OF after(3)] g sample_ticks enc st'(2)
        in \<open>simp_all add: unlocked_def\<close>)
  obtain e where e: "ents ?st1 20000 = Some e" using sample_new_entry by blast
  have "\<exists>p st3. current_catalog (sg_externs ?sg) (\<lambda>s. s) (dc_db_id (start_cache sample_state)) s3 = Some p \<and>
      from_persisted sample_builtins p = Ok st3 \<and> ents st3 = ents (dc_cached (start_cache ?st1)) \<and>
      ents st3 (snd (next_oid st3)) = Some e \<and> \<not> wf_state sample_builtins st3"
    by (rule reload_before_commit_reuses_oids [OF _ _ _ sample_builtins_ok start_cache_ok sample_state_entries _ _
          sample_try_mutate [OF sample_schema_ok] st'(1) com])
      (use mem_store_ok sample_externs_ok sample_schema_wire sample_state_wf(2) e sample_counter in simp_all)
  with st'(1) com show ?thesis by fastforce
qed

end
