(* ===== verification/Metastore_System.thy ===== *)
theory Metastore_System
  imports Metastore_Client Transactions
begin

section \<open>The metastore from client to storage\<close>

text \<open>
  The worker of a client connected to the service: what happens to mutations on their way from a
  session through the wire, the service, the cached catalog and the storage.
\<close>

definition service_client ::
  "builtin_catalog \<Rightarrow> 's storage \<Rightarrow> io \<Rightarrow> io \<Rightarrow> 's service metastore_client" where
  "service_client bc sg io io' =
     \<lparr>mc_fetch_catalog = fetch_catalog bc sg io alone, mc_mutate_catalog = mutate_catalog bc sg io alone,
      mc_commit_catalog = commit_catalog bc sg io io'\<rparr>"

subsection \<open>Requests to the service\<close>

lemma service_err_simps [simp]:
  "service_err (sv, Ok x) = (sv, Ok x)" "service_err (sv, Err e) = (sv, Err (status_of e))"
  "service_err (sv, Panic msg) = (sv, Panic msg)"
  by (simp_all add: service_err_def)

lemma service_err_Ok [simp]: "service_err r = (sv, Ok x) \<longleftrightarrow> r = (sv, Ok x)"
  by (cases r; cases "snd r") auto

lemma parse_db_id_Ok: "externs_ok X \<Longrightarrow> length db = 16 \<Longrightarrow> parse_db_id X db = Ok db"
  by (simp add: parse_db_id_def externs_ok_def)

lemma on_catalog_Ok:
  "on_catalog db f catalog sv = (sv', Ok x) \<longleftrightarrow>
   (\<exists>s dc. f (fst sv, catalog) = ((s, dc), Ok x) \<and> sv' = (s, hm_insert db dc (snd sv)))"
  by (auto simp: on_catalog_def split: prod.splits)

lemma on_catalog_eq:
  "on_catalog db f catalog sv = (case f (fst sv, catalog) of ((s, dc), r) \<Rightarrow> ((s, hm_insert db dc (snd sv)), r))"
  by (simp add: on_catalog_def)

lemma mutate_catalog_effect:
  assumes X: "externs_ok (sg_externs sg)" and db: "length db = 16" "hm_get (snd sv) db = Some dc"
    and ms: "traverse mutation_into_proto ms = Ok ps" "list_all (wire_mutation (x_union_new (sg_externs sg))) ms"
    and call: "mutate_catalog bc sg io w \<lparr>mrq_db_id = db, mrq_catalog_version = v, mrq_mutations = ps\<rparr> sv = (sv', r)"
  obtains s' dc' u where "try_mutate bc sg w v ms (fst sv, dc) = ((s', dc'), u)"
    and "sv' = (s', hm_insert db dc' (snd sv))"
    and "\<And>resp. r = Ok resp \<Longrightarrow> \<exists>cs p. u = Ok cs \<and> catalog_state_into_proto cs = Ok p \<and> mrp_catalog resp = Some p"
proof -
  obtain s' dc' u where t: "try_mutate bc sg w v ms (fst sv, dc) = ((s', dc'), u)" by (metis prod.exhaust)
  have "traverse (mutation_try_from_proto (x_union_new (sg_externs sg))) ps = Ok ms"
    using mutation_codec.traverse_dec [OF ms(2,1)] .
  then have "traverse (\<lambda>m. omap_err ME_ProtoConv (mutation_try_from_proto (x_union_new (sg_externs sg)) m)) ps = Ok ms"
    by (simp add: traverse_eq_Ok)
  with call have eq: "sbind (service_err ((s', hm_insert db dc' (snd sv)), u)) (\<lambda>updated sv.
      sbind (service_err (sv, omap_err ME_ProtoConv (catalog_state_into_proto updated))) (\<lambda>p sv.
      (sv, Ok \<lparr>mrp_status = APPLIED, mrp_catalog = Some p\<rparr>))) = (sv', r)"
    by (simp add: mutate_catalog_def parse_db_id_Ok [OF X db(1)] get_or_load_catalog_def db(2) on_catalog_eq t)
  show ?thesis
  proof (rule that [OF t])
    show "sv' = (s', hm_insert db dc' (snd sv))"
      using eq by (cases u; cases "catalog_state_into_proto (case u of Ok x \<Rightarrow> x)") auto
  qed (use eq in \<open>auto simp: sbind_Ok\<close>)
qed

lemma commit_catalog_effect:
  assumes X: "externs_ok (sg_externs sg)" and db: "length db = 16" "hm_get (snd sv) db = Some dc"
    and st: "catalog_state_try_from_proto (x_union_new (sg_externs sg)) p = Ok cs"
    and call: "commit_catalog bc sg io io' \<lparr>crq_db_id = db, crq_catalog_version = v, crq_catalog = Some p\<rparr> sv = (sv', r)"
  obtains s' dc' u where "commit bc sg io' v cs (fst sv, dc) = ((s', dc'), u)"
    and "sv' = (s', hm_insert db dc' (snd sv))" and "is_ok r \<Longrightarrow> is_ok u"
proof -
  obtain s' dc' u where t: "commit bc sg io' v cs (fst sv, dc) = ((s', dc'), u)" by (metis prod.exhaust)
  from call have eq: "sbind (service_err ((s', hm_insert db dc' (snd sv)), u)) (\<lambda>updated sv.
      sbind (service_err (sv, omap_err ME_ProtoConv (catalog_state_into_proto updated))) (\<lambda>p sv.
      (sv, Ok \<lparr>crp_status = APPLIED, crp_catalog = Some p\<rparr>))) = (sv', r)"
    by (simp add: commit_catalog_def parse_db_id_Ok [OF X db(1)] get_or_load_catalog_def db(2) on_catalog_eq t st)
  show ?thesis
  proof (rule that [OF t])
    show "sv' = (s', hm_insert db dc' (snd sv))"
      using eq by (cases u; cases "catalog_state_into_proto (case u of Ok x \<Rightarrow> x)") auto
  qed (use eq in \<open>cases u; auto\<close>)
qed

subsection \<open>A session's mutations\<close>

lemma wire_serializable:
  assumes "wf_state bc st" and "all_entries (wire_entry un) st"
  shows "wire_state un (serializable_state st)"
proof -
  have ok: "hm_ok (st_entries st)" using assms(1) by (simp add: wf_state_def maps_ok_def)
  have "wire_entry un e" if "(i, e) \<in> set (st_entries st)" for i e
    using that assms(2) by (auto simp: all_entries_def ents_def hm_get_eq_Some_iff [OF ok])
  with ok show ?thesis by (auto simp: wire_state_def serializable_state_def list_all_iff)
qed

lemma send_effect:
  assumes "send ce mc full req cl = (cl', r)" and "cl_worker cl = Some wk"
  obtains (refused) "cl' = cl" and "\<not> is_ok r"
    | (handled) m' wk' u where "handle_request ce mc True req (cl_remote cl, wk) = ((m', wk'), u)" and "cl_remote cl' = m'"
      and "cl_worker cl' = (if is_panic u then None else Some wk')" and "\<And>x. r = Ok x \<longleftrightarrow> u = Ok x"
proof (cases "full req")
  case True
  with assms refused show ?thesis by (auto simp: send_def)
next
  case False
  obtain m' wk' u where "handle_request ce mc True req (cl_remote cl, wk) = ((m', wk'), u)" by (metis prod.exhaust)
  with False assms handled [of m' wk' u] show ?thesis by (cases u) (auto simp: send_def)
qed

lemma exec_mutations_effect:
  assumes "handle_exec_mutations ce mc v ms (m, wk) = ((m', wk'), u)" and "traverse mutation_into_proto ms = Ok ps"
  obtains r where "mc_mutate_catalog mc \<lparr>mrq_db_id = wk_db_id wk, mrq_catalog_version = v, mrq_mutations = ps\<rparr> m = (m', r)"
    and "wk' = wk"
    and "\<And>rep state. u = Ok rep \<Longrightarrow> flatten rep = Ok state \<Longrightarrow>
      \<exists>resp p. r = Ok resp \<and> mrp_catalog resp = Some p \<and> catalog_state_try_from_proto (ce_union_new ce) p = Ok state"
proof -
  obtain m1 r where "mc_mutate_catalog mc \<lparr>mrq_db_id = wk_db_id wk, mrq_catalog_version = v, mrq_mutations = ps\<rparr> m = (m1, r)"
    by fastforce
  with assms show ?thesis
    by (intro that [of r])
      (auto simp: handle_exec_mutations_def split: outcome.splits option.splits)
qed


text \<open>The remote side of a worker of the database \<open>db\<close>: its catalog is loaded, and the store holds the
  state \<open>st\<close>.\<close>

definition serves ::
  "builtin_catalog \<Rightarrow> 's storage \<Rightarrow> 's contents \<Rightarrow> uuid \<Rightarrow> 's service \<Rightarrow> state \<Rightarrow> bool" where
  "serves bc sg c db sv st =
     (\<exists>dc. hm_get (snd sv) db = Some dc \<and> dc_db_id dc = db \<and> cache_ok bc sg c (fst sv, dc) st)"

lemma client_mutate:
  assumes X: "externs_ok (sg_externs sg)" and un: "ce_union_new ce = x_union_new (sg_externs sg)"
    and os: "store_ok (sg_store sg) c" and b: "builtin_ok bc"
    and wk: "cl_worker cl = Some wk" "wk_db_id wk = db" "length db = 16"
    and sv: "serves bc sg c db (cl_remote cl) st"
    and wire: "all_entries (wire_entry (ce_union_new ce)) st" "list_all (wire_mutation (ce_union_new ce)) ms"
    and room: "unat (st_oid_counter st) + length ms < 2 ^ 32"
    and run: "client_try_mutate ce (service_client bc sg io io') full v ms cl = (cl', r)"
  shows "serves bc sg c db (cl_remote cl') st \<and>
    (\<forall>state. r = Ok state \<longrightarrow> cl_worker cl' = Some wk \<and>
      (\<exists>dc. hm_get (snd (cl_remote cl')) db = Some dc \<and> dc_db_id dc = db \<and> state = serializable_state (dc_cached dc) \<and>
        cache_ok bc sg c (fst (cl_remote cl'), dc) st \<and> applies bc v ms st (dc_cached dc)))"
proof -
  let ?mc = "service_client bc sg io io'"
  obtain x where x: "send ce ?mc full (ExecMutations v ms) cl = (cl', x)" "\<And>state. r = Ok state \<longleftrightarrow> (\<exists>rep. x = Ok rep \<and> flatten rep = Ok state)"
    using run by (cases "send ce ?mc full (ExecMutations v ms) cl"; cases "snd (send ce ?mc full (ExecMutations v ms) cl)")
      (auto simp: client_try_mutate_def)
  from sv obtain dc where dc: "hm_get (snd (cl_remote cl)) db = Some dc" "dc_db_id dc = db"
    "cache_ok bc sg c (fst (cl_remote cl), dc) st" by (auto simp: serves_def)
  obtain ps where ps: "traverse mutation_into_proto ms = Ok ps"
    using mutation_codec.traverse_enc [OF wire(2)] by (auto simp: is_ok_iff)
  from x(1) wk(1) show ?thesis
  proof (cases rule: send_effect)
    case refused
    with sv x(2) show ?thesis by (auto simp: is_ok_iff)
  next
    case (handled m' wk' u)
    then have h: "handle_exec_mutations ce ?mc v ms (cl_remote cl, wk) = ((m', wk'), u)" by simp
    obtain resp where resp: "mutate_catalog bc sg io alone \<lparr>mrq_db_id = db, mrq_catalog_version = v, mrq_mutations = ps\<rparr> (cl_remote cl) = (m', resp)"
      "wk' = wk" "\<And>rep state. u = Ok rep \<Longrightarrow> flatten rep = Ok state \<Longrightarrow>
        \<exists>y p. resp = Ok y \<and> mrp_catalog y = Some p \<and> catalog_state_try_from_proto (ce_union_new ce) p = Ok state"
      by (rule exec_mutations_effect [OF h ps]) (simp add: service_client_def wk(2))
    obtain s1 dc1 t where t: "try_mutate bc sg alone v ms (fst (cl_remote cl), dc) = ((s1, dc1), t)"
      "m' = (s1, hm_insert db dc1 (snd (cl_remote cl)))"
      "\<And>y. resp = Ok y \<Longrightarrow> \<exists>cs p. t = Ok cs \<and> catalog_state_into_proto cs = Ok p \<and> mrp_catalog y = Some p"
      by (rule mutate_catalog_effect [OF X wk(3) dc(1) ps wire(2) [unfolded un] resp(1)]) (rule that)
    have keep: "hm_get (snd m') db = Some dc1" "dc_db_id dc1 = db" "cache_ok bc sg c (fst m', dc1) st"
      using try_mutate_cache_ok [OF os b dc(3) t(1)] t(2) dc(2) by (auto simp: hm_get_insert)
    have "state = serializable_state (dc_cached dc1) \<and> applies bc v ms st (dc_cached dc1)"
      if state: "r = Ok state" for state
    proof -
      obtain rep where rep: "x = Ok rep" "flatten rep = Ok state" using state x(2) by blast
      then have "u = Ok rep" using handled(4) by simp
      from resp(3) [OF this rep(2)] obtain y p where y: "resp = Ok y" "mrp_catalog y = Some p"
        "catalog_state_try_from_proto (ce_union_new ce) p = Ok state" by blast
      from t(3) [OF y(1)] y(2,3) obtain cs where cs: "t = Ok cs" "catalog_state_into_proto cs = Ok p"
        "catalog_state_try_from_proto (ce_union_new ce) p = Ok state" by auto
      note app = try_mutate_applies [OF os b dc(3) t(1) [unfolded cs(1)]]
      note facts = applies_facts [OF b app(2) room]
      from state_codec.decodes [OF wire_serializable [OF facts(1,4)], of "ce_union_new ce" p] wire cs app show ?thesis by simp
    qed
    moreover have "cl_worker cl' = Some wk" if "r = Ok state" for state
      using that x(2) [of state] handled(3,4) resp(2) by auto
    ultimately show ?thesis using keep handled(2) by (auto simp: serves_def)
  qed
qed



subsection \<open>Retries\<close>

text \<open>A commit that is based on another version than the stored one is not accepted.\<close>

lemma commit_stale:
  assumes os: "store_ok (sg_store sg) c" and X: "externs_ok (sg_externs sg)" and pid: "length (sg_process_id sg) = 16"
    and b: "builtin_ok bc" and wf: "wf_state bc st1" and un: "wire_users (x_union_new (sg_externs sg)) st1"
    and v: "st_version st1 \<noteq> version"
    and st: "stored_state bc (sg_externs sg) c (dc_db_id dc) s st" "st_version st \<noteq> version"
    and com: "commit bc sg io version (serializable_state st1) (s, dc) = ((s', dc'), r)"
  shows "\<not> is_ok r"
proof
  assume ok: "is_ok r"
  let ?k = "st_oid_counter (dc_cached dc)"
  obtain st' p where st': "from_catalog_state_and_counter bc (serializable_state st1) ?k = Ok st'"
    "persists st1 p" "to_persisted st' = Ok (with_counter ?k p)"
    using from_serializable [OF b wf] by blast
  obtain r1 where w: "write_catalog (sg_store sg) (sg_externs sg) (sg_process_id sg) io (dc_db_id dc) version
      (with_counter ?k p) s = (s', r1)" "is_ok r1"
    using com st'(1,3) ok
    by (cases "write_catalog (sg_store sg) (sg_externs sg) (sg_process_id sg) io (dc_db_id dc) version (with_counter ?k p) s";
        cases "snd (write_catalog (sg_store sg) (sg_externs sg) (sg_process_id sg) io (dc_db_id dc) version (with_counter ?k p) s)")
      (auto simp: commit_def storage_err_def)
  have "replaced (sg_externs sg) c (dc_db_id dc) (sg_process_id sg) version (with_counter ?k p) s s'"
    using write_catalog_outcome [OF os X _ _ pid w(1)] wire_users_state [OF b wf un st'(2)]
      persists_version [OF b wf st'(2)] v w(2) by auto
  with st show False by (auto simp: replaced_def stored_state_def)
qed

lemma get_state_cache_ok:
  assumes os: "store_ok (sg_store sg) c" and b: "builtin_ok bc" and st: "cache_ok bc sg c (s, dc) st"
    and run: "get_state bc sg alone (s, dc) = ((s', dc'), r)"
  shows "s' = s \<and> dc_db_id dc' = dc_db_id dc \<and> cache_ok bc sg c (s', dc') st"
proof -
  obtain s1 dc1 u where l: "load_latest bc sg alone (s, dc) = ((s1, dc1), u)" by (metis prod.exhaust)
  show ?thesis
  proof (cases u)
    case (Ok x)
    with load_latest_alone [OF os b st, of s1 dc1] l run st show ?thesis
      by (auto simp: get_state_def alone_def cache_ok_def)
  qed (use l run load_latest_alone_err [OF l] st in \<open>auto simp: get_state_def\<close>)
qed

lemma fetch_catalog_effect:
  assumes X: "externs_ok (sg_externs sg)" and db: "length db = 16" and os: "store_ok (sg_store sg) c" and b: "builtin_ok bc"
    and sv: "serves bc sg c db sv st"
    and call: "fetch_catalog bc sg io alone \<lparr>fcr_db_id = db\<rparr> sv = (sv', r)"
  shows "serves bc sg c db sv' st"
proof -
  from sv obtain dc where dc: "hm_get (snd sv) db = Some dc" "dc_db_id dc = db" "cache_ok bc sg c (fst sv, dc) st"
    by (auto simp: serves_def)
  obtain s' dc' u where t: "get_state bc sg alone (fst sv, dc) = ((s', dc'), u)" by (metis prod.exhaust)
  from call have eq: "sbind (service_err ((s', hm_insert db dc' (snd sv)), u)) (\<lambda>state sv.
      sbind (service_err (sv, omap_err ME_ProtoConv (catalog_state_into_proto state))) (\<lambda>p sv.
      (sv, Ok \<lparr>fcp_catalog = Some p\<rparr>))) = (sv', r)"
    by (simp add: fetch_catalog_def parse_db_id_Ok [OF X db] get_or_load_catalog_def dc(1) on_catalog_eq t)
  then have "sv' = (s', hm_insert db dc' (snd sv))"
    by (cases u; cases "catalog_state_into_proto (case u of Ok x \<Rightarrow> x)") auto
  with get_state_cache_ok [OF os b dc(3) t] dc(2) show ?thesis by (auto simp: serves_def hm_get_insert)
qed

lemma fetch_effect:
  assumes "externs_ok (sg_externs sg)" and "length (wk_db_id wk) = 16" and "store_ok (sg_store sg) c" and "builtin_ok bc"
    and "serves bc sg c (wk_db_id wk) m st" and run: "fetch ce (service_client bc sg io io') (m, wk) = ((m', wk'), r)"
  shows "serves bc sg c (wk_db_id wk) m' st \<and> wk_db_id wk' = wk_db_id wk"
proof -
  obtain m1 x where x: "fetch_catalog bc sg io alone \<lparr>fcr_db_id = wk_db_id wk\<rparr> m = (m1, x)" by fastforce
  with run have "m' = m1 \<and> wk_db_id wk' = wk_db_id wk"
    by (cases x) (auto simp: fetch_def service_client_def set_cached_state_def split: option.splits outcome.splits)
  with fetch_catalog_effect [OF assms(1-5) x] show ?thesis by simp
qed

text \<open>A client of the database \<open>db\<close>, whose worker may have died.\<close>

definition connected ::
  "builtin_catalog \<Rightarrow> 's storage \<Rightarrow> 's contents \<Rightarrow> uuid \<Rightarrow> 's service client \<Rightarrow> state \<Rightarrow> bool" where
  "connected bc sg c db cl st =
     (serves bc sg c db (cl_remote cl) st \<and> (\<forall>wk. cl_worker cl = Some wk \<longrightarrow> wk_db_id wk = db))"

lemma connected_refresh:
  assumes X: "externs_ok (sg_externs sg)" and db: "length db = 16" and os: "store_ok (sg_store sg) c" and b: "builtin_ok bc"
    and con: "connected bc sg c db cl st"
    and run: "refresh_cached_state ce (service_client bc sg io io') full cl = (cl', r)"
  shows "connected bc sg c db cl' st"
proof -
  obtain x where x: "send ce (service_client bc sg io io') full RefreshCachedState cl = (cl', x)"
    using run by (cases "send ce (service_client bc sg io io') full RefreshCachedState cl";
        cases "snd (send ce (service_client bc sg io io') full RefreshCachedState cl)") (auto simp: refresh_cached_state_def)
  show ?thesis
  proof (cases "cl_worker cl")
    case None
    with x con show ?thesis by (auto simp: send_def)
  next
    case (Some wk)
    from x Some show ?thesis
    proof (cases rule: send_effect)
      case refused
      with con show ?thesis by simp
    next
      case (handled m' wk' u)
      obtain y where "fetch ce (service_client bc sg io io') (cl_remote cl, wk) = ((m', wk'), y)"
        using handled(1) by (cases "fetch ce (service_client bc sg io io') (cl_remote cl, wk)";
            cases "snd (fetch ce (service_client bc sg io io') (cl_remote cl, wk))") auto
      from fetch_effect [OF X _ os b _ this] con Some db handled(2,3) show ?thesis
        by (auto simp: connected_def split: if_splits)
    qed
  qed
qed

lemma get_cached_state_same: "fst (get_cached_state ce mc full cl) = cl"
  by (cases "cl_worker cl") (auto simp: get_cached_state_def send_def)

text \<open>What a client knows after mutations that succeeded on the database \<open>st\<close>.\<close>

definition pending ::
  "builtin_catalog \<Rightarrow> 's storage \<Rightarrow> 's contents \<Rightarrow> uuid \<Rightarrow> mutation list \<Rightarrow> state \<Rightarrow> catalog_state \<Rightarrow> 's service client \<Rightarrow> bool" where
  "pending bc sg c db ms st state cl =
     (\<exists>wk dc v. cl_worker cl = Some wk \<and> wk_db_id wk = db \<and> hm_get (snd (cl_remote cl)) db = Some dc \<and> dc_db_id dc = db \<and>
        state = serializable_state (dc_cached dc) \<and> cache_ok bc sg c (fst (cl_remote cl), dc) st \<and> applies bc v ms st (dc_cached dc))"

lemma connected_mutate:
  assumes "externs_ok (sg_externs sg)" and "ce_union_new ce = x_union_new (sg_externs sg)"
    and "store_ok (sg_store sg) c" and "builtin_ok bc" and db: "length db = 16" and con: "connected bc sg c db cl st"
    and "all_entries (wire_entry (ce_union_new ce)) st" "list_all (wire_mutation (ce_union_new ce)) ms"
    and "unat (st_oid_counter st) + length ms < 2 ^ 32"
    and run: "client_try_mutate ce (service_client bc sg io io') full v ms cl = (cl', r)"
  shows "connected bc sg c db cl' st \<and> (\<forall>state. r = Ok state \<longrightarrow> pending bc sg c db ms st state cl')"
proof (cases "cl_worker cl")
  case None
  with run con show ?thesis by (auto simp: client_try_mutate_def send_def connected_def)
next
  case (Some wk)
  have wk: "wk_db_id wk = db" and sv: "serves bc sg c db (cl_remote cl) st" using con Some by (simp_all add: connected_def)
  have "\<forall>w. cl_worker cl' = Some w \<longrightarrow> wk_db_id w = db"
  proof -
    obtain x where "send ce (service_client bc sg io io') full (ExecMutations v ms) cl = (cl', x)"
      using run by (cases "send ce (service_client bc sg io io') full (ExecMutations v ms) cl";
          cases "snd (send ce (service_client bc sg io io') full (ExecMutations v ms) cl)") (auto simp: client_try_mutate_def)
    from this Some show ?thesis
    proof (cases rule: send_effect)
      case (handled m' wk' u)
      then show ?thesis using wk
        by (auto simp: handle_exec_mutations_def split: outcome.splits prod.splits option.splits if_splits)
    qed (use Some wk in simp)
  qed
  note worker = this
  from client_mutate [OF assms(1-4) Some wk db sv assms(7-9) run]
  have sv': "serves bc sg c db (cl_remote cl') st" and pend: "\<And>state. r = Ok state \<Longrightarrow> cl_worker cl' = Some wk \<and>
      (\<exists>dc. hm_get (snd (cl_remote cl')) db = Some dc \<and> dc_db_id dc = db \<and> state = serializable_state (dc_cached dc) \<and>
        cache_ok bc sg c (fst (cl_remote cl'), dc) st \<and> applies bc v ms st (dc_cached dc))"
    by blast+
  have "pending bc sg c db ms st state cl'" if "r = Ok state" for state
    using pend [OF that] wk unfolding pending_def by blast
  with worker sv' show ?thesis by (simp add: connected_def)
qed

lemma pending_mutator:
  assumes ok: "externs_ok (sg_externs sg)" "ce_union_new ce = x_union_new (sg_externs sg)"
    "store_ok (sg_store sg) c" "builtin_ok bc" "length db = 16" and con: "connected bc sg c db cl st"
    and wire: "all_entries (wire_entry (ce_union_new ce)) st" "list_all (wire_mutation (ce_union_new ce)) ms"
      "unat (st_oid_counter st) + length ms < 2 ^ 32"
    and run: "mutator_mutate ce (service_client bc sg io io') full v ms (Some cl) = (cl', Ok state)"
  shows "\<exists>cl1. cl' = Some cl1 \<and> pending bc sg c db ms st state cl1"
proof -
  let ?mc = "service_client bc sg io io'"
  obtain cl1 r where m: "client_try_mutate ce ?mc full v ms cl = (cl1, r)" by fastforce
  note mut = connected_mutate [OF ok con wire m]
  show ?thesis
  proof (cases r)
    case (Ok x)
    with run m mut show ?thesis by (auto simp: mutator_mutate_def on_client_def)
  next
    case (Err e)
    then have "\<exists>cl3. cl' = Some cl3 \<and> retry_mutate ce ?mc full ms cl1 = (cl3, Ok state)"
      using run m by (auto simp: mutator_mutate_def on_client_def split: if_splits prod.splits)
    then obtain cl3 u cl2 cached where cl3: "cl' = Some cl3" "refresh_cached_state ce ?mc full cl1 = (cl2, Ok u)"
      "get_cached_state ce ?mc full cl2 = (cl2, Ok cached)" "client_try_mutate ce ?mc full (cs_version cached) ms cl2 = (cl3, Ok state)"
      using get_cached_state_same [of ce ?mc full] by (auto simp: retry_mutate_def sbind_Ok) (metis fst_conv)
    have "connected bc sg c db cl2 st"
      using connected_refresh [OF ok(1,5,3,4) _ cl3(2)] mut by blast
    from connected_mutate [OF ok this wire cl3(4)] cl3(1) show ?thesis by blast
  qed (use run m in \<open>auto simp: mutator_mutate_def on_client_def\<close>)
qed

lemma pending_commit_stale:
  assumes X: "externs_ok (sg_externs sg)" and un: "ce_union_new ce = x_union_new (sg_externs sg)"
    and os: "store_ok (sg_store sg) c" and pid: "length (sg_process_id sg) = 16" and b: "builtin_ok bc" and db: "length db = 16"
    and pend: "pending bc sg c db ms st state cl" and stale: "st_version st \<noteq> v"
    and wire: "all_entries (wire_entry (ce_union_new ce)) st" "list_all (wire_mutation (ce_union_new ce)) ms"
    and room: "unat (st_oid_counter st) + length ms < 2 ^ 32"
    and run: "client_commit_state ce (service_client bc sg io io') full v state cl = (cl', r)"
  shows "\<not> is_ok r"
proof
  assume okr: "is_ok r"
  let ?mc = "service_client bc sg io io'"
  from pend obtain wk dc w where wk: "cl_worker cl = Some wk" "wk_db_id wk = db" and
    dc: "hm_get (snd (cl_remote cl)) db = Some dc" "dc_db_id dc = db" "cache_ok bc sg c (fst (cl_remote cl), dc) st"
    and state: "state = serializable_state (dc_cached dc)" and app: "applies bc w ms st (dc_cached dc)"
    by (auto simp: pending_def)
  note facts = applies_facts [OF b app room]
  have all: "all_entries (wire_entry (ce_union_new ce)) (dc_cached dc)" by (rule facts(4) [OF wire(2,1)])
  obtain p where p: "catalog_state_into_proto state = Ok p" "catalog_state_try_from_proto (ce_union_new ce) p = Ok state"
    unfolding state using wire_serializable [OF facts(1) all] by (rule state_codec.encE)
  obtain x where x: "send ce ?mc full (Commit v state) cl = (cl', Ok x)" "is_ok (flatten x)"
    using run okr by (cases "send ce ?mc full (Commit v state) cl"; cases "snd (send ce ?mc full (Commit v state) cl)")
      (auto simp: client_commit_state_def)
  obtain m' wk' where "handle_commit ce ?mc True v state (cl_remote cl, wk) = ((m', wk'), Ok x)"
    by (rule send_effect [OF x(1) wk(1)]) (simp_all, metis)
  then obtain resp where resp: "commit_catalog bc sg io io' \<lparr>crq_db_id = db, crq_catalog_version = v, crq_catalog = Some p\<rparr> (cl_remote cl) = (m', resp)"
    "is_ok resp" "v < cs_version state"
    using p(1) x(2) wk(2) by (auto simp: handle_commit_def service_client_def not_le split: outcome.splits prod.splits option.splits if_splits)
  obtain s' dc' y where y: "commit bc sg io' v state (fst (cl_remote cl), dc) = ((s', dc'), y)" "is_ok y"
    by (rule commit_catalog_effect [OF X db dc(1) p(2) [unfolded un] resp(1)]) (use resp(2) in auto)
  have "\<not> is_ok y"
    by (rule commit_stale [OF os X pid b facts(1) wire_users_all [OF all [unfolded un]] _ _ stale y(1) [unfolded state]])
      (use resp(3) dc(3) state in \<open>auto simp: cache_ok_def serializable_state_def\<close>)
  with y(2) show False by simp
qed

text \<open>C14. The mutator's retry after a refresh of the catalog never gets committed: the commit that
  follows it is still based on the version that was out of date, and is refused.\<close>

theorem retried_mutations_never_commit:
  assumes "externs_ok (sg_externs sg)" and "ce_union_new ce = x_union_new (sg_externs sg)"
    and "store_ok (sg_store sg) c" and "length (sg_process_id sg) = 16" and "builtin_ok bc" and "length db = 16"
    and "connected bc sg c db cl st" and "st_version st \<noteq> v"
    and "all_entries (wire_entry (ce_union_new ce)) st" and "list_all (wire_mutation (ce_union_new ce)) ms"
    and "unat (st_oid_counter st) + length ms < 2 ^ 32"
  shows "\<not> is_ok (snd (mutate_and_commit ce (service_client bc sg io io') full v ms (Some cl)))"
proof
  let ?mc = "service_client bc sg io io'"
  assume ok: "is_ok (snd (mutate_and_commit ce ?mc full v ms (Some cl)))"
  obtain cl' r where m: "mutator_mutate ce ?mc full v ms (Some cl) = (cl', r)" by fastforce
  with ok obtain state where r: "r = Ok state" by (cases r) (auto simp: mutate_and_commit_def)
  from pending_mutator [OF assms(1-3,5-7,9-11) m [unfolded r]] obtain cl1 where
    cl1: "cl' = Some cl1" "pending bc sg c db ms st state cl1" by blast
  obtain cl2 r2 where c2: "client_commit_state ce ?mc full v state cl1 = (cl2, r2)" by fastforce
  from pending_commit_stale [OF assms(1-6) cl1(2) assms(8-11) c2] ok m r cl1(1) c2 show False
    by (simp add: mutate_and_commit_def commit_state_def on_client_def)
qed

subsection \<open>The worker\<close>

text \<open>C15. A commit that the service refuses ends the worker, whatever the reason for the refusal: the
  client learns only that the response channel was closed, and every later request of any
  session on that database fails.\<close>

theorem refused_commit_ends_worker:
  assumes "cl_worker cl = Some wk" and "\<not> full (Commit v state)" and "catalog_state_into_proto state = Ok p"
    and "v < cs_version state"
    and "mc_commit_catalog mc \<lparr>crq_db_id = wk_db_id wk, crq_catalog_version = v, crq_catalog = Some p\<rparr> (cl_remote cl) = (m, Err status)"
  shows "client_commit_state ce mc full v state cl =
      (\<lparr>cl_remote = m, cl_worker = None\<rparr>, Err (catalog_error_new ''response channel closed: commit'')) \<and>
    send ce mc full' req \<lparr>cl_remote = m, cl_worker = None\<rparr> =
      (\<lparr>cl_remote = m, cl_worker = None\<rparr>, Err (catalog_error_new (''request channel closed: '' @ tag req)))"
  using assms by (simp add: client_commit_state_def send_def handle_commit_def)

text \<open>C16. The version hint that sessions read without asking the worker is the version of the state that the
  worker has cached, from its start and after every request and every tick.\<close>

theorem version_hint_current:
  assumes "worker_init ce mc db_id m = (m1, Ok wk)"
    and "worker_run ce mc max_ticks events 0 (m1, wk) = ((m2, wk'), status)"
  shows "wk_version_hint wk' = cs_version (wk_cached_state wk')"
  using hint_ok_run [of "(m1, wk)" ce mc max_ticks events 0] hint_ok_init [OF assms(1)] assms(2)
  by (simp add: hint_ok_def)

text \<open>C17. The worker of a database that no session uses stops: after \<open>max_ticks\<close> ticks in a row without a
  session it exits, provided the service answers. It stops by itself in no other case.\<close>

theorem idle_worker_exits:
  assumes "0 < max_ticks"
  shows "((\<forall>mw. \<not> is_panic (snd (fetch ce mc mw))) \<longrightarrow> list_all idle_tick ticks \<longrightarrow> length ticks = max_ticks \<longrightarrow>
      snd (worker_run ce mc max_ticks (ticks @ rest) 0 mw) = Exited) \<and>
    (snd (worker_run ce mc max_ticks events 0 mw) = Exited \<longrightarrow>
      (\<exists>pre idle post. events = pre @ idle @ post \<and> list_all idle_tick idle \<and> length idle = max_ticks))"
  using assms worker_idle_exits [of ce mc 0 max_ticks max_ticks ticks rest mw] worker_exits_idle [of ce mc max_ticks events 0 mw]
  by auto

subsection \<open>Instances\<close>

definition sample_env :: client_env where
  "sample_env = \<lparr>ce_union_new = union_fields_new, ce_display = (\<lambda>_. ''status''), ce_display_conv = (\<lambda>_. ''conversion'')\<rparr>"

definition sample_worker :: worker where
  "sample_worker = \<lparr>wk_db_id = sample_db, wk_version_hint = 0, wk_cached_state = pc_state first_catalog\<rparr>"

definition sample_client :: "mem service client" where
  "sample_client = \<lparr>cl_remote = (start_store [], [(sample_db, start_cache sample_state)]), cl_worker = Some sample_worker\<rparr>"

lemma sample_client_facts:
  "connected sample_builtins (start_storage []) (\<lambda>s. s) sample_db sample_client sample_state"
  "length sample_db = 16" "ce_union_new sample_env = union_fields_new" "wk_db_id sample_worker = sample_db"
  "cl_worker sample_client = Some sample_worker"
  using start_cache_ok [of "[]"]
  by (auto simp: connected_def serves_def sample_client_def sample_worker_def sample_env_def sample_db_def hm_get_def)


theorem retried_mutations_never_commit_witness:
  "\<not> is_ok (snd (mutate_and_commit sample_env (service_client sample_builtins (start_storage []) sample_io sample_io)
     (\<lambda>_. False) 7 [sample_schema] (Some sample_client)))"
  using retried_mutations_never_commit [of "start_storage []" sample_env "\<lambda>s. s" sample_builtins sample_db sample_client
      sample_state 7 "[sample_schema]"]
    sample_externs_ok mem_store_ok sample_builtins_ok sample_client_facts sample_state_entries sample_schema_wire
    sample_state_wf(2) sample_state_facts(2)
  by auto

text \<open>A remote side that refuses every commit and has no catalog to fetch.\<close>

definition refusing :: "unit metastore_client" where
  "refusing =
     \<lparr>mc_fetch_catalog = (\<lambda>_ m. (m, Ok \<lparr>fcp_catalog = 
        Some \<lparr>pcs_catalog_version = Some 0, pcs_version = 4, pcs_entries = [], pcs_deployment = None\<rparr>\<rparr>)),
      mc_mutate_catalog = (\<lambda>_ m. (m, Err (status_of MissingCatalog))),
      mc_commit_catalog = (\<lambda>_ m. (m, Err (status_of (ME_Storage (AttemptedOutOfDataCatalogWrite 4 0)))))\<rparr>"

definition empty_state :: catalog_state where
  "empty_state = \<lparr>cs_version = 5, cs_entries = [], cs_deployment = deployment_metadata_default, cs_catalog_version = 0\<rparr>"

lemma refusing_fetch: "\<not> is_panic (snd (fetch ce refusing mw))"
  by (cases mw) (simp add: fetch_def refusing_def catalog_state_try_from_proto_def optional_def)

theorem refused_commit_ends_worker_witness:
  "client_commit_state sample_env refusing (\<lambda>_. False) 3 empty_state \<lparr>cl_remote = (), cl_worker = Some sample_worker\<rparr> =
     (\<lparr>cl_remote = (), cl_worker = None\<rparr>, Err (catalog_error_new ''response channel closed: commit'')) \<and>
   send sample_env refusing (\<lambda>_. False) Ping \<lparr>cl_remote = (), cl_worker = None\<rparr> =
     (\<lparr>cl_remote = (), cl_worker = None\<rparr>, Err (catalog_error_new ''request channel closed: ping''))"
proof -
  obtain p where p: "catalog_state_into_proto empty_state = Ok p"
    by (auto simp: catalog_state_into_proto_def empty_state_def)
  have "3 < cs_version empty_state" by (simp add: empty_state_def)
  from refused_commit_ends_worker [OF _ _ p this, of "\<lparr>cl_remote = (), cl_worker = Some sample_worker\<rparr>" sample_worker
      "\<lambda>_. False" refusing "()" _ sample_env "\<lambda>_. False" Ping]
  show ?thesis by (simp add: refusing_def)
qed

theorem version_hint_current_witness:
  "\<exists>wk. snd (worker_init sample_env refusing sample_db ()) = Ok wk \<and>
     (let wk' = snd (fst (worker_run sample_env refusing 3 [IntervalTick 5, Incoming True Ping, IntervalTick 2] 0 ((), wk)))
      in wk_version_hint wk' = cs_version (wk_cached_state wk'))"
proof -
  obtain wk where wk: "worker_init sample_env refusing sample_db () = ((), Ok wk)"
    by (auto simp: worker_init_def refusing_def catalog_state_try_from_proto_def optional_def)
  from version_hint_current [OF wk, of 3 "[IntervalTick 5, Incoming True Ping, IntervalTick 2]"] wk show ?thesis
    by (metis prod.collapse snd_conv)
qed

theorem idle_worker_exits_witness:
  "snd (worker_run sample_env refusing 2 [IntervalTick 2, IntervalTick 2, IntervalTick 7] 0 ((), sample_worker)) = Exited \<and>
   (\<exists>pre idle post. [IntervalTick 2, IntervalTick 2, IntervalTick 7] = pre @ idle @ post \<and> list_all idle_tick idle \<and> length idle = 2)"
  using idle_worker_exits [of 2 sample_env refusing "[IntervalTick 2, IntervalTick 2]" "[IntervalTick 7]" "((), sample_worker)"
      "[IntervalTick 2, IntervalTick 2, IntervalTick 7]"] refusing_fetch
  by (auto simp: session_count_for_db_def simp del: worker_run.simps)

end
