(* ===== verification/Decimal.thy ===== *)
theory Decimal
  imports Complex_Main Prelude "HOL-Library.Signed_Division"
begin

section \<open>Decimal numbers\<close>

text \<open>
  \<open>Decimal<DecimalType128>\<close> of \<open>crates/decimal/src/lib.rs\<close>: a mantissa of type \<open>i128\<close> and a scale of type
  \<open>i8\<close>, standing for \<open>mantissa * 10 ^ (- scale)\<close>. Both are integers here; where the code may leave the range
  of the type, the wrap-around or the failing conversion is written out. Arithmetic wraps as in a
  release build, and a \<open>debug_assert!\<close> does nothing.

  The text of a floating point number is an argument of \<open>try_from_float\<close>. The texts given to
  \<open>from_str\<close> are of ASCII characters, so that \<open>\d\<close> in its pattern is one of the ten digits.
\<close>

subsection \<open>Integers of a width\<close>

definition in_i128 :: "int \<Rightarrow> bool" where
  "in_i128 x \<longleftrightarrow> - (2 ^ 127) \<le> x \<and> x < 2 ^ 127"

definition wrap_i128 :: "int \<Rightarrow> int" where
  "wrap_i128 x = (x + 2 ^ 127) mod 2 ^ 128 - 2 ^ 127"

definition in_i8 :: "int \<Rightarrow> bool" where
  "in_i8 x \<longleftrightarrow> - 128 \<le> x \<and> x < 128"

lemma in_wrap_i128 [simp]: "in_i128 (wrap_i128 x)"
  using pos_mod_bound [of "2 ^ 128 :: int" "x + 2 ^ 127"] by (simp add: in_i128_def wrap_i128_def)

lemma wrap_i128_id [simp]: "in_i128 x \<Longrightarrow> wrap_i128 x = x"
  by (simp add: in_i128_def wrap_i128_def mod_pos_pos_trivial)

lemma wrap_mult_mod: "(((x + h) mod M - h) * y + h) mod M = (x * y + h) mod (M :: int)"
proof -
  have "((x + h) mod M - h) mod M = x mod M" by (simp add: mod_diff_left_eq)
  then show ?thesis by (metis mod_add_left_eq mod_mult_left_eq)
qed

lemma wrap_i128_mult: "wrap_i128 (wrap_i128 x * y) = wrap_i128 (x * y)"
  unfolding wrap_i128_def wrap_mult_mod ..

subsection \<open>Construction\<close>

datatype decimal_error =
    InvalidScale int nat
  | DecimalParseError string
  | DecimalOverflowError string
  | CastError string string
  | DecimalIoError

type_synonym 'a decimal_result = "(decimal_error, 'a) outcome"

definition MAX_SCALE :: nat where
  "MAX_SCALE = 38"

definition MANTISSA_TYPE_NAME :: string where
  "MANTISSA_TYPE_NAME = ''128 bit integer''"

record decimal =
  mantissa :: int
  scale :: int

definition decimal_new :: "int \<Rightarrow> int \<Rightarrow> decimal decimal_result" where
  "decimal_new m s =
     (if \<bar>s\<bar> > int MAX_SCALE then Err (InvalidScale s MAX_SCALE) else Ok \<lparr>mantissa = m, scale = s\<rparr>)"

definition try_from_int :: "int \<Rightarrow> decimal decimal_result" where
  "try_from_int i =
     (if in_i128 i then Ok \<lparr>mantissa = i, scale = 0\<rparr> else Err (CastError (dec_of_int i) MANTISSA_TYPE_NAME))"

definition is_ascii_digit :: "char \<Rightarrow> bool" where
  "is_ascii_digit c \<longleftrightarrow> 48 \<le> (of_char c :: nat) \<and> (of_char c :: nat) \<le> 57"

definition digit_value :: "char \<Rightarrow> int" where
  "digit_value c = int (of_char c - 48)"

fun float_digits :: "string \<Rightarrow> int \<Rightarrow> int option \<Rightarrow> int \<times> int option" where
  "float_digits [] m s = (m, s)"
| "float_digits (v # vs) m s =
     (if is_ascii_digit v
      then float_digits vs (wrap_i128 (wrap_i128 (m * 10) + digit_value v)) (map_option (\<lambda>x. x + 1) s)
      else if v = CHR ''.'' then float_digits vs m (Some 0)
      else (m, s))"

text \<open>The text is written to a buffer of 38 bytes; what is left of the buffer is zero.\<close>

definition try_from_float :: "string \<Rightarrow> decimal decimal_result" where
  "try_from_float text =
     (if length text > 38 then Err DecimalIoError
      else
        (let buf = text @ replicate (38 - length text) (char_of (0 :: nat));
             neg = (hd buf = CHR ''-'');
             (m, s) = float_digits (tl buf) 0 None;
             s = (case s of Some s \<Rightarrow> s | None \<Rightarrow> 0)
         in decimal_new (if neg then wrap_i128 (m * - 1) else m) s))"

subsection \<open>Rescaling\<close>

text \<open>Division of integers truncates.\<close>

function scale_down :: "int \<Rightarrow> decimal \<Rightarrow> decimal" where
  "scale_down new_scale d =
     (if scale d > new_scale
      then scale_down new_scale \<lparr>mantissa = mantissa d sdiv 10, scale = scale d - 1\<rparr>
      else d)"
  by auto
termination
  by (relation "measure (\<lambda>(n, d). nat (scale d - n))") auto

function scale_up :: "int \<Rightarrow> decimal \<Rightarrow> decimal" where
  "scale_up new_scale d =
     (if scale d < new_scale
      then scale_up new_scale \<lparr>mantissa = wrap_i128 (mantissa d * 10), scale = scale d + 1\<rparr>
      else d)"
  by auto
termination
  by (relation "measure (\<lambda>(n, d). nat (n - scale d))") auto

declare scale_down.simps [simp del] scale_up.simps [simp del]

definition rescale :: "int \<Rightarrow> decimal \<Rightarrow> decimal" where
  "rescale new_scale d = scale_up new_scale (scale_down new_scale d)"

definition rescale_to_cmp :: "decimal \<Rightarrow> decimal \<Rightarrow> decimal \<times> decimal" where
  "rescale_to_cmp a b =
     (if scale a < scale b then (rescale (scale b) a, b) else (a, rescale (scale a) b))"

subsection \<open>Comparison and addition\<close>

datatype ordering = Less | Equal | Greater

definition int_cmp :: "int \<Rightarrow> int \<Rightarrow> ordering" where
  "int_cmp x y = (if x < y then Less else if x = y then Equal else Greater)"

definition partial_cmp :: "decimal \<Rightarrow> decimal \<Rightarrow> ordering option" where
  "partial_cmp a b = (case rescale_to_cmp a b of (a, b) \<Rightarrow> Some (int_cmp (mantissa a) (mantissa b)))"

definition add_assign :: "decimal \<Rightarrow> decimal \<Rightarrow> decimal" where
  "add_assign a b =
     (case rescale_to_cmp a b of (a, b) \<Rightarrow> a\<lparr>mantissa := wrap_i128 (mantissa a + mantissa b)\<rparr>)"

definition decimal_add :: "decimal \<Rightarrow> decimal \<Rightarrow> decimal" where
  "decimal_add a b = add_assign a b"

definition decimal_is_zero :: "decimal \<Rightarrow> bool" where
  "decimal_is_zero d = (mantissa d = 0)"

definition decimal_zero :: decimal where
  "decimal_zero = \<lparr>mantissa = 0, scale = 0\<rparr>"

definition set_zero :: "decimal \<Rightarrow> decimal" where
  "set_zero d = d\<lparr>mantissa := 0\<rparr>"

subsection \<open>Printing\<close>

text \<open>The digits of the mantissa, the last one first.\<close>

function mantissa_digits :: "int \<Rightarrow> nat list" where
  "mantissa_digits m = (if m = 0 then [] else nat \<bar>m smod 10\<bar> # mantissa_digits (m sdiv 10))"
  by auto
termination
proof (relation "measure (\<lambda>m. nat \<bar>m\<bar>)")
  fix m :: int assume "m \<noteq> 0"
  then have "\<bar>m sdiv 10\<bar> < \<bar>m\<bar>" by (simp add: signed_divide_int_def abs_mult)
  then show "(m sdiv 10, m) \<in> measure (\<lambda>m. nat \<bar>m\<bar>)" by simp
qed simp

declare mantissa_digits.simps [simp del]

text \<open>\<open>{:0>width$}\<close>: zeros to the left of the text, also of its sign.\<close>

definition pad_left :: "nat \<Rightarrow> string \<Rightarrow> string" where
  "pad_left width s = replicate (width - length s) CHR ''0'' @ s"

fun write_digits :: "nat \<Rightarrow> nat list \<Rightarrow> nat \<Rightarrow> string" where
  "write_digits s digits 0 = []"
| "write_digits s digits (Suc i) =
     digit (digits ! i) # (if i = s then [CHR ''.''] else []) @ write_digits s digits i"

definition decimal_fmt :: "decimal \<Rightarrow> string" where
  "decimal_fmt d =
     (if scale d = 0 then dec_of_int (mantissa d)
      else if scale d < 0 then dec_of_int (mantissa d) @ replicate (nat \<bar>scale d\<bar>) CHR ''0''
      else
        (let digits = mantissa_digits (mantissa d); num_dig = length digits; s = nat (scale d)
         in (if mantissa d < 0 then ''-'' else []) @
            (if s \<ge> num_dig then ''0.'' @ pad_left s (dec_of_int (mantissa d))
             else write_digits s digits num_dig)))"

subsection \<open>Parsing\<close>

text \<open>The captures of the pattern \<open>^([+-]?\d+)(?:\.(\d+))?(?:[eE]([+-]?\d+))?$\<close>: the digits of a group are
  followed by something that is not a digit, so the first match is the only one.\<close>

definition sign_of :: "string \<Rightarrow> string" where
  "sign_of s = (case s of c # _ \<Rightarrow> if c = CHR ''+'' \<or> c = CHR ''-'' then [c] else [] | [] \<Rightarrow> [])"

definition signed_digits :: "string \<Rightarrow> (string \<times> string) option" where
  "signed_digits s =
     (let sg = sign_of s; r = drop (length sg) s; ds = takeWhile is_ascii_digit r
      in if ds = [] then None else Some (sg @ ds, dropWhile is_ascii_digit r))"

definition fraction_part :: "string \<Rightarrow> string option \<times> string" where
  "fraction_part s =
     (case s of
        c # r \<Rightarrow>
          if c = CHR ''.'' \<and> takeWhile is_ascii_digit r \<noteq> []
          then (Some (takeWhile is_ascii_digit r), dropWhile is_ascii_digit r)
          else (None, s)
      | [] \<Rightarrow> (None, s))"

definition exponent_part :: "string \<Rightarrow> string option \<times> string" where
  "exponent_part s =
     (case s of
        c # r \<Rightarrow>
          if c = CHR ''e'' \<or> c = CHR ''E''
          then (case signed_digits r of Some (e, r) \<Rightarrow> (Some e, r) | None \<Rightarrow> (None, s))
          else (None, s)
      | [] \<Rightarrow> (None, s))"

definition captures :: "string \<Rightarrow> (string \<times> string option \<times> string option) option" where
  "captures v =
     (case signed_digits v of
        None \<Rightarrow> None
      | Some (m, r) \<Rightarrow>
          (case fraction_part r of (dec, r) \<Rightarrow>
           case exponent_part r of (e, r) \<Rightarrow> if r = [] then Some (m, dec, e) else None))"

text \<open>\<open>str::parse\<close> to an integer of a range.\<close>

definition int_of_dec :: "string \<Rightarrow> int" where
  "int_of_dec s = foldl (\<lambda>n c. n * 10 + digit_value c) 0 s"

definition parse_int :: "(int \<Rightarrow> bool) \<Rightarrow> string \<Rightarrow> int option" where
  "parse_int ok s =
     (let sg = sign_of s; ds = drop (length sg) s;
          x = (if sg = ''-'' then - int_of_dec ds else int_of_dec ds)
      in if ds \<noteq> [] \<and> list_all is_ascii_digit ds \<and> ok x then Some x else None)"

text \<open>The loop over the trailing zeros of a long mantissa, from the index \<open>i - 1\<close> down: the result is the
  end of what is kept.\<close>

fun trim_zeros :: "string \<Rightarrow> nat \<Rightarrow> nat" where
  "trim_zeros m 0 = length m"
| "trim_zeros m (Suc i) =
     (if m ! i \<noteq> CHR ''0'' \<or> length m - i > MAX_SCALE then i + 1 else trim_zeros m i)"

definition or_parse_error :: "string \<Rightarrow> 'a option \<Rightarrow> 'a decimal_result" where
  "or_parse_error v x = (case x of None \<Rightarrow> Err (DecimalParseError v) | Some y \<Rightarrow> Ok y)"

definition to_i8 :: "int \<Rightarrow> int option" where
  "to_i8 x = (if in_i8 x then Some x else None)"

definition parse_fraction :: "string \<Rightarrow> int \<Rightarrow> int \<Rightarrow> string \<Rightarrow> (int \<times> int) decimal_result" where
  "parse_fraction v identity m dec =
     obind (or_parse_error v (parse_int in_i128 dec)) (\<lambda>d.
     let num_dig = length dec; d = wrap_i128 (d * identity); ten_pow = wrap_i128 (10 ^ num_dig) in
     obind (or_parse_error v (if in_i128 (m * ten_pow) then Some (m * ten_pow) else None)) (\<lambda>m.
     obind (or_parse_error v (to_i8 (int num_dig))) (\<lambda>s. Ok (wrap_i128 (m + d), s))))"

definition parse_exponent :: "string \<Rightarrow> int \<Rightarrow> string \<Rightarrow> int decimal_result" where
  "parse_exponent v s e =
     obind (or_parse_error v (parse_int in_i8 e)) (\<lambda>e. or_parse_error v (to_i8 (s - e)))"

definition from_str :: "string \<Rightarrow> decimal decimal_result" where
  "from_str v =
     obind (or_parse_error v (captures v)) (\<lambda>(m, dec, e).
     let identity = (if take 1 m = ''-'' then - 1 else 1);
         idx = (if dec = None \<and> e = None \<and> length m > MAX_SCALE then trim_zeros m (length m) else length m)
     in
     obind (or_parse_error v (to_i8 (int (length m - idx)))) (\<lambda>s.
     obind (or_parse_error v (parse_int in_i128 (take idx m))) (\<lambda>m.
     obind (case dec of None \<Rightarrow> Ok (m, - s) | Some dec \<Rightarrow> parse_fraction v identity m dec) (\<lambda>(m, s).
     obind (case e of None \<Rightarrow> Ok s | Some e \<Rightarrow> parse_exponent v s e) (\<lambda>s.
     if \<bar>s\<bar> > int MAX_SCALE then Err (InvalidScale s MAX_SCALE) else Ok \<lparr>mantissa = m, scale = s\<rparr>)))))"

end
