(* ===== verification/Decimal_Theorems.thy ===== *)
theory Decimal_Theorems
  imports Decimal
begin

section \<open>Decimal numbers: the rational numbers they stand for\<close>

text \<open>
  Rescaling in closed form, comparison and addition against the rational numbers, and reading back what was
  printed.
\<close>

definition decimal_ok :: "decimal \<Rightarrow> bool" where
  "decimal_ok d \<longleftrightarrow> in_i128 (mantissa d) \<and> \<bar>scale d\<bar> \<le> int MAX_SCALE"

definition decimal_value :: "decimal \<Rightarrow> rat" where
  "decimal_value d = of_int (mantissa d) * 10 powi (- scale d)"

subsection \<open>Rescaling\<close>

lemma sdiv_pos: "0 < b \<Longrightarrow> (k :: int) sdiv b = sgn k * (\<bar>k\<bar> div b)"
  by (simp add: signed_divide_int_def)

lemma sdiv_sdiv: "0 < a \<Longrightarrow> 0 < b \<Longrightarrow> ((k :: int) sdiv a) sdiv b = k sdiv (a * b)"
proof -
  assume a: "0 < a" and b: "0 < b"
  have q: "\<bar>k\<bar> div (a * b) = \<bar>k\<bar> div a div b" using b by (simp add: zdiv_zmult2_eq)
  have "0 \<le> \<bar>k\<bar> div a" using a by (simp add: pos_imp_zdiv_nonneg_iff)
  then have "sgn k * (\<bar>k\<bar> div a) = 0 \<or> sgn (sgn k * (\<bar>k\<bar> div a)) = sgn k \<and> \<bar>sgn k * (\<bar>k\<bar> div a)\<bar> = \<bar>k\<bar> div a"
    by (auto simp: sgn_mult abs_mult sgn_if)
  then show ?thesis using a b q by (auto simp: sdiv_pos)
qed


lemma scale_down_eq:
  "n \<le> scale d \<Longrightarrow> scale_down n d = \<lparr>mantissa = mantissa d sdiv 10 ^ nat (scale d - n), scale = n\<rparr>"
proof (induction n d rule: scale_down.induct)
  case (1 n d)
  show ?case
  proof (cases "n < scale d")
    case True
    then have "nat (scale d - n) = Suc (nat (scale d - 1 - n))" by simp
    with 1 True show ?thesis by (simp add: scale_down.simps [of n d] sdiv_sdiv)
  next
    case False
    with 1 show ?thesis using scale_down.simps [of n d] by (cases d) (simp add: sdiv_pos sgn_mult_abs)
  qed
qed

lemma scale_up_eq:
  "scale d \<le> n \<Longrightarrow> in_i128 (mantissa d) \<Longrightarrow>
   scale_up n d = \<lparr>mantissa = wrap_i128 (mantissa d * 10 ^ nat (n - scale d)), scale = n\<rparr>"
proof (induction n d rule: scale_up.induct)
  case (1 n d)
  show ?case
  proof (cases "scale d < n")
    case True
    then have "nat (n - scale d) = Suc (nat (n - (scale d + 1)))" by simp
    with 1 True show ?thesis
      by (simp add: scale_up.simps [of n d] wrap_i128_mult mult.assoc)
  next
    case False
    with 1 show ?thesis using scale_up.simps [of n d] by (cases d) simp
  qed
qed

lemma rescale_eq:
  assumes "in_i128 (mantissa d)"
  shows "rescale n d =
    (if n < scale d then \<lparr>mantissa = mantissa d sdiv 10 ^ nat (scale d - n), scale = n\<rparr>
     else \<lparr>mantissa = wrap_i128 (mantissa d * 10 ^ nat (n - scale d)), scale = n\<rparr>)"
proof (cases "n < scale d")
  case True
  then show ?thesis using scale_up.simps [of n "scale_down n d"] by (simp add: rescale_def scale_down_eq)
next
  case False
  then show ?thesis using assms by (simp add: rescale_def scale_down.simps [of n d] scale_up_eq)
qed

subsection \<open>Comparison and addition\<close>

text \<open>The mantissa of \<open>d\<close> for a scale that is not smaller.\<close>

definition fits :: "int \<Rightarrow> decimal \<Rightarrow> bool" where
  "fits n d \<longleftrightarrow> scale d \<le> n \<and> in_i128 (mantissa d * 10 ^ nat (n - scale d))"

lemma value_up:
  assumes "scale d \<le> n"
  shows "of_int (mantissa d * 10 ^ nat (n - scale d)) * 10 powi (- n) = decimal_value d"
proof -
  have "(10 :: rat) ^ nat (n - scale d) = 10 powi (n - scale d)"
    using assms by (simp add: power_int_def)
  moreover have "(10 :: rat) powi (n - scale d) * 10 powi (- n) = 10 powi (- scale d)"
    by (simp flip: power_int_add)
  ultimately show ?thesis by (simp add: decimal_value_def mult.assoc)
qed

lemma rescale_to_cmp_fits:
  assumes "in_i128 (mantissa a)" "in_i128 (mantissa b)"
    and fits: "fits (max (scale a) (scale b)) a" "fits (max (scale a) (scale b)) b"
  obtains x y where "rescale_to_cmp a b = (\<lparr>mantissa = x, scale = max (scale a) (scale b)\<rparr>, \<lparr>mantissa = y, scale = max (scale a) (scale b)\<rparr>)"
    and "decimal_value a = of_int x * 10 powi (- max (scale a) (scale b))"
    and "decimal_value b = of_int y * 10 powi (- max (scale a) (scale b))"
proof -
  let ?n = "max (scale a) (scale b)"
  have up: "rescale ?n d = \<lparr>mantissa = mantissa d * 10 ^ nat (?n - scale d), scale = ?n\<rparr>"
    if "in_i128 (mantissa d)" "fits ?n d" for d
    using rescale_eq [OF that(1), of ?n] that(2) by (auto simp: fits_def)
  have "rescale_to_cmp a b = (rescale ?n a, rescale ?n b)"
    using up [OF assms(1) fits(1)] up [OF assms(2) fits(2)]
    by (cases a; cases b) (auto simp: rescale_to_cmp_def max_def)
  with up [OF assms(1) fits(1)] up [OF assms(2) fits(2)] that show ?thesis
    using value_up [of a ?n] value_up [of b ?n] by simp
qed

lemma partial_cmp_value:
  assumes "in_i128 (mantissa a)" "in_i128 (mantissa b)"
    and "fits (max (scale a) (scale b)) a" "fits (max (scale a) (scale b)) b"
  shows "partial_cmp a b =
    Some (if decimal_value a < decimal_value b then Less else if decimal_value a = decimal_value b then Equal else Greater)"
proof -
  have "0 < (10 :: rat) powi (- max (scale a) (scale b))" by simp
  then show ?thesis
    by (rule_tac rescale_to_cmp_fits [OF assms]) (simp add: partial_cmp_def int_cmp_def)
qed

lemma add_assign_value:
  assumes "in_i128 (mantissa a)" "in_i128 (mantissa b)"
    and "fits (max (scale a) (scale b)) a" "fits (max (scale a) (scale b)) b"
    and "in_i128 (mantissa (fst (rescale_to_cmp a b)) + mantissa (snd (rescale_to_cmp a b)))"
  shows "decimal_value (add_assign a b) = decimal_value a + decimal_value b"
  by (rule rescale_to_cmp_fits [OF assms(1-4)])
    (use assms(5) in \<open>simp add: add_assign_def decimal_value_def distrib_right\<close>)

subsection \<open>Digits\<close>

fun nat_digits :: "nat \<Rightarrow> nat list" where
  "nat_digits n = (if n = 0 then [] else n mod 10 # nat_digits (n div 10))"

declare nat_digits.simps [simp del]

lemma mantissa_digits_nat: "mantissa_digits m = nat_digits (nat \<bar>m\<bar>)"
proof (induction m rule: mantissa_digits.induct)
  case (1 m)
  have "\<bar>m smod 10\<bar> = \<bar>m\<bar> mod 10" "\<bar>m sdiv 10\<bar> = \<bar>m\<bar> div 10" if "m \<noteq> 0"
    using that by (auto simp: signed_modulo_int_def signed_divide_int_def abs_mult sgn_if minus_div_mult_eq_mod [symmetric])
  with 1 show ?case
    by (simp add: mantissa_digits.simps [of m] nat_digits.simps [of "nat \<bar>m\<bar>"] nat_mod_distrib nat_div_distrib)
qed

lemma drop_nat_digits: "drop s (nat_digits n) = nat_digits (n div 10 ^ s)"
proof (induction s arbitrary: n)
  case (Suc s)
  then show ?case
    by (cases "n = 0") (auto simp: nat_digits.simps [of n] nat_digits.simps [of 0] div_mult2_eq)
qed simp

lemma digit_props [simp]:
  "n < 10 \<Longrightarrow> digit_value (digit n) = int n" "n < 10 \<Longrightarrow> is_ascii_digit (digit n)"
  by (simp_all add: digit_value_def digit_def is_ascii_digit_def of_char_of)

lemma zero_char [simp]: "is_ascii_digit CHR ''0''" "digit_value CHR ''0'' = 0"
  by (simp_all add: is_ascii_digit_def digit_value_def)

lemma zeros_digits [simp]: "list_all is_ascii_digit (replicate k CHR ''0'')"
  by (induction k) simp_all

lemma int_of_dec_append: "int_of_dec (xs @ ys) = int_of_dec xs * 10 ^ length ys + int_of_dec ys"
proof (induction ys rule: rev_induct)
  case (snoc y ys)
  then show ?case by (simp add: int_of_dec_def algebra_simps)
qed (simp add: int_of_dec_def)

lemma int_of_dec_simps [simp]: "int_of_dec [] = 0" "int_of_dec [c] = digit_value c"
  by (simp_all add: int_of_dec_def)

lemma int_of_dec_zeros [simp]: "int_of_dec (replicate k CHR ''0'') = 0"
proof (induction k)
  case (Suc k)
  have "int_of_dec ([CHR ''0''] @ replicate k CHR ''0'') = 0"
    using Suc unfolding int_of_dec_append by simp
  then show ?case by simp
qed simp

lemma int_of_dec_of_nat [simp]: "int_of_dec (dec_of_nat n) = int n"
proof (induction n rule: dec_of_nat.induct)
  case (1 n)
  have "int (n div 10) * 10 + int (n mod 10) = int n" by (metis div_mult_mod_eq of_nat_add of_nat_mult of_nat_numeral)
  with 1 show ?case by (cases "n < 10") (simp_all add: dec_of_nat.simps [of n] int_of_dec_append)
qed

lemma dec_of_nat_digits [simp]: "list_all is_ascii_digit (dec_of_nat n)"
proof (induction n rule: dec_of_nat.induct)
  case (1 n)
  then show ?case by (cases "n < 10") (auto simp: dec_of_nat.simps [of n])
qed

lemma dec_of_nat_not_Nil [simp]: "dec_of_nat n \<noteq> []"
  by (simp add: dec_of_nat.simps [of n])

lemma nat_digits_dec: "0 < n \<Longrightarrow> map digit (rev (nat_digits n)) = dec_of_nat n"
proof (induction n rule: nat_digits.induct)
  case (1 n)
  then show ?case
    by (cases "n < 10") (auto simp: nat_digits.simps [of n] nat_digits.simps [of 0] dec_of_nat.simps [of n])
qed

lemma nat_digits_less: "list_all (\<lambda>d. d < 10) (nat_digits n)"
  by (induction n rule: nat_digits.induct) (subst nat_digits.simps, simp)

lemma int_of_dec_take: "int_of_dec (map digit (rev (take s (nat_digits n)))) = int (n mod 10 ^ s)"
proof (induction s arbitrary: n)
  case (Suc s)
  show ?case
  proof (cases "n = 0")
    case False
    have "int_of_dec (map digit (rev (take (Suc s) (nat_digits n)))) = int (n div 10 mod 10 ^ s) * 10 + int (n mod 10)"
      using False Suc by (simp add: nat_digits.simps [of n] int_of_dec_append)
    also have "\<dots> = int (n mod 10 ^ Suc s)"
      by (simp add: mod_mult2_eq algebra_simps flip: of_nat_mult of_nat_add)
    finally show ?thesis .
  qed (simp add: nat_digits.simps [of 0])
qed simp

lemma length_nat_digits: "length (nat_digits n) \<le> s \<longleftrightarrow> n < 10 ^ s"
proof -
  have "drop s (nat_digits n) = [] \<longleftrightarrow> n div 10 ^ s = 0"
    unfolding drop_nat_digits by (auto simp: nat_digits.simps [of "n div 10 ^ s"])
  then show ?thesis by (simp add: div_eq_0_iff)
qed

lemma length_dec_of_nat: "0 < s \<Longrightarrow> length (dec_of_nat n) \<le> s \<longleftrightarrow> n < 10 ^ s"
  using nat_digits_dec [of n, symmetric] length_nat_digits [of n s]
  by (cases "n = 0") (simp_all add: dec_of_nat.simps [of 0] Suc_le_eq)

lemma write_digits_frac: "n \<le> s \<Longrightarrow> n \<le> length ds \<Longrightarrow> write_digits s ds n = map digit (rev (take n ds))"
  by (induction n) (simp_all add: take_Suc_conv_app_nth)

lemma write_digits_eq:
  "s < n \<Longrightarrow> n \<le> length ds \<Longrightarrow>
   write_digits s ds n = map digit (rev (drop s (take n ds))) @ ''.'' @ map digit (rev (take s ds))"
proof (induction n)
  case (Suc n)
  show ?case
  proof (cases "n = s")
    case True
    with Suc show ?thesis by (simp add: write_digits_frac take_Suc_conv_app_nth)
  next
    case False
    with Suc show ?thesis by (simp add: take_Suc_conv_app_nth)
  qed
qed simp

text \<open>What is printed for a positive scale.\<close>

definition sign_text :: "int \<Rightarrow> string" where
  "sign_text m = (if m < 0 then ''-'' else [])"

definition point_text :: "int \<Rightarrow> string \<Rightarrow> string \<Rightarrow> string" where
  "point_text m ip fp = sign_text m @ ip @ ''.'' @ fp"

lemma decimal_fmt_point:
  assumes "0 < scale d" and "0 \<le> mantissa d \<or> 10 ^ nat (scale d) \<le> \<bar>mantissa d\<bar>"
  obtains ip fp where "decimal_fmt d = point_text (mantissa d) ip fp"
    and "ip \<noteq> []" "list_all is_ascii_digit ip" "list_all is_ascii_digit fp" "length fp = nat (scale d)"
    and "int_of_dec ip = \<bar>mantissa d\<bar> div 10 ^ nat (scale d)" "int_of_dec fp = \<bar>mantissa d\<bar> mod 10 ^ nat (scale d)"
proof -
  let ?n = "nat \<bar>mantissa d\<bar>" and ?s = "nat (scale d)"
  have ab: "int (?n div 10 ^ ?s) = \<bar>mantissa d\<bar> div 10 ^ ?s" "int (?n mod 10 ^ ?s) = \<bar>mantissa d\<bar> mod 10 ^ ?s"
    by (simp_all add: zdiv_int zmod_int)
  show ?thesis
  proof (cases "?n < 10 ^ ?s")
    case True
    then have "int ?n < int (10 ^ ?s)" by (simp only: of_nat_less_iff)
    then have lt: "\<bar>mantissa d\<bar> < 10 ^ ?s" by simp
    then have pos: "0 \<le> mantissa d" using assms(2) by simp
    have "length (dec_of_nat ?n) \<le> ?s" using length_dec_of_nat [of ?s ?n] True assms(1) by simp
    with that [of "''0''" "pad_left ?s (dec_of_int (mantissa d))"] True pos lt assms(1) show ?thesis
      by (simp add: decimal_fmt_def mantissa_digits_nat length_nat_digits point_text_def sign_text_def pad_left_def dec_of_int_def
          int_of_dec_append Let_def)
  next
    case False
    let ?ds = "nat_digits ?n"
    have "map digit (rev (drop ?s ?ds)) = dec_of_nat (?n div 10 ^ ?s)"
      unfolding drop_nat_digits using False by (intro nat_digits_dec) (simp add: div_greater_zero_iff)
    moreover have "?s < length ?ds" using False length_nat_digits [of ?n ?s] by simp
    moreover have "list_all is_ascii_digit (map digit (rev (take ?s ?ds)))"
      using nat_digits_less [of ?n] by (auto simp: list_all_iff dest!: in_set_takeD)
    ultimately show ?thesis
      using that [of "dec_of_nat (?n div 10 ^ ?s)" "map digit (rev (take ?s ?ds))"] assms(1) ab
      by (simp add: decimal_fmt_def mantissa_digits_nat point_text_def sign_text_def Let_def write_digits_eq int_of_dec_take)
  qed
qed

subsection \<open>Reading back\<close>

lemma not_digit [simp]:
  "\<not> is_ascii_digit CHR ''-''" "\<not> is_ascii_digit CHR ''+''" "\<not> is_ascii_digit CHR ''.''" "\<not> is_ascii_digit CHR ''e''"
  by (simp_all add: is_ascii_digit_def)

lemma sign_of_text: "ip \<noteq> [] \<Longrightarrow> list_all is_ascii_digit ip \<Longrightarrow> sign_of (sign_text m @ ip @ r) = sign_text m"
  by (cases ip) (auto simp: sign_of_def sign_text_def)

lemma takeWhile_digits:
  assumes "list_all is_ascii_digit ip" "r = [] \<or> \<not> is_ascii_digit (hd r)"
  shows "takeWhile is_ascii_digit (ip @ r) = ip" "dropWhile is_ascii_digit (ip @ r) = r"
proof -
  have "takeWhile is_ascii_digit r = []" "dropWhile is_ascii_digit r = r" using assms(2) by (cases r; auto)+
  with assms(1) show "takeWhile is_ascii_digit (ip @ r) = ip" "dropWhile is_ascii_digit (ip @ r) = r"
    by (simp_all add: list_all_iff takeWhile_append2 dropWhile_append2)
qed

lemma signed_digits_text:
  assumes "ip \<noteq> []" "list_all is_ascii_digit ip" "r = [] \<or> \<not> is_ascii_digit (hd r)"
  shows "signed_digits (sign_text m @ ip @ r) = Some (sign_text m @ ip, r)"
  using assms by (simp add: signed_digits_def sign_of_text takeWhile_digits Let_def)

lemma parse_int_text:
  assumes "ip \<noteq> []" "list_all is_ascii_digit ip" and x: "x = (if m < 0 then - int_of_dec ip else int_of_dec ip)" "ok x"
  shows "parse_int ok (sign_text m @ ip) = Some x"
  using assms sign_of_text [of ip m "[]"] by (simp add: parse_int_def Let_def) (simp add: sign_text_def split: if_splits)

lemmas parse_int_digits = parse_int_text [where m = 0, unfolded sign_text_def, simplified]

lemma ten_power_i128: "s \<le> 38 \<Longrightarrow> (10 :: int) ^ s < 2 ^ 127"
proof -
  assume "s \<le> 38"
  then have "(10 :: int) ^ s \<le> 10 ^ 38" by (intro power_increasing) simp_all
  also have "\<dots> < 2 ^ 127" by simp
  finally show ?thesis .
qed

lemma in_i128_signed: "0 \<le> x \<Longrightarrow> x < 2 ^ 127 \<Longrightarrow> in_i128 (if b then - x else x)"
  by (simp add: in_i128_def)

lemma in_i128_part: "in_i128 m \<Longrightarrow> t + r = \<bar>m\<bar> \<Longrightarrow> 0 \<le> t \<Longrightarrow> 0 \<le> r \<Longrightarrow> in_i128 (if m < 0 then - t else t)"
  by (auto simp: in_i128_def abs_if split: if_splits)

lemma int_of_dec_less: "list_all is_ascii_digit s \<Longrightarrow> 0 \<le> int_of_dec s \<and> int_of_dec s < 10 ^ length s"
proof (induction s rule: rev_induct)
  case (snoc c s)
  then have "0 \<le> digit_value c" "digit_value c \<le> 9"
    by (auto simp: digit_value_def is_ascii_digit_def)
  with snoc show ?case by (simp add: int_of_dec_append)
qed simp

lemma in_i128_factor: "in_i128 (x * p) \<Longrightarrow> 1 \<le> p \<Longrightarrow> in_i128 x"
proof -
  assume x: "in_i128 (x * p)" and p: "1 \<le> p"
  have "x * 1 \<le> x * p" if "0 \<le> x" using p that by (intro mult_left_mono) simp_all
  moreover have "x * p \<le> x * 1" if "x \<le> 0" using p that by (intro mult_left_mono_neg) simp_all
  ultimately show ?thesis using x unfolding in_i128_def by (cases "0 \<le> x") linarith+
qed

text \<open>A text with a fraction: the integer part is scaled with a check, the fraction is added without one.\<close>

lemma from_str_fraction:
  assumes ip: "ip \<noteq> []" "list_all is_ascii_digit ip" and fp: "fp \<noteq> []" "list_all is_ascii_digit fp" "length fp \<le> MAX_SCALE"
    and I: "I = (if m < 0 then - int_of_dec ip else int_of_dec ip) * 10 ^ length fp"
    and F: "F = (if m < 0 then - int_of_dec fp else int_of_dec fp)"
  shows "from_str (point_text m ip fp) =
    (if in_i128 I then Ok \<lparr>mantissa = wrap_i128 (I + F), scale = int (length fp)\<rparr> else Err (DecimalParseError (point_text m ip fp)))"
proof -
  let ?n = "length fp" and ?sg = "if m < 0 then - 1 else (1 :: int)"
  have n: "?n \<le> 38" using fp(3) by (simp add: MAX_SCALE_def)
  have f: "0 \<le> int_of_dec fp" "int_of_dec fp < 10 ^ ?n" using int_of_dec_less [OF fp(2)] by simp_all
  have "0 < (10 :: int) ^ ?n" by simp
  then have p: "in_i128 (10 ^ ?n)" "in_i128 (int_of_dec fp)" "in_i128 (int_of_dec fp * ?sg)"
    unfolding in_i128_def using ten_power_i128 [OF n] f by (linarith, linarith, auto)
  have tw: "takeWhile is_ascii_digit fp = fp" "dropWhile is_ascii_digit fp = []"
    using takeWhile_digits [OF fp(2), of "[]"] by simp_all
  then have frac: "fraction_part (CHR ''.'' # fp) = (Some fp, [])"
    using fp(1) by (simp add: fraction_part_def tw)
  have cap: "captures (point_text m ip fp) = Some (sign_text m @ ip, Some fp, None)"
    by (simp add: captures_def point_text_def signed_digits_text [OF ip] frac exponent_part_def)
  let ?x = "if m < 0 then - int_of_dec ip else int_of_dec ip"
  have p1: "parse_int in_i128 (sign_text m @ ip) = (if in_i128 ?x then Some ?x else None)"
    using parse_int_text [OF ip refl, of in_i128 m] sign_of_text [OF ip, of m "[]"]
    by (auto simp: parse_int_def Let_def sign_text_def split: if_splits)
  have p2: "parse_int in_i128 fp = Some (int_of_dec fp)"
    by (rule parse_int_digits [OF fp(1,2) refl]) (rule p(2))
  have neg: "(take 1 (sign_text m @ ip) = ''-'') \<longleftrightarrow> m < 0" using ip by (cases ip) (auto simp: sign_text_def)
  have pf: "parse_fraction v ?sg ?x fp = (if in_i128 I then Ok (wrap_i128 (I + F), int ?n) else Err (DecimalParseError v))" for v
    using p n unfolding parse_fraction_def p2 or_parse_error_def Let_def to_i8_def in_i8_def I by (cases "m < 0") (simp_all add: F)
  have "to_i8 0 = Some 0" by (simp add: to_i8_def in_i8_def)
  moreover have "in_i128 I \<Longrightarrow> in_i128 ?x" unfolding I by (erule in_i128_factor) (simp add: one_le_power)
  ultimately show ?thesis
    using cap p1 pf n neg by (simp add: from_str_def or_parse_error_def Let_def MAX_SCALE_def)
qed

lemma from_str_point:
  assumes d: "decimal_ok d" "0 < scale d"
    and ip: "ip \<noteq> []" "list_all is_ascii_digit ip" "int_of_dec ip = \<bar>mantissa d\<bar> div 10 ^ nat (scale d)"
    and fp: "list_all is_ascii_digit fp" "length fp = nat (scale d)" "int_of_dec fp = \<bar>mantissa d\<bar> mod 10 ^ nat (scale d)"
  shows "from_str (point_text (mantissa d) ip fp) = Ok d"
proof -
  let ?m = "mantissa d" and ?s = "nat (scale d)"
  let ?q = "\<bar>?m\<bar> div 10 ^ ?s" and ?r = "\<bar>?m\<bar> mod 10 ^ ?s"
  let ?I = "(if ?m < 0 then - int_of_dec ip else int_of_dec ip) * 10 ^ length fp"
  have split: "?q * 10 ^ ?s + ?r = \<bar>?m\<bar>" by (rule div_mult_mod_eq)
  have pos: "0 \<le> ?q * 10 ^ ?s" "0 \<le> ?r" by (simp_all add: pos_imp_zdiv_nonneg_iff)
  have m: "in_i128 ?m" and s: "?s \<le> MAX_SCALE" "fp \<noteq> []" using d fp(2) by (auto simp: decimal_ok_def)
  have I: "?I = (if ?m < 0 then - (?q * 10 ^ ?s) else ?q * 10 ^ ?s)" using ip(3) fp(2) by simp
  have "in_i128 ?I" unfolding I by (rule in_i128_part [OF m split pos])
  moreover have "?I + (if ?m < 0 then - int_of_dec fp else int_of_dec fp) = ?m" unfolding I fp(3) using split by (auto simp: abs_if)
  ultimately show ?thesis
    using from_str_fraction [OF ip(1,2) s(2) fp(1) _ refl refl, of ?m] s(1) fp(2) m d by (cases d) simp
qed

lemma hd_dec_of_nat: "0 < n \<Longrightarrow> hd (dec_of_nat n) \<noteq> CHR ''0''"
proof (induction n rule: dec_of_nat.induct)
  case (1 n)
  have "digit n \<noteq> CHR ''0''" if "n < 10"
    using digit_props(1) [OF that] 1(2) by (metis zero_char(2) of_nat_0_eq_iff less_numeral_extra(3))
  with 1 show ?case by (cases "n < 10") (auto simp: dec_of_nat.simps [of n])
qed

lemma trim_zeros_spec:
  assumes "length v > MAX_SCALE"
  shows "1 \<le> n \<Longrightarrow> n \<le> length v \<Longrightarrow> \<forall>i. n \<le> i \<and> i < length v \<longrightarrow> v ! i = CHR ''0'' \<Longrightarrow> length v - n \<le> MAX_SCALE \<Longrightarrow>
    1 \<le> trim_zeros v n \<and> trim_zeros v n \<le> n \<and> (\<forall>i. trim_zeros v n \<le> i \<and> i < length v \<longrightarrow> v ! i = CHR ''0'') \<and>
    length v - trim_zeros v n \<le> MAX_SCALE \<and> (v ! (trim_zeros v n - 1) \<noteq> CHR ''0'' \<or> length v - trim_zeros v n = MAX_SCALE)"
proof (induction n)
  case (Suc i)
  show ?case
  proof (cases "v ! i \<noteq> CHR ''0'' \<or> length v - i > MAX_SCALE")
    case True
    with Suc.prems show ?thesis by auto
  next
    case False
    then have "1 \<le> i" using assms by (cases i) auto
    moreover have "\<forall>j. i \<le> j \<and> j < length v \<longrightarrow> v ! j = CHR ''0''"
      using Suc.prems(3) False by (metis le_eq_less_or_eq Suc_le_eq)
    ultimately show ?thesis using Suc False by auto
  qed
qed simp

text \<open>A mantissa with zeros behind it: what is kept after the trim, and how many zeros went.\<close>

lemma trimmed_text:
  fixes m :: int and k idx :: nat
  defines "ds \<equiv> dec_of_nat (nat \<bar>m\<bar>) @ replicate k CHR ''0''"
  defines "v \<equiv> sign_text m @ ds"
  assumes idx: "1 \<le> idx" "idx \<le> length v" "\<And>i. idx \<le> i \<Longrightarrow> i < length v \<Longrightarrow> v ! i = CHR ''0''"
    and stop: "v ! (idx - 1) \<noteq> CHR ''0'' \<or> k \<le> length v - idx"
  obtains j where "take idx v = sign_text m @ take j ds" "0 < j" "j \<le> length ds" "length v - idx = length ds - j"
    and "ds = take j ds @ replicate (length ds - j) CHR ''0''" "k \<le> length ds - j"
proof -
  let ?L = "length (sign_text m)"
  have "?L < idx"
  proof (rule ccontr)
    assume "\<not> ?L < idx"
    then have neg: "m < 0" and "idx = 1" using idx(1) by (auto simp: sign_text_def split: if_splits)
    then have "ds ! 0 = CHR ''0''" using idx(3) [of 1] by (simp add: v_def sign_text_def ds_def)
    then show False using hd_dec_of_nat [of "nat \<bar>m\<bar>"] neg by (simp add: ds_def nth_append hd_conv_nth split: if_splits)
  qed
  then obtain j where j: "idx = ?L + j" "0 < j" by (metis less_imp_add_positive)
  then have le: "j \<le> length ds" "length v - idx = length ds - j" using idx(2) by (simp_all add: v_def)
  have zeros: "drop j ds = replicate (length ds - j) CHR ''0''"
  proof (rule nth_equalityI)
    fix i assume "i < length (drop j ds)"
    then show "drop j ds ! i = replicate (length ds - j) CHR ''0'' ! i"
      using idx(3) [of "?L + (j + i)"] j by (simp add: v_def)
  qed simp
  have "k \<le> length ds - j"
  proof (rule ccontr)
    assume lt: "\<not> k \<le> length ds - j"
    then have n: "length (dec_of_nat (nat \<bar>m\<bar>)) \<le> j - 1" using le(1) by (simp add: ds_def)
    have "v ! (idx - 1) = ds ! (j - 1)" using j by (cases j) (simp_all add: v_def)
    also have "\<dots> = CHR ''0''" using n j(2) le(1) by (simp add: ds_def nth_append)
    finally show False using stop lt le(2) by simp
  qed
  moreover have "take idx v = sign_text m @ take j ds" using j(1) by (simp add: v_def)
  moreover have "ds = take j ds @ replicate (length ds - j) CHR ''0''" using zeros by (metis append_take_drop_id)
  ultimately show ?thesis using that j(2) le by blast
qed

lemma from_str_digits:
  assumes ds: "ds \<noteq> []" "list_all is_ascii_digit ds" and v: "v = sign_text m @ ds"
    and idx: "idx = (if length v > MAX_SCALE then trim_zeros v (length v) else length v)"
    and ip: "take idx v = sign_text m @ ip" "ip \<noteq> []" "list_all is_ascii_digit ip"
    and t: "length v - idx = t" "t \<le> MAX_SCALE"
    and x: "x = (if m < 0 then - int_of_dec ip else int_of_dec ip)" "in_i128 x"
  shows "from_str v = Ok \<lparr>mantissa = x, scale = - int t\<rparr>"
proof -
  have cap: "captures v = Some (v, None, None)"
    using signed_digits_text [OF ds, of "[]" m]
    by (simp add: captures_def v fraction_part_def exponent_part_def)
  moreover have "parse_int in_i128 (take idx v) = Some x"
    unfolding ip(1) by (rule parse_int_text [OF ip(2,3) x(1)]) (rule x(2))
  moreover have "to_i8 (int (length v - idx)) = Some (int t)" "\<bar>int t\<bar> \<le> int MAX_SCALE"
    using t by (simp_all add: to_i8_def in_i8_def MAX_SCALE_def)
  ultimately show ?thesis
    by (simp add: from_str_def or_parse_error_def Let_def idx [symmetric])
qed

text \<open>The integer behind the text, and the scale the trimmed zeros give.\<close>

lemma kept_text:
  fixes m :: int and k :: nat
  defines "ds \<equiv> dec_of_nat (nat \<bar>m\<bar>) @ replicate k CHR ''0''"
  defines "v \<equiv> sign_text m @ ds"
  assumes m: "in_i128 m" and k: "k \<le> MAX_SCALE" and long: "length v > MAX_SCALE"
  obtains ip t where "take (trim_zeros v (length v)) v = sign_text m @ ip" "ip \<noteq> []" "list_all is_ascii_digit ip"
    and "length v - trim_zeros v (length v) = t" "t \<le> MAX_SCALE"
    and "int_of_dec ip * 10 ^ t = \<bar>m\<bar> * 10 ^ k" "in_i128 (if m < 0 then - int_of_dec ip else int_of_dec ip)"
proof -
  have ds: "ds \<noteq> []" "list_all is_ascii_digit ds" by (simp_all add: ds_def)
  have pos: "1 \<le> length v" using long by simp
  define idx where "idx = trim_zeros v (length v)"
  have sp: "1 \<le> idx" "idx \<le> length v" "\<And>i. idx \<le> i \<Longrightarrow> i < length v \<Longrightarrow> v ! i = CHR ''0''" "length v - idx \<le> MAX_SCALE"
      "v ! (idx - 1) \<noteq> CHR ''0'' \<or> length v - idx = MAX_SCALE"
    unfolding idx_def using trim_zeros_spec [OF long pos order_refl] by (auto dest: leD)
  obtain j where j: "take idx v = sign_text m @ take j ds" "0 < j" "j \<le> length ds" "length v - idx = length ds - j"
      "ds = take j ds @ replicate (length ds - j) CHR ''0''" "k \<le> length ds - j"
    by (rule trimmed_text [of idx m k, folded ds_def, folded v_def]) (use sp k in auto)
  have "int_of_dec ds = int_of_dec (take j ds) * 10 ^ (length ds - j)"
    by (subst j(5)) (simp add: int_of_dec_append)
  moreover have "int_of_dec ds = \<bar>m\<bar> * 10 ^ k" by (simp add: ds_def int_of_dec_append)
  ultimately have eq: "int_of_dec (take j ds) * 10 ^ (length ds - j) = \<bar>m\<bar> * 10 ^ k" by simp
  have dig: "take j ds \<noteq> []" "list_all is_ascii_digit (take j ds)"
    using j(2) ds by (auto simp: list_all_iff dest: in_set_takeD)
  then have ge: "0 \<le> int_of_dec (take j ds)" using int_of_dec_less by blast
  have "int_of_dec (take j ds) * 10 ^ k \<le> int_of_dec (take j ds) * 10 ^ (length ds - j)"
    using ge j(6) by (intro mult_left_mono power_increasing) simp_all
  then have "int_of_dec (take j ds) \<le> \<bar>m\<bar>" unfolding eq by simp
  then have "in_i128 (if m < 0 then - int_of_dec (take j ds) else int_of_dec (take j ds))"
    using m ge by (auto simp: in_i128_def)
  with that [folded idx_def, OF j(1) dig j(4) _ eq] sp j(4) show ?thesis by simp
qed

lemma from_str_integer:
  assumes m: "in_i128 m" and k: "k \<le> MAX_SCALE"
  obtains x t where "from_str (sign_text m @ dec_of_nat (nat \<bar>m\<bar>) @ replicate k CHR ''0'') = Ok \<lparr>mantissa = x, scale = - int t\<rparr>"
    and "t \<le> MAX_SCALE" "in_i128 x" "x * 10 ^ t = m * 10 ^ k"
proof -
  define ds where "ds = dec_of_nat (nat \<bar>m\<bar>) @ replicate k CHR ''0''"
  define v where "v = sign_text m @ ds"
  define idx where "idx = (if length v > MAX_SCALE then trim_zeros v (length v) else length v)"
  have ds: "ds \<noteq> []" "list_all is_ascii_digit ds" by (simp_all add: ds_def)
  have n: "int_of_dec ds = \<bar>m\<bar> * 10 ^ k" by (simp add: ds_def int_of_dec_append)
  obtain ip t where ip: "take idx v = sign_text m @ ip" "ip \<noteq> []" "list_all is_ascii_digit ip"
      "length v - idx = t" "t \<le> MAX_SCALE"
    and x: "int_of_dec ip * 10 ^ t = \<bar>m\<bar> * 10 ^ k" "in_i128 (if m < 0 then - int_of_dec ip else int_of_dec ip)"
  proof (cases "length v > MAX_SCALE")
    case True
    then show ?thesis
      using that by (rule_tac kept_text [OF m k, folded ds_def, folded v_def]) (simp_all add: idx_def)
  next
    case False
    then have "length ds \<le> 38" by (simp add: v_def MAX_SCALE_def)
    then have "\<bar>m\<bar> * 10 ^ k < 2 ^ 127"
      using int_of_dec_less [OF ds(2)] ten_power_i128 n by fastforce
    then have "in_i128 (if m < 0 then - (\<bar>m\<bar> * 10 ^ k) else \<bar>m\<bar> * 10 ^ k)"
      by (intro in_i128_signed) simp_all
    then have "in_i128 (if m < 0 then - int_of_dec ds else int_of_dec ds)" unfolding n .
    then show ?thesis by (rule that [of ds 0, rotated -1]) (use False ds n in \<open>simp_all add: idx_def v_def\<close>)
  qed
  have "(if m < 0 then - int_of_dec ip else int_of_dec ip) * 10 ^ t = m * 10 ^ k" using x(1) by auto
  with from_str_digits [OF ds v_def idx_def ip refl x(2)] ip(5) x(2) that show ?thesis
    unfolding v_def ds_def by blast
qed

subsection \<open>The theorems\<close>

lemma decimal_fmt_integer:
  "scale d \<le> 0 \<Longrightarrow> decimal_fmt d = sign_text (mantissa d) @ dec_of_nat (nat \<bar>mantissa d\<bar>) @ replicate (nat (- scale d)) CHR ''0''"
  by (auto simp: decimal_fmt_def dec_of_int_def sign_text_def abs_if)

text \<open>A negative number above -1: the sign is printed again, among the decimals.\<close>

lemma decimal_fmt_small_negative:
  assumes "0 < scale d" "mantissa d < 0" "\<bar>mantissa d\<bar> < 10 ^ nat (scale d)"
  obtains k ds where "decimal_fmt d = ''-0.'' @ replicate k CHR ''0'' @ CHR ''-'' # ds"
proof -
  let ?n = "nat \<bar>mantissa d\<bar>" and ?s = "nat (scale d)"
  have "int ?n < int (10 ^ ?s)" using assms(3) by simp
  then have "?n < 10 ^ ?s" by (simp only: of_nat_less_iff)
  then have "length (nat_digits ?n) \<le> ?s" by (simp only: length_nat_digits)
  with that assms(1,2) show ?thesis
    by (auto simp: decimal_fmt_def mantissa_digits_nat pad_left_def dec_of_int_def Let_def)
qed

lemma from_str_second_sign: "from_str (''-0.'' @ replicate k CHR ''0'' @ CHR ''-'' # ds) =
  Err (DecimalParseError (''-0.'' @ replicate k CHR ''0'' @ CHR ''-'' # ds))"
proof -
  let ?r = "replicate k CHR ''0'' @ CHR ''-'' # ds"
  have "signed_digits (sign_text (- 1) @ ''0'' @ CHR ''.'' # ?r) = Some (sign_text (- 1) @ ''0'', CHR ''.'' # ?r)"
    by (rule signed_digits_text) simp_all
  moreover have "takeWhile is_ascii_digit ?r = replicate k CHR ''0''" "dropWhile is_ascii_digit ?r = CHR ''-'' # ds"
    by (rule takeWhile_digits; simp)+
  ultimately have "captures (''-0.'' @ ?r) = None"
    by (cases k) (simp_all add: captures_def fraction_part_def exponent_part_def sign_text_def)
  then show ?thesis by (simp add: from_str_def or_parse_error_def)
qed

lemma decimal_value_point:
  assumes "0 < scale d"
  shows "decimal_value d = of_int (mantissa d) / 10 ^ nat (scale d)"
  using assms by (simp add: decimal_value_def power_int_def field_simps)

lemma decimal_value_integer:
  assumes "scale d \<le> 0"
  shows "decimal_value d = of_int (mantissa d * 10 ^ nat (- scale d))"
  using assms by (simp add: decimal_value_def power_int_def)

lemma decimal_value_small_negative:
  "- 1 < decimal_value d \<and> decimal_value d < 0 \<longleftrightarrow> 0 < scale d \<and> mantissa d < 0 \<and> \<bar>mantissa d\<bar> < 10 ^ nat (scale d)"
proof (cases "0 < scale d")
  case True
  have "- 1 < of_int (mantissa d) / (10 :: rat) ^ nat (scale d) \<longleftrightarrow> (of_int (- (10 ^ nat (scale d))) :: rat) < of_int (mantissa d)"
    by (simp add: field_simps)
  moreover have "of_int (mantissa d) / (10 :: rat) ^ nat (scale d) < 0 \<longleftrightarrow> mantissa d < 0"
    by (simp add: divide_less_0_iff)
  ultimately show ?thesis using True unfolding decimal_value_point [OF True] of_int_less_iff by auto
next
  case False
  have "\<not> (- 1 < (of_int z :: rat) \<and> (of_int z :: rat) < 0)" for z :: int
    using of_int_less_iff [of "- 1" z, where ?'a = rat] by simp
  then have "\<not> (- 1 < decimal_value d \<and> decimal_value d < 0)"
    unfolding decimal_value_integer [OF leI [OF False]] .
  with False show ?thesis by blast
qed

text \<open>C37. Printing and parsing. What is printed for a decimal of the type's range is parsed back to a decimal of
  the range with the same value, and to the very same mantissa and scale when there are decimals; the
  exception are the numbers strictly between -1 and 0, whose text is refused.\<close>

theorem decimal_display_roundtrip:
  assumes "decimal_ok d"
  shows "if - 1 < decimal_value d \<and> decimal_value d < 0
     then from_str (decimal_fmt d) = Err (DecimalParseError (decimal_fmt d))
     else \<exists>d'. from_str (decimal_fmt d) = Ok d' \<and> decimal_ok d' \<and> decimal_value d' = decimal_value d \<and> (0 < scale d \<longrightarrow> d' = d)"
proof (cases "0 < scale d")
  case True
  show ?thesis
  proof (cases "mantissa d < 0 \<and> \<bar>mantissa d\<bar> < 10 ^ nat (scale d)")
    case small: True
    obtain k ds where fmt: "decimal_fmt d = ''-0.'' @ replicate k CHR ''0'' @ CHR ''-'' # ds"
      using small by (rule_tac decimal_fmt_small_negative [OF True]) auto
    have "from_str (decimal_fmt d) = Err (DecimalParseError (decimal_fmt d))"
      unfolding fmt by (rule from_str_second_sign)
    with small True show ?thesis unfolding decimal_value_small_negative by auto
  next
    case False
    then have "0 \<le> mantissa d \<or> 10 ^ nat (scale d) \<le> \<bar>mantissa d\<bar>" by auto
    then have "from_str (decimal_fmt d) = Ok d"
      by (rule decimal_fmt_point [OF True]) (simp add: from_str_point [OF assms True])
    with False assms show ?thesis unfolding decimal_value_small_negative by auto
  qed
next
  case False
  then have m: "in_i128 (mantissa d)" and k: "nat (- scale d) \<le> MAX_SCALE" using assms by (auto simp: decimal_ok_def)
  obtain x t where x: "from_str (decimal_fmt d) = Ok \<lparr>mantissa = x, scale = - int t\<rparr>"
    "t \<le> MAX_SCALE" "in_i128 x" "x * 10 ^ t = mantissa d * 10 ^ nat (- scale d)"
    by (rule from_str_integer [OF m k]) (use False in \<open>simp add: decimal_fmt_integer\<close>)
  then have "decimal_value \<lparr>mantissa = x, scale = - int t\<rparr> = decimal_value d"
    using False by (simp add: decimal_value_integer)
  with x False show ?thesis unfolding decimal_value_small_negative by (simp add: decimal_ok_def)
qed

theorem decimal_display_roundtrip_witness:
  "from_str (decimal_fmt \<lparr>mantissa = - 1234, scale = 3\<rparr>) = Ok \<lparr>mantissa = - 1234, scale = 3\<rparr> \<and>
   from_str (decimal_fmt \<lparr>mantissa = - 5, scale = 3\<rparr>) = Err (DecimalParseError (decimal_fmt \<lparr>mantissa = - 5, scale = 3\<rparr>))"
  using decimal_display_roundtrip [of "\<lparr>mantissa = - 1234, scale = 3\<rparr>"] decimal_display_roundtrip [of "\<lparr>mantissa = - 5, scale = 3\<rparr>"]
  by (simp add: decimal_ok_def in_i128_def MAX_SCALE_def decimal_value_small_negative)
text \<open>C38. Comparison and addition. For two decimals whose mantissas still fit at the larger of the two scales,
  \<open>partial_cmp\<close> orders them as the numbers they stand for, and \<open>+=\<close> is exact when the sum of the mantissas
  fits as well.\<close>

theorem decimal_arithmetic_exact:
  assumes "decimal_ok a" "decimal_ok b" "n = max (scale a) (scale b)" "fits n a" "fits n b"
  shows "partial_cmp a b =
      Some (if decimal_value a < decimal_value b then Less else if decimal_value a = decimal_value b then Equal else Greater) \<and>
    (in_i128 (mantissa a * 10 ^ nat (n - scale a) + mantissa b * 10 ^ nat (n - scale b)) \<longrightarrow>
       decimal_value (add_assign a b) = decimal_value a + decimal_value b)"
proof -
  have m: "in_i128 (mantissa a)" "in_i128 (mantissa b)" using assms(1,2) by (simp_all add: decimal_ok_def)
  note f = assms(4,5) [unfolded assms(3)]
  have "rescale_to_cmp a b = (rescale n a, rescale n b)"
    using rescale_eq [OF m(1), of n] rescale_eq [OF m(2), of n] m assms(3)
    by (cases a; cases b) (auto simp: rescale_to_cmp_def max_def)
  then have "mantissa (fst (rescale_to_cmp a b)) = mantissa a * 10 ^ nat (n - scale a)"
      "mantissa (snd (rescale_to_cmp a b)) = mantissa b * 10 ^ nat (n - scale b)"
    using rescale_eq [OF m(1), of n] rescale_eq [OF m(2), of n] assms(3-5) by (simp_all add: fits_def)
  then show ?thesis
    using partial_cmp_value [OF m f] add_assign_value [OF m f] by simp
qed

theorem decimal_arithmetic_exact_witness:
  "partial_cmp \<lparr>mantissa = 15, scale = 1\<rparr> \<lparr>mantissa = 149, scale = 2\<rparr> = Some Greater \<and>
   decimal_value (add_assign \<lparr>mantissa = 15, scale = 1\<rparr> \<lparr>mantissa = 149, scale = 2\<rparr>) = 299 / 100"
  using decimal_arithmetic_exact [of "\<lparr>mantissa = 15, scale = 1\<rparr>" "\<lparr>mantissa = 149, scale = 2\<rparr>" 2]
  by (simp add: decimal_ok_def in_i128_def MAX_SCALE_def fits_def decimal_value_def)

text \<open>Where the rescaled mantissa leaves the range it wraps, and the order is wrong: the largest mantissa with
  scale 0 is found smaller than one tenth.\<close>

lemma decimal_cmp_overflow:
  "partial_cmp \<lparr>mantissa = 2 ^ 127 - 1, scale = 0\<rparr> \<lparr>mantissa = 1, scale = 1\<rparr> = Some Less \<and>
   decimal_value \<lparr>mantissa = 2 ^ 127 - 1, scale = 0\<rparr> > decimal_value \<lparr>mantissa = 1, scale = 1\<rparr>"
proof -
  have "in_i128 (2 ^ 127 - 1)" "in_i128 1" by (simp_all add: in_i128_def)
  then show ?thesis
    using rescale_eq [of "\<lparr>mantissa = 2 ^ 127 - 1, scale = 0\<rparr>" 1]
    by (simp add: partial_cmp_def rescale_to_cmp_def int_cmp_def wrap_i128_def decimal_value_def)
qed

text \<open>C39. Range of a parsed number. A text with an optional minus sign, digits, a point and at most 38 decimals
  is refused when the integer part leaves the range after scaling, and only then; adding the decimals is
  not checked and wraps around.\<close>

theorem from_str_bounds:
  assumes "ip \<noteq> []" "list_all is_ascii_digit ip" "fp \<noteq> []" "list_all is_ascii_digit fp" "length fp \<le> MAX_SCALE"
  shows "from_str (sign_text m @ ip @ ''.'' @ fp) =
    (let sg = if m < 0 then - 1 else 1; i = sg * int_of_dec ip * 10 ^ length fp
     in if in_i128 i then Ok \<lparr>mantissa = wrap_i128 (i + sg * int_of_dec fp), scale = int (length fp)\<rparr>
        else Err (DecimalParseError (sign_text m @ ip @ ''.'' @ fp)))"
  using from_str_fraction [OF assms refl refl, of m] by (simp add: point_text_def Let_def del: append_Cons)

theorem from_str_bounds_witness:
  "from_str (''-'' @ ''12'' @ ''.'' @ ''50'') = Ok \<lparr>mantissa = - 1250, scale = 2\<rparr> \<and>
   from_str (''1'' @ ''.'' @ CHR ''8'' # replicate 37 CHR ''0'') =
     Ok \<lparr>mantissa = 18 * 10 ^ 37 - 2 ^ 128, scale = 38\<rparr>"
proof -
  have d: "is_ascii_digit CHR ''1''" "is_ascii_digit CHR ''2''" "is_ascii_digit CHR ''5''" "is_ascii_digit CHR ''8''"
    "digit_value CHR ''1'' = 1" "digit_value CHR ''2'' = 2" "digit_value CHR ''5'' = 5" "digit_value CHR ''8'' = 8"
    by (simp_all add: is_ascii_digit_def digit_value_def)
  have i: "int_of_dec ''12'' = 12" "int_of_dec ''50'' = 50" "int_of_dec (CHR ''8'' # replicate 37 CHR ''0'') = 8 * 10 ^ 37"
    using int_of_dec_append [of "''1''" "''2''"] int_of_dec_append [of "''5''" "''0''"]
      int_of_dec_append [of "''8''" "replicate 37 CHR ''0''"] d
    by simp_all
  have "from_str (sign_text (- 1) @ ''12'' @ ''.'' @ ''50'') = Ok \<lparr>mantissa = - 1250, scale = 2\<rparr>"
    using from_str_bounds [of "''12''" "''50''" "- 1"] d i by (simp add: MAX_SCALE_def in_i128_def)
  moreover have "from_str (sign_text 0 @ ''1'' @ ''.'' @ CHR ''8'' # replicate 37 CHR ''0'') =
      Ok \<lparr>mantissa = 18 * 10 ^ 37 - 2 ^ 128, scale = 38\<rparr>"
    using from_str_bounds [of "''1''" "CHR ''8'' # replicate 37 CHR ''0''" 0] d i
    by (simp add: MAX_SCALE_def in_i128_def wrap_i128_def)
  ultimately show ?thesis by (simp add: sign_text_def)
qed















end
