(* ===== verification/Pg_Messages.thy ===== *)
theory Pg_Messages
  imports Prelude
begin

section \<open>Messages of the Postgres protocol\<close>

text \<open>
  The messages of \<open>crates/pgsrv/src/messages.rs\<close>, with the formats, notices and errors they carry
  (\<open>crates/pgrepr/src/format.rs\<close>, \<open>notice.rs\<close> and \<open>crates/pgsrv/src/errors.rs\<close>; of the error enums, the variants that
  the codec produces). A type of Postgres enters only with its oid. The record batch of a data row is a
  type of Arrow, here a type variable.
\<close>

unbundle bit_operations_syntax

type_synonym i16 = "16 word"

subsection \<open>Formats and notices\<close>

datatype format = TextFormat | BinaryFormat

datatype pg_repr_error = InvalidFormatCode i16 | PgReprString string

fun format_into_i16 :: "format \<Rightarrow> i16" where
  "format_into_i16 TextFormat = 0"
| "format_into_i16 BinaryFormat = 1"

definition format_try_from :: "i16 \<Rightarrow> (pg_repr_error, format) outcome" where
  "format_try_from value =
     (if value = 0 then Ok TextFormat else if value = 1 then Ok BinaryFormat else Err (InvalidFormatCode value))"

datatype sql_state = Successful | WarningState | FeatureNotSupported | SyntaxError | InternalErrorState

fun as_code_str :: "sql_state \<Rightarrow> string" where
  "as_code_str Successful = ''00000''"
| "as_code_str WarningState = ''01000''"
| "as_code_str FeatureNotSupported = ''0A000''"
| "as_code_str SyntaxError = ''42601''"
| "as_code_str InternalErrorState = ''XX000''"

datatype notice_severity =
  Debug5 | Debug4 | Debug3 | Debug2 | Debug1 | NoticeLog | NoticeNotice | NoticeWarning | NoticeError | NoticeInfo

fun notice_severity_as_str :: "notice_severity \<Rightarrow> string" where
  "notice_severity_as_str Debug5 = ''DEBUG5''"
| "notice_severity_as_str Debug4 = ''DEBUG4''"
| "notice_severity_as_str Debug3 = ''DEBUG3''"
| "notice_severity_as_str Debug2 = ''DEBUG2''"
| "notice_severity_as_str Debug1 = ''DEBUG1''"
| "notice_severity_as_str NoticeLog = ''LOG''"
| "notice_severity_as_str NoticeNotice = ''NOTICE''"
| "notice_severity_as_str NoticeWarning = ''WARNING''"
| "notice_severity_as_str NoticeError = ''ERROR''"
| "notice_severity_as_str NoticeInfo = ''INFO''"

definition notice_severity_from_str :: "string \<Rightarrow> (pg_repr_error, notice_severity) outcome" where
  "notice_severity_from_str s =
     (if s = ''DEBUG5'' then Ok Debug5
      else if s = ''DEBUG4'' then Ok Debug4
      else if s = ''DEBUG3'' then Ok Debug3
      else if s = ''DEBUG2'' then Ok Debug2
      else if s = ''DEBUG1'' then Ok Debug1
      else if s = ''LOG'' then Ok NoticeLog
      else if s = ''NOTICE'' then Ok NoticeNotice
      else if s = ''WARNING'' then Ok NoticeWarning
      else if s = ''ERROR'' then Ok NoticeError
      else if s = ''INFO'' then Ok NoticeInfo
      else Err (PgReprString (''unknown notice severity: '' @ s)))"

record notice =
  nt_severity :: notice_severity
  nt_code :: sql_state
  nt_message :: string

definition notice_info :: "string \<Rightarrow> notice" where
  "notice_info msg = \<lparr>nt_severity = NoticeInfo, nt_code = Successful, nt_message = msg\<rparr>"

subsection \<open>Versions and startup\<close>

definition VERSION_V3 :: i32 where
  "VERSION_V3 = 0x30000"

definition VERSION_CANCEL :: i32 where
  "VERSION_CANCEL = push_bit 16 1234 XOR 5678"

definition VERSION_SSL :: i32 where
  "VERSION_SSL = push_bit 16 1234 XOR 5679"

datatype startup_message =
    SSLRequest i32
  | CancelRequest i32
  | StartupRequest i32 "(string, string) hashmap"

subsection \<open>Frontend messages\<close>

datatype describe_object_type = Statement | Portal

datatype frontend_message =
    Query string
  | PasswordMessage string
  | Parse string string "i32 list"
  | Bind string string "format list" "bytes option list" "format list"
  | Describe describe_object_type string
  | Execute string i32
  | Close describe_object_type string
  | Sync
  | Flush
  | Terminate

fun frontend_message_name :: "frontend_message \<Rightarrow> string" where
  "frontend_message_name (Query sql) = ''query''"
| "frontend_message_name (PasswordMessage password) = ''password''"
| "frontend_message_name (Parse name sql param_types) = ''parse''"
| "frontend_message_name (Bind portal statement param_formats param_values result_formats) = ''bind''"
| "frontend_message_name (Describe object_type name) = ''describe''"
| "frontend_message_name (Execute portal max_rows) = ''execute''"
| "frontend_message_name (Close object_type name) = ''close''"
| "frontend_message_name Flush = ''flush''"
| "frontend_message_name Sync = ''sync''"
| "frontend_message_name Terminate = ''terminate''"

fun is_auth_message :: "frontend_message \<Rightarrow> bool" where
  "is_auth_message (PasswordMessage password) = True"
| "is_auth_message _ = False"

subsection \<open>Errors\<close>

datatype io_error = UnexpectedEof

datatype pg_srv_error =
    InvalidProtocolVersion i32
  | InvalidMsgLength i32
  | MsgTooLarge nat
  | PgInternalError string
  | InvalidMsgType u8
  | UnexpectedDescribeObjectType u8
  | MessageTooLarge nat
  | PgIo io_error
  | PgRepr pg_repr_error

type_synonym 'a pg_result = "(pg_srv_error, 'a) outcome"

definition describe_object_type_try_from :: "u8 \<Rightarrow> describe_object_type pg_result" where
  "describe_object_type_try_from value =
     (if value = 0x53 then Ok Statement else if value = 0x50 then Ok Portal
      else Err (UnexpectedDescribeObjectType value))"

subsection \<open>Backend messages\<close>

datatype transaction_status = Idle | InBlock | Failed

datatype error_severity = SeverityError | SeverityFatal | SeverityPanic

fun error_severity_as_str :: "error_severity \<Rightarrow> string" where
  "error_severity_as_str SeverityError = ''ERROR''"
| "error_severity_as_str SeverityFatal = ''FATAL''"
| "error_severity_as_str SeverityPanic = ''PANIC''"

record error_response =
  er_severity :: error_severity
  er_code :: sql_state
  er_message :: string

definition error_response_error :: "sql_state \<Rightarrow> string \<Rightarrow> error_response" where
  "error_response_error code msg = \<lparr>er_severity = SeverityError, er_code = code, er_message = msg\<rparr>"

definition feature_not_supported :: "string \<Rightarrow> error_response" where
  "feature_not_supported msg = error_response_error FeatureNotSupported msg"

definition error_internal :: "string \<Rightarrow> error_response" where
  "error_internal msg = error_response_error InternalErrorState msg"

definition fatal_internal :: "string \<Rightarrow> error_response" where
  "fatal_internal msg = \<lparr>er_severity = SeverityFatal, er_code = InternalErrorState, er_message = msg\<rparr>"

record field_description =
  fd_name :: string
  fd_table_id :: i32
  fd_col_id :: i16
  fd_type_oid :: i32
  fd_type_size :: i16
  fd_type_mod :: i32
  fd_format :: i16

record field_description_builder =
  fb_name :: string
  fb_pg_type :: "u32 option"
  fb_format :: format

definition field_description_new :: "string \<Rightarrow> field_description_builder" where
  "field_description_new name = \<lparr>fb_name = name, fb_pg_type = None, fb_format = TextFormat\<rparr>"

definition with_format :: "format \<Rightarrow> field_description_builder \<Rightarrow> field_description_builder" where
  "with_format f b = b\<lparr>fb_format := f\<rparr>"

definition with_type :: "u32 \<Rightarrow> field_description_builder \<Rightarrow> field_description_builder" where
  "with_type pg_oid b = b\<lparr>fb_pg_type := Some pg_oid\<rparr>"

definition field_description_build :: "field_description_builder \<Rightarrow> field_description pg_result" where
  "field_description_build b =
     (case fb_pg_type b of
        None \<Rightarrow> Err (PgInternalError ''type cannot be `None` in field description'')
      | Some pg_oid \<Rightarrow>
          Ok \<lparr>fd_name = fb_name b, fd_table_id = 0, fd_col_id = 0, fd_type_oid = pg_oid, fd_type_size = 0,
            fd_type_mod = 0, fd_format = format_into_i16 (fb_format b)\<rparr>)"

datatype 'b backend_message =
    ErrorResponse error_response
  | NoticeResponse notice
  | AuthenticationOk
  | AuthenticationCleartextPassword
  | ParameterStatus string string
  | EmptyQueryResponse
  | ReadyForQuery transaction_status
  | CommandComplete string
  | RowDescription "field_description list"
  | DataRow 'b nat
  | ParseComplete
  | BindComplete
  | CloseComplete
  | NoData
  | ParameterDescription "i32 list"

end
