(* ===== verification/Pg_Codec.thy ===== *)
theory Pg_Codec
  imports Pg_Messages
begin

section \<open>The codec of the Postgres protocol\<close>

text \<open>
  \<open>PgCodec\<close> of \<open>crates/pgsrv/src/codec/server.rs\<close>, \<open>PgClientCodec\<close> of \<open>client.rs\<close> and the cursor of
  \<open>crates/bytesutil/src/lib.rs\<close>. A cursor is what is left of its buffer; reading past the end panics, as the methods of the
  \<open>bytes\<close> library do. A buffer that is written to is returned with what was appended, also on an error.

  The values of a data row are encoded by the record \<open>scalars\<close>: the columns of a batch, \<open>Scalar::try_from_array\<close>,
  \<open>is_null\<close> and \<open>encode_with_format\<close>, which appends to the buffer.
\<close>

subsection \<open>Bytes\<close>

definition str_bytes :: "string \<Rightarrow> bytes" where
  "str_bytes s = map (\<lambda>c. word_of_nat (of_char c)) s"

definition bytes_str :: "bytes \<Rightarrow> string" where
  "bytes_str bs = map (\<lambda>b. char_of (unat b)) bs"

definition byte :: "char \<Rightarrow> u8" where
  "byte c = word_of_nat (of_char c)"

definition i16_to_be :: "i16 \<Rightarrow> bytes" where
  "i16_to_be w = [ucast (drop_bit 8 w), ucast w]"

definition i16_from_be :: "u8 \<Rightarrow> u8 \<Rightarrow> i16" where
  "i16_from_be a b = push_bit 8 (ucast a) OR ucast b"

definition i32_to_be :: "i32 \<Rightarrow> bytes" where
  "i32_to_be w = [ucast (drop_bit 24 w), ucast (drop_bit 16 w), ucast (drop_bit 8 w), ucast w]"

definition i32_from_be :: "u8 \<Rightarrow> u8 \<Rightarrow> u8 \<Rightarrow> u8 \<Rightarrow> i32" where
  "i32_from_be a b c d = push_bit 24 (ucast a) OR push_bit 16 (ucast b) OR push_bit 8 (ucast c) OR ucast d"

text \<open>The check of \<open>str::from_utf8\<close>.\<close>

definition utf8_tail :: "u8 \<Rightarrow> bool" where
  "utf8_tail b \<longleftrightarrow> 0x80 \<le> b \<and> b \<le> 0xBF"

fun valid_utf8 :: "bytes \<Rightarrow> bool" where
  "valid_utf8 [] = True"
| "valid_utf8 (a # bs) =
     (if a \<le> 0x7F then valid_utf8 bs
      else if 0xC2 \<le> a \<and> a \<le> 0xDF then (case bs of b # r \<Rightarrow> utf8_tail b \<and> valid_utf8 r | _ \<Rightarrow> False)
      else if 0xE0 \<le> a \<and> a \<le> 0xEF then
        (case bs of
           b # c # r \<Rightarrow>
             utf8_tail b \<and> utf8_tail c \<and> (a = 0xE0 \<longrightarrow> 0xA0 \<le> b) \<and> (a = 0xED \<longrightarrow> b \<le> 0x9F) \<and> valid_utf8 r
         | _ \<Rightarrow> False)
      else if 0xF0 \<le> a \<and> a \<le> 0xF4 then
        (case bs of
           b # c # d # r \<Rightarrow>
             utf8_tail b \<and> utf8_tail c \<and> utf8_tail d \<and> (a = 0xF0 \<longrightarrow> 0x90 \<le> b) \<and> (a = 0xF4 \<longrightarrow> b \<le> 0x8F) \<and>
             valid_utf8 r
         | _ \<Rightarrow> False)
      else False)"

subsection \<open>The cursor\<close>

definition advance :: "nat \<Rightarrow> bytes \<Rightarrow> bytes pg_result" where
  "advance cnt buf = (if cnt \<le> length buf then Ok (drop cnt buf) else Panic ''range start index out of range'')"

definition read_cstring :: "bytes \<Rightarrow> (io_error, string \<times> bytes) outcome" where
  "read_cstring buf =
     (if 0 \<in> set buf
      then (let s = takeWhile (\<lambda>b. b \<noteq> 0) buf
            in if valid_utf8 s then Ok (bytes_str s, drop (length s + 1) buf)
               else Panic ''called unwrap on an Err value'')
      else Err UnexpectedEof)"

definition peek_next_is_null :: "bytes \<Rightarrow> bool" where
  "peek_next_is_null buf \<longleftrightarrow> buf \<noteq> [] \<and> hd buf = 0"

definition get_u8 :: "bytes \<Rightarrow> (u8 \<times> bytes) pg_result" where
  "get_u8 buf = (case buf of a # r \<Rightarrow> Ok (a, r) | _ \<Rightarrow> Panic ''advance out of bounds'')"

definition get_i16 :: "bytes \<Rightarrow> (i16 \<times> bytes) pg_result" where
  "get_i16 buf = (case buf of a # b # r \<Rightarrow> Ok (i16_from_be a b, r) | _ \<Rightarrow> Panic ''advance out of bounds'')"

definition get_i32 :: "bytes \<Rightarrow> (i32 \<times> bytes) pg_result" where
  "get_i32 buf =
     (case buf of a # b # c # d # r \<Rightarrow> Ok (i32_from_be a b c d, r) | _ \<Rightarrow> Panic ''advance out of bounds'')"

definition copy_to_slice :: "nat \<Rightarrow> bytes \<Rightarrow> (bytes \<times> bytes) pg_result" where
  "copy_to_slice n buf =
     (if n \<le> length buf then Ok (take n buf, drop n buf) else Panic ''advance out of bounds'')"

definition put_cstring :: "string \<Rightarrow> bytes \<Rightarrow> bytes" where
  "put_cstring s dst = dst @ str_bytes s @ [0]"

text \<open>\<open>as usize\<close> extends the sign; a capacity of more than \<open>isize::MAX\<close> bytes panics.\<close>

definition i16_as_usize :: "i16 \<Rightarrow> nat" where
  "i16_as_usize w = unat (scast w :: u64)"

definition i32_as_usize :: "i32 \<Rightarrow> nat" where
  "i32_as_usize w = unat (scast w :: u64)"

definition with_capacity :: "nat \<Rightarrow> nat \<Rightarrow> unit pg_result" where
  "with_capacity elem_size n = (if n * elem_size < 2 ^ 63 then Ok () else Panic ''capacity overflow'')"

text \<open>A loop that reads \<open>n\<close> elements.\<close>

primrec get_many :: "(bytes \<Rightarrow> ('a \<times> bytes) pg_result) \<Rightarrow> nat \<Rightarrow> bytes \<Rightarrow> ('a list \<times> bytes) pg_result" where
  "get_many get 0 buf = Ok ([], buf)"
| "get_many get (Suc n) buf =
     obind (get buf) (\<lambda>(x, buf). obind (get_many get n buf) (\<lambda>(xs, buf). Ok (x # xs, buf)))"

definition get_cstring :: "bytes \<Rightarrow> (string \<times> bytes) pg_result" where
  "get_cstring buf = omap_err PgIo (read_cstring buf)"

definition get_format :: "bytes \<Rightarrow> (format \<times> bytes) pg_result" where
  "get_format buf = obind (get_i16 buf) (\<lambda>(w, buf). obind (omap_err PgRepr (format_try_from w)) (\<lambda>f. Ok (f, buf)))"

subsection \<open>The server reads\<close>

text \<open>The bytes of the connection are an argument; \<open>read_i32\<close> and \<open>read_exact\<close> fail where it ends.\<close>

definition conn_read :: "nat \<Rightarrow> bytes \<Rightarrow> (bytes \<times> bytes) pg_result" where
  "conn_read n conn = (if n \<le> length conn then Ok (take n conn, drop n conn) else Err (PgIo UnexpectedEof))"

definition conn_read_i32 :: "bytes \<Rightarrow> (i32 \<times> bytes) pg_result" where
  "conn_read_i32 conn = obind (conn_read 4 conn) (\<lambda>(bs, conn). obind (get_i32 bs) (\<lambda>(w, r). Ok (w, conn)))"

function read_params :: "bytes \<Rightarrow> (string, string) hashmap \<Rightarrow> (string, string) hashmap pg_result" where
  "read_params buf params =
     (if buf = [] \<or> peek_next_is_null buf then Ok params
      else
        (case get_cstring buf of
           Ok (key, buf1) \<Rightarrow>
             (case get_cstring buf1 of
                Ok (val, buf2) \<Rightarrow> read_params buf2 (hm_insert key val params)
              | Err e \<Rightarrow> Err e
              | Panic msg \<Rightarrow> Panic msg)
         | Err e \<Rightarrow> Err e
         | Panic msg \<Rightarrow> Panic msg))"
  by auto
termination
  by (relation "measure (\<lambda>(buf, params). length buf)")
    (auto simp: get_cstring_def read_cstring_def Let_def split: if_splits)

declare read_params.simps [simp del]

definition decode_startup_from_conn :: "bytes \<Rightarrow> bytes \<times> startup_message pg_result" where
  "decode_startup_from_conn conn =
     (case conn_read_i32 conn of
        Ok (msg_len, conn) \<Rightarrow>
          (case conn_read_i32 conn of
             Ok (version, conn) \<Rightarrow>
               if version = VERSION_V3 then
                 (if sint msg_len < 8 then (conn, Err (InvalidMsgLength msg_len))
                  else
                    (case conn_read (unat msg_len - 8) conn of
                       Ok (buf, conn) \<Rightarrow> (conn, obind (read_params buf []) (\<lambda>params. Ok (StartupRequest version params)))
                     | Err e \<Rightarrow> ([], Err e)
                     | Panic msg \<Rightarrow> (conn, Panic msg)))
               else if version = VERSION_SSL then (conn, Ok (SSLRequest version))
               else if version = VERSION_CANCEL then (conn, Ok (CancelRequest version))
               else (conn, Err (InvalidProtocolVersion version))
           | Err e \<Rightarrow> ([], Err e)
           | Panic msg \<Rightarrow> (conn, Panic msg))
      | Err e \<Rightarrow> ([], Err e)
      | Panic msg \<Rightarrow> (conn, Panic msg))"

definition decode_query :: "bytes \<Rightarrow> frontend_message pg_result" where
  "decode_query buf = obind (get_cstring buf) (\<lambda>(sql, buf). Ok (Query sql))"

definition decode_password :: "bytes \<Rightarrow> frontend_message pg_result" where
  "decode_password buf = obind (get_cstring buf) (\<lambda>(password, buf). Ok (PasswordMessage password))"

definition decode_parse :: "bytes \<Rightarrow> frontend_message pg_result" where
  "decode_parse buf =
     obind (get_cstring buf) (\<lambda>(name, buf).
     obind (get_cstring buf) (\<lambda>(sql, buf).
     obind (get_i16 buf) (\<lambda>(n, buf).
     obind (with_capacity 4 (i16_as_usize n)) (\<lambda>_.
     obind (get_many get_i32 (i16_as_usize n) buf) (\<lambda>(param_types, buf).
     Ok (Parse name sql param_types))))))"

definition get_value :: "bytes \<Rightarrow> (bytes option \<times> bytes) pg_result" where
  "get_value buf =
     obind (get_i32 buf) (\<lambda>(len, buf).
     if len = - 1 then Ok (None, buf)
     else
       obind (with_capacity 1 (i32_as_usize len)) (\<lambda>_.
       obind (copy_to_slice (i32_as_usize len) buf) (\<lambda>(val, buf). Ok (Some val, buf))))"

definition decode_bind :: "bytes \<Rightarrow> frontend_message pg_result" where
  "decode_bind buf =
     obind (get_cstring buf) (\<lambda>(portal, buf).
     obind (get_cstring buf) (\<lambda>(statement, buf).
     obind (get_i16 buf) (\<lambda>(n, buf).
     obind (with_capacity 1 (i16_as_usize n)) (\<lambda>_.
     obind (get_many get_format (i16_as_usize n) buf) (\<lambda>(param_formats, buf).
     obind (get_i16 buf) (\<lambda>(n, buf).
     obind (with_capacity 24 (i16_as_usize n)) (\<lambda>_.
     obind (get_many get_value (i16_as_usize n) buf) (\<lambda>(param_values, buf).
     obind (get_i16 buf) (\<lambda>(n, buf).
     obind (with_capacity 1 (i16_as_usize n)) (\<lambda>_.
     obind (get_many get_format (i16_as_usize n) buf) (\<lambda>(result_formats, buf).
     Ok (Bind portal statement param_formats param_values result_formats))))))))))))"

definition decode_describe :: "bytes \<Rightarrow> frontend_message pg_result" where
  "decode_describe buf =
     obind (get_u8 buf) (\<lambda>(t, buf).
     obind (describe_object_type_try_from t) (\<lambda>object_type.
     obind (get_cstring buf) (\<lambda>(name, buf). Ok (Describe object_type name))))"

definition decode_execute :: "bytes \<Rightarrow> frontend_message pg_result" where
  "decode_execute buf =
     obind (get_cstring buf) (\<lambda>(portal, buf).
     obind (get_i32 buf) (\<lambda>(max_rows, buf). Ok (Execute portal max_rows)))"

definition decode_close :: "bytes \<Rightarrow> frontend_message pg_result" where
  "decode_close buf =
     obind (get_u8 buf) (\<lambda>(t, buf).
     obind (describe_object_type_try_from t) (\<lambda>object_type.
     obind (get_cstring buf) (\<lambda>(name, buf). Ok (Close object_type name))))"

definition decode_sync :: "bytes \<Rightarrow> frontend_message pg_result" where
  "decode_sync buf = Ok Sync"

definition decode_flush :: "bytes \<Rightarrow> frontend_message pg_result" where
  "decode_flush buf = Ok Flush"

definition decode_terminate :: "bytes \<Rightarrow> frontend_message pg_result" where
  "decode_terminate buf = Ok Terminate"

definition decode_body :: "u8 \<Rightarrow> bytes \<Rightarrow> frontend_message pg_result" where
  "decode_body msg_type buf =
     (if msg_type = byte CHR ''Q'' then decode_query buf
      else if msg_type = byte CHR ''p'' then decode_password buf
      else if msg_type = byte CHR ''P'' then decode_parse buf
      else if msg_type = byte CHR ''B'' then decode_bind buf
      else if msg_type = byte CHR ''D'' then decode_describe buf
      else if msg_type = byte CHR ''E'' then decode_execute buf
      else if msg_type = byte CHR ''C'' then decode_close buf
      else if msg_type = byte CHR ''S'' then decode_sync buf
      else if msg_type = byte CHR ''H'' then decode_flush buf
      else if msg_type = byte CHR ''X'' then decode_terminate buf
      else Err (InvalidMsgType msg_type))"

text \<open>The frame of a message, which both codecs cut off the buffer before they decode its body. The length
  that is read is extended with its sign to \<open>usize\<close>, and the byte of the type is added with wrap-around.\<close>

definition frame_end :: "bytes \<Rightarrow> u64" where
  "frame_end src = scast (i32_from_be (src ! 1) (src ! 2) (src ! 3) (src ! 4)) + 1"

definition decode_frame :: "(u8 \<Rightarrow> bytes \<Rightarrow> 'm pg_result) \<Rightarrow> bytes \<Rightarrow> bytes \<times> 'm option pg_result" where
  "decode_frame body src =
     (if length src < 5 then (src, Ok None)
      else
        (let n = unat (frame_end src) in
         if length src < n
         then (if n < 2 ^ 63 then (src, Ok None) else (src, Panic ''capacity overflow''))
         else
           (drop n src,
            obind (advance 5 (take n src)) (\<lambda>buf.
            obind (body (src ! 0) buf) (\<lambda>msg. Ok (Some msg))))))"

definition decode :: "bytes \<Rightarrow> bytes \<times> frontend_message option pg_result" where
  "decode src = decode_frame decode_body src"

subsection \<open>The server writes\<close>

record ('b, 't, 'v) scalars =
  sc_num_columns :: "'b \<Rightarrow> nat"
  sc_try_from_array :: "'b \<Rightarrow> nat \<Rightarrow> nat \<Rightarrow> 't \<Rightarrow> 'v pg_result"
  sc_is_null :: "'v \<Rightarrow> bool"
  sc_encode_with_format :: "format \<Rightarrow> 'v \<Rightarrow> bytes \<Rightarrow> bytes \<times> unit pg_result"

type_synonym 't encoding_state = "('t \<times> format) list"

fun message_byte :: "'b backend_message \<Rightarrow> u8" where
  "message_byte AuthenticationOk = byte CHR ''R''"
| "message_byte AuthenticationCleartextPassword = byte CHR ''R''"
| "message_byte EmptyQueryResponse = byte CHR ''I''"
| "message_byte (ParameterStatus key val) = byte CHR ''S''"
| "message_byte (ReadyForQuery status) = byte CHR ''Z''"
| "message_byte (CommandComplete t) = byte CHR ''C''"
| "message_byte (RowDescription descs) = byte CHR ''T''"
| "message_byte (DataRow batch row_idx) = byte CHR ''D''"
| "message_byte (ErrorResponse e) = byte CHR ''E''"
| "message_byte (NoticeResponse n) = byte CHR ''N''"
| "message_byte ParseComplete = byte CHR ''1''"
| "message_byte BindComplete = byte CHR ''2''"
| "message_byte CloseComplete = byte CHR ''3''"
| "message_byte NoData = byte CHR ''n''"
| "message_byte (ParameterDescription descs) = byte CHR ''t''"

fun status_byte :: "transaction_status \<Rightarrow> u8" where
  "status_byte Idle = byte CHR ''I''"
| "status_byte InBlock = byte CHR ''T''"
| "status_byte Failed = byte CHR ''E''"

definition put_field :: "bytes \<Rightarrow> field_description \<Rightarrow> bytes" where
  "put_field dst desc =
     put_cstring (fd_name desc) dst @ i32_to_be (fd_table_id desc) @ i16_to_be (fd_col_id desc) @
     i32_to_be (fd_type_oid desc) @ i16_to_be (fd_type_size desc) @ i32_to_be (fd_type_mod desc) @
     i16_to_be (fd_format desc)"

definition put_problem :: "string \<Rightarrow> string \<Rightarrow> string \<Rightarrow> bytes \<Rightarrow> bytes" where
  "put_problem severity code message dst =
     put_cstring message (put_cstring code (put_cstring severity (put_cstring severity
       (dst @ [byte CHR ''S'']) @ [byte CHR ''V'']) @ [byte CHR ''C'']) @ [byte CHR ''M'']) @ [0]"

text \<open>The bytes at an index are overwritten with a length.\<close>

definition patch :: "nat \<Rightarrow> bytes \<Rightarrow> bytes \<Rightarrow> bytes" where
  "patch i bs dst = take i dst @ bs @ drop (i + length bs) dst"

primrec put_cells ::
  "('b, 't, 'v) scalars \<Rightarrow> 'b \<Rightarrow> nat \<Rightarrow> (nat \<times> 't \<times> format) list \<Rightarrow> bytes \<Rightarrow> bytes \<times> unit pg_result" where
  "put_cells sc batch row_idx [] dst = (dst, Ok ())"
| "put_cells sc batch row_idx (c # cs) dst =
     (case c of (col, pg_type, f) \<Rightarrow>
      sbind (dst, sc_try_from_array sc batch col row_idx pg_type) (\<lambda>scalar dst.
      if sc_is_null sc scalar then put_cells sc batch row_idx cs (dst @ i32_to_be (- 1))
      else
        (let len_idx = length dst; dst = dst @ i32_to_be 0 in
         sbind (sc_encode_with_format sc f scalar dst) (\<lambda>_ dst.
         let val_len = length dst - len_idx - 4 in
         if val_len < 2 ^ 31
         then put_cells sc batch row_idx cs (patch len_idx (i32_to_be (word_of_nat val_len)) dst)
         else (dst, Err (MessageTooLarge val_len))))))"

fun put_body ::
  "('b, 't, 'v) scalars \<Rightarrow> 't encoding_state \<Rightarrow> 'b backend_message \<Rightarrow> bytes \<Rightarrow> bytes \<times> unit pg_result" where
  "put_body sc es AuthenticationOk dst = (dst @ i32_to_be 0, Ok ())"
| "put_body sc es AuthenticationCleartextPassword dst = (dst @ i32_to_be 3, Ok ())"
| "put_body sc es EmptyQueryResponse dst = (dst, Ok ())"
| "put_body sc es ParseComplete dst = (dst, Ok ())"
| "put_body sc es BindComplete dst = (dst, Ok ())"
| "put_body sc es CloseComplete dst = (dst, Ok ())"
| "put_body sc es NoData dst = (dst, Ok ())"
| "put_body sc es (ParameterStatus key val) dst = (put_cstring val (put_cstring key dst), Ok ())"
| "put_body sc es (ReadyForQuery status) dst = (dst @ [status_byte status], Ok ())"
| "put_body sc es (CommandComplete t) dst = (put_cstring t dst, Ok ())"
| "put_body sc es (RowDescription descs) dst =
     (foldl put_field (dst @ i16_to_be (word_of_nat (length descs))) descs, Ok ())"
| "put_body sc es (DataRow batch row_idx) dst =
     put_cells sc batch row_idx (zip [0..<sc_num_columns sc batch] es)
       (dst @ i16_to_be (word_of_nat (sc_num_columns sc batch)))"
| "put_body sc es (ErrorResponse e) dst =
     (put_problem (error_severity_as_str (er_severity e)) (as_code_str (er_code e)) (er_message e) dst, Ok ())"
| "put_body sc es (NoticeResponse n) dst =
     (put_problem (notice_severity_as_str (nt_severity n)) (as_code_str (nt_code n)) (nt_message n) dst, Ok ())"
| "put_body sc es (ParameterDescription descs) dst =
     (foldl (\<lambda>dst desc. dst @ i32_to_be desc) (dst @ i16_to_be (word_of_nat (length descs))) descs, Ok ())"

definition put_length :: "nat \<Rightarrow> bytes \<Rightarrow> bytes \<times> unit pg_result" where
  "put_length len_idx dst =
     (let msg_len = length dst - len_idx in
      if msg_len < 2 ^ 31 then (patch len_idx (i32_to_be (word_of_nat msg_len)) dst, Ok ())
      else (dst, Err (MsgTooLarge msg_len)))"

definition encode ::
  "('b, 't, 'v) scalars \<Rightarrow> 't encoding_state \<Rightarrow> 'b backend_message \<Rightarrow> bytes \<Rightarrow> bytes \<times> unit pg_result" where
  "encode sc es item dst =
     (let dst = dst @ [message_byte item]; len_idx = length dst in
      sbind (put_body sc es item (dst @ i32_to_be 0)) (\<lambda>_ dst. put_length len_idx dst))"

subsection \<open>The client\<close>

definition encode_startup :: "startup_message \<Rightarrow> bytes \<Rightarrow> bytes \<times> unit pg_result" where
  "encode_startup item dst =
     (case item of
        StartupRequest version params \<Rightarrow>
          (let len = 4 + 4 + sum_list (map (\<lambda>(k, v). length k + length v + 2) params) + 1 in
           (foldl (\<lambda>dst (k, v). dst @ str_bytes k @ [0] @ str_bytes v @ [0])
              (dst @ i32_to_be (word_of_nat len) @ i32_to_be version) params @ [0], Ok ()))
      | SSLRequest version \<Rightarrow> (dst, Panic ''not yet implemented: encode<StartupMessage::SSLRequest>'')
      | CancelRequest version \<Rightarrow> (dst, Panic ''not yet implemented: encode<StartupMessage::CancelRequest>''))"

definition encode_frontend :: "frontend_message \<Rightarrow> bytes \<Rightarrow> bytes \<times> unit pg_result" where
  "encode_frontend item dst =
     (case item of
        PasswordMessage password \<Rightarrow>
          (let dst = dst @ [byte CHR ''p'']; len_idx = length dst
           in put_length len_idx (put_cstring password (dst @ i32_to_be 0)))
      | _ \<Rightarrow> (dst, Panic ''not implemented: encode<FrontendMessage>''))"

definition decode_authentication :: "bytes \<Rightarrow> 'b backend_message pg_result" where
  "decode_authentication buf =
     obind (get_i32 buf) (\<lambda>(auth_type, buf).
     if auth_type = 0 then Ok AuthenticationOk
     else if auth_type = 3 then Ok AuthenticationCleartextPassword
     else Panic ''not implemented: auth type'')"

definition decode_backend_body :: "u8 \<Rightarrow> bytes \<Rightarrow> 'b backend_message pg_result" where
  "decode_backend_body msg_type buf =
     (if msg_type = byte CHR ''R'' then decode_authentication buf else Err (InvalidMsgType msg_type))"

definition decode_backend :: "bytes \<Rightarrow> bytes \<times> 'b backend_message option pg_result" where
  "decode_backend src = decode_frame decode_backend_body src"

subsection \<open>A connection with one message to look ahead\<close>

record 's framed_conn =
  fc_peeked :: "frontend_message option option"
  fc_conn :: 's

text \<open>\<open>next\<close> is \<open>try_next\<close> of the framed connection.\<close>

type_synonym 's try_next = "'s \<Rightarrow> 's \<times> frontend_message option pg_result"

definition framed_read :: "'s try_next \<Rightarrow> 's framed_conn \<Rightarrow> 's framed_conn \<times> frontend_message option pg_result" where
  "framed_read next fc =
     (case fc_peeked fc of
        Some peeked \<Rightarrow> (fc\<lparr>fc_peeked := None\<rparr>, Ok peeked)
      | None \<Rightarrow> (case next (fc_conn fc) of (conn, r) \<Rightarrow> (fc\<lparr>fc_conn := conn\<rparr>, r)))"

definition framed_peek :: "'s try_next \<Rightarrow> 's framed_conn \<Rightarrow> 's framed_conn \<times> frontend_message option pg_result" where
  "framed_peek next fc =
     (case fc_peeked fc of
        Some peeked \<Rightarrow> (fc, Ok peeked)
      | None \<Rightarrow> sbind (framed_read next fc) (\<lambda>peeked fc. (fc\<lparr>fc_peeked := Some peeked\<rparr>, Ok peeked)))"

end
