(* ===== verification/Pg_Frames.thy ===== *)
theory Pg_Frames
  imports Pg_Codec
begin

section \<open>The codec of the Postgres protocol: frames and messages\<close>

text \<open>
  What the server reads of a stream of frontend messages, written in the format of the protocol and cut
  into pieces anywhere, and what the frames of its own messages look like.
\<close>

subsection \<open>Bytes and numbers\<close>

lemma bytes_str_bytes [simp]: "bytes_str (str_bytes s) = s"
proof -
  have "of_char c < (256 :: nat)" for c by simp
  then have "take_bit 8 (of_char c :: nat) = of_char c" for c :: char by (simp add: take_bit_eq_mod)
  then show ?thesis by (simp add: bytes_str_def str_bytes_def unat_of_nat o_def map_idI unsigned_of_nat)
qed

lemma length_str_bytes [simp]: "length (str_bytes s) = length s"
  by (simp add: str_bytes_def)

lemma i16_be [simp]: "i16_from_be (ucast (drop_bit 8 w)) (ucast w) = w"
  unfolding i16_from_be_def by (rule bit_word_eqI) (auto simp: bit_simps)

lemma i32_be [simp]: "i32_from_be (ucast (drop_bit 24 w)) (ucast (drop_bit 16 w)) (ucast (drop_bit 8 w)) (ucast w) = w"
proof (rule bit_word_eqI)
  fix n assume "n < LENGTH(32)"
  consider "n < 8" | "8 \<le> n" "n < 16" | "16 \<le> n" "n < 24" | "24 \<le> n" by linarith
  then show "bit (i32_from_be (ucast (drop_bit 24 w)) (ucast (drop_bit 16 w)) (ucast (drop_bit 8 w)) (ucast w)) n = bit w n"
    using \<open>n < LENGTH(32)\<close> by cases (auto simp: i32_from_be_def bit_simps less_diff_conv2)
qed

lemma length_be [simp]: "length (i16_to_be w) = 2" "length (i32_to_be v) = 4"
  by (simp_all add: i16_to_be_def i32_to_be_def)

lemma get_i16_be [simp]: "get_i16 (i16_to_be w @ r) = Ok (w, r)"
  by (simp add: get_i16_def i16_to_be_def)

lemma get_i32_be [simp]: "get_i32 (i32_to_be w @ r) = Ok (w, r)"
  by (simp add: get_i32_def i32_to_be_def)

lemma sint_i16 [simp]: "n < 2 ^ 15 \<Longrightarrow> sint (word_of_nat n :: i16) = int n"
  by (simp add: signed_of_nat signed_take_bit_int_eq_self)

lemma sint_i32 [simp]: "n < 2 ^ 31 \<Longrightarrow> sint (word_of_nat n :: i32) = int n"
  by (simp add: signed_of_nat signed_take_bit_int_eq_self)

lemma unat_u64 [simp]: "n < 2 ^ 64 \<Longrightarrow> unat (word_of_nat n :: u64) = n"
  by (simp add: unsigned_of_nat take_bit_nat_eq_self)

lemma unat_i32: "n < 2 ^ 32 \<Longrightarrow> unat (word_of_nat n :: i32) = n"
  by (simp add: unsigned_of_nat take_bit_nat_eq_self)

lemma i16_as_usize_of_nat [simp]: "n < 2 ^ 15 \<Longrightarrow> i16_as_usize (word_of_nat n) = n"
  using unat_u64 [of n] by (simp add: i16_as_usize_def scast_eq)

lemma i32_as_usize_of_nat [simp]: "n < 2 ^ 31 \<Longrightarrow> i32_as_usize (word_of_nat n) = n"
  using unat_u64 [of n] by (simp add: i32_as_usize_def scast_eq)

subsection \<open>The messages of the protocol\<close>

text \<open>The format of frontend messages as the documentation of Postgres has it.\<close>

definition cstring :: "string \<Rightarrow> bytes" where
  "cstring s = str_bytes s @ [0]"

definition text_ok :: "string \<Rightarrow> bool" where
  "text_ok s \<longleftrightarrow> 0 \<notin> set (str_bytes s) \<and> valid_utf8 (str_bytes s)"

fun object_byte :: "describe_object_type \<Rightarrow> u8" where
  "object_byte Statement = byte CHR ''S''"
| "object_byte Portal = byte CHR ''P''"

definition counted :: "('a \<Rightarrow> bytes) \<Rightarrow> 'a list \<Rightarrow> bytes" where
  "counted enc xs = i16_to_be (word_of_nat (length xs)) @ concat (map enc xs)"

fun value_bytes :: "bytes option \<Rightarrow> bytes" where
  "value_bytes None = i32_to_be (- 1)"
| "value_bytes (Some v) = i32_to_be (word_of_nat (length v)) @ v"

fun value_ok :: "bytes option \<Rightarrow> bool" where
  "value_ok None = True"
| "value_ok (Some v) = (length v < 2 ^ 31)"

fun frontend_type :: "frontend_message \<Rightarrow> u8" where
  "frontend_type (Query sql) = byte CHR ''Q''"
| "frontend_type (PasswordMessage password) = byte CHR ''p''"
| "frontend_type (Parse name sql param_types) = byte CHR ''P''"
| "frontend_type (Bind portal statement param_formats param_values result_formats) = byte CHR ''B''"
| "frontend_type (Describe object_type name) = byte CHR ''D''"
| "frontend_type (Execute portal max_rows) = byte CHR ''E''"
| "frontend_type (Close object_type name) = byte CHR ''C''"
| "frontend_type Sync = byte CHR ''S''"
| "frontend_type Flush = byte CHR ''H''"
| "frontend_type Terminate = byte CHR ''X''"

fun frontend_payload :: "frontend_message \<Rightarrow> bytes" where
  "frontend_payload (Query sql) = cstring sql"
| "frontend_payload (PasswordMessage password) = cstring password"
| "frontend_payload (Parse name sql param_types) = cstring name @ cstring sql @ counted i32_to_be param_types"
| "frontend_payload (Bind portal statement param_formats param_values result_formats) =
     cstring portal @ cstring statement @ counted (i16_to_be \<circ> format_into_i16) param_formats @
     counted value_bytes param_values @ counted (i16_to_be \<circ> format_into_i16) result_formats"
| "frontend_payload (Describe object_type name) = object_byte object_type # cstring name"
| "frontend_payload (Execute portal max_rows) = cstring portal @ i32_to_be max_rows"
| "frontend_payload (Close object_type name) = object_byte object_type # cstring name"
| "frontend_payload Sync = []"
| "frontend_payload Flush = []"
| "frontend_payload Terminate = []"

definition frame :: "u8 \<Rightarrow> bytes \<Rightarrow> bytes" where
  "frame t body = t # i32_to_be (word_of_nat (length body + 4)) @ body"

definition frontend_frame :: "frontend_message \<Rightarrow> bytes" where
  "frontend_frame m = frame (frontend_type m) (frontend_payload m)"

text \<open>What can be sent: texts are UTF-8 without a zero byte, and lengths fit.\<close>

fun frontend_texts :: "frontend_message \<Rightarrow> string list" where
  "frontend_texts (Query sql) = [sql]"
| "frontend_texts (PasswordMessage password) = [password]"
| "frontend_texts (Parse name sql param_types) = [name, sql]"
| "frontend_texts (Bind portal statement param_formats param_values result_formats) = [portal, statement]"
| "frontend_texts (Describe object_type name) = [name]"
| "frontend_texts (Execute portal max_rows) = [portal]"
| "frontend_texts (Close object_type name) = [name]"
| "frontend_texts _ = []"

fun frontend_counts_ok :: "frontend_message \<Rightarrow> bool" where
  "frontend_counts_ok (Parse name sql param_types) \<longleftrightarrow> length param_types < 2 ^ 15"
| "frontend_counts_ok (Bind portal statement param_formats param_values result_formats) \<longleftrightarrow>
     length param_formats < 2 ^ 15 \<and> length param_values < 2 ^ 15 \<and> length result_formats < 2 ^ 15"
| "frontend_counts_ok _ \<longleftrightarrow> True"

definition frontend_ok :: "frontend_message \<Rightarrow> bool" where
  "frontend_ok m \<longleftrightarrow>
     list_all text_ok (frontend_texts m) \<and> frontend_counts_ok m \<and> length (frontend_payload m) + 4 < 2 ^ 31"

subsection \<open>Reading what was written\<close>

lemma get_cstring_put [simp]: "text_ok s \<Longrightarrow> get_cstring (cstring s @ r) = Ok (s, r)"
proof -
  assume s: "text_ok s"
  then have "takeWhile (\<lambda>b. b \<noteq> 0) (str_bytes s @ 0 # r) = str_bytes s"
    by (subst takeWhile_append2) (auto simp: text_ok_def)
  with s show ?thesis by (simp add: get_cstring_def read_cstring_def cstring_def text_ok_def)
qed

lemma get_cstring_end [simp]: "text_ok s \<Longrightarrow> get_cstring (cstring s) = Ok (s, [])"
  using get_cstring_put [of s "[]"] by simp

lemma get_i32_end [simp]: "get_i32 (i32_to_be w) = Ok (w, [])"
  using get_i32_be [of w "[]"] by simp

lemma get_format_put [simp]: "get_format (i16_to_be (format_into_i16 f) @ r) = Ok (f, r)"
  by (cases f) (simp_all add: get_format_def format_try_from_def)

lemma of_nat_neq_minus_one: "n < 2 ^ 31 \<Longrightarrow> (word_of_nat n :: i32) \<noteq> - 1"
  using sint_i32 [of n] by (metis of_nat_0_le_iff sint_n1 neg_0_le_iff_le not_one_le_zero)

lemma get_value_put: "value_ok v \<Longrightarrow> get_value (value_bytes v @ r) = Ok (v, r)"
  by (cases v) (simp_all add: get_value_def copy_to_slice_def with_capacity_def of_nat_neq_minus_one)

lemma get_many_put:
  assumes "\<And>x r. x \<in> set xs \<Longrightarrow> get (enc x @ r) = Ok (x, r)"
  shows "get_many get (length xs) (concat (map enc xs) @ r) = Ok (xs, r)"
  using assms by (induction xs) simp_all

lemma get_counted:
  assumes "\<And>x r. x \<in> set xs \<Longrightarrow> get (enc x @ r) = Ok (x, r)" "length xs < 2 ^ 15" "k \<le> 24"
  shows "obind (get_i16 (counted enc xs @ r)) (\<lambda>(n, buf). obind (with_capacity k (i16_as_usize n)) (\<lambda>_.
    obind (get_many get (i16_as_usize n) buf) f)) = f (xs, r)"
proof -
  have "length xs * k \<le> 2 ^ 15 * 24" using assms(2,3) by (intro mult_le_mono) simp_all
  then have "with_capacity k (length xs) = Ok ()" by (simp add: with_capacity_def)
  then show ?thesis using get_many_put [of xs get enc r] assms by (simp add: counted_def)
qed

lemmas get_counted_end = get_counted [where r = "[]", simplified append_Nil2]

lemma describe_object_type_byte [simp]: "describe_object_type_try_from (object_byte t) = Ok t"
  by (cases t) (simp_all add: describe_object_type_try_from_def byte_def)

lemma decode_body_payload:
  assumes "frontend_ok m"
  shows "decode_body (frontend_type m) (frontend_payload m) = Ok m"
proof (cases m)
  case (Parse name sql param_types)
  with assms show ?thesis
    by (simp add: decode_body_def byte_def frontend_ok_def decode_parse_def get_counted_end [where enc = i32_to_be])
next
  case (Bind portal statement param_formats param_values result_formats)
  then have "value_ok v" if "v \<in> set param_values" for v
  proof (cases v)
    case (Some x)
    have "length (value_bytes v) \<le> length (concat (map value_bytes param_values))"
      using that by (induction param_values) auto
    then show ?thesis using assms Bind Some by (simp add: frontend_ok_def counted_def)
  qed simp
  then show ?thesis
    using assms Bind
    by (simp add: decode_body_def byte_def frontend_ok_def decode_bind_def get_value_put
        get_counted [where enc = "i16_to_be \<circ> format_into_i16"] get_counted_end [where enc = "i16_to_be \<circ> format_into_i16"]
        get_counted [where enc = value_bytes])
qed (use assms in \<open>simp_all add: decode_body_def byte_def frontend_ok_def decode_query_def decode_password_def decode_describe_def
  decode_execute_def decode_close_def decode_sync_def decode_flush_def decode_terminate_def get_u8_def\<close>)

subsection \<open>Frames\<close>

lemma nth_be:
  "(t # i32_to_be w @ r) ! 1 = ucast (drop_bit 24 w)" "(t # i32_to_be w @ r) ! 2 = ucast (drop_bit 16 w)"
  "(t # i32_to_be w @ r) ! 3 = ucast (drop_bit 8 w)" "(t # i32_to_be w @ r) ! 4 = ucast w"
  by (simp_all add: i32_to_be_def)

lemma frame_end_sint: "frame_end (t # i32_to_be w @ r) = word_of_int (sint w + 1)"
  unfolding frame_end_def nth_be i32_be by (simp only: scast_eq of_int_add of_int_1)

lemma frame_end_be:
  assumes "n < 2 ^ 31"
  shows "unat (frame_end (t # i32_to_be (word_of_nat n) @ r)) = n + 1"
proof -
  have "word_of_int (int n + 1) = (word_of_nat (n + 1) :: u64)" by (metis of_int_of_nat_eq of_nat_1 of_nat_add)
  moreover have "n + 1 < 2 ^ 64" using assms by simp
  ultimately show ?thesis unfolding frame_end_sint sint_i32 [OF assms] by (simp only: unat_u64)
qed

lemma frame_end_frame:
  "length body + 4 < 2 ^ 31 \<Longrightarrow> unat (frame_end (t # i32_to_be (word_of_nat (length body + 4)) @ r)) = length body + 5"
  using frame_end_be [of "length body + 4"] by simp

lemma length_frame [simp]: "length (frame t body) = length body + 5"
  by (simp add: frame_def)

lemma split_header:
  "drop (length body + 5) (t # i32_to_be w @ body @ rest) = rest"
  "drop 5 (take (length body + 5) (t # i32_to_be w @ body @ rest)) = body"
proof -
  have "drop (length body + 5) (h @ body @ rest) = rest" "drop 5 (take (length body + 5) (h @ body @ rest)) = body"
    if "length h = 5" for h using that by simp_all
  from this [of "t # i32_to_be w"] show "drop (length body + 5) (t # i32_to_be w @ body @ rest) = rest"
    "drop 5 (take (length body + 5) (t # i32_to_be w @ body @ rest)) = body" by simp_all
qed

lemma decode_frame_frame:
  assumes "length body + 4 < 2 ^ 31"
  shows "decode_frame f (frame t body @ rest) = (rest, obind (f t body) (\<lambda>m. Ok (Some m)))"
  using frame_end_frame [OF assms, of t "body @ rest"]
  by (simp add: decode_frame_def frame_def Let_def advance_def split_header)

lemma decode_frame_prefix:
  assumes "length body + 4 < 2 ^ 31" and src: "src @ rest = frame t body" "rest \<noteq> []"
  shows "decode_frame f src = (src, Ok None)"
proof (cases "length src < 5")
  case False
  have "take 5 src = take 5 (src @ rest)" using False by simp
  also have "\<dots> = t # i32_to_be (word_of_nat (length body + 4))" by (simp add: src(1) frame_def)
  finally have "src = t # i32_to_be (word_of_nat (length body + 4)) @ drop 5 src"
    by (metis append_Cons append_take_drop_id)
  then have "unat (frame_end src) = length body + 5" using frame_end_frame [OF assms(1), of t "drop 5 src"] by metis
  moreover have "length src < length body + 5" using arg_cong [OF src(1), of length] src(2) by (cases rest) simp_all
  ultimately show ?thesis using assms(1) False by (simp add: decode_frame_def Let_def)
qed (simp add: decode_frame_def)

lemma decode_frame_consumes: "decode_frame f src = (src', Ok (Some m)) \<Longrightarrow> length src' < length src"
  by (auto simp: decode_frame_def Let_def advance_def split: if_splits)

subsection \<open>The stream of a connection\<close>

text \<open>The framed connection decodes until no message is complete, and goes on when more bytes have arrived.\<close>

function decode_all :: "bytes \<Rightarrow> frontend_message list \<times> bytes \<times> unit pg_result" where
  "decode_all src =
     (case decode src of
        (src', Ok None) \<Rightarrow> ([], src', Ok ())
      | (src', Ok (Some m)) \<Rightarrow> (case decode_all src' of (ms, r) \<Rightarrow> (m # ms, r))
      | (src', Err e) \<Rightarrow> ([], src', Err e)
      | (src', Panic msg) \<Rightarrow> ([], src', Panic msg))"
  by auto
termination
  by (relation "measure length") (auto simp: decode_def intro: decode_frame_consumes [OF sym])

declare decode_all.simps [simp del]

fun receive :: "bytes \<Rightarrow> bytes list \<Rightarrow> frontend_message list \<times> bytes \<times> unit pg_result" where
  "receive buf [] = ([], buf, Ok ())"
| "receive buf (chunk # chunks) =
     (case decode_all (buf @ chunk) of
        (ms, buf', Ok u) \<Rightarrow> (case receive buf' chunks of (ms', r) \<Rightarrow> (ms @ ms', r))
      | (ms, r) \<Rightarrow> (ms, r))"

lemma decode_frontend_frame:
  "frontend_ok m \<Longrightarrow> decode (frontend_frame m @ rest) = (rest, Ok (Some m))"
  by (simp add: decode_def frontend_frame_def decode_frame_frame frontend_ok_def decode_body_payload [unfolded frontend_ok_def])

lemma decode_all_None: "decode src = (src', Ok None) \<Longrightarrow> decode_all src = ([], src', Ok ())"
  by (subst decode_all.simps) simp

lemma decode_all_Some:
  "decode src = (src', Ok (Some m)) \<Longrightarrow> decode_all src' = (ms, r) \<Longrightarrow> decode_all src = (m # ms, r)"
  by (subst decode_all.simps) simp

lemma decode_all_stream:
  assumes "list_all frontend_ok msgs" "buf @ rest = concat (map frontend_frame msgs)"
  shows "\<exists>done todo buf'. msgs = done @ todo \<and> decode_all buf = (done, buf', Ok ()) \<and>
    buf' @ rest = concat (map frontend_frame todo) \<and> (todo = [] \<or> length buf' < length (frontend_frame (hd todo)))"
  using assms
proof (induction msgs arbitrary: buf)
  case Nil
  have "decode_all [] = ([], [], Ok ())" by (rule decode_all_None) (simp add: decode_def decode_frame_def)
  with Nil show ?case by simp
next
  case (Cons m ms)
  let ?f = "frontend_frame m"
  have ok: "frontend_ok m" and size: "length (frontend_payload m) + 4 < 2 ^ 31" using Cons.prems(1) by (simp_all add: frontend_ok_def)
  show ?case
  proof (cases "length ?f \<le> length buf")
    case True
    then obtain buf2 where buf: "buf = ?f @ buf2" "buf2 @ rest = concat (map frontend_frame ms)"
      using Cons.prems(2) by (auto simp: append_eq_append_conv2 dest: sym)
    obtain dn todo buf' where IH: "ms = dn @ todo" "decode_all buf2 = (dn, buf', Ok ())"
        "buf' @ rest = concat (map frontend_frame todo)" "todo = [] \<or> length buf' < length (frontend_frame (hd todo))"
      using Cons.IH [OF _ buf(2)] Cons.prems(1) by auto
    have "decode_all buf = (m # dn, buf', Ok ())"
      unfolding buf(1) by (rule decode_all_Some [OF decode_frontend_frame [OF ok] IH(2)])
    with IH show ?thesis by (intro exI [of _ "m # dn"] exI [of _ todo] exI [of _ buf']) simp
  next
    case False
    have "buf @ take (length ?f - length buf) rest = ?f"
      using arg_cong [OF Cons.prems(2), of "take (length ?f)"] False by simp
    moreover have "take (length ?f - length buf) rest \<noteq> []"
      using False arg_cong [OF Cons.prems(2), of length] by auto
    ultimately have "decode buf = (buf, Ok None)"
      unfolding decode_def frontend_frame_def by (rule decode_frame_prefix [OF size])
    then have "decode_all buf = ([], buf, Ok ())" by (rule decode_all_None)
    with False Cons.prems show ?thesis by (intro exI [of _ "[]"] exI [of _ "m # ms"] exI [of _ buf]) simp
  qed
qed

lemma receive_stream:
  assumes "list_all frontend_ok msgs" "buf @ concat chunks = concat (map frontend_frame msgs)"
    and "msgs = [] \<or> length buf < length (frontend_frame (hd msgs))"
  shows "receive buf chunks = (msgs, [], Ok ())"
  using assms
proof (induction chunks arbitrary: buf msgs)
  case Nil
  then show ?case by (cases msgs) auto
next
  case (Cons chunk chunks)
  obtain dn todo buf' where d: "msgs = dn @ todo" "decode_all (buf @ chunk) = (dn, buf', Ok ())"
      "buf' @ concat chunks = concat (map frontend_frame todo)" "todo = [] \<or> length buf' < length (frontend_frame (hd todo))"
    using decode_all_stream [of msgs "buf @ chunk" "concat chunks"] Cons.prems by auto
  then have "receive buf' chunks = (todo, [], Ok ())" using Cons.IH [of todo buf'] Cons.prems(1) by simp
  with d show ?case by simp
qed

end
