(* ===== verification/Pg_Theorems.thy ===== *)
theory Pg_Theorems
  imports Pg_Frames
begin

section \<open>The codec of the Postgres protocol: theorems\<close>

text \<open>
  What a server sends, the handshake between the client of the proxy and a server, and the frames on which
  the server panics. The theorems have instances on concrete messages.
\<close>

subsection \<open>Encoding\<close>

text \<open>\<open>encode_with_format\<close> appends to the buffer, whatever its outcome.\<close>

definition scalars_append :: "('b, 't, 'v) scalars \<Rightarrow> bool" where
  "scalars_append sc \<longleftrightarrow> (\<forall>f v dst. \<exists>bs. fst (sc_encode_with_format sc f v dst) = dst @ bs)"

lemma patch_append: "length old = length new \<Longrightarrow> patch (length pre) new (pre @ old @ post) = pre @ new @ post"
  by (simp add: patch_def)

lemma put_cells_appends:
  assumes "scalars_append sc"
  shows "\<exists>bs. fst (put_cells sc batch row_idx cs dst) = dst @ bs"
proof (induction cs arbitrary: dst)
  case (Cons c cs)
  obtain col ty f where c: "c = (col, ty, f)" by (cases c)
  have more: "\<exists>bs. fst (put_cells sc batch row_idx cs (dst @ xs)) = dst @ bs" for xs using Cons.IH [of "dst @ xs"] by auto
  have enc: "\<exists>bs. fst (sc_encode_with_format sc f v (dst @ i32_to_be 0)) = dst @ i32_to_be 0 @ bs" for v
    using assms unfolding scalars_append_def by (metis append_assoc)
  have patched: "\<exists>bs. fst (put_cells sc batch row_idx cs (patch (length dst) (i32_to_be w) (dst @ i32_to_be 0 @ val))) = dst @ bs" for w val
    using more [of "i32_to_be w @ val"] by (simp add: patch_append)
  show ?case
  proof (cases "sc_try_from_array sc batch col row_idx ty")
    case (Ok v)
    obtain val r where e: "sc_encode_with_format sc f v (dst @ i32_to_be 0) = (dst @ i32_to_be 0 @ val, r)"
      using enc [of v] by (metis prod.collapse)
    show ?thesis
    proof (cases r)
      case (Ok u)
      with e \<open>sc_try_from_array sc batch col row_idx ty = outcome.Ok v\<close> more patched show ?thesis
        by (simp add: c Let_def)
    qed (use e Ok more in \<open>simp_all add: c Let_def\<close>)
  qed (simp_all add: c)
qed simp

lemma put_field_append: "\<exists>bs. put_field dst d = dst @ bs"
  by (simp add: put_field_def put_cstring_def)

lemma foldl_appends:
  assumes "\<And>dst x. \<exists>bs. f dst x = dst @ bs"
  shows "\<exists>bs. foldl f (dst @ pre) xs = dst @ bs"
proof (induction xs arbitrary: pre)
  case (Cons x xs)
  obtain bs where "f (dst @ pre) x = dst @ pre @ bs" using assms [of "dst @ pre" x] by auto
  with Cons show ?case by simp
qed simp

lemma put_body_appends:
  assumes "scalars_append sc"
  shows "\<exists>bs. fst (put_body sc es item dst) = dst @ bs"
proof (cases item)
  case (RowDescription descs)
  then show ?thesis using foldl_appends [of put_field dst _ descs] put_field_append by simp
next
  case (ParameterDescription descs)
  then show ?thesis using foldl_appends [of "\<lambda>dst desc. dst @ i32_to_be desc" dst _ descs] by simp
next
  case (DataRow batch row_idx)
  then show ?thesis
    using put_cells_appends [OF assms, of batch row_idx _ "dst @ _"] by (metis append_assoc put_body.simps(12))
qed (simp_all add: put_cstring_def put_problem_def)

lemma put_length_frame:
  "put_length (Suc (length dst)) (dst @ t # i32_to_be 0 @ body) =
    (if length body + 4 < 2 ^ 31 then (dst @ frame t body, Ok ())
     else (dst @ t # i32_to_be 0 @ body, Err (MsgTooLarge (length body + 4))))"
proof -
  have len: "length (dst @ t # i32_to_be 0 @ body) - Suc (length dst) = length body + 4" by simp
  show ?thesis
    using patch_append [of "i32_to_be 0" "i32_to_be (word_of_nat (length body + 4))" "dst @ [t]" body]
    unfolding put_length_def Let_def len frame_def by simp
qed

lemma encode_frame:
  assumes "scalars_append sc" "encode sc es item dst = (dst', r)"
  obtains body where "dst' = dst @ frame (message_byte item) body" "length body + 4 < 2 ^ 31" "r = Ok ()"
    | body where "dst' = dst @ message_byte item # i32_to_be 0 @ body" "r \<noteq> Ok ()"
proof -
  obtain body b where b: "put_body sc es item (dst @ message_byte item # i32_to_be 0) = (dst @ message_byte item # i32_to_be 0 @ body, b)"
    using put_body_appends [OF assms(1), of es item "dst @ message_byte item # i32_to_be 0"]
    by (metis append_Cons append_assoc prod.collapse)
  show ?thesis
  proof (cases b)
    case (Ok u)
    then have "(dst', r) = put_length (Suc (length dst)) (dst @ message_byte item # i32_to_be 0 @ body)"
      using assms(2) b by (simp add: encode_def Let_def)
    then show ?thesis using that unfolding put_length_frame by (auto split: if_splits)
  qed (use assms(2) b that(2) in \<open>auto simp: encode_def Let_def\<close>)
qed

subsection \<open>The handshake\<close>

lemma encode_auth:
  "encode sc es AuthenticationOk [] = (frame (byte CHR ''R'') (i32_to_be 0), Ok ())"
  "encode sc es AuthenticationCleartextPassword [] = (frame (byte CHR ''R'') (i32_to_be 3), Ok ())"
  using put_length_frame [of "[]" "byte CHR ''R''"] by (simp_all add: encode_def Let_def)

lemma decode_backend_auth:
  "decode_backend (frame (byte CHR ''R'') (i32_to_be 0) @ rest) = (rest, Ok (Some AuthenticationOk))"
  "decode_backend (frame (byte CHR ''R'') (i32_to_be 3) @ rest) = (rest, Ok (Some AuthenticationCleartextPassword))"
  by (simp_all add: decode_backend_def decode_frame_frame decode_backend_body_def decode_authentication_def)

lemma encode_password:
  assumes "length password + 5 < 2 ^ 31"
  shows "encode_frontend (PasswordMessage password) [] = (frontend_frame (PasswordMessage password), Ok ())"
  using put_length_frame [of "[]" "byte CHR ''p''" "cstring password"] assms
  by (simp add: encode_frontend_def Let_def put_cstring_def cstring_def frontend_frame_def)

definition param_bytes :: "(string, string) hashmap \<Rightarrow> bytes" where
  "param_bytes params = concat (map (\<lambda>(k, v). cstring k @ cstring v) params)"

lemma param_bytes_simps [simp]:
  "param_bytes [] = []" "param_bytes ((k, v) # ps) = cstring k @ cstring v @ param_bytes ps"
  by (simp_all add: param_bytes_def)

lemma foldl_params:
  "foldl (\<lambda>dst (k, v). dst @ str_bytes k @ 0 # str_bytes v @ [0]) dst params = dst @ param_bytes params"
  by (induction params arbitrary: dst) (auto simp: cstring_def)

lemma length_param_bytes: "length (param_bytes params) = sum_list (map (\<lambda>(k, v). length k + length v + 2) params)"
  by (induction params) (auto simp: cstring_def)

definition params_ok :: "(string, string) hashmap \<Rightarrow> bool" where
  "params_ok params \<longleftrightarrow> list_all (\<lambda>(k, v). text_ok k \<and> k \<noteq> [] \<and> text_ok v) params"

lemma not_null: "text_ok k \<Longrightarrow> k \<noteq> [] \<Longrightarrow> cstring k @ r \<noteq> [] \<and> \<not> peek_next_is_null (cstring k @ r)"
  by (cases k) (auto simp: text_ok_def cstring_def peek_next_is_null_def str_bytes_def)

lemma hm_insert_new: "k \<notin> set (map fst m) \<Longrightarrow> hm_insert k v m = m @ [(k, v)]"
  unfolding hm_insert_def by (induction m) auto

lemma read_params_bytes:
  "params_ok params \<Longrightarrow> distinct (map fst (acc @ params)) \<Longrightarrow> read_params (param_bytes params @ [0]) acc = Ok (acc @ params)"
proof (induction params arbitrary: acc)
  case Nil
  then show ?case by (subst read_params.simps) (simp add: peek_next_is_null_def)
next
  case (Cons p ps)
  obtain k v where p: "p = (k, v)" by (cases p)
  have k: "text_ok k" "k \<noteq> []" "text_ok v" and ps: "params_ok ps" using Cons.prems(1) by (simp_all add: params_ok_def p)
  have "hm_insert k v acc = acc @ [(k, v)]" using Cons.prems(2) p by (intro hm_insert_new) simp
  then have "read_params (param_bytes ps @ [0]) (hm_insert k v acc) = Ok (acc @ p # ps)"
    using Cons.IH [OF ps, of "acc @ [(k, v)]"] Cons.prems(2) p by simp
  then show ?case
    using k not_null [OF k(1,2), of "cstring v @ param_bytes ps @ [0]"] by (subst read_params.simps) (simp add: p)
qed

lemma conn_read_i32_be [simp]: "conn_read_i32 (i32_to_be w @ conn) = Ok (w, conn)"
  by (simp add: conn_read_i32_def conn_read_def)

lemma startup_roundtrip:
  assumes "params_ok params" "hm_ok params" and len: "length (param_bytes params) + 9 < 2 ^ 31"
  shows "decode_startup_from_conn (fst (encode_startup (StartupRequest VERSION_V3 params) []) @ rest) =
    (rest, Ok (StartupRequest VERSION_V3 params))"
proof -
  let ?n = "length (param_bytes params) + 9"
  have "fst (encode_startup (StartupRequest VERSION_V3 params) []) =
      i32_to_be (word_of_nat ?n) @ i32_to_be VERSION_V3 @ param_bytes params @ [0]"
    by (simp add: encode_startup_def foldl_params Let_def length_param_bytes add.commute)
  moreover have "unat (word_of_nat ?n :: i32) = ?n" using len by (intro unat_i32) simp
  moreover have "sint (word_of_nat ?n :: i32) = int ?n" using len by (rule sint_i32)
  ultimately show ?thesis
    using read_params_bytes [OF assms(1), of "[]"] assms(2)
    by (simp add: decode_startup_from_conn_def conn_read_def hm_ok_def del: of_nat_add)
qed

subsection \<open>Malformed frames\<close>

text \<open>The length that a frame announces, as a signed number.\<close>

definition announced :: "bytes \<Rightarrow> int" where
  "announced src = sint (i32_from_be (src ! 1) (src ! 2) (src ! 3) (src ! 4))"

lemma frame_end_announced: "frame_end src = word_of_int (announced src + 1)"
  unfolding frame_end_def announced_def by (simp only: scast_eq of_int_add of_int_1)

lemma announced_range: "- (2 ^ 31) \<le> announced src" "announced src < 2 ^ 31"
  using sint_ge [of "i32_from_be (src ! 1) (src ! 2) (src ! 3) (src ! 4)"]
    sint_lt [of "i32_from_be (src ! 1) (src ! 2) (src ! 3) (src ! 4)"]
  by (simp_all add: announced_def)

lemma uint_u64: "uint (word_of_int k :: u64) = k mod 2 ^ 64"
  by (simp add: unsigned_of_int take_bit_eq_mod)

lemma unat_frame_end:
  "unat (frame_end src) = (if announced src < - 1 then nat (2 ^ 64 + announced src + 1) else nat (announced src + 1))"
proof -
  have "int (unat (frame_end src)) = (announced src + 1) mod 2 ^ 64"
    unfolding frame_end_announced of_nat_unat by (rule uint_u64)
  then have u: "unat (frame_end src) = nat ((announced src + 1) mod 2 ^ 64)" by (metis nat_int)
  show ?thesis
  proof (cases "announced src < - 1")
    case True
    have "(announced src + 1) mod 2 ^ 64 = (announced src + 1 + 2 ^ 64) mod 2 ^ 64" by (rule mod_add_self2 [symmetric])
    also have "\<dots> = announced src + 1 + 2 ^ 64" using True announced_range [of src] by (intro mod_pos_pos_trivial) simp_all
    finally show ?thesis using True unfolding u by (simp add: add.commute)
  next
    case False
    then have "(announced src + 1) mod 2 ^ 64 = announced src + 1" using announced_range [of src] by (intro mod_pos_pos_trivial) simp_all
    with False show ?thesis unfolding u by simp
  qed
qed

lemma is_panic_obind_Some [simp]: "is_panic (obind r (\<lambda>m. Ok (Some m))) = is_panic r"
  by (cases r) simp_all

lemma decode_frame_panics:
  assumes "5 \<le> length src" "length src < 2 ^ 63"
  shows "is_panic (snd (decode_frame f src)) \<longleftrightarrow>
    announced src < 4 \<or>
    announced src < int (length src) \<and> is_panic (f (src ! 0) (take (nat (announced src) - 4) (drop 5 src)))"
proof -
  consider "announced src < - 1" | "- 1 \<le> announced src" "announced src < 4" | "4 \<le> announced src" by linarith
  then show ?thesis
  proof cases
    case 1
    then have "2 ^ 63 \<le> unat (frame_end src)" using announced_range [of src] by (simp add: unat_frame_end nat_le_iff le_nat_iff)
    then show ?thesis using 1 assms by (simp add: decode_frame_def Let_def)
  next
    case 2
    then have "unat (frame_end src) < 5" by (simp add: unat_frame_end nat_less_iff)
    then show ?thesis using 2 assms by (simp add: decode_frame_def Let_def advance_def)
  next
    case 3
    then obtain n where n: "announced src = int n" "4 \<le> n" by (metis nonneg_int_cases of_nat_le_iff of_nat_numeral order_trans zero_le_numeral)
    then have e: "unat (frame_end src) = n + 1" by (simp add: unat_frame_end nat_add_distrib)
    have "n < 2 ^ 31" using announced_range(2) [of src] n(1) by simp
    moreover have "drop 5 (take (n + 1) src) = take (n - 4) (drop 5 src)" by (simp add: drop_take)
    ultimately show ?thesis
      using n assms by (auto simp: decode_frame_def e Let_def advance_def)
  qed
qed

subsection \<open>More about the connection\<close>

text \<open>A message that was peeked is the next one that is read, and the connection is where it would have been.\<close>

lemma peek_then_read: "framed_peek next fc = (fc', Ok m) \<Longrightarrow> framed_read next fc' = framed_read next fc"
proof (cases "fc_peeked fc")
  case None
  assume "framed_peek next fc = (fc', Ok m)"
  then show ?thesis
    using None by (cases fc; cases "next (fc_conn fc)"; cases "snd (next (fc_conn fc))")
      (auto simp: framed_peek_def framed_read_def)
qed (auto simp: framed_peek_def)

text \<open>A negative number of parameter types is a huge capacity.\<close>

lemma parse_negative_count:
  assumes "text_ok name" "text_ok sql" "sint n < 0"
  shows "decode_parse (cstring name @ cstring sql @ i16_to_be n @ r) = Panic ''capacity overflow''"
proof -
  have ge: "- (2 ^ 15) \<le> sint n" using sint_ge [of n] by simp
  have "uint (word_of_int (sint n) :: u64) = sint n mod 2 ^ 64" by (rule uint_u64)
  also have "\<dots> = (sint n + 2 ^ 64) mod 2 ^ 64" by (rule mod_add_self2 [symmetric])
  also have "\<dots> = sint n + 2 ^ 64" using ge assms(3) by (intro mod_pos_pos_trivial) simp_all
  finally have "2 ^ 63 \<le> int (i16_as_usize n)" using ge unfolding i16_as_usize_def scast_eq of_nat_unat by simp
  then have "2 ^ 63 \<le> i16_as_usize n" by simp
  then have "with_capacity 4 (i16_as_usize n) = Panic ''capacity overflow''" by (simp add: with_capacity_def)
  with assms show ?thesis by (simp add: decode_parse_def)
qed

subsection \<open>The theorems\<close>

text \<open>Values that are texts already, for the instances below.\<close>

definition text_scalars :: "(string list, unit, string) scalars" where
  "text_scalars =
     \<lparr>sc_num_columns = length, sc_try_from_array = (\<lambda>batch col row ty. Ok (batch ! col)), sc_is_null = (\<lambda>v. v = []),
      sc_encode_with_format = (\<lambda>f v dst. (dst @ str_bytes v, Ok ()))\<rparr>"

text \<open>C33. The server reads what a client sends. Messages in the format of the protocol, sent one after the other
  and cut into pieces anywhere, are decoded to exactly these messages in their order; no byte is left
  over, and nothing fails. Texts must be UTF-8 without a zero byte, and counts and lengths must fit their fields.\<close>

theorem frontend_stream_decoded:
  assumes "list_all frontend_ok msgs" and "concat chunks = concat (map frontend_frame msgs)"
  shows "receive [] chunks = (msgs, [], Ok ())"
  using receive_stream [OF assms(1), of "[]" chunks] assms(2) by (cases msgs) (simp_all add: frontend_frame_def)

lemma text_ok_ascii: "list_all (\<lambda>c. 0 < (of_char c :: nat) \<and> (of_char c :: nat) < 128) s \<Longrightarrow> text_ok s"
proof (induction s)
  case (Cons c s)
  then have c: "0 < (of_char c :: nat)" "(of_char c :: nat) < 128" and s: "text_ok s" by simp_all
  have u: "unat (word_of_nat (of_char c) :: u8) = of_char c"
    using c(2) by (simp add: unsigned_of_nat take_bit_nat_eq_self)
  then have "(word_of_nat (of_char c) :: u8) \<noteq> 0" "(word_of_nat (of_char c) :: u8) \<le> 0x7F"
    using c by (auto simp: word_le_nat_alt dest: sym)
  with s show ?case by (simp add: text_ok_def str_bytes_def)
qed (simp add: text_ok_def str_bytes_def)

theorem frontend_stream_decoded_witness:
  "let msgs = [Parse ''s'' ''SELECT $1'' [23], Bind [] ''s'' [TextFormat] [Some [0x37], None] [], Execute [] 0, Sync];
       bs = concat (map frontend_frame msgs)
   in receive [] [take 3 bs, take 20 (drop 3 bs), drop 23 bs] = (msgs, [], Ok ())"
proof -
  let ?msgs = "[Parse ''s'' ''SELECT $1'' [23], Bind [] ''s'' [TextFormat] [Some [0x37], None] [], Execute [] 0, Sync]"
  let ?bs = "concat (map frontend_frame ?msgs)"
  have t: "text_ok []" "text_ok ''s''" "text_ok ''SELECT $1''" by (rule text_ok_ascii; simp)+
  have "list_all frontend_ok ?msgs" using t by (simp add: frontend_ok_def cstring_def counted_def)
  moreover have "concat [take 3 bs, take 20 (drop 3 bs), drop 23 bs] = bs" for bs :: bytes
    using append_take_drop_id [of 20 "drop 3 bs"] by simp
  ultimately show ?thesis using frontend_stream_decoded [of ?msgs "[take 3 ?bs, take 20 (drop 3 ?bs), drop 23 ?bs]"]
    unfolding Let_def by blast
qed

text \<open>C34. The handshake between the client of the proxy and a server. The startup message with its parameters, the request for a
  password, the password and its acceptance arrive as they were sent, and the rest of the stream is
  untouched. Parameter names must not be empty: an empty name is the end of the parameters.\<close>

theorem handshake_roundtrip:
  assumes "params_ok params" "hm_ok params" "length (param_bytes params) + 9 < 2 ^ 31"
    and "text_ok password" "length password + 5 < 2 ^ 31"
  shows "decode_startup_from_conn (fst (encode_startup (StartupRequest VERSION_V3 params) []) @ rest) =
      (rest, Ok (StartupRequest VERSION_V3 params)) \<and>
    decode_backend (fst (encode sc es AuthenticationCleartextPassword []) @ rest) =
      (rest, Ok (Some AuthenticationCleartextPassword)) \<and>
    decode (fst (encode_frontend (PasswordMessage password) []) @ rest) = (rest, Ok (Some (PasswordMessage password))) \<and>
    decode_backend (fst (encode sc es AuthenticationOk []) @ rest) = (rest, Ok (Some AuthenticationOk))"
proof -
  have "frontend_ok (PasswordMessage password)" using assms(4,5) by (simp add: frontend_ok_def cstring_def)
  then show ?thesis
    using startup_roundtrip [OF assms(1-3)] encode_password [OF assms(5)]
    by (simp add: encode_auth decode_backend_auth decode_frontend_frame)
qed

theorem handshake_roundtrip_witness:
  "decode_startup_from_conn (fst (encode_startup (StartupRequest VERSION_V3 [(''user'', ''glaredb'')]) []) @ [1]) =
     ([1], Ok (StartupRequest VERSION_V3 [(''user'', ''glaredb'')])) \<and>
   decode (fst (encode_frontend (PasswordMessage ''secret'') []) @ [1]) = ([1], Ok (Some (PasswordMessage ''secret'')))"
proof -
  have t: "text_ok ''user''" "text_ok ''glaredb''" "text_ok ''secret''" by (rule text_ok_ascii; simp)+
  then have "params_ok [(''user'', ''glaredb'')]" "hm_ok [(''user'', ''glaredb'')]" "length (param_bytes [(''user'', ''glaredb'')]) + 9 < 2 ^ 31"
    by (simp_all add: params_ok_def hm_ok_def cstring_def)
  moreover have "length ''secret'' + 5 < 2 ^ 31" by simp
  ultimately show ?thesis using handshake_roundtrip [OF _ _ _ t(3), of _ "[1]" text_scalars "[]"] by blast
qed

text \<open>C35. What the server sends is framed. A message that is encoded without an error is appended to the
  buffer as its type, its length and its body, so that every reader of frames finds the same body
  and the rest of the stream; a failed call leaves what was in the buffer before in front.\<close>

theorem backend_message_framed:
  assumes "scalars_append sc" and "encode sc es item dst = (dst', r)"
  shows "\<exists>bs. dst' = dst @ bs \<and>
    (r = Ok () \<longrightarrow> (\<exists>body. length body + 4 < 2 ^ 31 \<and>
       (\<forall>rest. decode_frame (\<lambda>t b. Ok (t, b)) (bs @ rest) = (rest, Ok (Some (message_byte item, body))))))"
  using assms
proof (cases rule: encode_frame)
  case (1 body)
  then show ?thesis by (auto simp: decode_frame_frame)
qed auto

theorem backend_message_framed_witness:
  "\<exists>bs body. encode text_scalars [((), TextFormat), ((), TextFormat)] (DataRow [''a'', []] 0) [7] = ([7] @ bs, Ok ()) \<and>
     decode_frame (\<lambda>t b. Ok (t, b)) (bs @ [9]) = ([9], Ok (Some (byte CHR ''D'', body)))"
proof -
  have sc: "scalars_append text_scalars" by (auto simp: scalars_append_def text_scalars_def)
  have "snd (encode text_scalars [((), TextFormat), ((), TextFormat)] (DataRow [''a'', []] 0) [7]) = Ok ()"
    by (simp add: encode_def text_scalars_def Let_def put_length_def patch_def upt_rec)
  then obtain dst where e: "encode text_scalars [((), TextFormat), ((), TextFormat)] (DataRow [''a'', []] 0) [7] = (dst, Ok ())"
    by (metis prod.collapse)
  from backend_message_framed [OF sc e] e show ?thesis by auto
qed

text \<open>C36. Frames that crash the server. On a buffer with a complete header the server panics exactly when
  the announced length is smaller than the four bytes of the length itself, negative lengths included, or when the
  message is complete and the decoder of its body panics.\<close>

theorem decode_panics_iff:
  assumes "5 \<le> length src" "length src < 2 ^ 63"
  shows "is_panic (snd (decode src)) \<longleftrightarrow>
    announced src < 4 \<or>
    announced src < int (length src) \<and> is_panic (decode_body (src ! 0) (take (nat (announced src) - 4) (drop 5 src)))"
  unfolding decode_def by (rule decode_frame_panics [OF assms])

theorem decode_panics_iff_witness:
  "is_panic (snd (decode [byte CHR ''S'', 0, 0, 0, 3])) \<and> \<not> is_panic (snd (decode [byte CHR ''S'', 0, 0, 0, 4]))"
  using decode_panics_iff [of "[byte CHR ''S'', 0, 0, 0, 3]"] decode_panics_iff [of "[byte CHR ''S'', 0, 0, 0, 4]"]
  by (simp add: announced_def i32_from_be_def decode_body_def byte_def decode_sync_def)

end
