(* ===== verification/Spec2Isabelle.thy ===== *)
theory Spec2Isabelle
  imports Wire_Theorems Metastore_System Decimal_Theorems Pg_Theorems
begin

text \<open>
  \<^bold>\<open>The catalog of GlareDB, and parts around it.\<close> A GlareDB database is described by its catalog: the entries for its
  databases, schemas, tables, views, functions, tunnels and credentials. Many sessions use one catalog. A
  session sends lists of mutations through a client to a metastore process; the process applies them to
  the state it caches, and the catalog is committed to an object store, where a lease with generations and an
  optimistic check of versions keep processes apart. This library follows that path from the bottom to
  the top. Two components stand beside it: decimal numbers and their texts.

  \<^bold>\<open>Conventions\<close> (theory \<open>Prelude\<close>). Fallible code returns \<open>Ok\<close>, \<open>Err\<close> or \<open>Panic\<close>; \<open>obind\<close> is the \<open>?\<close> operator, and
  code that changes a state before it fails returns the state beside the outcome. Machine integers are words,
  with wrap-around as in a release build. A \<open>HashMap\<close> is an association list without repeated keys, whose order
  stands for the unspecified order of iteration. A \<open>String\<close> is a list of characters, one for each byte.

  \<^bold>\<open>Types and their messages\<close> (\<open>crates/protogen\<close>).
  \<^item> \<open>Arrow_Types\<close>, \<open>Options\<close>, \<open>Catalog_Types\<close>, \<open>Errors\<close>: the structs and enums of \<open>metastore/types/options.rs\<close>,
    \<open>catalog.rs\<close>, \<open>service.rs\<close>, \<open>storage.rs\<close>, and the error enums.
  \<^item> \<open>Proto_Codec\<close> has the contract of a conversion to a message and back as locales, interpreted for
    every conversion of \<open>Arrow_Proto\<close> (\<open>common/arrow.rs\<close>), \<open>Options_Proto\<close>, \<open>Table_Options_Proto\<close>, \<open>Table_Options_V1\<close>
    (\<open>options.rs\<close>), \<open>Catalog_Proto\<close> with \<open>Catalog_Codec\<close> (\<open>catalog.rs\<close>), \<open>Service_Proto\<close> (\<open>service.rs\<close>), \<open>Copy_To\<close>
    (\<open>sqlexec/copy_to.rs\<close>) and \<open>Storage_Proto\<close> (\<open>storage.rs\<close>). \<open>Wire_Theorems\<close> states what arrives of what is sent:
    mutations, catalog states, options and Arrow types, and where a value is lost.

  \<^bold>\<open>The state of a catalog\<close> (\<open>crates/metastore/src/database.rs\<close>, \<open>crates/sqlbuiltins\<close>).
  \<^item> \<open>Validation\<close>, \<open>Builtins\<close>, \<open>Builtin_Catalog\<close>: the checks on names and data sources (\<open>validation.rs\<close>), the builtin
    objects (\<open>builtins.rs\<close>) and \<open>BuiltinCatalog\<close>. \<open>Entry_Index\<close> relates entries to the maps from names to oids.
  \<^item> \<open>Metastore_State\<close>: the record \<open>state\<close> is \<open>State\<close>, with one definition for each arm of \<open>State::mutate_one\<close>, and
    \<open>to_persisted\<close>, \<open>from_persisted\<close>. \<open>Metastore_Invariant\<close> defines well-formedness; \<open>Metastore_Preservation\<close> shows that every
    arm keeps it, \<open>Metastore_Safety\<close> what holds whatever the outcome, \<open>Metastore_Load\<close> that a persisted state
    is loaded back, \<open>Metastore_Entries\<close> what is kept of every entry. \<open>Metastore_Theorems\<close> has the properties.

  \<^bold>\<open>Storage\<close> (\<open>crates/metastore/src/storage\<close>).
  \<^item> \<open>Object_Store\<close>: paths, and the contract of an object store as locales; \<open>mem_store\<close> is an instance in memory.
  \<^item> \<open>Lease\<close> (\<open>lease.rs\<close>) and \<open>Storage\<close> (\<open>persist.rs\<close>): every operation with the state of the store passed along. What
    happens at an await (the background task that renews the lease, other processes) is an argument.
  \<^item> \<open>Lease_System\<close> is a step relation of any number of processes over one lease; \<open>Storage_Atomicity\<close> shows that a
    write is all or nothing on a store that may fail, \<open>Storage_Progress\<close> that it succeeds on one that works.
    \<open>Storage_Theorems\<close> has the properties: mutual exclusion, atomicity, no lost updates, progress.

  \<^bold>\<open>From a session to the store\<close> (\<open>crates/metastore/src\<close>, \<open>crates/catalog/src\<close>).
  \<^item> \<open>Database_Catalog\<close>: \<open>DatabaseCatalog\<close>, the cached state of a process over the storage. \<open>Metastore_Service\<close>: the
    requests of \<open>srv.rs\<close>. \<open>Metastore_Client\<close>: the worker of \<open>client.rs\<close>, the client handle and the mutator.
  \<^item> \<open>Transactions\<close> relates them to an abstract database that is a state alone (refinement), shows when a commit
    succeeds, and in which interleavings the cached and the stored state part. \<open>Metastore_System\<close> composes client, wire,
    service, cache and store: atomicity end to end, what becomes of retries and refused commits, and the end of a worker.

  \<^bold>\<open>Decimal numbers\<close> (\<open>crates/decimal/src/lib.rs\<close>). \<open>Decimal\<close> has the operations, \<open>Decimal_Theorems\<close> relates them to the
  rational numbers and prints and parses them.

  \<^bold>\<open>Bounds.\<close> Every function here is total and needs no fuel: loops are structural, or have a measure (rescaling, the
  digits of a number). A lease is written in at most five tries, as in the code. Generations, versions and
  oids are words of 64 and 32 bits; theorems that depend on their growth say how many steps they allow.

  \<^bold>\<open>Parameters.\<close> The object store, the Protobuf encoder of bytes, \<open>Uuid\<close> and time formatting, JSON, SSH keys, \<open>UnionFields::new\<close>, the
  transport between client and service, and the text of a float are arguments; \<open>externs_ok\<close>, \<open>store_ok\<close>, \<open>store_reliable\<close> and
  the locales state what is relied on, and each is shown to hold for a concrete instance.

  \<^bold>\<open>Not modelled.\<close> Query planning and execution, data sources, SQL functions and the values of Postgres
  work on the types of the query engine and of client libraries, which are not part of the sources. The command line,
  logging, telemetry and bindings are input and output. The code that is generated from the proto files is a
  parameter. Tests are not modelled.
\<close>

end
